(* ===== verification/GoBase.thy ===== *)
theory GoBase
  imports Main "HOL-Library.Word" "HOL-Library.Sublist"
begin

text \<open>
  Prelude of the development: the parts of the Go language and of its standard library that
  the modelled components share.

  \<^item> Go strings are byte strings: lists of \<open>char\<close> (one \<open>char\<close> is one byte), so \<open>length\<close> is Go's
    \<open>len\<close>. \<open>HasPrefix\<close>, \<open>Contains\<close>, \<open>Split\<close> and \<open>TrimSpace\<close> follow package \<open>strings\<close> byte by byte.
    \<open>ToLower\<close> and \<open>ToUpper\<close> follow the ASCII path of the library; the mapping of a string with a
    byte above 127 (the Unicode case tables) is the argument \<open>uc\<close>, and every theorem holds for all \<open>uc\<close>.
  \<^item> Go's \<open>int\<close>, \<open>int64\<close> and \<open>time.Duration\<close> are 64-bit; they are \<open>int\<close> here, and \<open>i64\<close> writes the
    wrap-around out wherever the code multiplies.
  \<^item> An \<open>error\<close> result is a \<open>go_error option\<close>, \<open>None\<close> for \<open>nil\<close>; \<open>err_then e r\<close> is
    \<open>if err := e; err != nil { return err }; r\<close>. A result with a value is a sum, \<open>Inl\<close> for the error.
\<close>

section \<open>Collections of facts\<close>

named_theorems go_defs \<open>definitions that component proofs unfold\<close>
named_theorems go_spec \<open>characterisations of accepting results\<close>

section \<open>Strings\<close>

fun HasPrefix :: "string \<Rightarrow> string \<Rightarrow> bool" where
  "HasPrefix s [] = True"
| "HasPrefix [] (p # ps) = False"
| "HasPrefix (c # s) (p # ps) = (c = p \<and> HasPrefix s ps)"

fun Contains :: "string \<Rightarrow> string \<Rightarrow> bool" where
  "Contains [] p = (p = [])"
| "Contains (c # s) p = (HasPrefix (c # s) p \<or> Contains s p)"

definition TrimPrefix :: "string \<Rightarrow> string \<Rightarrow> string" where
  "TrimPrefix s p = (if HasPrefix s p then drop (length p) s else s)"

text \<open>\<open>strings.Split\<close> for a one-byte separator: always at least one part.\<close>

fun Split :: "string \<Rightarrow> char \<Rightarrow> string list" where
  "Split [] sep = [[]]"
| "Split (c # s) sep =
     (if c = sep then [] # Split s sep
      else (case Split s sep of [] \<Rightarrow> [[c]] | w # ws \<Rightarrow> (c # w) # ws))"

text \<open>
  The UTF-8 encodings of the runes \<open>unicode.IsSpace\<close> accepts. A rune at the front of a string is
  a space exactly when one of these is a prefix of it, and the last rune is a space exactly when
  one of them is a suffix.
\<close>

definition space_seqs :: "string list" where
  "space_seqs =
     [[CHR 0x09], [CHR 0x0A], [CHR 0x0B], [CHR 0x0C], [CHR 0x0D], [CHR 0x20],
      [CHR 0xC2, CHR 0x85], [CHR 0xC2, CHR 0xA0], [CHR 0xE1, CHR 0x9A, CHR 0x80],
      [CHR 0xE2, CHR 0x80, CHR 0x80], [CHR 0xE2, CHR 0x80, CHR 0x81], [CHR 0xE2, CHR 0x80, CHR 0x82],
      [CHR 0xE2, CHR 0x80, CHR 0x83], [CHR 0xE2, CHR 0x80, CHR 0x84], [CHR 0xE2, CHR 0x80, CHR 0x85],
      [CHR 0xE2, CHR 0x80, CHR 0x86], [CHR 0xE2, CHR 0x80, CHR 0x87], [CHR 0xE2, CHR 0x80, CHR 0x88],
      [CHR 0xE2, CHR 0x80, CHR 0x89], [CHR 0xE2, CHR 0x80, CHR 0x8A], [CHR 0xE2, CHR 0x80, CHR 0xA8],
      [CHR 0xE2, CHR 0x80, CHR 0xA9], [CHR 0xE2, CHR 0x80, CHR 0xAF], [CHR 0xE2, CHR 0x81, CHR 0x9F],
      [CHR 0xE3, CHR 0x80, CHR 0x80]]"

fun drop_seq :: "string list \<Rightarrow> string \<Rightarrow> string option" where
  "drop_seq [] s = None"
| "drop_seq (q # qs) s =
     (if q \<noteq> [] \<and> HasPrefix s q then Some (drop (length q) s) else drop_seq qs s)"

lemma drop_seq_shorter: "drop_seq qs s = Some t \<Longrightarrow> length t < length s"
proof (induction qs)
  case (Cons q qs)
  show ?case
  proof (cases "q \<noteq> [] \<and> HasPrefix s q")
    case True
    then have "s \<noteq> []" by (cases s; cases q) auto
    with True Cons.prems show ?thesis by auto
  next
    case False
    with Cons show ?thesis by auto
  qed
qed simp

function trim_seqs :: "string list \<Rightarrow> string \<Rightarrow> string" where
  "trim_seqs qs s = (case drop_seq qs s of None \<Rightarrow> s | Some t \<Rightarrow> trim_seqs qs t)"
  by pat_completeness auto
termination
  by (relation "measure (\<lambda>(qs, s). length s)") (auto dest: drop_seq_shorter)

declare trim_seqs.simps [simp del]

definition TrimSpace :: "string \<Rightarrow> string" where
  "TrimSpace s = rev (trim_seqs (map rev space_seqs) (rev (trim_seqs space_seqs s)))"

definition is_ascii :: "string \<Rightarrow> bool" where
  "is_ascii s = list_all (\<lambda>c. (of_char c :: nat) < 128) s"

definition lower_char :: "char \<Rightarrow> char" where
  "lower_char c =
     (if 65 \<le> (of_char c :: nat) \<and> (of_char c :: nat) \<le> 90 then char_of ((of_char c :: nat) + 32) else c)"

definition upper_char :: "char \<Rightarrow> char" where
  "upper_char c =
     (if 97 \<le> (of_char c :: nat) \<and> (of_char c :: nat) \<le> 122 then char_of ((of_char c :: nat) - 32) else c)"

type_synonym casemap = "string \<Rightarrow> string"

definition ToLower :: "casemap \<Rightarrow> string \<Rightarrow> string" where
  "ToLower uc s = (if is_ascii s then map lower_char s else uc s)"

definition ToUpper :: "casemap \<Rightarrow> string \<Rightarrow> string" where
  "ToUpper uc s = (if is_ascii s then map upper_char s else uc s)"

text \<open>The decimal rendering of \<open>%d\<close>.\<close>

fun digit :: "nat \<Rightarrow> char" where
  "digit n = char_of (48 + n mod 10)"

fun show_nat :: "nat \<Rightarrow> string" where
  "show_nat n = (if n < 10 then [digit n] else show_nat (n div 10) @ [digit n])"

declare show_nat.simps [simp del]

definition show_int :: "int \<Rightarrow> string" where
  "show_int i = (if i < 0 then CHR ''-'' # show_nat (nat (- i)) else show_nat (nat i))"

subsection \<open>Facts about strings\<close>

lemma HasPrefix_iff_prefix: "HasPrefix s p \<longleftrightarrow> prefix p s"
  by (induction s p rule: HasPrefix.induct) auto

lemma HasPrefix_append [simp]: "HasPrefix (p @ s) p"
  by (simp add: HasPrefix_iff_prefix)

lemma HasPrefix_self [simp]: "HasPrefix s s"
  by (simp add: HasPrefix_iff_prefix)

lemma HasPrefix_trans: "HasPrefix s p \<Longrightarrow> HasPrefix p q \<Longrightarrow> HasPrefix s q"
  by (auto simp: HasPrefix_iff_prefix intro: prefix_order.order_trans)

lemma HasPrefix_ConsE: "HasPrefix s (p # ps) \<Longrightarrow> (\<And>t. s = p # t \<Longrightarrow> HasPrefix t ps \<Longrightarrow> P) \<Longrightarrow> P"
  by (cases s) auto

lemma Contains_Nil [simp]: "Contains s []"
  by (cases s) auto

lemma Contains_iff_sublist: "Contains s p \<longleftrightarrow> sublist p s"
  by (induction s p rule: Contains.induct) (auto simp: HasPrefix_iff_prefix sublist_Cons_right)

lemma HasPrefix_imp_Contains: "HasPrefix s p \<Longrightarrow> Contains s p"
  by (simp add: HasPrefix_iff_prefix Contains_iff_sublist)

lemma Contains_trans: "Contains s p \<Longrightarrow> Contains p q \<Longrightarrow> Contains s q"
  by (auto simp: Contains_iff_sublist intro: sublist_order.order.trans)

lemma Contains_appendI2: "Contains t p \<Longrightarrow> Contains (s @ t) p"
  by (induction s) auto

lemma Split_ne [simp]: "Split s c \<noteq> []"
  by (induction s) (auto split: list.splits)

lemma Split_no_sep: "w \<in> set (Split s c) \<Longrightarrow> c \<notin> set w"
  by (induction s arbitrary: w) (auto split: if_splits list.splits)

text \<open>The parts, joined by the separator again, are the string that was split.\<close>

fun join :: "char \<Rightarrow> string list \<Rightarrow> string" where
  "join sep [] = []"
| "join sep [w] = w"
| "join sep (w # ws) = w @ sep # join sep ws"

lemma join_Cons: "ws \<noteq> [] \<Longrightarrow> join c (w # ws) = w @ c # join c ws"
  by (cases ws) auto

lemma join_Split: "join c (Split s c) = s"
proof (induction s)
  case (Cons x s)
  then show ?case
    by (cases "Split s c"; cases "tl (Split s c)") (auto simp: join_Cons)
qed simp

lemma length_trim_seqs: "length (trim_seqs qs s) \<le> length s"
proof (induction qs s rule: trim_seqs.induct)
  case (1 qs s)
  then show ?case
    by (subst trim_seqs.simps) (fastforce split: option.splits dest: drop_seq_shorter)
qed

lemma length_TrimSpace: "length (TrimSpace s) \<le> length s"
  using length_trim_seqs [of "map rev space_seqs" "rev (trim_seqs space_seqs s)"]
    length_trim_seqs [of space_seqs s]
  by (simp add: TrimSpace_def)

lemma trim_seqs_fixed: "drop_seq qs s = None \<Longrightarrow> trim_seqs qs s = s"
  by (subst trim_seqs.simps) simp

lemma drop_seq_trim_seqs: "drop_seq qs (trim_seqs qs s) = None"
proof (induction qs s rule: trim_seqs.induct)
  case (1 qs s)
  then show ?case by (subst trim_seqs.simps) (auto split: option.splits)
qed

section \<open>Integers\<close>

text \<open>\<open>i64\<close> is the value a 64-bit two's complement register holds after an operation.\<close>

definition i64 :: "int \<Rightarrow> int" where
  "i64 x = (x + 2 ^ 63) mod 2 ^ 64 - 2 ^ 63"

definition i64_range :: "int \<Rightarrow> bool" where
  "i64_range x \<longleftrightarrow> - (2 ^ 63) \<le> x \<and> x < 2 ^ 63"

lemma i64_id: "i64_range x \<Longrightarrow> i64 x = x"
  by (simp add: i64_def i64_range_def)

lemma i64_in_range [simp]: "i64_range (i64 x)"
proof -
  have "0 \<le> (x + 2 ^ 63) mod 2 ^ 64" "(x + 2 ^ 63) mod 2 ^ 64 < (2 ^ 64 :: int)"
    by simp_all
  then show ?thesis by (simp add: i64_def i64_range_def)
qed

text \<open>\<open>i64\<close> is the signed reading of the 64-bit word.\<close>

lemma i64_sint: "i64 x = sint (word_of_int x :: 64 word)"
proof -
  have "sint (word_of_int x :: 64 word) = signed_take_bit 63 x"
    by (simp add: sint_sbintrunc')
  also have "\<dots> = (x + 2 ^ 63) mod 2 ^ 64 - 2 ^ 63"
    by (simp add: signed_take_bit_eq_take_bit_shift take_bit_eq_mod)
  finally show ?thesis by (simp add: i64_def)
qed

text \<open>Go's \<open>/\<close> on integers truncates towards zero.\<close>

definition go_div :: "int \<Rightarrow> int \<Rightarrow> int" where
  "go_div a b = sgn a * sgn b * (\<bar>a\<bar> div \<bar>b\<bar>)"

lemma go_div_pos: "0 \<le> a \<Longrightarrow> 0 < b \<Longrightarrow> go_div a b = a div b"
  by (cases "a = 0") (auto simp: go_div_def)

text \<open>Nanoseconds of \<open>time.Duration\<close>.\<close>

definition Second :: int where "Second = 1000000000"
definition Millisecond :: int where "Millisecond = 1000000"

section \<open>Identifiers\<close>

text \<open>\<open>uuid.UUID\<close> is \<open>[16]byte\<close>, compared by value; \<open>uuid.Nil\<close> is all zero.\<close>

type_synonym uuid = "128 word"

abbreviation uuid_Nil :: uuid where "uuid_Nil \<equiv> 0"

end
