(* ===== verification/GoErrors.thy ===== *)
theory GoErrors
  imports GoBase
begin

text \<open>
  Error values: the sentinel errors and the structured error types of \<open>internal/executor/errors.go\<close>,
  the sentinels of \<open>internal/database/interfaces.go\<close> and \<open>internal/auth/service.go\<close>, and the errors
  \<open>fmt.Errorf\<close> builds. A sentinel is a package variable compared by identity, so it is a constructor
  of an enumeration. \<open>error_message\<close> is \<open>err.Error()\<close>; it takes the rendering of a UUID as an
  argument, because \<open>uuid.UUID.String\<close> is code of the package \<open>google/uuid\<close>.
\<close>

section \<open>Error values\<close>

datatype sentinel =
    ErrDockerUnavailable | ErrExecutionTimeout | ErrExecutionCancelled | ErrExecutionFailed
  | ErrResourceExhausted | ErrInvalidScriptType | ErrContainerNotFound | ErrImageNotFound
  | ErrPermissionDenied | ErrNetworkUnavailable
  | ErrUserNotFound | ErrTaskNotFound | ErrExecutionNotFound | ErrInvalidCursor
  | AuthErrUserAlreadyExists | AuthErrInvalidCredentials | AuthErrInvalidEmail
  | AuthErrInvalidPassword | AuthErrValidationFailed | AuthErrPasswordRequired
  | AuthErrInvalidRefreshToken | AuthErrUserNotFound
  | CtxDeadlineExceeded | CtxCanceled | PgxErrNoRows

text \<open>
  \<open>Errorf m\<close> is \<open>fmt.Errorf\<close> with a finished message, \<open>ErrorfID pre id post\<close> one whose message
  holds a UUID, \<open>Wrapf pre e\<close> is \<open>fmt.Errorf("pre: %w", e)\<close>, \<open>WrapThen e m\<close> is
  \<open>fmt.Errorf("%w: %v", e, m)\<close>, \<open>PgError code detail\<close> is an error the PostgreSQL driver reports,
  \<open>ExternalErr m\<close> any other error that comes from outside.
\<close>

datatype go_error =
    Sentinel sentinel
  | Errorf string
  | ErrorfID string uuid string
  | Wrapf string go_error
  | WrapThen go_error go_error
  | ExecutorError string string "go_error option"
  | ContainerError string string string "go_error option"
  | ConfigError string string
  | SecurityError string string "go_error option"
  | PgError string string
  | ExternalErr string

fun sentinel_message :: "sentinel \<Rightarrow> string" where
  "sentinel_message ErrDockerUnavailable = ''docker daemon is not available''"
| "sentinel_message ErrExecutionTimeout = ''execution timeout exceeded''"
| "sentinel_message ErrExecutionCancelled = ''execution was cancelled''"
| "sentinel_message ErrExecutionFailed = ''execution failed''"
| "sentinel_message ErrResourceExhausted = ''system resources exhausted''"
| "sentinel_message ErrInvalidScriptType = ''invalid script type''"
| "sentinel_message ErrContainerNotFound = ''container not found''"
| "sentinel_message ErrImageNotFound = ''container image not found''"
| "sentinel_message ErrPermissionDenied = ''permission denied''"
| "sentinel_message ErrNetworkUnavailable = ''network unavailable''"
| "sentinel_message ErrUserNotFound = ''user not found''"
| "sentinel_message ErrTaskNotFound = ''task not found''"
| "sentinel_message ErrExecutionNotFound = ''execution not found''"
| "sentinel_message ErrInvalidCursor = ''invalid cursor''"
| "sentinel_message AuthErrUserAlreadyExists = ''user already exists''"
| "sentinel_message AuthErrInvalidCredentials = ''invalid email or password''"
| "sentinel_message AuthErrInvalidEmail = ''invalid email''"
| "sentinel_message AuthErrInvalidPassword = ''invalid password''"
| "sentinel_message AuthErrValidationFailed = ''validation error''"
| "sentinel_message AuthErrPasswordRequired = ''password is required''"
| "sentinel_message AuthErrInvalidRefreshToken = ''invalid refresh token''"
| "sentinel_message AuthErrUserNotFound = ''user not found''"
| "sentinel_message CtxDeadlineExceeded = ''context deadline exceeded''"
| "sentinel_message CtxCanceled = ''context canceled''"
| "sentinel_message PgxErrNoRows = ''no rows in result set''"

fun error_message :: "(uuid \<Rightarrow> string) \<Rightarrow> go_error \<Rightarrow> string" where
  "error_message us (Sentinel s) = sentinel_message s"
| "error_message us (Errorf m) = m"
| "error_message us (ErrorfID pre i post) = pre @ us i @ post"
| "error_message us (Wrapf pre e) = pre @ '': '' @ error_message us e"
| "error_message us (WrapThen e m) = error_message us e @ '': '' @ error_message us m"
| "error_message us (ExecutorError op reason None) =
     ''executor error in '' @ op @ '': '' @ reason"
| "error_message us (ExecutorError op reason (Some c)) =
     ''executor error in '' @ op @ '': '' @ reason @ '': '' @ error_message us c"
| "error_message us (ContainerError i op reason None) =
     ''container error in '' @ op @ '' for '' @ i @ '': '' @ reason"
| "error_message us (ContainerError i op reason (Some c)) =
     ''container error in '' @ op @ '' for '' @ i @ '': '' @ reason @ '': '' @ error_message us c"
| "error_message us (ConfigError field reason) =
     ''configuration error in field '' @ field @ '': '' @ reason"
| "error_message us (SecurityError op reason None) =
     ''security error in '' @ op @ '': '' @ reason"
| "error_message us (SecurityError op reason (Some c)) =
     ''security error in '' @ op @ '': '' @ reason @ '': '' @ error_message us c"
| "error_message us (PgError code detail) = detail"
| "error_message us (ExternalErr m) = m"

text \<open>\<open>errors.Unwrap\<close>; \<open>%v\<close> does not wrap, so only the first operand of \<open>WrapThen\<close> is a cause.\<close>

fun Unwrap :: "go_error \<Rightarrow> go_error option" where
  "Unwrap (Wrapf pre e) = Some e"
| "Unwrap (WrapThen e m) = Some e"
| "Unwrap (ExecutorError op reason c) = c"
| "Unwrap (ContainerError i op reason c) = c"
| "Unwrap (SecurityError op reason c) = c"
| "Unwrap _ = None"

text \<open>The chain \<open>errors.Is\<close> and \<open>errors.As\<close> walk: the error, its cause, the cause of that, ...\<close>

fun error_chain :: "go_error \<Rightarrow> go_error list" where
  "error_chain (Wrapf pre e) = Wrapf pre e # error_chain e"
| "error_chain (WrapThen e m) = WrapThen e m # error_chain e"
| "error_chain (ExecutorError op reason (Some c)) = ExecutorError op reason (Some c) # error_chain c"
| "error_chain (ContainerError i op reason (Some c)) = ContainerError i op reason (Some c) # error_chain c"
| "error_chain (SecurityError op reason (Some c)) = SecurityError op reason (Some c) # error_chain c"
| "error_chain e = [e]"

definition errors_Is :: "go_error \<Rightarrow> sentinel \<Rightarrow> bool" where
  "errors_Is e s = (Sentinel s \<in> set (error_chain e))"

fun is_SecurityError :: "go_error \<Rightarrow> bool" where
  "is_SecurityError (SecurityError op reason c) = True"
| "is_SecurityError _ = False"

fun is_ConfigError :: "go_error \<Rightarrow> bool" where
  "is_ConfigError (ConfigError field reason) = True"
| "is_ConfigError _ = False"

section \<open>Constructors and classifiers of \<open>errors.go\<close>\<close>

definition NewSecurityError :: "string \<Rightarrow> string \<Rightarrow> go_error option \<Rightarrow> go_error" where
  "NewSecurityError operation reason cause = SecurityError operation reason cause"

definition NewExecutorError :: "string \<Rightarrow> string \<Rightarrow> go_error option \<Rightarrow> go_error" where
  "NewExecutorError operation reason cause = ExecutorError operation reason cause"

definition NewContainerError :: "string \<Rightarrow> string \<Rightarrow> string \<Rightarrow> go_error option \<Rightarrow> go_error" where
  "NewContainerError containerID operation reason cause = ContainerError containerID operation reason cause"

definition ErrInvalidConfig :: "string \<Rightarrow> go_error" where
  "ErrInvalidConfig reason = ConfigError ''config'' reason"

definition ErrInvalidConfigField :: "string \<Rightarrow> string \<Rightarrow> go_error" where
  "ErrInvalidConfigField field reason = ConfigError field reason"

definition IsTimeoutError :: "go_error \<Rightarrow> bool" where
  "IsTimeoutError err = errors_Is err ErrExecutionTimeout"

definition IsCancelledError :: "go_error \<Rightarrow> bool" where
  "IsCancelledError err = errors_Is err ErrExecutionCancelled"

definition IsDockerError :: "go_error \<Rightarrow> bool" where
  "IsDockerError err =
     (errors_Is err ErrDockerUnavailable \<or> errors_Is err ErrContainerNotFound \<or>
      errors_Is err ErrImageNotFound)"

definition IsResourceError :: "go_error \<Rightarrow> bool" where
  "IsResourceError err = errors_Is err ErrResourceExhausted"

definition IsSecurityError :: "go_error \<Rightarrow> bool" where
  "IsSecurityError err = list_ex is_SecurityError (error_chain err)"

definition IsConfigError :: "go_error \<Rightarrow> bool" where
  "IsConfigError err = list_ex is_ConfigError (error_chain err)"

lemmas error_classifiers [go_defs] =
  IsTimeoutError_def IsCancelledError_def IsDockerError_def IsResourceError_def
  IsSecurityError_def IsConfigError_def errors_Is_def

lemmas error_constructors =
  NewSecurityError_def NewExecutorError_def NewContainerError_def
  ErrInvalidConfig_def ErrInvalidConfigField_def

section \<open>Sequencing of error checks\<close>

definition err_then :: "go_error option \<Rightarrow> go_error option \<Rightarrow> go_error option" where
  "err_then e r = (case e of Some x \<Rightarrow> Some x | None \<Rightarrow> r)"

definition fail_if :: "bool \<Rightarrow> go_error \<Rightarrow> go_error option" where
  "fail_if b e = (if b then Some e else None)"

lemma err_then_None [simp]: "err_then e r = None \<longleftrightarrow> e = None \<and> r = None"
  by (auto simp: err_then_def split: option.splits)

lemma err_then_Some: "err_then e r = Some x \<longleftrightarrow> e = Some x \<or> (e = None \<and> r = Some x)"
  by (auto simp: err_then_def split: option.splits)

lemma err_then_simps [simp]: "err_then None r = r" "err_then (Some x) r = Some x"
  by (simp_all add: err_then_def)

lemma fail_if_None [simp]: "fail_if b e = None \<longleftrightarrow> \<not> b"
  by (simp add: fail_if_def)

lemma fail_if_Some [simp]: "fail_if b e = Some x \<longleftrightarrow> b \<and> x = e"
  by (auto simp: fail_if_def)

lemma fail_if_simps [simp]: "fail_if True e = Some e" "fail_if False e = None"
  by (simp_all add: fail_if_def)

text \<open>A loop \<open>for _, x := range xs { if err := f(x); err != nil { return err } }\<close>.\<close>

fun err_each :: "('a \<Rightarrow> go_error option) \<Rightarrow> 'a list \<Rightarrow> go_error option" where
  "err_each f [] = None"
| "err_each f (x # xs) = err_then (f x) (err_each f xs)"

lemma err_each_None [simp]: "err_each f xs = None \<longleftrightarrow> (\<forall>x\<in>set xs. f x = None)"
  by (induction xs) auto

lemma err_each_append: "err_each f (xs @ ys) = err_then (err_each f xs) (err_each f ys)"
proof (induction xs)
  case (Cons a xs)
  then show ?case by (cases "f a") simp_all
qed simp

text \<open>The error a loop returns is the error of the first element that fails.\<close>

lemma err_each_Some:
  "err_each f xs = Some e \<longleftrightarrow>
     (\<exists>ys x zs. xs = ys @ x # zs \<and> (\<forall>y\<in>set ys. f y = None) \<and> f x = Some e)"
    (is "?l \<longleftrightarrow> ?r")
proof
  assume ?l
  then show ?r
  proof (induction xs)
    case (Cons a xs)
    show ?case
    proof (cases "f a")
      case None
      with Cons obtain ys x zs
        where "xs = ys @ x # zs" "\<forall>y\<in>set ys. f y = None" "f x = Some e" by auto
      with None have "a # xs = (a # ys) @ x # zs \<and> (\<forall>y\<in>set (a # ys). f y = None) \<and> f x = Some e"
        by simp
      then show ?thesis by blast
    next
      case (Some b)
      with Cons.prems have "a # xs = [] @ a # xs \<and> (\<forall>y\<in>set []. f y = None) \<and> f a = Some e" by simp
      then show ?thesis by blast
    qed
  qed simp
next
  assume ?r
  then obtain ys x zs where "xs = ys @ x # zs" "\<forall>y\<in>set ys. f y = None" "f x = Some e" by blast
  then show ?l by (simp add: err_each_append err_each_None [THEN iffD2])
qed

lemma error_chain_ne [simp]: "error_chain e \<noteq> []"
  by (cases e rule: error_chain.cases) auto

text \<open>The chain is the error followed by the chain of its cause.\<close>

lemma error_chain_Unwrap:
  "error_chain e = (case Unwrap e of None \<Rightarrow> [e] | Some c \<Rightarrow> e # error_chain c)"
  by (cases e rule: error_chain.cases) auto

lemma errors_Is_Unwrap:
  "errors_Is e s \<longleftrightarrow> e = Sentinel s \<or> (\<exists>c. Unwrap e = Some c \<and> errors_Is c s)"
  unfolding errors_Is_def by (subst error_chain_Unwrap) (auto split: option.splits)

lemma errors_Is_simps [simp]:
  "errors_Is (Sentinel t) s \<longleftrightarrow> t = s"
  "errors_Is (Wrapf pre e) s \<longleftrightarrow> errors_Is e s"
  "errors_Is (WrapThen e n) s \<longleftrightarrow> errors_Is e s"
  "errors_Is (ContainerError i op reason None) s \<longleftrightarrow> False"
  "errors_Is (ContainerError i op reason (Some c)) s \<longleftrightarrow> errors_Is c s"
  "errors_Is (ExecutorError op reason None) s \<longleftrightarrow> False"
  "errors_Is (ExecutorError op reason (Some c)) s \<longleftrightarrow> errors_Is c s"
  "errors_Is (SecurityError op reason None) s \<longleftrightarrow> False"
  "errors_Is (SecurityError op reason (Some c)) s \<longleftrightarrow> errors_Is c s"
  "errors_Is (Errorf m) s \<longleftrightarrow> False"
  "errors_Is (ErrorfID pre uid post) s \<longleftrightarrow> False"
  "errors_Is (ExternalErr m) s \<longleftrightarrow> False"
  by (auto simp: errors_Is_def)

end
