(* ===== verification/Models.thy ===== *)
theory Models
  imports GoErrors
begin

text \<open>
  The data model of \<open>internal/models\<close>: tasks, task executions and users with their requests and
  responses, the validation functions of the API, and the status predicates of an execution.
  A nullable field (a Go pointer) is an \<open>option\<close>. The string enumerations \<open>TaskStatus\<close>,
  \<open>ScriptType\<close> and \<open>ExecutionStatus\<close> are Go string types that can hold any string (they come from
  JSON), so they are strings with named constants. A \<open>time.Time\<close> is the number of nanoseconds
  since the zero time; \<open>Format\<close> is the argument \<open>fmt\<close> of the conversions to responses.
\<close>

section \<open>Common data\<close>

type_synonym time = int

abbreviation time_IsZero :: "time \<Rightarrow> bool" where "time_IsZero t \<equiv> t = 0"

text \<open>\<open>t.Sub(u)\<close> saturates at the bounds of \<open>Duration\<close>.\<close>

definition time_Sub :: "time \<Rightarrow> time \<Rightarrow> int" where
  "time_Sub t u = max (- (2 ^ 63)) (min (2 ^ 63 - 1) (t - u))"

definition Milliseconds :: "int \<Rightarrow> int" where
  "Milliseconds d = go_div d Millisecond"

datatype json =
    JNull
  | JBool bool
  | JNum int
  | JStr string
  | JArr "json list"
  | JObj "(string \<times> json) list"

text \<open>\<open>JSONB\<close> is a Go map, which may be \<open>nil\<close>.\<close>

type_synonym jsonb = "(string \<rightharpoonup> json) option"

type_synonym TaskStatus = string
type_synonym ScriptType = string
type_synonym ExecutionStatus = string

abbreviation TaskStatusPending :: TaskStatus where "TaskStatusPending \<equiv> ''pending''"
abbreviation TaskStatusRunning :: TaskStatus where "TaskStatusRunning \<equiv> ''running''"
abbreviation TaskStatusCompleted :: TaskStatus where "TaskStatusCompleted \<equiv> ''completed''"
abbreviation TaskStatusFailed :: TaskStatus where "TaskStatusFailed \<equiv> ''failed''"
abbreviation TaskStatusTimeout :: TaskStatus where "TaskStatusTimeout \<equiv> ''timeout''"
abbreviation TaskStatusCancelled :: TaskStatus where "TaskStatusCancelled \<equiv> ''cancelled''"

abbreviation ScriptTypePython :: ScriptType where "ScriptTypePython \<equiv> ''python''"
abbreviation ScriptTypeJavaScript :: ScriptType where "ScriptTypeJavaScript \<equiv> ''javascript''"
abbreviation ScriptTypeBash :: ScriptType where "ScriptTypeBash \<equiv> ''bash''"
abbreviation ScriptTypeGo :: ScriptType where "ScriptTypeGo \<equiv> ''go''"

abbreviation ExecutionStatusPending :: ExecutionStatus where "ExecutionStatusPending \<equiv> ''pending''"
abbreviation ExecutionStatusRunning :: ExecutionStatus where "ExecutionStatusRunning \<equiv> ''running''"
abbreviation ExecutionStatusCompleted :: ExecutionStatus where "ExecutionStatusCompleted \<equiv> ''completed''"
abbreviation ExecutionStatusFailed :: ExecutionStatus where "ExecutionStatusFailed \<equiv> ''failed''"
abbreviation ExecutionStatusTimeout :: ExecutionStatus where "ExecutionStatusTimeout \<equiv> ''timeout''"
abbreviation ExecutionStatusCancelled :: ExecutionStatus where "ExecutionStatusCancelled \<equiv> ''cancelled''"

section \<open>Tasks (\<open>models/task.go\<close>)\<close>

record Task =
  Task_ID :: uuid
  Task_UserID :: uuid
  Task_Name :: string
  Task_Description :: "string option"
  Task_ScriptContent :: string
  Task_ScriptType :: ScriptType
  Task_Status :: TaskStatus
  Task_Priority :: int
  Task_TimeoutSeconds :: int
  Task_Metadata :: jsonb
  Task_CreatedAt :: time
  Task_UpdatedAt :: time

record CreateTaskRequest =
  CT_Name :: string
  CT_Description :: "string option"
  CT_ScriptContent :: string
  CT_ScriptType :: ScriptType
  CT_Priority :: "int option"
  CT_TimeoutSeconds :: "int option"
  CT_Metadata :: jsonb

record UpdateTaskRequest =
  UT_Name :: "string option"
  UT_Description :: "string option"
  UT_ScriptContent :: "string option"
  UT_ScriptType :: "ScriptType option"
  UT_Priority :: "int option"
  UT_TimeoutSeconds :: "int option"
  UT_Metadata :: jsonb

record TaskResponse =
  TR_ID :: uuid
  TR_UserID :: uuid
  TR_Name :: string
  TR_Description :: "string option"
  TR_ScriptContent :: string
  TR_ScriptType :: ScriptType
  TR_Status :: TaskStatus
  TR_Priority :: int
  TR_TimeoutSeconds :: int
  TR_Metadata :: jsonb
  TR_CreatedAt :: string
  TR_UpdatedAt :: string

definition Task_ToResponse :: "(time \<Rightarrow> string) \<Rightarrow> Task \<Rightarrow> TaskResponse" where
  "Task_ToResponse fmt t =
     \<lparr>TR_ID = Task_ID t, TR_UserID = Task_UserID t, TR_Name = Task_Name t,
      TR_Description = Task_Description t, TR_ScriptContent = Task_ScriptContent t,
      TR_ScriptType = Task_ScriptType t, TR_Status = Task_Status t, TR_Priority = Task_Priority t,
      TR_TimeoutSeconds = Task_TimeoutSeconds t, TR_Metadata = Task_Metadata t,
      TR_CreatedAt = fmt (Task_CreatedAt t), TR_UpdatedAt = fmt (Task_UpdatedAt t)\<rparr>"

definition ValidateTaskName :: "string \<Rightarrow> go_error option" where
  "ValidateTaskName name0 =
     (if name0 = [] then Some (Errorf ''task name is required'')
      else let name = TrimSpace name0 in
        if length name = 0 then Some (Errorf ''task name cannot be empty'')
        else if length name > 255 then Some (Errorf ''task name is too long (max 255 characters)'')
        else None)"

definition ValidateScriptType :: "ScriptType \<Rightarrow> go_error option" where
  "ValidateScriptType scriptType =
     (if scriptType \<in> {ScriptTypePython, ScriptTypeJavaScript, ScriptTypeBash, ScriptTypeGo} then None
      else Some (Errorf (''invalid script type: '' @ scriptType)))"

definition ValidateScriptContent :: "casemap \<Rightarrow> string \<Rightarrow> go_error option" where
  "ValidateScriptContent uc content0 =
     (if content0 = [] then Some (Errorf ''script content is required'')
      else let content = TrimSpace content0 in
        if length content = 0 then Some (Errorf ''script content cannot be empty'')
        else if length content > 65535 then Some (Errorf ''script content is too long (max 65535 characters)'')
        else if Contains (ToLower uc content) ''rm -rf''
          then Some (Errorf ''potentially dangerous script content detected'')
        else None)"

definition ValidateTaskStatus :: "TaskStatus \<Rightarrow> go_error option" where
  "ValidateTaskStatus status =
     (if status \<in> {TaskStatusPending, TaskStatusRunning, TaskStatusCompleted, TaskStatusFailed,
                    TaskStatusTimeout, TaskStatusCancelled} then None
      else Some (Errorf (''invalid task status: '' @ status)))"

definition ValidatePriority :: "int \<Rightarrow> go_error option" where
  "ValidatePriority priority =
     (if priority < 0 \<or> priority > 10 then Some (Errorf ''priority must be between 0 and 10'') else None)"

definition ValidateTimeout :: "int \<Rightarrow> go_error option" where
  "ValidateTimeout timeout =
     (if timeout \<le> 0 then Some (Errorf ''timeout must be greater than 0'')
      else if timeout > 3600 then Some (Errorf ''timeout cannot exceed 3600 seconds'')
      else None)"

section \<open>Task executions (\<open>models/task_execution.go\<close>)\<close>

record TaskExecution =
  Exec_ID :: uuid
  Exec_TaskID :: uuid
  Exec_Status :: ExecutionStatus
  Exec_ReturnCode :: "int option"
  Exec_Stdout :: "string option"
  Exec_Stderr :: "string option"
  Exec_ExecutionTimeMs :: "int option"
  Exec_MemoryUsageBytes :: "int option"
  Exec_StartedAt :: "time option"
  Exec_CompletedAt :: "time option"
  Exec_CreatedAt :: time

record UpdateTaskExecutionRequest =
  UE_Status :: "ExecutionStatus option"
  UE_ReturnCode :: "int option"
  UE_Stdout :: "string option"
  UE_Stderr :: "string option"
  UE_ExecutionTimeMs :: "int option"
  UE_MemoryUsageBytes :: "int option"
  UE_StartedAt :: "time option"
  UE_CompletedAt :: "time option"

record TaskExecutionResponse =
  ER_ID :: uuid
  ER_TaskID :: uuid
  ER_Status :: ExecutionStatus
  ER_ReturnCode :: "int option"
  ER_Stdout :: "string option"
  ER_Stderr :: "string option"
  ER_ExecutionTimeMs :: "int option"
  ER_MemoryUsageBytes :: "int option"
  ER_StartedAt :: "string option"
  ER_CompletedAt :: "string option"
  ER_CreatedAt :: string

definition Exec_ToResponse :: "(time \<Rightarrow> string) \<Rightarrow> TaskExecution \<Rightarrow> TaskExecutionResponse" where
  "Exec_ToResponse fmt te =
     \<lparr>ER_ID = Exec_ID te, ER_TaskID = Exec_TaskID te, ER_Status = Exec_Status te,
      ER_ReturnCode = Exec_ReturnCode te, ER_Stdout = Exec_Stdout te, ER_Stderr = Exec_Stderr te,
      ER_ExecutionTimeMs = Exec_ExecutionTimeMs te, ER_MemoryUsageBytes = Exec_MemoryUsageBytes te,
      ER_StartedAt = map_option fmt (Exec_StartedAt te),
      ER_CompletedAt = map_option fmt (Exec_CompletedAt te),
      ER_CreatedAt = fmt (Exec_CreatedAt te)\<rparr>"

definition ValidateExecutionStatus :: "ExecutionStatus \<Rightarrow> go_error option" where
  "ValidateExecutionStatus status =
     (if status \<in> {ExecutionStatusPending, ExecutionStatusRunning, ExecutionStatusCompleted,
                    ExecutionStatusFailed, ExecutionStatusTimeout, ExecutionStatusCancelled} then None
      else Some (Errorf (''invalid execution status: '' @ status)))"

definition IsTerminal :: "TaskExecution \<Rightarrow> bool" where
  "IsTerminal te =
     (Exec_Status te = ExecutionStatusCompleted \<or> Exec_Status te = ExecutionStatusFailed \<or>
      Exec_Status te = ExecutionStatusTimeout \<or> Exec_Status te = ExecutionStatusCancelled)"

definition IsRunning :: "TaskExecution \<Rightarrow> bool" where
  "IsRunning te = (Exec_Status te = ExecutionStatusRunning)"

definition IsPending :: "TaskExecution \<Rightarrow> bool" where
  "IsPending te = (Exec_Status te = ExecutionStatusPending)"

definition GetDuration :: "TaskExecution \<Rightarrow> int option" where
  "GetDuration te =
     (case (Exec_StartedAt te, Exec_CompletedAt te) of
        (Some st, Some co) \<Rightarrow> Some (Milliseconds (time_Sub co st))
      | _ \<Rightarrow> Exec_ExecutionTimeMs te)"

section \<open>Users (\<open>models/user.go\<close>)\<close>

record User =
  User_ID :: uuid
  User_Email :: string
  User_PasswordHash :: string
  User_Name :: string
  User_CreatedAt :: time
  User_UpdatedAt :: time

record UserResponse =
  UR_ID :: uuid
  UR_Email :: string
  UR_Name :: string
  UR_CreatedAt :: string
  UR_UpdatedAt :: string

definition User_ToResponse :: "(time \<Rightarrow> string) \<Rightarrow> User \<Rightarrow> UserResponse" where
  "User_ToResponse fmt u =
     \<lparr>UR_ID = User_ID u, UR_Email = User_Email u, UR_Name = User_Name u,
      UR_CreatedAt = fmt (User_CreatedAt u), UR_UpdatedAt = fmt (User_UpdatedAt u)\<rparr>"

definition in_range :: "nat \<Rightarrow> nat \<Rightarrow> char \<Rightarrow> bool" where
  "in_range lo hi c = (lo \<le> (of_char c :: nat) \<and> (of_char c :: nat) \<le> hi)"

definition is_upper :: "char \<Rightarrow> bool" where "is_upper c = in_range 65 90 c"
definition is_lower :: "char \<Rightarrow> bool" where "is_lower c = in_range 97 122 c"
definition is_digit :: "char \<Rightarrow> bool" where "is_digit c = in_range 48 57 c"
definition is_letter :: "char \<Rightarrow> bool" where "is_letter c = (is_upper c \<or> is_lower c)"

text \<open>The character classes of the e-mail expression.\<close>

definition email_local_char :: "char \<Rightarrow> bool" where
  "email_local_char c = (is_letter c \<or> is_digit c \<or> c \<in> set ''._%+-'')"

definition email_domain_char :: "char \<Rightarrow> bool" where
  "email_domain_char c = (is_letter c \<or> is_digit c \<or> c \<in> set ''.-'')"

text \<open>
  The expression \<open>^[a-zA-Z0-9._%+-]+@[a-zA-Z0-9.-]+\.[a-zA-Z]{2,}$\<close> as a matcher: one \<open>@\<close>, and the
  domain ends in a dot and the longest suffix without one.
\<close>

definition match_domain :: "string \<Rightarrow> bool" where
  "match_domain d =
     (let tld = rev (takeWhile (\<lambda>c. c \<noteq> CHR ''.'') (rev d));
          front = rev (dropWhile (\<lambda>c. c \<noteq> CHR ''.'') (rev d))
      in 2 \<le> length tld \<and> list_all is_letter tld \<and> 2 \<le> length front \<and> list_all email_domain_char front)"

definition match_email :: "string \<Rightarrow> bool" where
  "match_email s =
     (case Split s (CHR ''@'') of
        [l, d] \<Rightarrow> l \<noteq> [] \<and> list_all email_local_char l \<and> match_domain d
      | _ \<Rightarrow> False)"

definition ValidateEmail :: "casemap \<Rightarrow> string \<Rightarrow> go_error option" where
  "ValidateEmail uc email0 =
     (if email0 = [] then Some (Errorf ''email is required'')
      else let email = TrimSpace (ToLower uc email0) in
        if length email > 255 then Some (Errorf ''email is too long (max 255 characters)'')
        else if \<not> match_email email then Some (Errorf ''invalid email format'')
        else None)"

definition special_chars :: "char list" where
  "special_chars =
     [CHR 0x21, CHR 0x40, CHR 0x23, CHR 0x24, CHR 0x25, CHR 0x5E, CHR 0x26, CHR 0x2A, CHR 0x28, CHR 0x29,
      CHR 0x5F, CHR 0x2B, CHR 0x2D, CHR 0x3D, CHR 0x5B, CHR 0x5D, CHR 0x7B, CHR 0x7D, CHR 0x3B, CHR 0x27,
      CHR 0x3A, CHR 0x22, CHR 0x5C, CHR 0x7C, CHR 0x2C, CHR 0x2E, CHR 0x3C, CHR 0x3E, CHR 0x2F, CHR 0x3F,
      CHR 0x7E, CHR 0x60]"

definition ValidatePassword :: "string \<Rightarrow> go_error option" where
  "ValidatePassword password =
     (if length password < 8 then Some (Errorf ''password must be at least 8 characters long'')
      else if length password > 128 then Some (Errorf ''password is too long (max 128 characters)'')
      else if \<not> list_ex is_upper password
        then Some (Errorf ''password must contain at least one uppercase letter'')
      else if \<not> list_ex is_lower password
        then Some (Errorf ''password must contain at least one lowercase letter'')
      else if \<not> list_ex is_digit password
        then Some (Errorf ''password must contain at least one digit'')
      else if \<not> list_ex (\<lambda>c. c \<in> set special_chars) password
        then Some (Errorf ''password must contain at least one special character'')
      else None)"

end
