(* ===== verification/Database.thy ===== *)
theory Database
  imports Models "HOL-Library.Product_Lexorder"
begin

text \<open>
  The PostgreSQL schema of \<open>migrations/\<close> and the repositories of \<open>internal/database\<close>. A table is the list of
  its rows in the order a sequential scan meets them; nothing is assumed of that order, so a query with ties in
  its \<open>ORDER BY\<close> is covered for every order of the ties. A statement runs in a \<open>Session\<close>: the database, the
  clock (\<open>NOW()\<close>), the faults still to come (each statement takes the next one; an error there is a failing
  connection or a cancelled context) and the source of fresh ids (\<open>uuid.New\<close>). The constraints of the schema are
  checked by the statements and reported as \<open>PgError\<close> with the SQLSTATE code; of the detail text only the
  constraint's column is kept, which is all the code looks at.
\<close>

section \<open>The store\<close>

record DB =
  T_users :: "User list"
  T_tasks :: "Task list"
  T_execs :: "TaskExecution list"

record Session =
  se_db :: DB
  se_now :: time
  se_faults :: "go_error option list"
  se_newid :: "nat \<Rightarrow> uuid"
  se_ids :: nat

definition next_fault :: "Session \<Rightarrow> go_error option \<times> Session" where
  "next_fault s =
     (case se_faults s of
        [] \<Rightarrow> (None, s)
      | f # fs \<Rightarrow> (f, s\<lparr>se_faults := fs\<rparr>))"

text \<open>One statement: a function of the clock and the database that returns an error and no change, or a value.\<close>

definition run_stmt :: "(time \<Rightarrow> DB \<Rightarrow> go_error + 'a \<times> DB) \<Rightarrow> Session \<Rightarrow> (go_error + 'a) \<times> Session" where
  "run_stmt f s0 =
     (case next_fault s0 of
        (Some e, s) \<Rightarrow> (Inl e, s)
      | (None, s) \<Rightarrow>
          (case f (se_now s) (se_db s) of
             Inl e \<Rightarrow> (Inl e, s)
           | Inr (x, db) \<Rightarrow> (Inr x, s\<lparr>se_db := db\<rparr>)))"

definition new_id :: "Session \<Rightarrow> uuid \<times> Session" where
  "new_id s = (se_newid s (se_ids s), s\<lparr>se_ids := se_ids s + 1\<rparr>)"

section \<open>Rows by key\<close>

definition get_row :: "('r \<Rightarrow> uuid) \<Rightarrow> uuid \<Rightarrow> 'r list \<Rightarrow> 'r option" where
  "get_row key i rows = find (\<lambda>r. key r = i) rows"

definition put_row :: "('r \<Rightarrow> uuid) \<Rightarrow> 'r \<Rightarrow> 'r list \<Rightarrow> 'r list" where
  "put_row key r rows = map (\<lambda>x. if key x = key r then r else x) rows"

definition delete_row :: "('r \<Rightarrow> uuid) \<Rightarrow> uuid \<Rightarrow> 'r list \<Rightarrow> 'r list" where
  "delete_row key i rows = filter (\<lambda>x. key x \<noteq> i) rows"

section \<open>Column types\<close>

text \<open>\<open>VARCHAR(n)\<close> counts characters: bytes that do not continue a UTF-8 sequence.\<close>

definition utf8_length :: "string \<Rightarrow> nat" where
  "utf8_length s = length (filter (\<lambda>c. \<not> in_range 128 191 c) s)"

text \<open>Well-formed UTF-8.\<close>

fun utf8_ok :: "string \<Rightarrow> bool" where
  "utf8_ok [] = True"
| "utf8_ok (a # s) =
     (if in_range 0 127 a then utf8_ok s
      else (case s of
        [] \<Rightarrow> False
      | b # s1 \<Rightarrow>
          (if in_range 194 223 a then in_range 128 191 b \<and> utf8_ok s1
           else (case s1 of
             [] \<Rightarrow> False
           | c # s2 \<Rightarrow>
               (if in_range 224 239 a then
                  (if a = CHR 0xE0 then in_range 160 191 b else if a = CHR 0xED then in_range 128 159 b
                   else in_range 128 191 b) \<and> in_range 128 191 c \<and> utf8_ok s2
                else (case s2 of
                  [] \<Rightarrow> False
                | d # s3 \<Rightarrow>
                    in_range 240 244 a \<and>
                    (if a = CHR 0xF0 then in_range 144 191 b else if a = CHR 0xF4 then in_range 128 143 b
                     else in_range 128 191 b) \<and> in_range 128 191 c \<and> in_range 128 191 d \<and> utf8_ok s3))))))"

text \<open>A \<open>TEXT\<close> or \<open>VARCHAR\<close> value holds no zero byte and is well-formed.\<close>

definition pg_text :: "string \<Rightarrow> bool" where
  "pg_text s = (CHR 0x00 \<notin> set s \<and> utf8_ok s)"

definition opt_text :: "string option \<Rightarrow> bool" where
  "opt_text x = (case x of None \<Rightarrow> True | Some s \<Rightarrow> pg_text s)"

definition int4 :: "int \<Rightarrow> bool" where
  "int4 x = (- (2 ^ 31) \<le> x \<and> x < 2 ^ 31)"

definition opt_all :: "('a \<Rightarrow> bool) \<Rightarrow> 'a option \<Rightarrow> bool" where
  "opt_all P x = (case x of None \<Rightarrow> True | Some y \<Rightarrow> P y)"

abbreviation bad_text :: go_error where "bad_text \<equiv> PgError ''22021'' ''invalid byte sequence''"
abbreviation too_long :: go_error where "too_long \<equiv> PgError ''22001'' ''value too long''"
abbreviation bad_int4 :: go_error where "bad_int4 \<equiv> ExternalErr ''unable to encode into int4''"

section \<open>Constraints\<close>

definition task_statuses :: "string list" where
  "task_statuses = [''pending'', ''running'', ''completed'', ''failed'', ''timeout'', ''cancelled'']"

definition script_types :: "string list" where
  "script_types = [''python'', ''javascript'', ''bash'', ''go'']"

text \<open>The \<open>CHECK\<close> constraints of \<open>tasks\<close> and \<open>task_executions\<close>; a \<open>NULL\<close> passes.\<close>

definition check_task :: "Task \<Rightarrow> go_error option" where
  "check_task t =
     err_then (fail_if (Task_ScriptType t \<notin> set script_types) (PgError ''23514'' ''chk_script_type''))
    (err_then (fail_if (Task_Status t \<notin> set task_statuses) (PgError ''23514'' ''chk_status''))
    (err_then (fail_if (\<not> (0 \<le> Task_Priority t \<and> Task_Priority t \<le> 10)) (PgError ''23514'' ''chk_priority''))
              (fail_if (\<not> (0 < Task_TimeoutSeconds t \<and> Task_TimeoutSeconds t \<le> 3600))
                 (PgError ''23514'' ''chk_timeout''))))"

definition check_exec :: "TaskExecution \<Rightarrow> go_error option" where
  "check_exec e =
     err_then (fail_if (Exec_Status e \<notin> set task_statuses) (PgError ''23514'' ''chk_execution_status''))
    (err_then (fail_if (\<not> opt_all (\<lambda>x. 0 \<le> x \<and> x \<le> 255) (Exec_ReturnCode e)) (PgError ''23514'' ''chk_return_code''))
    (err_then (fail_if (\<not> opt_all (\<lambda>x. 0 \<le> x) (Exec_ExecutionTimeMs e)) (PgError ''23514'' ''chk_execution_time''))
              (fail_if (\<not> opt_all (\<lambda>x. 0 \<le> x) (Exec_MemoryUsageBytes e)) (PgError ''23514'' ''chk_memory_usage''))))"

text \<open>The column types, checked before the constraints.\<close>

definition type_task :: "Task \<Rightarrow> go_error option" where
  "type_task t =
     err_then (fail_if (\<not> (int4 (Task_Priority t) \<and> int4 (Task_TimeoutSeconds t))) bad_int4)
    (err_then (fail_if (\<not> (pg_text (Task_Name t) \<and> opt_text (Task_Description t) \<and> pg_text (Task_ScriptContent t) \<and>
                           pg_text (Task_ScriptType t) \<and> pg_text (Task_Status t))) bad_text)
              (fail_if (utf8_length (Task_Name t) > 255 \<or> utf8_length (Task_ScriptType t) > 50 \<or>
                        utf8_length (Task_Status t) > 50) too_long))"

definition type_exec :: "TaskExecution \<Rightarrow> go_error option" where
  "type_exec e =
     err_then (fail_if (\<not> (opt_all int4 (Exec_ReturnCode e) \<and> opt_all int4 (Exec_ExecutionTimeMs e))) bad_int4)
    (err_then (fail_if (\<not> (pg_text (Exec_Status e) \<and> opt_text (Exec_Stdout e) \<and> opt_text (Exec_Stderr e))) bad_text)
              (fail_if (utf8_length (Exec_Status e) > 50) too_long))"

definition type_user :: "User \<Rightarrow> go_error option" where
  "type_user u =
     err_then (fail_if (\<not> (pg_text (User_Email u) \<and> pg_text (User_PasswordHash u) \<and> pg_text (User_Name u))) bad_text)
              (fail_if (utf8_length (User_Email u) > 255 \<or> utf8_length (User_PasswordHash u) > 255 \<or>
                        utf8_length (User_Name u) > 255) too_long)"

section \<open>Statements\<close>

definition sql_insert_task :: "Task \<Rightarrow> time \<Rightarrow> DB \<Rightarrow> go_error + Task \<times> DB" where
  "sql_insert_task t now db =
     (let row = t\<lparr>Task_CreatedAt := now, Task_UpdatedAt := now\<rparr>
      in case err_then (type_task row) (err_then (check_task row)
             (err_then (fail_if (get_row Task_ID (Task_ID row) (T_tasks db) \<noteq> None) (PgError ''23505'' ''id''))
                       (fail_if (get_row User_ID (Task_UserID row) (T_users db) = None) (PgError ''23503'' ''user_id''))))
         of Some e \<Rightarrow> Inl e | None \<Rightarrow> Inr (row, db\<lparr>T_tasks := T_tasks db @ [row]\<rparr>))"

definition sql_insert_exec :: "TaskExecution \<Rightarrow> time \<Rightarrow> DB \<Rightarrow> go_error + TaskExecution \<times> DB" where
  "sql_insert_exec e now db =
     (let row = e\<lparr>Exec_CreatedAt := now\<rparr>
      in case err_then (type_exec row) (err_then (check_exec row)
             (err_then (fail_if (get_row Exec_ID (Exec_ID row) (T_execs db) \<noteq> None) (PgError ''23505'' ''id''))
                       (fail_if (get_row Task_ID (Exec_TaskID row) (T_tasks db) = None) (PgError ''23503'' ''task_id''))))
         of Some er \<Rightarrow> Inl er | None \<Rightarrow> Inr (row, db\<lparr>T_execs := T_execs db @ [row]\<rparr>))"

definition email_taken :: "User \<Rightarrow> DB \<Rightarrow> bool" where
  "email_taken u db = list_ex (\<lambda>x. User_Email x = User_Email u \<and> User_ID x \<noteq> User_ID u) (T_users db)"

definition sql_insert_user :: "User \<Rightarrow> time \<Rightarrow> DB \<Rightarrow> go_error + User \<times> DB" where
  "sql_insert_user u now db =
     (let row = u\<lparr>User_CreatedAt := now, User_UpdatedAt := now\<rparr>
      in case err_then (type_user row)
             (err_then (fail_if (get_row User_ID (User_ID row) (T_users db) \<noteq> None) (PgError ''23505'' ''id''))
                       (fail_if (email_taken row db) (PgError ''23505'' ''email'')))
         of Some e \<Rightarrow> Inl e | None \<Rightarrow> Inr (row, db\<lparr>T_users := T_users db @ [row]\<rparr>))"

text \<open>\<open>SELECT ... WHERE id = $1\<close> scanned as one row.\<close>

definition sql_get :: "('r \<Rightarrow> uuid) \<Rightarrow> (DB \<Rightarrow> 'r list) \<Rightarrow> uuid \<Rightarrow> time \<Rightarrow> DB \<Rightarrow> go_error + 'r \<times> DB" where
  "sql_get key table i now db =
     (case get_row key i (table db) of
        None \<Rightarrow> Inl (Sentinel PgxErrNoRows)
      | Some r \<Rightarrow> Inr (r, db))"

text \<open>\<open>SELECT ... WHERE P ORDER BY key LIMIT limit OFFSET offset\<close>\<close>

definition sql_page :: "(DB \<Rightarrow> 'r list) \<Rightarrow> ('r \<Rightarrow> bool) \<Rightarrow> ('r \<Rightarrow> 'k :: linorder) \<Rightarrow> int \<Rightarrow> int \<Rightarrow> time \<Rightarrow> DB \<Rightarrow>
    go_error + 'r list \<times> DB" where
  "sql_page table P key limit offset now db =
     Inr (take (nat limit) (drop (nat offset) (sort_key key (filter P (table db)))), db)"

definition sql_count :: "(DB \<Rightarrow> 'r list) \<Rightarrow> ('r \<Rightarrow> bool) \<Rightarrow> time \<Rightarrow> DB \<Rightarrow> go_error + int \<times> DB" where
  "sql_count table P now db = Inr (int (length (filter P (table db))), db)"

text \<open>An \<open>UPDATE\<close> by id: the number of rows affected and the new row.\<close>

definition sql_update_task :: "uuid \<Rightarrow> (Task \<Rightarrow> Task) \<Rightarrow> time \<Rightarrow> DB \<Rightarrow> go_error + Task option \<times> DB" where
  "sql_update_task i f now db =
     (case get_row Task_ID i (T_tasks db) of
        None \<Rightarrow> Inr (None, db)
      | Some t \<Rightarrow>
          (let row = (f t)\<lparr>Task_UpdatedAt := now\<rparr>
           in case err_then (type_task row) (check_task row) of
             Some e \<Rightarrow> Inl e
           | None \<Rightarrow> Inr (Some row, db\<lparr>T_tasks := put_row Task_ID row (T_tasks db)\<rparr>)))"

definition sql_update_exec :: "uuid \<Rightarrow> (TaskExecution \<Rightarrow> TaskExecution) \<Rightarrow> time \<Rightarrow> DB \<Rightarrow> go_error + TaskExecution option \<times> DB" where
  "sql_update_exec i f now db =
     (case get_row Exec_ID i (T_execs db) of
        None \<Rightarrow> Inr (None, db)
      | Some e \<Rightarrow>
          (let row = f e
           in case err_then (type_exec row) (check_exec row) of
             Some er \<Rightarrow> Inl er
           | None \<Rightarrow> Inr (Some row, db\<lparr>T_execs := put_row Exec_ID row (T_execs db)\<rparr>)))"

definition sql_update_user :: "uuid \<Rightarrow> (User \<Rightarrow> User) \<Rightarrow> time \<Rightarrow> DB \<Rightarrow> go_error + User option \<times> DB" where
  "sql_update_user i f now db =
     (case get_row User_ID i (T_users db) of
        None \<Rightarrow> Inr (None, db)
      | Some u \<Rightarrow>
          (let row = (f u)\<lparr>User_UpdatedAt := now\<rparr>
           in case err_then (type_user row) (fail_if (email_taken row db) (PgError ''23505'' ''email'')) of
             Some e \<Rightarrow> Inl e
           | None \<Rightarrow> Inr (Some row, db\<lparr>T_users := put_row User_ID row (T_users db)\<rparr>)))"

text \<open>A \<open>DELETE\<close> by id with \<open>ON DELETE CASCADE\<close>: whether a row was deleted.\<close>

definition cascade_task :: "uuid \<Rightarrow> DB \<Rightarrow> DB" where
  "cascade_task i db =
     db\<lparr>T_tasks := delete_row Task_ID i (T_tasks db), T_execs := filter (\<lambda>e. Exec_TaskID e \<noteq> i) (T_execs db)\<rparr>"

definition sql_delete_exec :: "uuid \<Rightarrow> time \<Rightarrow> DB \<Rightarrow> go_error + bool \<times> DB" where
  "sql_delete_exec i now db =
     Inr (get_row Exec_ID i (T_execs db) \<noteq> None, db\<lparr>T_execs := delete_row Exec_ID i (T_execs db)\<rparr>)"

definition sql_delete_task :: "uuid \<Rightarrow> time \<Rightarrow> DB \<Rightarrow> go_error + bool \<times> DB" where
  "sql_delete_task i now db = Inr (get_row Task_ID i (T_tasks db) \<noteq> None, cascade_task i db)"

definition sql_delete_user :: "uuid \<Rightarrow> time \<Rightarrow> DB \<Rightarrow> go_error + bool \<times> DB" where
  "sql_delete_user i now db =
     Inr (get_row User_ID i (T_users db) \<noteq> None,
          fold cascade_task (map Task_ID (filter (\<lambda>t. Task_UserID t = i) (T_tasks db)))
            (db\<lparr>T_users := delete_row User_ID i (T_users db)\<rparr>))"

section \<open>Transactions (\<open>connection.go\<close>)\<close>

text \<open>
  \<open>WithTransaction\<close>: begin, run, commit; an error of \<open>fn\<close> or of the commit rolls the database back. The clock,
  the faults used up and the ids drawn are not part of what is rolled back.
\<close>

definition WithTransaction ::
    "(Session \<Rightarrow> (go_error option \<times> 'a) \<times> Session) \<Rightarrow> 'a \<Rightarrow> Session \<Rightarrow> (go_error option \<times> 'a) \<times> Session" where
  "WithTransaction fn dflt s =
     (case next_fault s of
        (Some e, s1) \<Rightarrow>
          ((Some (Wrapf ''failed to begin transaction'' (Wrapf ''failed to begin transaction'' e)), dflt), s1)
      | (None, s1) \<Rightarrow>
          (case fn s1 of
             ((Some err, x), s2) \<Rightarrow> ((Some err, x), s2\<lparr>se_db := se_db s1\<rparr>)
           | ((None, x), s2) \<Rightarrow>
               (case next_fault s2 of
                  (Some e, s3) \<Rightarrow> ((Some (Wrapf ''failed to commit transaction'' e), x), s3\<lparr>se_db := se_db s1\<rparr>)
                | (None, s3) \<Rightarrow> ((None, x), s3))))"

end
