(* ===== verification/Repositories.thy ===== *)
theory Repositories
  imports Database
begin

text \<open>
  The repositories of \<open>internal/database\<close>: \<open>task_repository.go\<close>, \<open>task_execution_repository.go\<close> and
  \<open>user_repository.go\<close>, with their translation of database errors, and what the services rely on: a locale of
  keyed tables, interpreted on the three tables, and the integrity of the schema, kept by every operation.
  A method that writes back to the struct it is given returns the struct.
\<close>

section \<open>Errors\<close>

text \<open>\<open>errors.As(err, &pgErr)\<close>: the first \<open>PgError\<close> of the chain.\<close>

fun as_PgError :: "go_error list \<Rightarrow> (string \<times> string) option" where
  "as_PgError [] = None"
| "as_PgError (PgError code detail # es) = Some (code, detail)"
| "as_PgError (e # es) = as_PgError es"

definition pg_error :: "go_error \<Rightarrow> (string \<times> string) option" where
  "pg_error err = as_PgError (error_chain err)"

definition page_limit :: "int \<Rightarrow> int" where
  "page_limit limit = (if limit \<le> 0 then 10 else limit)"

definition page_offset :: "int \<Rightarrow> int" where
  "page_offset offset = (if offset < 0 then 0 else offset)"

definition wrap_inl :: "string \<Rightarrow> (go_error + 'a) \<times> Session \<Rightarrow> (go_error + 'a) \<times> Session" where
  "wrap_inl pre r = (case r of (Inl e, s) \<Rightarrow> (Inl (Wrapf pre e), s) | (Inr x, s) \<Rightarrow> (Inr x, s))"

section \<open>Tasks\<close>

text \<open>A \<open>NULL\<close> in the column \<open>metadata\<close> is scanned into an empty map (\<open>JSONB.Scan\<close>).\<close>

definition scan_task :: "Task \<Rightarrow> Task" where
  "scan_task t = t\<lparr>Task_Metadata := Some (case Task_Metadata t of None \<Rightarrow> Map.empty | Some m \<Rightarrow> m)\<rparr>"

definition tasks_Create :: "Task option \<Rightarrow> Session \<Rightarrow> (go_error option \<times> Task option) \<times> Session" where
  "tasks_Create task0 s =
     (case task0 of
        None \<Rightarrow> ((Some (Errorf ''task cannot be nil''), None), s)
      | Some t0 \<Rightarrow>
          (let (task, s1) = (if Task_ID t0 = uuid_Nil then (case new_id s of (i, s') \<Rightarrow> (t0\<lparr>Task_ID := i\<rparr>, s'))
                             else (t0, s))
           in case run_stmt (sql_insert_task task) s1 of
             (Inr row, s2) \<Rightarrow>
               ((None, Some (task\<lparr>Task_CreatedAt := Task_CreatedAt row, Task_UpdatedAt := Task_UpdatedAt row\<rparr>)), s2)
           | (Inl err, s2) \<Rightarrow>
               ((Some (case pg_error err of
                   Some (code, detail) \<Rightarrow>
                     (if code = ''23505''
                        then ErrorfID ''task with ID '' (Task_ID task) '' already exists''
                      else if code = ''23503'' \<and> Contains detail ''user_id''
                        then ErrorfID ''user with ID '' (Task_UserID task) '' does not exist''
                      else if code = ''23514'' then Errorf (''task validation failed: '' @ detail)
                      else Wrapf ''failed to create task'' err)
                 | None \<Rightarrow> Wrapf ''failed to create task'' err), Some task), s2)))"

definition tasks_GetByID :: "uuid \<Rightarrow> Session \<Rightarrow> (go_error + Task) \<times> Session" where
  "tasks_GetByID i s =
     (case run_stmt (sql_get Task_ID T_tasks i) s of
        (Inr t, s') \<Rightarrow> (Inr (scan_task t), s')
      | (Inl err, s') \<Rightarrow>
          (Inl (if errors_Is err PgxErrNoRows then Sentinel ErrTaskNotFound
                else Wrapf ''failed to get task by ID'' err), s'))"

text \<open>\<open>ORDER BY priority DESC, created_at DESC\<close>\<close>

definition task_order :: "Task \<Rightarrow> int \<times> int" where
  "task_order t = (- Task_Priority t, - Task_CreatedAt t)"

definition tasks_page :: "string \<Rightarrow> (Task \<Rightarrow> bool) \<Rightarrow> int \<Rightarrow> int \<Rightarrow> Session \<Rightarrow> (go_error + Task list) \<times> Session" where
  "tasks_page pre P limit offset s =
     (case wrap_inl pre (run_stmt (sql_page T_tasks P task_order (page_limit limit) (page_offset offset)) s) of
        (Inl e, s') \<Rightarrow> (Inl e, s')
      | (Inr ts, s') \<Rightarrow> (Inr (map scan_task ts), s'))"

definition tasks_GetByUserID :: "uuid \<Rightarrow> int \<Rightarrow> int \<Rightarrow> Session \<Rightarrow> (go_error + Task list) \<times> Session" where
  "tasks_GetByUserID userID = tasks_page ''failed to get tasks by user ID'' (\<lambda>t. Task_UserID t = userID)"

definition tasks_GetByStatus :: "TaskStatus \<Rightarrow> int \<Rightarrow> int \<Rightarrow> Session \<Rightarrow> (go_error + Task list) \<times> Session" where
  "tasks_GetByStatus status = tasks_page ''failed to get tasks by status'' (\<lambda>t. Task_Status t = status)"

definition tasks_List :: "int \<Rightarrow> int \<Rightarrow> Session \<Rightarrow> (go_error + Task list) \<times> Session" where
  "tasks_List = tasks_page ''failed to list tasks'' (\<lambda>t. True)"

text \<open>\<open>contains\<close> is the operator \<open>metadata @> query\<close> of PostgreSQL.\<close>

definition tasks_SearchByMetadata ::
    "(jsonb \<Rightarrow> string \<Rightarrow> bool) \<Rightarrow> string \<Rightarrow> int \<Rightarrow> int \<Rightarrow> Session \<Rightarrow> (go_error + Task list) \<times> Session" where
  "tasks_SearchByMetadata contains query =
     tasks_page ''failed to search tasks by metadata'' (\<lambda>t. contains (Task_Metadata t) query)"

definition tasks_Update :: "Task option \<Rightarrow> Session \<Rightarrow> (go_error option \<times> Task option) \<times> Session" where
  "tasks_Update task0 s =
     (case task0 of
        None \<Rightarrow> ((Some (Errorf ''task cannot be nil''), None), s)
      | Some task \<Rightarrow>
          (case run_stmt (sql_update_task (Task_ID task)
                  (\<lambda>t. t\<lparr>Task_Name := Task_Name task, Task_Description := Task_Description task,
                         Task_ScriptContent := Task_ScriptContent task, Task_ScriptType := Task_ScriptType task,
                         Task_Status := Task_Status task, Task_Priority := Task_Priority task,
                         Task_TimeoutSeconds := Task_TimeoutSeconds task, Task_Metadata := Task_Metadata task\<rparr>)) s of
             (Inr (Some row), s') \<Rightarrow> ((None, Some (task\<lparr>Task_UpdatedAt := Task_UpdatedAt row\<rparr>)), s')
           | (Inr None, s') \<Rightarrow> ((Some (Sentinel ErrTaskNotFound), Some task), s')
           | (Inl err, s') \<Rightarrow>
               ((Some (case pg_error err of
                   Some (code, detail) \<Rightarrow>
                     (if code = ''23514'' then Errorf (''task validation failed: '' @ detail)
                      else Wrapf ''failed to update task'' err)
                 | None \<Rightarrow> Wrapf ''failed to update task'' err), Some task), s')))"

definition tasks_UpdateStatus :: "uuid \<Rightarrow> TaskStatus \<Rightarrow> Session \<Rightarrow> go_error option \<times> Session" where
  "tasks_UpdateStatus i status s =
     (case run_stmt (sql_update_task i (\<lambda>t. t\<lparr>Task_Status := status\<rparr>)) s of
        (Inr (Some row), s') \<Rightarrow> (None, s')
      | (Inr None, s') \<Rightarrow> (Some (Sentinel ErrTaskNotFound), s')
      | (Inl err, s') \<Rightarrow>
          (Some (case pg_error err of
              Some (code, detail) \<Rightarrow>
                (if code = ''23514'' then Errorf (''invalid task status: '' @ status)
                 else Wrapf ''failed to update task status'' err)
            | None \<Rightarrow> Wrapf ''failed to update task status'' err), s'))"

definition tasks_Delete :: "uuid \<Rightarrow> Session \<Rightarrow> go_error option \<times> Session" where
  "tasks_Delete i s =
     (case run_stmt (sql_delete_task i) s of
        (Inl err, s') \<Rightarrow> (Some (Wrapf ''failed to delete task'' err), s')
      | (Inr deleted, s') \<Rightarrow> (fail_if (\<not> deleted) (Sentinel ErrTaskNotFound), s'))"

definition tasks_Count :: "Session \<Rightarrow> (go_error + int) \<times> Session" where
  "tasks_Count s = wrap_inl ''failed to count tasks'' (run_stmt (sql_count T_tasks (\<lambda>t. True)) s)"

definition tasks_CountByUserID :: "uuid \<Rightarrow> Session \<Rightarrow> (go_error + int) \<times> Session" where
  "tasks_CountByUserID userID s =
     wrap_inl ''failed to count tasks by user ID'' (run_stmt (sql_count T_tasks (\<lambda>t. Task_UserID t = userID)) s)"

definition tasks_CountByStatus :: "TaskStatus \<Rightarrow> Session \<Rightarrow> (go_error + int) \<times> Session" where
  "tasks_CountByStatus status s =
     wrap_inl ''failed to count tasks by status'' (run_stmt (sql_count T_tasks (\<lambda>t. Task_Status t = status)) s)"

section \<open>Executions\<close>

definition execs_Create :: "TaskExecution option \<Rightarrow> Session \<Rightarrow> (go_error option \<times> TaskExecution option) \<times> Session" where
  "execs_Create execution0 s =
     (case execution0 of
        None \<Rightarrow> ((Some (Errorf ''task execution cannot be nil''), None), s)
      | Some e0 \<Rightarrow>
          (let (execution, s1) = (if Exec_ID e0 = uuid_Nil then (case new_id s of (i, s') \<Rightarrow> (e0\<lparr>Exec_ID := i\<rparr>, s'))
                                  else (e0, s))
           in case run_stmt (sql_insert_exec execution) s1 of
             (Inr row, s2) \<Rightarrow> ((None, Some (execution\<lparr>Exec_CreatedAt := Exec_CreatedAt row\<rparr>)), s2)
           | (Inl err, s2) \<Rightarrow>
               ((Some (case pg_error err of
                   Some (code, detail) \<Rightarrow>
                     (if code = ''23505''
                        then ErrorfID ''task execution with ID '' (Exec_ID execution) '' already exists''
                      else if code = ''23503'' \<and> Contains detail ''task_id''
                        then ErrorfID ''task with ID '' (Exec_TaskID execution) '' does not exist''
                      else if code = ''23514'' then Errorf (''task execution validation failed: '' @ detail)
                      else Wrapf ''failed to create task execution'' err)
                 | None \<Rightarrow> Wrapf ''failed to create task execution'' err), Some execution), s2)))"

definition execs_GetByID :: "uuid \<Rightarrow> Session \<Rightarrow> (go_error + TaskExecution) \<times> Session" where
  "execs_GetByID i s =
     (case run_stmt (sql_get Exec_ID T_execs i) s of
        (Inr e, s') \<Rightarrow> (Inr e, s')
      | (Inl err, s') \<Rightarrow>
          (Inl (if errors_Is err PgxErrNoRows then ErrorfID ''task execution with ID '' i '' not found''
                else Wrapf ''failed to get task execution by ID'' err), s'))"

definition exec_order :: "TaskExecution \<Rightarrow> int" where
  "exec_order e = - Exec_CreatedAt e"

definition execs_page :: "string \<Rightarrow> (TaskExecution \<Rightarrow> bool) \<Rightarrow> int \<Rightarrow> int \<Rightarrow> Session \<Rightarrow>
    (go_error + TaskExecution list) \<times> Session" where
  "execs_page pre P limit offset s =
     wrap_inl pre (run_stmt (sql_page T_execs P exec_order (page_limit limit) (page_offset offset)) s)"

definition execs_GetByTaskID :: "uuid \<Rightarrow> int \<Rightarrow> int \<Rightarrow> Session \<Rightarrow> (go_error + TaskExecution list) \<times> Session" where
  "execs_GetByTaskID taskID =
     execs_page ''failed to get task executions by task ID'' (\<lambda>e. Exec_TaskID e = taskID)"

definition execs_GetByStatus :: "ExecutionStatus \<Rightarrow> int \<Rightarrow> int \<Rightarrow> Session \<Rightarrow> (go_error + TaskExecution list) \<times> Session" where
  "execs_GetByStatus status =
     execs_page ''failed to get task executions by status'' (\<lambda>e. Exec_Status e = status)"

definition execs_List :: "int \<Rightarrow> int \<Rightarrow> Session \<Rightarrow> (go_error + TaskExecution list) \<times> Session" where
  "execs_List = execs_page ''failed to list task executions'' (\<lambda>e. True)"

definition execs_GetLatestByTaskID :: "uuid \<Rightarrow> Session \<Rightarrow> (go_error + TaskExecution) \<times> Session" where
  "execs_GetLatestByTaskID taskID s =
     (case run_stmt (sql_page T_execs (\<lambda>e. Exec_TaskID e = taskID) exec_order 1 0) s of
        (Inr (e # _), s') \<Rightarrow> (Inr e, s')
      | (Inr [], s') \<Rightarrow> (Inl (ErrorfID ''no task executions found for task ID '' taskID []), s')
      | (Inl err, s') \<Rightarrow> (Inl (Wrapf ''failed to get latest task execution by task ID'' err), s'))"

definition execs_Update :: "TaskExecution option \<Rightarrow> Session \<Rightarrow> go_error option \<times> Session" where
  "execs_Update execution0 s =
     (case execution0 of
        None \<Rightarrow> (Some (Errorf ''task execution cannot be nil''), s)
      | Some execution \<Rightarrow>
          (case run_stmt (sql_update_exec (Exec_ID execution)
                  (\<lambda>e. execution\<lparr>Exec_ID := Exec_ID e, Exec_TaskID := Exec_TaskID e, Exec_CreatedAt := Exec_CreatedAt e\<rparr>)) s of
             (Inr (Some row), s') \<Rightarrow> (None, s')
           | (Inr None, s') \<Rightarrow> (Some (ErrorfID ''task execution with ID '' (Exec_ID execution) '' not found''), s')
           | (Inl err, s') \<Rightarrow>
               (Some (case pg_error err of
                   Some (code, detail) \<Rightarrow>
                     (if code = ''23514'' then Errorf (''task execution validation failed: '' @ detail)
                      else Wrapf ''failed to update task execution'' err)
                 | None \<Rightarrow> Wrapf ''failed to update task execution'' err), s')))"

definition execs_UpdateStatus :: "uuid \<Rightarrow> ExecutionStatus \<Rightarrow> Session \<Rightarrow> go_error option \<times> Session" where
  "execs_UpdateStatus i status s =
     (case run_stmt (sql_update_exec i (\<lambda>e. e\<lparr>Exec_Status := status\<rparr>)) s of
        (Inr (Some row), s') \<Rightarrow> (None, s')
      | (Inr None, s') \<Rightarrow> (Some (ErrorfID ''task execution with ID '' i '' not found''), s')
      | (Inl err, s') \<Rightarrow>
          (Some (case pg_error err of
              Some (code, detail) \<Rightarrow>
                (if code = ''23514'' then Errorf (''invalid task execution status: '' @ status)
                 else Wrapf ''failed to update task execution status'' err)
            | None \<Rightarrow> Wrapf ''failed to update task execution status'' err), s'))"

definition execs_Delete :: "uuid \<Rightarrow> Session \<Rightarrow> go_error option \<times> Session" where
  "execs_Delete i s =
     (case run_stmt (sql_delete_exec i) s of
        (Inl err, s') \<Rightarrow> (Some (Wrapf ''failed to delete task execution'' err), s')
      | (Inr deleted, s') \<Rightarrow> (fail_if (\<not> deleted) (ErrorfID ''task execution with ID '' i '' not found''), s'))"

definition execs_Count :: "Session \<Rightarrow> (go_error + int) \<times> Session" where
  "execs_Count s = wrap_inl ''failed to count task executions'' (run_stmt (sql_count T_execs (\<lambda>e. True)) s)"

definition execs_CountByTaskID :: "uuid \<Rightarrow> Session \<Rightarrow> (go_error + int) \<times> Session" where
  "execs_CountByTaskID taskID s =
     wrap_inl ''failed to count task executions by task ID'' (run_stmt (sql_count T_execs (\<lambda>e. Exec_TaskID e = taskID)) s)"

definition execs_CountByStatus :: "ExecutionStatus \<Rightarrow> Session \<Rightarrow> (go_error + int) \<times> Session" where
  "execs_CountByStatus status s =
     wrap_inl ''failed to count task executions by status'' (run_stmt (sql_count T_execs (\<lambda>e. Exec_Status e = status)) s)"

section \<open>Users\<close>

definition users_Create :: "User option \<Rightarrow> Session \<Rightarrow> (go_error option \<times> User option) \<times> Session" where
  "users_Create user0 s =
     (case user0 of
        None \<Rightarrow> ((Some (Errorf ''user cannot be nil''), None), s)
      | Some u0 \<Rightarrow>
          (let (user, s1) = (if User_ID u0 = uuid_Nil then (case new_id s of (i, s') \<Rightarrow> (u0\<lparr>User_ID := i\<rparr>, s'))
                             else (u0, s))
           in case run_stmt (sql_insert_user user) s1 of
             (Inr row, s2) \<Rightarrow>
               ((None, Some (user\<lparr>User_CreatedAt := User_CreatedAt row, User_UpdatedAt := User_UpdatedAt row\<rparr>)), s2)
           | (Inl err, s2) \<Rightarrow>
               ((Some (case pg_error err of
                   Some (code, detail) \<Rightarrow>
                     (if code = ''23505'' then
                        (if Contains detail ''email''
                           then Errorf (''user with email '' @ User_Email user @ '' already exists'')
                         else ErrorfID ''user with ID '' (User_ID user) '' already exists'')
                      else Wrapf ''failed to create user'' err)
                 | None \<Rightarrow> Wrapf ''failed to create user'' err), Some user), s2)))"

definition users_get_error :: "string \<Rightarrow> go_error \<Rightarrow> go_error" where
  "users_get_error pre err = (if errors_Is err PgxErrNoRows then Sentinel ErrUserNotFound else Wrapf pre err)"

definition users_GetByID :: "uuid \<Rightarrow> Session \<Rightarrow> (go_error + User) \<times> Session" where
  "users_GetByID i s =
     (case run_stmt (sql_get User_ID T_users i) s of
        (Inr u, s') \<Rightarrow> (Inr u, s')
      | (Inl err, s') \<Rightarrow> (Inl (users_get_error ''failed to get user by ID'' err), s'))"

definition sql_get_email :: "string \<Rightarrow> time \<Rightarrow> DB \<Rightarrow> go_error + User \<times> DB" where
  "sql_get_email email now db =
     (case find (\<lambda>u. User_Email u = email) (T_users db) of
        None \<Rightarrow> Inl (Sentinel PgxErrNoRows)
      | Some u \<Rightarrow> Inr (u, db))"

definition users_GetByEmail :: "string \<Rightarrow> Session \<Rightarrow> (go_error + User) \<times> Session" where
  "users_GetByEmail email s =
     (if email = [] then (Inl (Errorf ''email cannot be empty''), s)
      else (case run_stmt (sql_get_email email) s of
          (Inr u, s') \<Rightarrow> (Inr u, s')
        | (Inl err, s') \<Rightarrow> (Inl (users_get_error ''failed to get user by email'' err), s')))"

definition users_Update :: "User option \<Rightarrow> Session \<Rightarrow> (go_error option \<times> User option) \<times> Session" where
  "users_Update user0 s =
     (case user0 of
        None \<Rightarrow> ((Some (Errorf ''user cannot be nil''), None), s)
      | Some user \<Rightarrow>
          (case run_stmt (sql_update_user (User_ID user)
                  (\<lambda>u. u\<lparr>User_Email := User_Email user, User_PasswordHash := User_PasswordHash user,
                         User_Name := User_Name user\<rparr>)) s of
             (Inr (Some row), s') \<Rightarrow> ((None, Some (user\<lparr>User_UpdatedAt := User_UpdatedAt row\<rparr>)), s')
           | (Inr None, s') \<Rightarrow> ((Some (ErrorfID ''user with ID '' (User_ID user) '' not found''), Some user), s')
           | (Inl err, s') \<Rightarrow>
               ((Some (case pg_error err of
                   Some (code, detail) \<Rightarrow>
                     (if code = ''23505'' \<and> Contains detail ''email''
                        then Errorf (''user with email '' @ User_Email user @ '' already exists'')
                      else Wrapf ''failed to update user'' err)
                 | None \<Rightarrow> Wrapf ''failed to update user'' err), Some user), s')))"

definition users_Delete :: "uuid \<Rightarrow> Session \<Rightarrow> go_error option \<times> Session" where
  "users_Delete i s =
     (case run_stmt (sql_delete_user i) s of
        (Inl err, s') \<Rightarrow> (Some (Wrapf ''failed to delete user'' err), s')
      | (Inr deleted, s') \<Rightarrow> (fail_if (\<not> deleted) (ErrorfID ''user with ID '' i '' not found''), s'))"

definition users_List :: "int \<Rightarrow> int \<Rightarrow> Session \<Rightarrow> (go_error + User list) \<times> Session" where
  "users_List limit offset s =
     wrap_inl ''failed to list users''
       (run_stmt (sql_page T_users (\<lambda>u. True) (\<lambda>u. - User_CreatedAt u) (page_limit limit) (page_offset offset)) s)"

definition users_Count :: "Session \<Rightarrow> (go_error + int) \<times> Session" where
  "users_Count s = wrap_inl ''failed to count users'' (run_stmt (sql_count T_users (\<lambda>u. True)) s)"

section \<open>Tables as an interface\<close>

text \<open>
  \<open>row_table key get put del\<close>: what a table promises: a row inserted, replaced or deleted under its key is
  what a lookup finds, and no other key is touched.
\<close>

locale row_table =
  fixes key :: "'r \<Rightarrow> 'k"
    and get :: "'k \<Rightarrow> 't \<Rightarrow> 'r option"
    and ins :: "'r \<Rightarrow> 't \<Rightarrow> 't"
    and put :: "'r \<Rightarrow> 't \<Rightarrow> 't"
    and del :: "'k \<Rightarrow> 't \<Rightarrow> 't"
  assumes get_key: "get i t = Some r \<Longrightarrow> key r = i"
    and get_ins: "get (key r) t = None \<Longrightarrow> get i (ins r t) = (if i = key r then Some r else get i t)"
    and get_put: "get i (put r t) = (if i = key r \<and> get i t \<noteq> None then Some r else get i t)"
    and get_del: "get i (del j t) = (if i = j then None else get i t)"
begin

lemma get_put_same: "get (key r) t = Some x \<Longrightarrow> get (key r) (put r t) = Some r"
  by (simp add: get_put)

lemma get_put_other: "i \<noteq> key r \<Longrightarrow> get i (put r t) = get i t"
  by (simp add: get_put)

lemma put_keeps_keys: "get i (put r t) = None \<longleftrightarrow> get i t = None"
  by (auto simp: get_put)

lemma put_put: "get i (put r' (put r t)) = get i (put r' t)" if "key r = key r'"
  using that by (auto simp: get_put)

lemma del_absent: "get j t = None \<Longrightarrow> get i (del j t) = get i t"
  by (simp add: get_del)

end

lemma get_row_Nil [simp]: "get_row key i [] = None"
  by (simp add: get_row_def)

lemma get_row_Cons [simp]: "get_row key i (r # rows) = (if key r = i then Some r else get_row key i rows)"
  by (simp add: get_row_def)

lemma get_row_append:
  "get_row key i (xs @ ys) = (case get_row key i xs of Some r \<Rightarrow> Some r | None \<Rightarrow> get_row key i ys)"
  by (induction xs) auto

lemma get_row_put: "get_row key i (put_row key r rows) = (if i = key r \<and> get_row key i rows \<noteq> None then Some r else get_row key i rows)"
  by (induction rows) (auto simp: put_row_def)

lemma get_row_del: "get_row key i (delete_row key j rows) = (if i = j then None else get_row key i rows)"
  by (induction rows) (auto simp: delete_row_def)

lemma get_row_Some: "get_row key i rows = Some r \<Longrightarrow> r \<in> set rows \<and> key r = i"
  by (induction rows) (auto split: if_splits)

lemma get_row_None: "get_row key i rows = None \<longleftrightarrow> i \<notin> key ` set rows"
  by (induction rows) auto

lemma get_row_in: "get_row key i rows \<noteq> None \<longleftrightarrow> i \<in> key ` set rows"
  by (simp only: get_row_None not_not)

lemma map_key_put [simp]: "map key (put_row key r rows) = map key rows"
  by (induction rows) (auto simp: put_row_def)

lemma set_put_row: "set (put_row key r rows) \<subseteq> insert r (set rows)"
  by (auto simp: put_row_def)

lemma distinct_delete_row: "distinct (map key rows) \<Longrightarrow> distinct (map key (delete_row key i rows))"
  by (simp add: delete_row_def distinct_map_filter)

interpretation users: row_table User_ID "get_row User_ID" "\<lambda>r t. t @ [r]" "put_row User_ID" "delete_row User_ID"
  by unfold_locales (auto simp: get_row_append get_row_put get_row_del dest: get_row_Some split: option.splits)

interpretation tasks: row_table Task_ID "get_row Task_ID" "\<lambda>r t. t @ [r]" "put_row Task_ID" "delete_row Task_ID"
  by unfold_locales (auto simp: get_row_append get_row_put get_row_del dest: get_row_Some split: option.splits)

interpretation execs: row_table Exec_ID "get_row Exec_ID" "\<lambda>r t. t @ [r]" "put_row Exec_ID" "delete_row Exec_ID"
  by unfold_locales (auto simp: get_row_append get_row_put get_row_del dest: get_row_Some split: option.splits)

section \<open>Integrity of the schema\<close>

definition row_ok_task :: "Task \<Rightarrow> bool" where
  "row_ok_task t \<longleftrightarrow> type_task t = None \<and> check_task t = None"

definition row_ok_exec :: "TaskExecution \<Rightarrow> bool" where
  "row_ok_exec e \<longleftrightarrow> type_exec e = None \<and> check_exec e = None"

definition db_ok :: "DB \<Rightarrow> bool" where
  "db_ok db \<longleftrightarrow>
     distinct (map User_ID (T_users db)) \<and> distinct (map User_Email (T_users db)) \<and>
     distinct (map Task_ID (T_tasks db)) \<and> distinct (map Exec_ID (T_execs db)) \<and>
     (\<forall>u\<in>set (T_users db). type_user u = None) \<and>
     (\<forall>t\<in>set (T_tasks db). row_ok_task t \<and> Task_UserID t \<in> User_ID ` set (T_users db)) \<and>
     (\<forall>e\<in>set (T_execs db). row_ok_exec e \<and> Exec_TaskID e \<in> Task_ID ` set (T_tasks db))"

lemma check_task_updated [simp]:
  "type_task (t\<lparr>Task_UpdatedAt := x\<rparr>) = type_task t" "check_task (t\<lparr>Task_UpdatedAt := x\<rparr>) = check_task t"
  by (simp_all add: type_task_def check_task_def)

lemma sql_insert_task_ok:
  assumes "sql_insert_task t now db = Inr (r, db')" and "db_ok db"
  shows "db_ok db'"
proof -
  define row where "row = t\<lparr>Task_CreatedAt := now, Task_UpdatedAt := now\<rparr>"
  from assms(1) have "row_ok_task row" "Task_ID row \<notin> Task_ID ` set (T_tasks db)"
    "Task_UserID row \<in> User_ID ` set (T_users db)" and db': "db' = db\<lparr>T_tasks := T_tasks db @ [row]\<rparr>"
    by (auto simp: sql_insert_task_def row_def Let_def row_ok_task_def get_row_None [symmetric] get_row_in [symmetric]
        split: option.splits)
  with assms(2) show ?thesis unfolding db' by (simp add: db_ok_def)
qed

lemma sql_insert_exec_ok:
  assumes "sql_insert_exec e now db = Inr (r, db')" and "db_ok db"
  shows "db_ok db'"
proof -
  define row where "row = e\<lparr>Exec_CreatedAt := now\<rparr>"
  from assms(1) have "row_ok_exec row" "Exec_ID row \<notin> Exec_ID ` set (T_execs db)"
    "Exec_TaskID row \<in> Task_ID ` set (T_tasks db)" and db': "db' = db\<lparr>T_execs := T_execs db @ [row]\<rparr>"
    by (auto simp: sql_insert_exec_def row_def Let_def row_ok_exec_def get_row_None [symmetric] get_row_in [symmetric]
        split: option.splits)
  with assms(2) show ?thesis unfolding db' by (simp add: db_ok_def)
qed

lemma sql_insert_user_ok:
  assumes "sql_insert_user u now db = Inr (r, db')" and "db_ok db"
  shows "db_ok db'"
proof -
  define row where "row = u\<lparr>User_CreatedAt := now, User_UpdatedAt := now\<rparr>"
  from assms(1) have 1: "type_user row = None" "User_ID row \<notin> User_ID ` set (T_users db)"
    "\<not> email_taken row db" and db': "db' = db\<lparr>T_users := T_users db @ [row]\<rparr>"
    by (auto simp: sql_insert_user_def row_def Let_def get_row_None [symmetric] get_row_in [symmetric]
        split: option.splits)
  then have "User_Email row \<notin> User_Email ` set (T_users db)"
    by (auto simp: email_taken_def list_ex_iff image_iff)
  with 1 assms(2) show ?thesis unfolding db' by (simp add: db_ok_def)
qed

lemma sql_update_task_ok:
  assumes "sql_update_task i f now db = Inr (r, db')" and "db_ok db"
    and "\<And>t. Task_ID (f t) = Task_ID t \<and> Task_UserID (f t) = Task_UserID t"
  shows "db_ok db'"
proof (cases "get_row Task_ID i (T_tasks db)")
  case None
  with assms show ?thesis by (simp add: sql_update_task_def)
next
  case (Some t)
  define row where "row = (f t)\<lparr>Task_UpdatedAt := now\<rparr>"
  have k: "t \<in> set (T_tasks db)" "Task_ID row = Task_ID t" "Task_UserID row = Task_UserID t"
    using Some assms(3) by (auto simp: row_def dest: get_row_Some)
  from assms(1) Some have ok: "row_ok_task row" and db': "db' = db\<lparr>T_tasks := put_row Task_ID row (T_tasks db)\<rparr>"
    by (auto simp: sql_update_task_def row_def row_ok_task_def Let_def split: option.splits)
  have ids: "Task_ID ` set (put_row Task_ID row (T_tasks db)) = Task_ID ` set (T_tasks db)"
    by (metis map_key_put set_map)
  have s: "set (put_row Task_ID row (T_tasks db)) \<subseteq> insert row (set (T_tasks db))" by (rule set_put_row)
  from assms(2) k ok ids s show ?thesis
    unfolding db' db_ok_def by (auto simp: image_iff)
qed

lemma sql_update_exec_ok:
  assumes "sql_update_exec i f now db = Inr (r, db')" and "db_ok db"
    and "\<And>e. Exec_ID (f e) = Exec_ID e \<and> Exec_TaskID (f e) = Exec_TaskID e"
  shows "db_ok db'"
proof (cases "get_row Exec_ID i (T_execs db)")
  case None
  with assms show ?thesis by (simp add: sql_update_exec_def)
next
  case (Some e)
  have k: "e \<in> set (T_execs db)" "Exec_ID (f e) = Exec_ID e" "Exec_TaskID (f e) = Exec_TaskID e"
    using Some assms(3) by (auto dest: get_row_Some)
  from assms(1) Some have ok: "row_ok_exec (f e)" and db': "db' = db\<lparr>T_execs := put_row Exec_ID (f e) (T_execs db)\<rparr>"
    by (auto simp: sql_update_exec_def row_ok_exec_def Let_def split: option.splits)
  have "set (put_row Exec_ID (f e) (T_execs db)) \<subseteq> insert (f e) (set (T_execs db))" by (rule set_put_row)
  with assms(2) k ok show ?thesis
    unfolding db' db_ok_def by auto
qed

lemma distinct_put_map:
  "distinct (map key rows) \<Longrightarrow> distinct (map g rows) \<Longrightarrow> (\<forall>x\<in>set rows. key x \<noteq> key r \<longrightarrow> g x \<noteq> g r) \<Longrightarrow>
     distinct (map g (put_row key r rows))"
proof (induction rows)
  case (Cons a rows)
  have p: "put_row key r (a # rows) = (if key a = key r then r # put_row key r rows else a # put_row key r rows)"
    by (simp add: put_row_def)
  have "key a = key r \<Longrightarrow> put_row key r rows = rows"
    using Cons.prems(1) by (auto simp: put_row_def image_iff intro!: map_idI)
  moreover have "key a = key r \<Longrightarrow> g r \<notin> g ` set rows"
    using Cons.prems(1,3) by (auto simp: image_iff) metis
  ultimately show ?case
    using Cons set_put_row [of key r rows] by (auto simp: p)
qed (simp add: put_row_def)

lemma sql_update_user_ok:
  assumes "sql_update_user i f now db = Inr (r, db')" and "db_ok db"
    and "\<And>u. User_ID (f u) = User_ID u"
  shows "db_ok db'"
proof (cases "get_row User_ID i (T_users db)")
  case None
  with assms show ?thesis by (simp add: sql_update_user_def)
next
  case (Some u)
  define row where "row = (f u)\<lparr>User_UpdatedAt := now\<rparr>"
  from assms(1) Some have ok: "type_user row = None" "\<not> email_taken row db"
    and db': "db' = db\<lparr>T_users := put_row User_ID row (T_users db)\<rparr>"
    by (auto simp: sql_update_user_def row_def Let_def split: option.splits)
  have ids: "User_ID ` set (put_row User_ID row (T_users db)) = User_ID ` set (T_users db)"
    by (metis map_key_put set_map)
  have "distinct (map User_Email (put_row User_ID row (T_users db)))"
    using assms(2) ok(2) by (intro distinct_put_map) (auto simp: db_ok_def email_taken_def list_ex_iff)
  moreover have "set (put_row User_ID row (T_users db)) \<subseteq> insert row (set (T_users db))" by (rule set_put_row)
  ultimately show ?thesis
    using assms(2) ok(1) ids unfolding db' db_ok_def by auto
qed

lemma cascade_task_ok: "db_ok db \<Longrightarrow> db_ok (cascade_task i db)"
  by (auto simp: db_ok_def cascade_task_def delete_row_def distinct_map_filter)

lemma fold_cascade:
  "T_users (fold cascade_task is db) = T_users db"
  "T_tasks (fold cascade_task is db) = filter (\<lambda>t. Task_ID t \<notin> set is) (T_tasks db)"
  "T_execs (fold cascade_task is db) = filter (\<lambda>e. Exec_TaskID e \<notin> set is) (T_execs db)"
  by (induction "is" arbitrary: db) (auto simp: cascade_task_def delete_row_def intro!: filter_cong)

lemma sql_delete_user_ok:
  assumes "sql_delete_user i now db = Inr (r, db')" and "db_ok db"
  shows "db_ok db'"
proof -
  let ?is = "map Task_ID (filter (\<lambda>t. Task_UserID t = i) (T_tasks db))"
  let ?D = "fold cascade_task ?is db"
  have ok: "db_ok ?D"
    using assms(2) by (intro fold_invariant [of _ "\<lambda>_. True" db_ok]) (auto intro: cascade_task_ok)
  have "db' = fold cascade_task ?is (db\<lparr>T_users := delete_row User_ID i (T_users db)\<rparr>)"
    using assms(1) by (simp add: sql_delete_user_def)
  then have db': "T_users db' = delete_row User_ID i (T_users db)" "T_tasks db' = T_tasks ?D" "T_execs db' = T_execs ?D"
    by (simp_all add: fold_cascade)
  have "distinct (map User_ID (T_users db'))" "distinct (map User_Email (T_users db'))"
    "\<forall>u\<in>set (T_users db'). type_user u = None"
    using assms(2) by (auto simp: db_ok_def db' delete_row_def distinct_map_filter)
  moreover have "row_ok_task t \<and> Task_UserID t \<in> User_ID ` set (T_users db')" if "t \<in> set (T_tasks db')" for t
  proof -
    have "t \<in> set (T_tasks db)" "Task_UserID t \<noteq> i" using that by (auto simp: db' fold_cascade)
    moreover from this assms(2) obtain u where "u \<in> set (T_users db)" "User_ID u = Task_UserID t" "row_ok_task t"
      by (auto simp: db_ok_def)
    ultimately show ?thesis by (auto simp: db' delete_row_def image_iff intro!: bexI [of _ u])
  qed
  ultimately show ?thesis using ok by (simp add: db_ok_def db')
qed

lemma sql_delete_ok:
  "sql_delete_task i now db = Inr (r, db') \<Longrightarrow> db_ok db \<Longrightarrow> db_ok db'"
  "sql_delete_exec i now db = Inr (b, db') \<Longrightarrow> db_ok db \<Longrightarrow> db_ok db'"
  by (auto simp: sql_delete_task_def sql_delete_exec_def intro: cascade_task_ok)
    (auto simp: db_ok_def delete_row_def distinct_map_filter)

lemma sql_read:
  "sql_get key table i now db = Inr (x, db') \<Longrightarrow> db' = db"
  "sql_get_email em now db = Inr (u, db') \<Longrightarrow> db' = db"
  "sql_page table P k l off now db = Inr (xs, db') \<Longrightarrow> db' = db"
  "sql_count table P now db = Inr (n, db') \<Longrightarrow> db' = db"
  by (auto simp: sql_get_def sql_get_email_def sql_page_def sql_count_def split: option.splits)

subsection \<open>Sessions\<close>

text \<open>\<open>keeps f\<close>: the operation leaves a well-formed database well-formed, whatever it returns.\<close>

definition keeps :: "(Session \<Rightarrow> 'a \<times> Session) \<Rightarrow> bool" where
  "keeps f \<longleftrightarrow> (\<forall>s. db_ok (se_db s) \<longrightarrow> db_ok (se_db (snd (f s))))"

named_theorems keeps_intro \<open>operations that keep the schema\<close>

lemma next_fault_db [simp]: "se_db (snd (next_fault s)) = se_db s"
  by (simp add: next_fault_def split: list.splits)

lemma new_id_db [simp]: "se_db (snd (new_id s)) = se_db s"
  by (simp add: new_id_def)

lemma run_stmt_cases:
  "(\<exists>e. fst (run_stmt f s) = Inl e \<and> se_db (snd (run_stmt f s)) = se_db s) \<or>
   (\<exists>x db'. fst (run_stmt f s) = Inr x \<and> f (se_now s) (se_db s) = Inr (x, db') \<and> se_db (snd (run_stmt f s)) = db')"
proof (cases "next_fault s")
  case (Pair e s1)
  have "se_db s1 = se_db s" "se_now s1 = se_now s"
    using Pair by (auto simp: next_fault_def split: list.splits)
  with Pair show ?thesis by (auto simp: run_stmt_def split: option.splits sum.splits)
qed

lemma run_stmt_keeps:
  "(\<And>now db x db'. f now db = Inr (x, db') \<Longrightarrow> db_ok db \<Longrightarrow> db_ok db') \<Longrightarrow> keeps (run_stmt f)"
  unfolding keeps_def using run_stmt_cases [of f] by (metis)

lemma run_stmt_ok:
  "db_ok (se_db s) \<Longrightarrow> (\<And>now db x db'. f now db = Inr (x, db') \<Longrightarrow> db_ok db \<Longrightarrow> db_ok db') \<Longrightarrow>
     db_ok (se_db (snd (run_stmt f s)))"
  using run_stmt_keeps [of f] by (simp add: keeps_def)

lemma keeps_via: "keeps g \<Longrightarrow> (\<And>s. se_db (snd (h s)) = se_db (snd (g s))) \<Longrightarrow> keeps h"
  by (simp add: keeps_def)

lemma keeps_read:
  "(\<And>now db x db'. f now db = Inr (x, db') \<Longrightarrow> db' = db) \<Longrightarrow> keeps (run_stmt f)"
  by (rule run_stmt_keeps) blast

lemmas result_splits = sum.splits option.splits prod.splits if_splits

lemma session_of_case:
  "se_db (snd (case r of (Inl e, s) \<Rightarrow> (F e, s) | (Inr x, s) \<Rightarrow> (G x, s))) = se_db (snd r)"
  by (auto split: prod.splits sum.splits)

text \<open>The session an insertion runs in: with a fresh id drawn when the struct has none.\<close>

lemma insert_session: "db_ok (se_db s) \<Longrightarrow> (if b then (case new_id s of (i, s') \<Rightarrow> (f i, s')) else (x, s)) = (y, s1) \<Longrightarrow>
    db_ok (se_db s1)"
  by (auto simp: new_id_def split: if_splits)

lemma insert_keeps:
  assumes "\<And>x now db r db'. sql x now db = Inr (r, db') \<Longrightarrow> db_ok db \<Longrightarrow> db_ok db'" and "db_ok (se_db s)"
  shows "db_ok (se_db (snd (case (if b then (case new_id s of (i, s') \<Rightarrow> (f i, s')) else (x, s)) of
      (row, s1) \<Rightarrow> (case run_stmt (sql row) s1 of (Inl e, s2) \<Rightarrow> (F row e, s2) | (Inr r, s2) \<Rightarrow> (G row r, s2)))))"
proof -
  obtain row s1 where r: "(if b then (case new_id s of (i, s') \<Rightarrow> (f i, s')) else (x, s)) = (row, s1)" by fastforce
  have "db_ok (se_db s1)" using assms(2) r by (rule insert_session)
  then have "db_ok (se_db (snd (run_stmt (sql row) s1)))" by (rule run_stmt_ok) (rule assms(1))
  then show ?thesis unfolding r by (simp add: session_of_case)
qed

lemma creates_keep [keeps_intro]:
  "keeps (tasks_Create t)" "keeps (execs_Create e)" "keeps (users_Create u)"
proof -
  show "keeps (tasks_Create t)"
    by (cases t) (simp_all add: keeps_def tasks_Create_def Let_def insert_keeps [OF sql_insert_task_ok])
  show "keeps (execs_Create e)"
    by (cases e) (simp_all add: keeps_def execs_Create_def Let_def insert_keeps [OF sql_insert_exec_ok])
  show "keeps (users_Create u)"
    by (cases u) (simp_all add: keeps_def users_Create_def Let_def insert_keeps [OF sql_insert_user_ok])
qed

lemma tasks_writes_keep [keeps_intro]:
  "keeps (tasks_Update t)" "keeps (tasks_UpdateStatus i st)" "keeps (tasks_Delete i)"
proof -
  have u: "keeps (run_stmt (sql_update_task j f))"
    if "\<And>t. Task_ID (f t) = Task_ID t \<and> Task_UserID (f t) = Task_UserID t" for j f
    using that by (intro run_stmt_keeps) (rule sql_update_task_ok)
  show "keeps (tasks_Update t)"
  proof (cases t)
    case (Some x)
    show ?thesis
      by (rule keeps_via [OF u [of "\<lambda>t. t\<lparr>Task_Name := Task_Name x, Task_Description := Task_Description x,
             Task_ScriptContent := Task_ScriptContent x, Task_ScriptType := Task_ScriptType x,
             Task_Status := Task_Status x, Task_Priority := Task_Priority x,
             Task_TimeoutSeconds := Task_TimeoutSeconds x, Task_Metadata := Task_Metadata x\<rparr>" "Task_ID x"]])
        (auto simp: Some tasks_Update_def split: result_splits)
  qed (simp add: keeps_def tasks_Update_def)
  show "keeps (tasks_UpdateStatus i st)"
    by (rule keeps_via [OF u [of "\<lambda>t. t\<lparr>Task_Status := st\<rparr>" i]])
      (auto simp: tasks_UpdateStatus_def split: result_splits)
  have "keeps (run_stmt (sql_delete_task i))" by (rule run_stmt_keeps) (rule sql_delete_ok)
  then show "keeps (tasks_Delete i)"
    by (rule keeps_via) (auto simp: tasks_Delete_def split: result_splits)
qed

lemma execs_writes_keep [keeps_intro]:
  "keeps (execs_Update e)" "keeps (execs_UpdateStatus i st)" "keeps (execs_Delete i)"
proof -
  have u: "keeps (run_stmt (sql_update_exec j f))"
    if "\<And>t. Exec_ID (f t) = Exec_ID t \<and> Exec_TaskID (f t) = Exec_TaskID t" for j f
    using that by (intro run_stmt_keeps) (rule sql_update_exec_ok)
  show "keeps (execs_Update e)"
  proof (cases e)
    case (Some x)
    show ?thesis
      by (rule keeps_via [OF u [of "\<lambda>e. x\<lparr>Exec_ID := Exec_ID e, Exec_TaskID := Exec_TaskID e,
             Exec_CreatedAt := Exec_CreatedAt e\<rparr>" "Exec_ID x"]])
        (auto simp: Some execs_Update_def split: result_splits)
  qed (simp add: keeps_def execs_Update_def)
  show "keeps (execs_UpdateStatus i st)"
    by (rule keeps_via [OF u [of "\<lambda>t. t\<lparr>Exec_Status := st\<rparr>" i]])
      (auto simp: execs_UpdateStatus_def split: result_splits)
  have "keeps (run_stmt (sql_delete_exec i))" by (rule run_stmt_keeps) (rule sql_delete_ok)
  then show "keeps (execs_Delete i)"
    by (rule keeps_via) (auto simp: execs_Delete_def split: result_splits)
qed

lemma users_writes_keep [keeps_intro]: "keeps (users_Update u)" "keeps (users_Delete i)"
proof -
  show "keeps (users_Update u)"
  proof (cases u)
    case (Some x)
    have "keeps (run_stmt (sql_update_user (User_ID x) (\<lambda>u. u\<lparr>User_Email := User_Email x,
        User_PasswordHash := User_PasswordHash x, User_Name := User_Name x\<rparr>)))"
      by (rule run_stmt_keeps, erule (1) sql_update_user_ok) simp
    then show ?thesis
      by (rule keeps_via) (auto simp: Some users_Update_def split: result_splits)
  qed (simp add: keeps_def users_Update_def)
  have "keeps (run_stmt (sql_delete_user i))" by (rule run_stmt_keeps) (rule sql_delete_user_ok)
  then show "keeps (users_Delete i)"
    by (rule keeps_via) (auto simp: users_Delete_def split: result_splits)
qed

text \<open>A transaction of operations that keep the schema keeps it, and is atomic.\<close>

lemma next_fault_session: "next_fault s = (f, s') \<Longrightarrow> se_db s' = se_db s"
  by (metis next_fault_db snd_conv)

lemma WithTransaction_keeps [keeps_intro]: "keeps fn \<Longrightarrow> keeps (WithTransaction fn d)"
  unfolding keeps_def
  by (auto simp: WithTransaction_def split: prod.splits option.splits dest!: next_fault_session) (metis snd_conv)+

section \<open>The schema as an invariant of the service\<close>

definition empty_db :: DB where
  "empty_db = \<lparr>T_users = [], T_tasks = [], T_execs = []\<rparr>"

text \<open>Sessions that repository calls, in any order and with any faults, can reach from the empty database; what
  happens between calls (time, ids, faults of others) leaves the tables alone.\<close>

inductive repo_step :: "Session \<Rightarrow> Session \<Rightarrow> bool" where
  task_create: "repo_step s (snd (tasks_Create t s))"
| task_update: "repo_step s (snd (tasks_Update t s))"
| task_status: "repo_step s (snd (tasks_UpdateStatus i st s))"
| task_delete: "repo_step s (snd (tasks_Delete i s))"
| exec_create: "repo_step s (snd (execs_Create e s))"
| exec_update: "repo_step s (snd (execs_Update e s))"
| exec_status: "repo_step s (snd (execs_UpdateStatus i st s))"
| exec_delete: "repo_step s (snd (execs_Delete i s))"
| user_create: "repo_step s (snd (users_Create u s))"
| user_update: "repo_step s (snd (users_Update u s))"
| user_delete: "repo_step s (snd (users_Delete i s))"
| idle: "se_db s' = se_db s \<Longrightarrow> repo_step s s'"

inductive repo_reach :: "Session \<Rightarrow> bool" where
  start: "se_db s = empty_db \<Longrightarrow> repo_reach s"
| step: "repo_reach s \<Longrightarrow> repo_step s s' \<Longrightarrow> repo_reach s'"

inductive_cases repo_stepE: "repo_step s s'"

lemma keepsD: "keeps f \<Longrightarrow> db_ok (se_db s) \<Longrightarrow> db_ok (se_db (snd (f s)))"
  by (simp add: keeps_def)

lemma repo_step_ok: "repo_step s s' \<Longrightarrow> db_ok (se_db s) \<Longrightarrow> db_ok (se_db s')"
  by (erule repo_stepE) (auto intro!: keepsD keeps_intro)

lemma repo_reach_ok: "repo_reach s \<Longrightarrow> db_ok (se_db s)"
proof (induction rule: repo_reach.induct)
  case (start s)
  then show ?case by (simp add: db_ok_def empty_db_def)
qed (rule repo_step_ok)

text \<open>C8: Whatever repository calls are made, with whatever faults, the tables stay consistent: ids and e-mails
  are unique, every task has its user and every execution its task, and every stored execution has a known
  status, a return code between 0 and 255 and non-negative measurements.\<close>

theorem schema_integrity:
  assumes "repo_reach s"
  shows "db_ok (se_db s) \<and>
     list_all (\<lambda>e. Exec_Status e \<in> set task_statuses \<and> opt_all (\<lambda>x. 0 \<le> x \<and> x \<le> 255) (Exec_ReturnCode e) \<and>
                   opt_all (\<lambda>x. 0 \<le> x) (Exec_ExecutionTimeMs e) \<and> get_row Task_ID (Exec_TaskID e) (T_tasks (se_db s)) \<noteq> None)
       (T_execs (se_db s))"
proof -
  have ok: "db_ok (se_db s)" using assms by (rule repo_reach_ok)
  have "row_ok_exec e \<and> get_row Task_ID (Exec_TaskID e) (T_tasks (se_db s)) \<noteq> None" if "e \<in> set (T_execs (se_db s))" for e
    using ok that unfolding db_ok_def get_row_in by blast
  with ok show ?thesis by (simp add: list_all_iff row_ok_exec_def check_exec_def)
qed

definition example_user :: User where
  "example_user =
     \<lparr>User_ID = 2, User_Email = ''a@b.co'', User_PasswordHash = ''h'', User_Name = ''A'', User_CreatedAt = 0, User_UpdatedAt = 0\<rparr>"

definition fresh_session :: "DB \<Rightarrow> Session" where
  "fresh_session db = \<lparr>se_db = db, se_now = 100, se_faults = [], se_newid = (\<lambda>n. of_nat (n + 50)), se_ids = 0\<rparr>"

theorem schema_integrity_witness:
  "(let s = snd (users_Create (Some example_user) (fresh_session empty_db))
    in length (T_users (se_db s)) = 1 \<and> db_ok (se_db s))"
proof -
  let ?s = "snd (users_Create (Some example_user) (fresh_session empty_db))"
  have "repo_reach ?s"
    by (rule repo_reach.step [OF repo_reach.start repo_step.user_create]) (simp add: fresh_session_def)
  then have "db_ok (se_db ?s)" using schema_integrity by blast
  moreover have "length (T_users (se_db ?s)) = 1" by code_simp
  ultimately show ?thesis by (simp add: Let_def)
qed


lemma tasks_Create_row:
  assumes "tasks_Create (Some t0) s = ((None, Some t), s')"
  shows "(\<exists>i. t = t0\<lparr>Task_ID := i, Task_CreatedAt := se_now s, Task_UpdatedAt := se_now s\<rparr>) \<and>
     get_row Task_ID (Task_ID t) (T_tasks (se_db s)) = None \<and> get_row User_ID (Task_UserID t) (T_users (se_db s)) \<noteq> None \<and>
     se_db s' = (se_db s)\<lparr>T_tasks := T_tasks (se_db s) @ [t]\<rparr>"
proof -
  obtain task s1 where ts: "(if Task_ID t0 = uuid_Nil then (case new_id s of (i, s') \<Rightarrow> (t0\<lparr>Task_ID := i\<rparr>, s')) else (t0, s)) = (task, s1)"
    by fastforce
  then have "task = t0 \<or> (\<exists>i. task = t0\<lparr>Task_ID := i\<rparr>)" and task2: "se_db s1 = se_db s" "se_now s1 = se_now s"
    by (auto simp: new_id_def split: if_splits)
  then have task: "\<exists>i. task = t0\<lparr>Task_ID := i\<rparr>" by (metis Task.surjective Task.update_convs(1))
  from assms ts obtain row where r: "run_stmt (sql_insert_task task) s1 = (Inr row, s')"
    and t: "t = task\<lparr>Task_CreatedAt := Task_CreatedAt row, Task_UpdatedAt := Task_UpdatedAt row\<rparr>"
    by (auto simp: tasks_Create_def Let_def split: sum.splits option.splits prod.splits)
  from run_stmt_cases [of "sql_insert_task task" s1] r have i: "sql_insert_task task (se_now s) (se_db s) = Inr (row, se_db s')"
    using task2 by auto
  then have "row = t" and k: "get_row Task_ID (Task_ID task) (T_tasks (se_db s)) = None"
      "get_row User_ID (Task_UserID task) (T_users (se_db s)) \<noteq> None"
      "se_db s' = (se_db s)\<lparr>T_tasks := T_tasks (se_db s) @ [row]\<rparr>" "Task_CreatedAt row = se_now s" "Task_UpdatedAt row = se_now s"
    by (auto simp: sql_insert_task_def Let_def t split: option.splits)
  with task t show ?thesis by auto
qed

text \<open>A task that was created is found again: right after a successful \<open>Create\<close>, a lookup by the id the struct
  then holds returns the struct, with a missing metadata object read back as the empty one.\<close>

theorem task_create_get:
  assumes "tasks_Create t s = ((None, Some t'), s')" and "se_faults s' = []"
  shows "fst (tasks_GetByID (Task_ID t') s') = Inr (scan_task t')"
proof -
  from assms(1) obtain t0 where "t = Some t0" by (cases t) (auto simp: tasks_Create_def)
  with tasks_Create_row assms(1) have "get_row Task_ID (Task_ID t') (T_tasks (se_db s')) = Some t'"
    by (auto simp: get_row_append)
  with assms(2) show ?thesis
    by (simp add: tasks_GetByID_def run_stmt_def next_fault_def sql_get_def)
qed

definition stored_task :: Task where
  "stored_task =
     \<lparr>Task_ID = 0, Task_UserID = 2, Task_Name = ''t'', Task_Description = None,
      Task_ScriptContent = ''echo hi'', Task_ScriptType = ScriptTypeBash, Task_Status = TaskStatusPending,
      Task_Priority = 5, Task_TimeoutSeconds = 300, Task_Metadata = None, Task_CreatedAt = 0,
      Task_UpdatedAt = 0\<rparr>"

theorem task_create_get_witness:
  "(case tasks_Create (Some stored_task) (fresh_session \<lparr>T_users = [example_user], T_tasks = [], T_execs = []\<rparr>) of
      ((None, Some t), s) \<Rightarrow> Task_ID t = 50 \<and> fst (tasks_GetByID 50 s) = Inr (scan_task t)
    | _ \<Rightarrow> False)"
proof -
  let ?x = "tasks_Create (Some stored_task) (fresh_session \<lparr>T_users = [example_user], T_tasks = [], T_execs = []\<rparr>)"
  have 1: "(case ?x of ((None, Some t), s) \<Rightarrow> Task_ID t = 50 \<and> se_faults s = [] | _ \<Rightarrow> False)" by code_simp
  obtain r t s where x: "?x = ((r, t), s)" by (metis prod.collapse)
  from 1 x obtain t' where y: "?x = ((None, Some t'), s)" "Task_ID t' = 50" "se_faults s = []"
    by (auto split: option.splits)
  from task_create_get [OF y(1,3)] y show ?thesis by simp
qed

text \<open>No repository lookup of an execution ever returns \<open>ErrExecutionNotFound\<close>: a missing execution is a plain
  formatted error (a missing task, in contrast, is \<open>ErrTaskNotFound\<close>), so the comparisons of the callers with
  that sentinel never hold.\<close>

theorem execution_not_found_is_not_the_sentinel:
  "fst (execs_GetByID i s) \<noteq> Inl (Sentinel ErrExecutionNotFound) \<and>
   (if se_faults s = [] \<and> get_row Exec_ID i (T_execs (se_db s)) = None
    then fst (execs_GetByID i s) = Inl (ErrorfID ''task execution with ID '' i '' not found'') else True) \<and>
   (if se_faults s = [] \<and> get_row Task_ID i (T_tasks (se_db s)) = None
    then fst (tasks_GetByID i s) = Inl (Sentinel ErrTaskNotFound) else True)"
  by (auto simp: execs_GetByID_def tasks_GetByID_def run_stmt_def next_fault_def sql_get_def split: sum.splits prod.splits)

end
