(* ===== verification/ExecConfig.thy ===== *)
theory ExecConfig
  imports Models
begin

text \<open>
  The executor's data (\<open>internal/executor/interfaces.go\<close>) and its configuration
  (\<open>internal/executor/config.go\<close>): image selection, resource limits scaled by priority and cut at the
  security caps, the security configuration of a task, and the validation of a configuration.
  Products are \<open>i64\<close>: the code multiplies \<open>int64\<close> values without an overflow check.
\<close>

section \<open>Data\<close>

record ResourceLimits =
  MemoryLimitBytes :: int
  CPUQuota :: int
  PidsLimit :: int
  TimeoutSeconds :: int

record ImageConfig =
  Img_Python :: string
  Img_Bash :: string
  Img_JavaScript :: string
  Img_Go :: string

record SecuritySettings =
  EnableSeccomp :: bool
  SeccompProfilePath :: string
  EnableAppArmor :: bool
  AppArmorProfile :: string
  ExecutionUser :: string
  AllowedSyscalls :: "string list"
  MaxMemoryLimitBytes :: int
  MaxCPUQuota :: int
  MaxPidsLimit :: int
  MaxTimeoutSeconds :: int

record Config =
  DockerEndpoint :: string
  DefaultResourceLimits :: ResourceLimits
  DefaultTimeoutSeconds :: int
  Images :: ImageConfig
  Security :: SecuritySettings

text \<open>A Go map literal of mounts: the entries in the order a \<open>range\<close> loop meets them.\<close>

record SecurityConfig =
  SC_User :: string
  SC_NoNewPrivileges :: bool
  SC_ReadOnlyRootfs :: bool
  SC_NetworkDisabled :: bool
  SC_SecurityOpts :: "string list"
  SC_TmpfsMounts :: "(string \<times> string) list"
  SC_DropAllCapabilities :: bool

record ContainerConfig =
  CC_Image :: string
  CC_ScriptType :: ScriptType
  CC_ScriptContent :: string
  CC_Environment :: "string list"
  CC_WorkingDir :: string
  CC_ResourceLimits :: ResourceLimits
  CC_SecurityConfig :: SecurityConfig
  CC_Timeout :: int

record ExecutionResult =
  Res_Status :: ExecutionStatus
  Res_ReturnCode :: "int option"
  Res_Stdout :: "string option"
  Res_Stderr :: "string option"
  Res_ExecutionTimeMs :: "int option"
  Res_MemoryUsageBytes :: "int option"
  Res_StartedAt :: "time option"
  Res_CompletedAt :: "time option"

record ContainerSummary =
  Sum_ID :: string
  Sum_Names :: "string list"
  Sum_Image :: string
  Sum_Created :: int
  Sum_State :: string
  Sum_Status :: string

section \<open>Configuration\<close>

definition NewDefaultConfig :: Config where
  "NewDefaultConfig =
     \<lparr>DockerEndpoint = ''unix:///var/run/docker.sock'',
      DefaultResourceLimits =
        \<lparr>MemoryLimitBytes = 128 * 1024 * 1024, CPUQuota = 50000, PidsLimit = 128, TimeoutSeconds = 300\<rparr>,
      DefaultTimeoutSeconds = 300,
      Images =
        \<lparr>Img_Python = ''python:3.11-alpine'', Img_Bash = ''alpine:latest'',
         Img_JavaScript = ''node:18-alpine'', Img_Go = ''golang:1.21-alpine''\<rparr>,
      Security =
        \<lparr>EnableSeccomp = True, SeccompProfilePath = ''/opt/voidrunner/seccomp-profile.json'',
         EnableAppArmor = False, AppArmorProfile = ''voidrunner-executor'',
         ExecutionUser = ''1000:1000'',
         AllowedSyscalls =
           [''read'', ''write'', ''open'', ''close'', ''stat'', ''fstat'', ''lstat'',
            ''poll'', ''lseek'', ''mmap'', ''mprotect'', ''munmap'', ''brk'',
            ''access'', ''pipe'', ''select'', ''dup'', ''dup2'', ''getpid'',
            ''socket'', ''connect'', ''accept'', ''bind'', ''listen'', ''getsockname'',
            ''getpeername'', ''socketpair'', ''setsockopt'', ''getsockopt'',
            ''wait4'', ''kill'', ''uname'', ''fcntl'', ''flock'', ''fsync'',
            ''getcwd'', ''chdir'', ''rename'', ''mkdir'', ''rmdir'', ''creat'',
            ''unlink'', ''readlink'', ''chmod'', ''fchmod'', ''chown'', ''fchown'',
            ''umask'', ''gettimeofday'', ''getrlimit'', ''getrusage'', ''sysinfo'',
            ''times'', ''getuid'', ''getgid'', ''setuid'', ''setgid'', ''geteuid'',
            ''getegid'', ''getppid'', ''getpgrp'', ''setsid'', ''setreuid'',
            ''setregid'', ''getgroups'', ''setgroups'', ''setresuid'', ''getresuid'',
            ''setresgid'', ''getresgid'', ''getpgid'', ''setpgid'', ''getsid'',
            ''sethostname'', ''setrlimit'', ''getrlimit'', ''getrusage'', ''umask'',
            ''prctl'', ''getcpu'', ''exit'', ''exit_group''],
         MaxMemoryLimitBytes = 1024 * 1024 * 1024, MaxCPUQuota = 200000, MaxPidsLimit = 1000,
         MaxTimeoutSeconds = 3600\<rparr>\<rparr>"

definition GetImageForScriptType :: "Config \<Rightarrow> ScriptType \<Rightarrow> string" where
  "GetImageForScriptType c scriptType =
     (if scriptType = ScriptTypePython then Img_Python (Images c)
      else if scriptType = ScriptTypeBash then Img_Bash (Images c)
      else if scriptType = ScriptTypeJavaScript then Img_JavaScript (Images c)
      else if scriptType = ScriptTypeGo then Img_Go (Images c)
      else Img_Python (Images c))"

definition applySecurityCaps :: "Config \<Rightarrow> ResourceLimits \<Rightarrow> ResourceLimits" where
  "applySecurityCaps c limits0 =
     (let limits1 = (if MemoryLimitBytes limits0 > MaxMemoryLimitBytes (Security c)
                     then limits0\<lparr>MemoryLimitBytes := MaxMemoryLimitBytes (Security c)\<rparr> else limits0);
          limits2 = (if CPUQuota limits1 > MaxCPUQuota (Security c)
                     then limits1\<lparr>CPUQuota := MaxCPUQuota (Security c)\<rparr> else limits1);
          limits3 = (if PidsLimit limits2 > MaxPidsLimit (Security c)
                     then limits2\<lparr>PidsLimit := MaxPidsLimit (Security c)\<rparr> else limits2);
          limits4 = (if TimeoutSeconds limits3 > MaxTimeoutSeconds (Security c)
                     then limits3\<lparr>TimeoutSeconds := MaxTimeoutSeconds (Security c)\<rparr> else limits3)
      in limits4)"

definition scale_by_priority :: "Config \<Rightarrow> int \<Rightarrow> ResourceLimits \<Rightarrow> ResourceLimits" where
  "scale_by_priority c priority limits =
     (let m = MemoryLimitBytes (DefaultResourceLimits c); q = CPUQuota (DefaultResourceLimits c)
      in if priority \<in> {0, 1, 2} then limits\<lparr>MemoryLimitBytes := go_div m 2, CPUQuota := go_div q 2\<rparr>
         else if priority \<in> {3, 4, 5} then limits
         else if priority \<in> {6, 7, 8} then limits\<lparr>MemoryLimitBytes := i64 (m * 2), CPUQuota := i64 (q * 2)\<rparr>
         else if priority \<in> {9, 10} then limits\<lparr>MemoryLimitBytes := i64 (m * 4), CPUQuota := i64 (q * 2)\<rparr>
         else limits)"

definition GetResourceLimitsForTask :: "Config \<Rightarrow> Task \<Rightarrow> ResourceLimits" where
  "GetResourceLimitsForTask c task =
     (let limits0 = DefaultResourceLimits c;
          limits1 = (if Task_TimeoutSeconds task > 0
                     then limits0\<lparr>TimeoutSeconds := Task_TimeoutSeconds task\<rparr> else limits0);
          limits2 = scale_by_priority c (Task_Priority task) limits1
      in applySecurityCaps c limits2)"

definition GetSecurityConfigForTask :: "Config \<Rightarrow> Task \<Rightarrow> SecurityConfig" where
  "GetSecurityConfigForTask c task =
     (let securityOpts0 = [''no-new-privileges''];
          securityOpts1 = (if EnableSeccomp (Security c)
                           then securityOpts0 @ [''seccomp='' @ SeccompProfilePath (Security c)]
                           else securityOpts0);
          securityOpts2 = (if EnableAppArmor (Security c)
                           then securityOpts1 @ [''apparmor='' @ AppArmorProfile (Security c)]
                           else securityOpts1)
      in \<lparr>SC_User = ExecutionUser (Security c), SC_NoNewPrivileges = True, SC_ReadOnlyRootfs = True,
          SC_NetworkDisabled = True, SC_SecurityOpts = securityOpts2,
          SC_TmpfsMounts = [(''/tmp'', ''rw,noexec,nosuid,size=100m''),
                            (''/var/tmp'', ''rw,noexec,nosuid,size=10m'')],
          SC_DropAllCapabilities = True\<rparr>)"

definition GetTimeoutForTask :: "Config \<Rightarrow> Task \<Rightarrow> int" where
  "GetTimeoutForTask c task =
     (if Task_TimeoutSeconds task > 0 then i64 (Task_TimeoutSeconds task * Second)
      else i64 (DefaultTimeoutSeconds c * Second))"

definition Config_Validate :: "Config \<Rightarrow> go_error option" where
  "Config_Validate c =
     (if MemoryLimitBytes (DefaultResourceLimits c) \<le> 0
        then Some (ErrInvalidConfig ''memory limit must be positive'')
      else if CPUQuota (DefaultResourceLimits c) \<le> 0
        then Some (ErrInvalidConfig ''CPU quota must be positive'')
      else if PidsLimit (DefaultResourceLimits c) \<le> 0
        then Some (ErrInvalidConfig ''PID limit must be positive'')
      else if DefaultTimeoutSeconds c \<le> 0
        then Some (ErrInvalidConfig ''timeout must be positive'')
      else if Img_Python (Images c) = []
        then Some (ErrInvalidConfig ''Python image must be specified'')
      else if Img_Bash (Images c) = []
        then Some (ErrInvalidConfig ''Bash image must be specified'')
      else if MaxMemoryLimitBytes (Security c) \<le> 0
        then Some (ErrInvalidConfig ''maximum memory limit must be positive'')
      else if MaxCPUQuota (Security c) \<le> 0
        then Some (ErrInvalidConfig ''maximum CPU quota must be positive'')
      else if MaxPidsLimit (Security c) \<le> 0
        then Some (ErrInvalidConfig ''maximum PID limit must be positive'')
      else if MaxTimeoutSeconds (Security c) \<le> 0
        then Some (ErrInvalidConfig ''maximum timeout must be positive'')
      else if MemoryLimitBytes (DefaultResourceLimits c) > MaxMemoryLimitBytes (Security c)
        then Some (ErrInvalidConfig ''default memory limit exceeds security maximum'')
      else if CPUQuota (DefaultResourceLimits c) > MaxCPUQuota (Security c)
        then Some (ErrInvalidConfig ''default CPU quota exceeds security maximum'')
      else if PidsLimit (DefaultResourceLimits c) > MaxPidsLimit (Security c)
        then Some (ErrInvalidConfig ''default PID limit exceeds security maximum'')
      else if DefaultTimeoutSeconds c > MaxTimeoutSeconds (Security c)
        then Some (ErrInvalidConfig ''default timeout exceeds security maximum'')
      else None)"

section \<open>Limits\<close>

text \<open>\<open>within_caps c l\<close>: no limit of \<open>l\<close> exceeds the cap of the configuration.\<close>

definition within_caps :: "Config \<Rightarrow> ResourceLimits \<Rightarrow> bool" where
  "within_caps c l \<longleftrightarrow>
     MemoryLimitBytes l \<le> MaxMemoryLimitBytes (Security c) \<and> CPUQuota l \<le> MaxCPUQuota (Security c) \<and>
     PidsLimit l \<le> MaxPidsLimit (Security c) \<and> TimeoutSeconds l \<le> MaxTimeoutSeconds (Security c)"

definition positive_limits :: "ResourceLimits \<Rightarrow> bool" where
  "positive_limits l \<longleftrightarrow>
     0 < MemoryLimitBytes l \<and> 0 < CPUQuota l \<and> 0 < PidsLimit l \<and> 0 < TimeoutSeconds l"

text \<open>The caps are the pointwise minimum with the maxima.\<close>

lemma applySecurityCaps_eq:
  "applySecurityCaps c l =
     \<lparr>MemoryLimitBytes = min (MemoryLimitBytes l) (MaxMemoryLimitBytes (Security c)),
      CPUQuota = min (CPUQuota l) (MaxCPUQuota (Security c)),
      PidsLimit = min (PidsLimit l) (MaxPidsLimit (Security c)),
      TimeoutSeconds = min (TimeoutSeconds l) (MaxTimeoutSeconds (Security c))\<rparr>"
  by (simp add: applySecurityCaps_def Let_def min_def)

lemma applySecurityCaps_within: "within_caps c (applySecurityCaps c l)"
  by (simp add: within_caps_def applySecurityCaps_eq)

lemma applySecurityCaps_fixed: "within_caps c l \<Longrightarrow> applySecurityCaps c l = l"
  by (simp add: within_caps_def applySecurityCaps_eq min_absorb1)

lemma Config_Validate_None [go_spec]:
  "Config_Validate c = None \<longleftrightarrow>
     0 < MemoryLimitBytes (DefaultResourceLimits c) \<and> 0 < CPUQuota (DefaultResourceLimits c) \<and>
     0 < PidsLimit (DefaultResourceLimits c) \<and> 0 < DefaultTimeoutSeconds c \<and>
     Img_Python (Images c) \<noteq> [] \<and> Img_Bash (Images c) \<noteq> [] \<and>
     MemoryLimitBytes (DefaultResourceLimits c) \<le> MaxMemoryLimitBytes (Security c) \<and>
     CPUQuota (DefaultResourceLimits c) \<le> MaxCPUQuota (Security c) \<and>
     PidsLimit (DefaultResourceLimits c) \<le> MaxPidsLimit (Security c) \<and>
     DefaultTimeoutSeconds c \<le> MaxTimeoutSeconds (Security c)"
  unfolding Config_Validate_def by auto

lemma NewDefaultConfig_valid: "Config_Validate NewDefaultConfig = None"
  by (simp add: Config_Validate_None NewDefaultConfig_def)

section \<open>Properties of the limits\<close>

lemma scale_by_priority_cases:
  "scale_by_priority c p l = l \<or>
   (\<exists>m q. scale_by_priority c p l = l\<lparr>MemoryLimitBytes := m, CPUQuota := q\<rparr> \<and>
      (m, q) \<in> {(go_div (MemoryLimitBytes (DefaultResourceLimits c)) 2, go_div (CPUQuota (DefaultResourceLimits c)) 2),
                 (i64 (MemoryLimitBytes (DefaultResourceLimits c) * 2), i64 (CPUQuota (DefaultResourceLimits c) * 2)),
                 (i64 (MemoryLimitBytes (DefaultResourceLimits c) * 4), i64 (CPUQuota (DefaultResourceLimits c) * 2))})"
  by (auto simp: scale_by_priority_def Let_def)

lemma scaled_positive:
  assumes "2 \<le> x" and "x < 2 ^ 61"
  shows "0 < go_div x 2" and "0 < i64 (x * 2)" and "0 < i64 (x * 4)"
  using assms by (simp_all add: go_div_pos i64_id i64_range_def)

lemma resource_limits_ok:
  assumes "Config_Validate c = None"
    and "2 \<le> MemoryLimitBytes (DefaultResourceLimits c)" "MemoryLimitBytes (DefaultResourceLimits c) < 2 ^ 61"
    and "2 \<le> CPUQuota (DefaultResourceLimits c)" "CPUQuota (DefaultResourceLimits c) < 2 ^ 61"
    and "0 < TimeoutSeconds (DefaultResourceLimits c)"
  shows "within_caps c (GetResourceLimitsForTask c task) \<and> positive_limits (GetResourceLimitsForTask c task)"
proof -
  define l where "l = (if Task_TimeoutSeconds task > 0
    then (DefaultResourceLimits c)\<lparr>TimeoutSeconds := Task_TimeoutSeconds task\<rparr> else DefaultResourceLimits c)"
  have g: "GetResourceLimitsForTask c task = applySecurityCaps c (scale_by_priority c (Task_Priority task) l)"
    by (simp add: GetResourceLimitsForTask_def l_def Let_def)
  have pos: "0 < MemoryLimitBytes (DefaultResourceLimits c)" "0 < CPUQuota (DefaultResourceLimits c)"
    "0 < PidsLimit (DefaultResourceLimits c)" "0 < DefaultTimeoutSeconds c"
    using assms(1) by (simp_all add: Config_Validate_None)
  have caps: "0 < MaxMemoryLimitBytes (Security c)" "0 < MaxCPUQuota (Security c)"
    "0 < MaxPidsLimit (Security c)" "0 < MaxTimeoutSeconds (Security c)"
    using assms(1) by (auto simp: Config_Validate_None)
  have "positive_limits l"
    using pos assms(6) by (simp add: l_def positive_limits_def)
  then have "positive_limits (scale_by_priority c (Task_Priority task) l)"
    using scale_by_priority_cases [of c "Task_Priority task" l]
      scaled_positive [OF assms(2,3)] scaled_positive [OF assms(4,5)]
    by (auto simp: positive_limits_def)
  with caps have "positive_limits (applySecurityCaps c (scale_by_priority c (Task_Priority task) l))"
    by (simp add: applySecurityCaps_eq positive_limits_def)
  then show ?thesis by (simp add: g applySecurityCaps_within)
qed

text \<open>C23: Under a valid configuration whose default memory and CPU limits are at least 2 and far from the 64-bit
  bound, the limits of every task, whatever its priority and timeout, are positive and within the security
  caps.\<close>

theorem resource_limits_bounds:
  assumes "Config_Validate c = None"
    and "2 \<le> MemoryLimitBytes (DefaultResourceLimits c)" "MemoryLimitBytes (DefaultResourceLimits c) < 2 ^ 61"
    and "2 \<le> CPUQuota (DefaultResourceLimits c)" "CPUQuota (DefaultResourceLimits c) < 2 ^ 61"
    and "0 < TimeoutSeconds (DefaultResourceLimits c)"
  shows "within_caps c (GetResourceLimitsForTask c task) \<and> positive_limits (GetResourceLimitsForTask c task)"
  using assms by (rule resource_limits_ok)

theorem resource_limits_bounds_witness:
  "\<forall>task. positive_limits (GetResourceLimitsForTask NewDefaultConfig task)"
  using resource_limits_bounds [of NewDefaultConfig] NewDefaultConfig_valid
  by (simp add: NewDefaultConfig_def)

end
