(* ===== verification/ClientInterface.thy ===== *)
theory ClientInterface
  imports ExecConfig
begin

text \<open>
  What the executor and the cleanup manager see of a container runtime: Go contexts, the interface
  \<open>ContainerClient\<close> of \<open>internal/executor/interfaces.go\<close>, the decorator \<open>traced\<close> that records every call with
  its result, and the locale \<open>checked_client\<close>, the law an implementation of the interface promises its
  clients.

  The runtime and everything it can change is a value of type \<open>'w\<close>, passed and returned explicitly. A context
  that ends is given by the time at which it ends and the reason; \<open>context.Background()\<close> never ends.
\<close>

section \<open>Contexts\<close>

type_synonym Ctx = "(time \<times> sentinel) option"

abbreviation Background :: Ctx where "Background \<equiv> None"

text \<open>\<open>ctx.Err()\<close> at a given time.\<close>

definition ctx_Err :: "Ctx \<Rightarrow> time \<Rightarrow> go_error option" where
  "ctx_Err ctx now = (case ctx of None \<Rightarrow> None | Some (t, r) \<Rightarrow> if t \<le> now then Some (Sentinel r) else None)"

text \<open>\<open>context.WithTimeout\<close>: the child ends with its parent or at its own deadline, whichever comes first.\<close>

definition WithTimeout :: "Ctx \<Rightarrow> time \<Rightarrow> int \<Rightarrow> Ctx" where
  "WithTimeout parent now d =
     (case parent of
        None \<Rightarrow> Some (now + d, CtxDeadlineExceeded)
      | Some (t, r) \<Rightarrow> if t \<le> now \<or> t \<le> now + d then Some (t, r) else Some (now + d, CtxDeadlineExceeded))"

lemma ctx_Err_Background [simp]: "ctx_Err Background now = None"
  by (simp add: ctx_Err_def)

text \<open>A child context has ended whenever its parent has, and a context stays ended.\<close>

lemma ctx_Err_WithTimeout:
  "ctx_Err parent t \<noteq> None \<Longrightarrow> now \<le> t \<Longrightarrow> ctx_Err (WithTimeout parent now d) t \<noteq> None"
  by (auto simp: ctx_Err_def WithTimeout_def split: option.splits if_splits)

lemma ctx_Err_deadline: "0 \<le> d \<Longrightarrow> now + d \<le> t \<Longrightarrow> ctx_Err (WithTimeout parent now d) t \<noteq> None"
  by (auto simp: ctx_Err_def WithTimeout_def split: option.splits if_splits)

section \<open>The interface \<open>ContainerClient\<close>\<close>

record 'w ContainerClient =
  CreateContainer :: "Ctx \<Rightarrow> ContainerConfig option \<Rightarrow> 'w \<Rightarrow> (go_error + string) \<times> 'w"
  StartContainer :: "Ctx \<Rightarrow> string \<Rightarrow> 'w \<Rightarrow> go_error option \<times> 'w"
  WaitContainer :: "Ctx \<Rightarrow> string \<Rightarrow> 'w \<Rightarrow> (int \<times> go_error option) \<times> 'w"
  GetContainerLogs :: "Ctx \<Rightarrow> string \<Rightarrow> 'w \<Rightarrow> (string \<times> string \<times> go_error option) \<times> 'w"
  RemoveContainer :: "Ctx \<Rightarrow> string \<Rightarrow> bool \<Rightarrow> 'w \<Rightarrow> go_error option \<times> 'w"
  StopContainer :: "Ctx \<Rightarrow> string \<Rightarrow> int \<Rightarrow> 'w \<Rightarrow> go_error option \<times> 'w"
  IsHealthy :: "Ctx \<Rightarrow> 'w \<Rightarrow> go_error option \<times> 'w"
  ListContainers :: "Ctx \<Rightarrow> bool \<Rightarrow> 'w \<Rightarrow> (go_error + ContainerSummary list) \<times> 'w"
  PullImage :: "Ctx \<Rightarrow> string \<Rightarrow> 'w \<Rightarrow> go_error option \<times> 'w"
  GetDockerInfo :: "Ctx \<Rightarrow> 'w \<Rightarrow> (go_error + json) \<times> 'w"
  GetDockerVersion :: "Ctx \<Rightarrow> 'w \<Rightarrow> (go_error + json) \<times> 'w"

section \<open>Calls as events\<close>

datatype client_event =
    EvCreate "ContainerConfig option" "go_error + string"
  | EvStart string "go_error option"
  | EvWait string "int \<times> go_error option"
  | EvLogs string "string \<times> string \<times> go_error option"
  | EvRemove string bool "go_error option"
  | EvStop string int "go_error option"
  | EvHealthy "go_error option"
  | EvList bool "go_error + ContainerSummary list"
  | EvPull string "go_error option"
  | EvInfo "go_error + json"
  | EvVersion "go_error + json"

definition log_call :: "('w \<Rightarrow> 'a \<times> 'w) \<Rightarrow> ('a \<Rightarrow> client_event) \<Rightarrow> 'w \<times> client_event list \<Rightarrow> 'a \<times> 'w \<times> client_event list" where
  "log_call f ev s = (case f (fst s) of (r, w) \<Rightarrow> (r, w, snd s @ [ev r]))"

text \<open>A client that makes the same calls and appends each call with its result to a log.\<close>

definition traced :: "'w ContainerClient \<Rightarrow> ('w \<times> client_event list) ContainerClient" where
  "traced cl =
     \<lparr>CreateContainer = (\<lambda>ctx cfg. log_call (CreateContainer cl ctx cfg) (EvCreate cfg)),
      StartContainer = (\<lambda>ctx i. log_call (StartContainer cl ctx i) (EvStart i)),
      WaitContainer = (\<lambda>ctx i. log_call (WaitContainer cl ctx i) (EvWait i)),
      GetContainerLogs = (\<lambda>ctx i. log_call (GetContainerLogs cl ctx i) (EvLogs i)),
      RemoveContainer = (\<lambda>ctx i force. log_call (RemoveContainer cl ctx i force) (EvRemove i force)),
      StopContainer = (\<lambda>ctx i d. log_call (StopContainer cl ctx i d) (EvStop i d)),
      IsHealthy = (\<lambda>ctx. log_call (IsHealthy cl ctx) EvHealthy),
      ListContainers = (\<lambda>ctx all. log_call (ListContainers cl ctx all) (EvList all)),
      PullImage = (\<lambda>ctx img. log_call (PullImage cl ctx img) (EvPull img)),
      GetDockerInfo = (\<lambda>ctx. log_call (GetDockerInfo cl ctx) EvInfo),
      GetDockerVersion = (\<lambda>ctx. log_call (GetDockerVersion cl ctx) EvVersion)\<rparr>"

lemma traced_simps [simp]:
  "CreateContainer (traced cl) ctx cfg = log_call (CreateContainer cl ctx cfg) (EvCreate cfg)"
  "StartContainer (traced cl) ctx i = log_call (StartContainer cl ctx i) (EvStart i)"
  "WaitContainer (traced cl) ctx i = log_call (WaitContainer cl ctx i) (EvWait i)"
  "GetContainerLogs (traced cl) ctx i = log_call (GetContainerLogs cl ctx i) (EvLogs i)"
  "RemoveContainer (traced cl) ctx i force = log_call (RemoveContainer cl ctx i force) (EvRemove i force)"
  "StopContainer (traced cl) ctx i d = log_call (StopContainer cl ctx i d) (EvStop i d)"
  "IsHealthy (traced cl) ctx = log_call (IsHealthy cl ctx) EvHealthy"
  "ListContainers (traced cl) ctx all = log_call (ListContainers cl ctx all) (EvList all)"
  by (simp_all add: traced_def)

lemma log_call_eq [simp]: "log_call f ev (w, es) = (fst (f w), snd (f w), es @ [ev (fst (f w))])"
  by (simp add: log_call_def split: prod.splits)

section \<open>The law of a client\<close>

text \<open>
  \<open>checked_client cl valid\<close>: an operation on an identifier that is not \<open>valid\<close> fails and changes nothing.
  This is what protects the runtime from a malformed identifier, whoever calls.
\<close>

locale checked_client =
  fixes cl :: "'w ContainerClient"
    and valid :: "string \<Rightarrow> bool"
  assumes start_checked: "\<not> valid i \<Longrightarrow> \<exists>e. StartContainer cl ctx i w = (Some e, w)"
    and wait_checked: "\<not> valid i \<Longrightarrow> \<exists>e. WaitContainer cl ctx i w = ((- 1, Some e), w)"
    and logs_checked: "\<not> valid i \<Longrightarrow> \<exists>e. GetContainerLogs cl ctx i w = (([], [], Some e), w)"
    and remove_checked: "\<not> valid i \<Longrightarrow> \<exists>e. RemoveContainer cl ctx i force w = (Some e, w)"
    and stop_checked: "\<not> valid i \<Longrightarrow> \<exists>e. StopContainer cl ctx i d w = (Some e, w)"
begin

text \<open>Success means the identifier was valid.\<close>

lemma start_valid: "StartContainer cl ctx i w = (None, w') \<Longrightarrow> valid i"
  using start_checked [of i ctx w] by auto

lemma wait_valid: "WaitContainer cl ctx i w = ((code, None), w') \<Longrightarrow> valid i"
  using wait_checked [of i ctx w] by auto

lemma remove_valid: "RemoveContainer cl ctx i force w = (None, w') \<Longrightarrow> valid i"
  using remove_checked [of i ctx force w] by auto

lemma changed_valid:
  "snd (StartContainer cl ctx i w) \<noteq> w \<or> snd (RemoveContainer cl ctx i force w) \<noteq> w \<or>
   snd (StopContainer cl ctx i d w) \<noteq> w \<Longrightarrow> valid i"
  using start_checked [of i ctx w] remove_checked [of i ctx force w] stop_checked [of i ctx d w]
  by (metis snd_conv)

end

end
