(* ===== verification/ScriptChecks.thy ===== *)
theory ScriptChecks
  imports Models
begin

text \<open>
  The script validators of \<open>internal/executor/security.go\<close>: \<open>ValidateScriptContent\<close> and the
  language-specific \<open>validatePythonScript\<close>, \<open>validateBashScript\<close> and \<open>validateJavaScriptScript\<close>, with
  the pattern lists of the source and the two regular expressions as matchers. The validators get
  the content already lower-cased. What the lemmas show: exactly which contents are accepted.
\<close>

section \<open>Pattern lists\<close>

definition dangerousPatterns :: "string list" where
  "dangerousPatterns =
     [''rm -rf'', ''rm -r'', ''rmdir'', ''deltree'', ''format'', ''fdisk'', ''mkfs'', ''dd if='',
      ''wget'', ''curl'', ''docker'', ''kubectl'', ''podman'', ''containerd'', ''runc'',
      ''/var/run/docker.sock'', ''xmrig'', ''cpuminer'', ''ccminer'', ''minerd'', ''stratum'',
      ''setuid'', ''setgid'', ''ptrace'', ''chroot'']"

definition safeImports :: "string list" where
  "safeImports =
     [''import math'', ''import json'', ''import datetime'', ''import random'', ''import time'',
      ''import re'', ''import collections'', ''import itertools'', ''import functools'',
      ''import decimal'', ''import fractions'', ''import statistics'', ''import string'',
      ''import textwrap'', ''import unicodedata'', ''import base64'', ''import binascii'',
      ''import hashlib'', ''import hmac'', ''import uuid'', ''from math import'',
      ''from json import'', ''from datetime import'', ''from random import'', ''from time import'',
      ''from re import'', ''from collections import'', ''from itertools import'',
      ''from functools import'', ''from decimal import'', ''from fractions import'',
      ''from statistics import'', ''from string import'', ''from textwrap import'',
      ''from unicodedata import'', ''from base64 import'', ''from binascii import'',
      ''from hashlib import'', ''from hmac import'', ''from uuid import'']"

definition dangerousPythonPatterns :: "string list" where
  "dangerousPythonPatterns =
     [''import os'', ''import subprocess'', ''import sys'', ''import shutil'', ''import tempfile'',
      ''import multiprocessing'', ''import threading'', ''import signal'', ''import atexit'',
      ''from os import'', ''from subprocess import'', ''from sys import'', ''from shutil import'',
      ''from tempfile import'', ''from multiprocessing import'', ''from threading import'',
      ''from signal import'', ''from atexit import'', ''import socket'', ''import urllib'',
      ''import requests'', ''import http'', ''import smtplib'', ''import ftplib'',
      ''import poplib'', ''import imaplib'', ''import telnetlib'', ''from socket import'',
      ''from urllib import'', ''from requests import'', ''from http import'',
      ''from smtplib import'', ''from ftplib import'', ''from poplib import'',
      ''from imaplib import'', ''from telnetlib import'', ''__import__'', ''eval('', ''exec('',
      ''compile('', ''globals()'', ''locals()'', ''vars()'', ''getattr('', ''setattr('',
      ''delattr('', ''hasattr('', ''input('', ''raw_input('', ''importlib'', ''__builtins__'',
      ''__name__'', ''__file__'', ''__doc__'', ''__package__'', ''__loader__'', ''__spec__'',
      ''__path__'', ''__cached__'']"

definition dangerousBashPatterns :: "string list" where
  "dangerousBashPatterns =
     [''/dev/tcp/'', ''/dev/udp/'', ''source /'', ''. /'', ''export HOME='', ''export PATH='',
      ''export LD_'', ''export DYLD_'', ''history -c'', ''history -d'', ''fc -s'', ''nohup '',
      ''disown '', ''setsid '', ''daemon '', ''trap '', ''kill -'', ''killall '', ''pkill '',
      ''mount '', ''umount '', ''chroot '', ''pivot_root '', ''sudo '', ''su '', ''passwd '',
      ''chsh '', ''chfn '', ''newgrp '', ''sg '', ''uname -a'', ''hostname '', ''last '', ''w '',
      ''finger '', ''ping '', ''traceroute '', ''nslookup '', ''dig '', ''host '', ''netstat '',
      ''ss '', ''lsof '', ''fuser '', ''apt '', ''yum '', ''rpm '', ''dpkg '', ''snap '',
      ''flatpak '', ''brew '', ''port '', ''emerge '', ''pacman '', ''zypper '', ''/etc/passwd'',
      ''/etc/shadow'', ''/etc/group'', ''/etc/sudoers'', ''/root/'', ''/home/'', ''/Users/'',
      ''/var/log/'', ''/var/run/'', ''/proc/'', ''/sys/'', ''/dev/'', ''/var/tmp/'', ''> /'',
      ''>> /'', ''< /'', ''2> /'', ''2>> /'', ''&> /'', ''&>> /'', ''ssh '', ''scp '', ''rsync '',
      ''rcp '', ''telnet '', ''ftp '', ''sftp '', ''nc '', ''netcat '', ''socat '', ''tar '',
      ''gzip '', ''gunzip '', ''zip '', ''unzip '', ''7z '', ''rar '', ''unrar '', ''$HOME'',
      ''$PATH'', ''$USER'', ''$SHELL'', ''$PWD'', ''$OLDPWD'', ''$PS1'', ''$PS2'', ''$IFS'',
      ''$0'', ''$$'', ''$!'', ''$?'']"

definition safeRequirePatterns :: "string list" where
  "safeRequirePatterns =
     [''require('crypto')'', ''require('util')'', ''require('path')'', ''require('url')'',
      ''require('querystring')'', ''require('string_decoder')'', ''require('buffer')'',
      ''require('events')'', ''require('stream')'', ''require('assert')'', ''require('console')'',
      ''require('timers')'', ''require(\"crypto\")'', ''require(\"util\")'', ''require(\"path\")'',
      ''require(\"url\")'', ''require(\"querystring\")'', ''require(\"string_decoder\")'',
      ''require(\"buffer\")'', ''require(\"events\")'', ''require(\"stream\")'',
      ''require(\"assert\")'', ''require(\"console\")'', ''require(\"timers\")'']"

definition dangerousJSPatterns :: "string list" where
  "dangerousJSPatterns =
     [''require('fs')'', ''require('child_process')'', ''require('os')'', ''require('process')'',
      ''require('cluster')'', ''require('worker_threads')'', ''require('vm')'',
      ''require('module')'', ''require('repl')'', ''require('readline')'', ''require('tty')'',
      ''require(\"fs\")'', ''require(\"child_process\")'', ''require(\"os\")'',
      ''require(\"process\")'', ''require(\"cluster\")'', ''require(\"worker_threads\")'',
      ''require(\"vm\")'', ''require(\"module\")'', ''require(\"repl\")'',
      ''require(\"readline\")'', ''require(\"tty\")'', ''require('http')'', ''require('https')'',
      ''require('net')'', ''require('dgram')'', ''require('dns')'', ''require('tls')'',
      ''require(\"http\")'', ''require(\"https\")'', ''require(\"net\")'', ''require(\"dgram\")'',
      ''require(\"dns\")'', ''require(\"tls\")'', ''eval('', ''new Function('', ''Function('',
      ''setTimeout('', ''setInterval('', ''setImmediate('', ''process.exit('', ''process.env'',
      ''process.argv'', ''process.cwd('', ''process.chdir('', ''process.kill('',
      ''process.abort('', ''process.platform'', ''process.version'', ''process.versions'',
      ''global.'', ''globalThis.'', ''window.'', ''document.'', ''navigator.'', ''location.'',
      ''history.'', ''localStorage.'', ''sessionStorage.'', ''constructor('', ''__proto__'',
      ''prototype'', ''import '', ''export '', ''import('', ''execScript('',
      ''msWriteProfilerMark('', ''webkitRequestFileSystem('', ''webkitResolveLocalFileSystemURL('']"

definition safeModules :: "string list" where
  "safeModules =
     [''crypto'', ''util'', ''path'', ''url'', ''querystring'', ''string_decoder'', ''buffer'',
      ''events'', ''stream'', ''assert'', ''console'', ''timers'']"

lemmas pattern_lists =
  dangerousPatterns_def safeImports_def dangerousPythonPatterns_def dangerousBashPatterns_def
  safeRequirePatterns_def dangerousJSPatterns_def safeModules_def

section \<open>Python\<close>

abbreviation newline :: char where "newline \<equiv> CHR 0x0A"

definition is_import_line :: "string \<Rightarrow> bool" where
  "is_import_line line = (HasPrefix line ''import '' \<or> HasPrefix line ''from '')"

text \<open>The body of the loop over the lines: \<open>None\<close> is \<open>continue\<close> or falling through.\<close>

definition check_python_line :: "string \<Rightarrow> go_error option" where
  "check_python_line line0 =
     (let line = TrimSpace line0
      in if line = [] \<or> HasPrefix line ''#'' then None
         else if is_import_line line then
           (if list_ex (HasPrefix line) safeImports then None
            else err_each (\<lambda>pattern. fail_if (HasPrefix line pattern)
                   (NewSecurityError ''validate_python_script''
                      (''dangerous Python import detected: '' @ pattern) None))
                   dangerousPythonPatterns)
         else None)"

definition validatePythonScript :: "string \<Rightarrow> go_error option" where
  "validatePythonScript content =
     err_then (err_each check_python_line (Split content newline))
       (err_each (\<lambda>pattern.
            if is_import_line pattern then None
            else fail_if (Contains content pattern)
                   (NewSecurityError ''validate_python_script''
                      (''dangerous Python pattern detected: '' @ pattern) None))
          dangerousPythonPatterns)"

section \<open>Bash\<close>

text \<open>A match of the expression that wants two backticks with no backtick between them.\<close>

definition matches_backticks :: "string \<Rightarrow> bool" where
  "matches_backticks s =
     (case dropWhile (\<lambda>c. c \<noteq> CHR 0x60) s of [] \<Rightarrow> False | _ # t \<Rightarrow> CHR 0x60 \<in> set t)"

definition validateBashScript :: "string \<Rightarrow> go_error option" where
  "validateBashScript content =
     err_then
       (err_each (\<lambda>pattern. fail_if (Contains content pattern)
            (NewSecurityError ''validate_bash_script''
               (''dangerous Bash pattern detected: '' @ pattern) None))
          dangerousBashPatterns)
     (err_then
       (if Contains content ''$('' then
          err_each (\<lambda>pattern. fail_if (Contains content (''$('' @ pattern))
              (NewSecurityError ''validate_bash_script''
                 (''dangerous command substitution detected: $('' @ pattern) None))
            dangerousBashPatterns
        else None)
       (if Contains content [CHR 0x60] then
          fail_if (matches_backticks content)
            (NewSecurityError ''validate_bash_script''
               ''backtick command substitution detected (use $() instead)'' None)
        else None))"

section \<open>JavaScript\<close>

text \<open>
  The expression for \<open>require\<close> calls: the word, an opening parenthesis, a quote (either kind), the
  shortest text without a line break that is followed by a quote and a closing parenthesis, with
  white space allowed between. \<open>match_require\<close> matches it at the front of a string and returns the
  captured module name and the rest; \<open>require_modules\<close> are the captures of all successive matches.
\<close>

definition re_space :: "char \<Rightarrow> bool" where
  "re_space c = (c \<in> {CHR 0x09, CHR 0x0A, CHR 0x0C, CHR 0x0D, CHR 0x20})"

definition is_quote :: "char \<Rightarrow> bool" where
  "is_quote c = (c = CHR 0x27 \<or> c = CHR 0x22)"

definition close_require :: "string \<Rightarrow> string option" where
  "close_require s =
     (case s of [] \<Rightarrow> None
      | q # t \<Rightarrow>
          if is_quote q then
            (case dropWhile re_space t of [] \<Rightarrow> None | c # r \<Rightarrow> if c = CHR '')'' then Some r else None)
          else None)"

fun lazy_module :: "string \<Rightarrow> (string \<times> string) option" where
  "lazy_module [] = None"
| "lazy_module (c # t) =
     (case close_require (c # t) of
        Some r \<Rightarrow> Some ([], r)
      | None \<Rightarrow> if c = newline then None
                else (case lazy_module t of None \<Rightarrow> None | Some (m, r) \<Rightarrow> Some (c # m, r)))"

definition match_require :: "string \<Rightarrow> (string \<times> string) option" where
  "match_require s =
     (if HasPrefix s ''require'' then
        (case dropWhile re_space (drop 7 s) of
           [] \<Rightarrow> None
         | c # t \<Rightarrow>
             if c = CHR ''('' then
               (case dropWhile re_space t of
                  [] \<Rightarrow> None
                | q # u \<Rightarrow> if is_quote q then lazy_module u else None)
             else None)
      else None)"

lemma length_dropWhile_less: "dropWhile P xs = y # ys \<Longrightarrow> length ys < length xs"
  by (metis length_Cons length_dropWhile_le less_eq_Suc_le)

lemma close_require_shorter: "close_require s = Some r \<Longrightarrow> length r < length s"
  by (auto simp: close_require_def split: list.splits if_splits dest!: length_dropWhile_less)

lemma lazy_module_shorter: "lazy_module s = Some (m, r) \<Longrightarrow> length r < length s"
proof (induction s arbitrary: m)
  case (Cons c t)
  then show ?case
    by (auto split: option.splits if_splits prod.splits dest!: close_require_shorter)
qed simp

lemma match_require_shorter: "match_require s = Some (m, r) \<Longrightarrow> length r < length s"
proof -
  assume "match_require s = Some (m, r)"
  then obtain c t q u where t: "dropWhile re_space (drop 7 s) = c # t"
    and u: "dropWhile re_space t = q # u" and r: "lazy_module u = Some (m, r)"
    by (auto simp: match_require_def split: if_splits list.splits)
  show ?thesis
    using length_dropWhile_less [OF t] length_dropWhile_less [OF u] lazy_module_shorter [OF r]
    by (simp add: less_diff_conv)
qed

function require_modules :: "string \<Rightarrow> string list" where
  "require_modules s =
     (case match_require s of
        Some (m, r) \<Rightarrow> m # require_modules r
      | None \<Rightarrow> (case s of [] \<Rightarrow> [] | c # t \<Rightarrow> require_modules t))"
  by pat_completeness auto
termination
  by (relation "measure length") (auto dest: match_require_shorter)

declare require_modules.simps [simp del]

definition validateJavaScriptScript :: "string \<Rightarrow> go_error option" where
  "validateJavaScriptScript content =
     err_then
       (err_each (\<lambda>pattern.
            if Contains content pattern then
              fail_if (\<not> list_ex (Contains content) safeRequirePatterns)
                (NewSecurityError ''validate_javascript_script''
                   (''dangerous JavaScript pattern detected: '' @ pattern) None)
            else None)
          dangerousJSPatterns)
       (err_each (\<lambda>moduleName. fail_if (\<not> list_ex (\<lambda>safeModule. moduleName = safeModule) safeModules)
            (NewSecurityError ''validate_javascript_script''
               (''unsafe require module detected: '' @ moduleName) None))
          (require_modules content))"

section \<open>The script validator\<close>

definition sm_ValidateScriptContent :: "casemap \<Rightarrow> string \<Rightarrow> ScriptType \<Rightarrow> go_error option" where
  "sm_ValidateScriptContent uc content scriptType =
     (if content = [] then Some (NewSecurityError ''validate_script'' ''script content is empty'' None)
      else let lowerContent = ToLower uc content in
        err_then
          (if scriptType = ScriptTypePython then validatePythonScript lowerContent
           else if scriptType = ScriptTypeBash then validateBashScript lowerContent
           else if scriptType = ScriptTypeJavaScript then validateJavaScriptScript lowerContent
           else None)
          (err_each (\<lambda>pattern. fail_if (Contains lowerContent pattern)
               (NewSecurityError ''validate_script''
                  (''potentially dangerous pattern detected: '' @ pattern) None))
             dangerousPatterns))"

section \<open>What the validators accept\<close>

lemma validateBashScript_None [go_spec]:
  "validateBashScript s = None \<longleftrightarrow>
     (\<forall>p\<in>set dangerousBashPatterns. \<not> Contains s p) \<and> \<not> matches_backticks s"
proof -
  have "Contains s p" if "Contains s (''$('' @ p)" for p
    using that by (rule Contains_trans) (rule Contains_appendI2, simp add: HasPrefix_imp_Contains)
  moreover have "matches_backticks s \<Longrightarrow> Contains s [CHR 0x60]"
    by (induction s) (auto simp: matches_backticks_def split: if_splits)
  ultimately show ?thesis
    by (auto simp: validateBashScript_def)
qed

lemma validatePythonScript_None [go_spec]:
  "validatePythonScript s = None \<longleftrightarrow>
     (\<forall>l\<in>set (Split s newline). check_python_line l = None) \<and>
     (\<forall>p\<in>set dangerousPythonPatterns. is_import_line p \<or> \<not> Contains s p)"
  by (auto simp: validatePythonScript_def)

lemma validateJavaScriptScript_None [go_spec]:
  "validateJavaScriptScript s = None \<longleftrightarrow>
     ((\<exists>p\<in>set safeRequirePatterns. Contains s p) \<or> (\<forall>p\<in>set dangerousJSPatterns. \<not> Contains s p)) \<and>
     set (require_modules s) \<subseteq> set safeModules"
  by (auto simp: validateJavaScriptScript_def list_ex_iff)

lemma sm_ValidateScriptContent_None [go_spec]:
  "sm_ValidateScriptContent uc s t = None \<longleftrightarrow>
     s \<noteq> [] \<and>
     (t = ScriptTypePython \<longrightarrow> validatePythonScript (ToLower uc s) = None) \<and>
     (t = ScriptTypeBash \<longrightarrow> validateBashScript (ToLower uc s) = None) \<and>
     (t = ScriptTypeJavaScript \<longrightarrow> validateJavaScriptScript (ToLower uc s) = None) \<and>
     (\<forall>p\<in>set dangerousPatterns. \<not> Contains (ToLower uc s) p)"
  by (auto simp: sm_ValidateScriptContent_def Let_def)

lemma err_each_err_then_All:
  "(\<And>x e. x \<in> set xs \<Longrightarrow> f x = Some e \<Longrightarrow> P e) \<Longrightarrow> err_each f xs = Some e \<Longrightarrow> P e"
  by (induction xs) (auto simp: err_then_Some)

lemma security_error_is: "IsSecurityError (NewSecurityError op reason c)"
  by (cases c) (simp_all add: go_defs NewSecurityError_def)

text \<open>Every rejection of a language-specific validator is a security error.\<close>

lemma err_each_fail_if_security:
  assumes "err_each (\<lambda>x. if q x then None else fail_if (p x) (NewSecurityError op (m x) None)) xs = Some e"
  shows "IsSecurityError e"
  using assms
  by (rule err_each_err_then_All [rotated]) (auto simp: security_error_is split: if_splits)

lemmas err_each_fail_security =
  err_each_fail_if_security [where q = "\<lambda>_. False", simplified]

lemma check_python_line_security: "check_python_line l = Some e \<Longrightarrow> IsSecurityError e"
  by (auto simp: check_python_line_def Let_def dest: err_each_fail_security split: if_splits)

lemma check_python_lines_security: "err_each check_python_line ls = Some e \<Longrightarrow> IsSecurityError e"
  by (rule err_each_err_then_All [rotated]) (auto dest: check_python_line_security)

lemma validatePythonScript_security: "validatePythonScript s = Some e \<Longrightarrow> IsSecurityError e"
  unfolding validatePythonScript_def err_then_Some
  by (auto dest: err_each_fail_if_security check_python_lines_security)

lemma validateBashScript_security: "validateBashScript s = Some e \<Longrightarrow> IsSecurityError e"
  unfolding validateBashScript_def err_then_Some
  by (auto dest: err_each_fail_security simp: security_error_is split: if_splits)

lemma validateJavaScriptScript_security: "validateJavaScriptScript s = Some e \<Longrightarrow> IsSecurityError e"
proof -
  assume "validateJavaScriptScript s = Some e"
  then consider
      (pattern) "err_each (\<lambda>p. if Contains s p then fail_if (\<not> list_ex (Contains s) safeRequirePatterns)
          (NewSecurityError ''validate_javascript_script''
             (''dangerous JavaScript pattern detected: '' @ p) None) else None) dangerousJSPatterns = Some e"
    | (module) "err_each (\<lambda>m. fail_if (\<not> list_ex (\<lambda>safeModule. m = safeModule) safeModules)
          (NewSecurityError ''validate_javascript_script''
             (''unsafe require module detected: '' @ m) None)) (require_modules s) = Some e"
    unfolding validateJavaScriptScript_def err_then_Some by blast
  then show ?thesis
  proof cases
    case pattern
    then show ?thesis
      by (rule err_each_err_then_All [rotated]) (auto simp: security_error_is split: if_splits)
  next
    case module
    then show ?thesis by (rule err_each_fail_security)
  qed
qed

section \<open>Properties of the script validators\<close>

text \<open>A script is accepted exactly when it is not empty, the validator of its language accepts its
  lower-cased text, and none of the general dangerous patterns occurs in that text. For Go scripts and
  unknown types only the general patterns are checked.\<close>

theorem script_accepted_iff:
  "sm_ValidateScriptContent uc s t = None \<longleftrightarrow>
     (s \<noteq> [] \<and>
      (if t = ScriptTypePython then validatePythonScript (ToLower uc s) = None
       else if t = ScriptTypeBash then validateBashScript (ToLower uc s) = None
       else if t = ScriptTypeJavaScript then validateJavaScriptScript (ToLower uc s) = None
       else True) \<and>
      list_all (\<lambda>p. \<not> Contains (ToLower uc s) p) dangerousPatterns)"
  by (auto simp: sm_ValidateScriptContent_None list_all_iff)

text \<open>Every rejection of a script, on every path of every language validator, is a security error:
  \<open>IsSecurityError\<close> of the returned error holds.\<close>

theorem script_rejection_is_security_error:
  "sm_ValidateScriptContent uc s t = Some e \<Longrightarrow> IsSecurityError e"
  unfolding sm_ValidateScriptContent_def Let_def
  by (auto simp: err_then_Some security_error_is split: if_splits
      dest: validatePythonScript_security validateBashScript_security
        validateJavaScriptScript_security err_each_fail_security)

theorem script_rejection_is_security_error_witness:
  "\<exists>e. sm_ValidateScriptContent id ''curl x'' ''go'' = Some e \<and> IsSecurityError e"
proof -
  have "sm_ValidateScriptContent id ''curl x'' ''go'' =
      Some (NewSecurityError ''validate_script'' ''potentially dangerous pattern detected: curl'' None)"
    by code_simp
  then show ?thesis using script_rejection_is_security_error by blast
qed

text \<open>A Bash script is accepted exactly when no listed pattern occurs in it and it has fewer than two
  backticks. The loop that looks for a pattern right after a command substitution never decides: any
  such pattern was already found by the first loop.\<close>

theorem bash_accepted_iff:
  "validateBashScript s = None \<longleftrightarrow>
     list_all (\<lambda>p. \<not> Contains s p) dangerousBashPatterns \<and> length (filter (\<lambda>c. c = CHR 0x60) s) < 2"
proof -
  have "matches_backticks s \<longleftrightarrow> 2 \<le> length (filter (\<lambda>c. c = CHR 0x60) s)"
  proof (induction s)
    case (Cons c s)
    have "CHR 0x60 \<in> set s \<longleftrightarrow> 1 \<le> length (filter (\<lambda>c. c = CHR 0x60) s)"
      by (induction s) auto
    with Cons show ?case by (cases "c = CHR 0x60") (auto simp: matches_backticks_def)
  qed (simp add: matches_backticks_def)
  then show ?thesis by (auto simp: validateBashScript_None list_all_iff)
qed

text \<open>A JavaScript text that holds one of the safe \<open>require\<close> calls and requires only safe modules is
  accepted whatever else it contains: one safe \<open>require\<close> switches off every dangerous pattern,
  \<open>eval(\<close> included.\<close>

theorem safe_require_disarms_patterns:
  assumes "p \<in> set safeRequirePatterns" and "Contains s p" and "set (require_modules s) \<subseteq> set safeModules"
  shows "validateJavaScriptScript s = None"
  using assms by (auto simp: validateJavaScriptScript_None)

theorem safe_require_disarms_patterns_witness:
  "validateJavaScriptScript ''require('util');eval(x)'' = None \<and>
   ''eval('' \<in> set dangerousJSPatterns \<and> Contains ''require('util');eval(x)'' ''eval(''"
proof -
  have p: "''require('util')'' \<in> set safeRequirePatterns" by code_simp
  have c: "Contains ''require('util');eval(x)'' ''require('util')''" by code_simp
  have m: "set (require_modules ''require('util');eval(x)'') \<subseteq> set safeModules" by code_simp
  have "''eval('' \<in> set dangerousJSPatterns" "Contains ''require('util');eval(x)'' ''eval(''"
    by code_simp+
  with safe_require_disarms_patterns [OF p c m] show ?thesis by simp
qed

text \<open>The regular expression of the \<open>require\<close> calls, read declaratively.\<close>

definition require_at :: "string \<Rightarrow> string \<Rightarrow> string \<Rightarrow> bool" where
  "require_at s m r \<longleftrightarrow>
     (\<exists>w1 w2 q1 q2 w3. s = ''require'' @ w1 @ CHR ''('' # w2 @ q1 # m @ q2 # w3 @ CHR '')'' # r \<and>
        list_all re_space w1 \<and> list_all re_space w2 \<and> list_all re_space w3 \<and>
        is_quote q1 \<and> is_quote q2 \<and> newline \<notin> set m)"

definition closes :: "string \<Rightarrow> string \<Rightarrow> bool" where
  "closes s r \<longleftrightarrow> (\<exists>q w. s = q # w @ CHR '')'' # r \<and> is_quote q \<and> list_all re_space w)"

lemma dropWhile_split: "dropWhile P s = c # t \<longleftrightarrow> (\<exists>w. s = w @ c # t \<and> list_all P w \<and> \<not> P c)"
proof
  assume "dropWhile P s = c # t"
  then have "s = takeWhile P s @ c # t" "list_all P (takeWhile P s)" "\<not> P c"
    using takeWhile_dropWhile_id [of P s] hd_dropWhile [of P s]
    by (auto simp: list_all_iff dest: set_takeWhileD)
  then show "\<exists>w. s = w @ c # t \<and> list_all P w \<and> \<not> P c" by blast
next
  assume "\<exists>w. s = w @ c # t \<and> list_all P w \<and> \<not> P c"
  then show "dropWhile P s = c # t" by (auto simp: list_all_iff)
qed

lemma not_re_space [simp]:
  "\<not> re_space CHR '')''" "\<not> re_space CHR ''(''" "is_quote q \<Longrightarrow> \<not> re_space q"
  by (auto simp: re_space_def is_quote_def)

lemma close_require_Some: "close_require s = Some r \<longleftrightarrow> closes s r"
proof (cases s)
  case (Cons q t)
  have "(\<exists>r'. dropWhile re_space t = CHR '')'' # r' \<and> r' = r) \<longleftrightarrow>
      (\<exists>w. t = w @ CHR '')'' # r \<and> list_all re_space w)"
    by (auto simp: dropWhile_split)
  with Cons show ?thesis
    by (auto simp: close_require_def closes_def split: list.splits)
qed (simp add: close_require_def closes_def)

lemma lazy_module_sound:
  "lazy_module s = Some (m, r) \<Longrightarrow> \<exists>t. s = m @ t \<and> closes t r \<and> newline \<notin> set m"
proof (induction s arbitrary: m)
  case (Cons c s)
  then show ?case
    by (fastforce simp: close_require_Some split: option.splits if_splits)
qed simp

lemma lazy_module_complete:
  "newline \<notin> set m \<Longrightarrow> closes t r \<Longrightarrow> \<exists>m' r'. lazy_module (m @ t) = Some (m', r') \<and> length m' \<le> length m"
proof (induction m)
  case Nil
  then show ?case by (cases t) (auto simp: close_require_Some [symmetric] close_require_def)
next
  case (Cons c m)
  then show ?case by (fastforce split: option.splits)
qed



text \<open>Lower-casing leaves no upper-case letter in an ASCII text, so a pattern with one cannot occur.\<close>

lemma lower_char_not_upper: "\<not> is_upper (lower_char c)"
  by (auto simp: is_upper_def in_range_def lower_char_def)

lemma Contains_set: "Contains s p \<Longrightarrow> set p \<subseteq> set s"
  by (auto simp: Contains_iff_sublist sublist_def)

text \<open>For an ASCII script the patterns with an upper-case letter never match, because the content was
  lower-cased first: the Bash validator decides as it would without them, and the fourteen dead patterns
  are the ones for exported variables, \<open>/Users/\<close> and the shell variables.\<close>

theorem bash_uppercase_patterns_dead:
  assumes "is_ascii s"
  shows "(validateBashScript (ToLower uc s) = None \<longleftrightarrow>
      list_all (\<lambda>p. \<not> Contains (ToLower uc s) p) (filter (\<lambda>p. \<not> list_ex is_upper p) dangerousBashPatterns) \<and>
      \<not> matches_backticks (ToLower uc s)) \<and>
    filter (list_ex is_upper) dangerousBashPatterns =
      [''export HOME='', ''export PATH='', ''export LD_'', ''export DYLD_'', ''/Users/'', ''$HOME'', ''$PATH'',
       ''$USER'', ''$SHELL'', ''$PWD'', ''$OLDPWD'', ''$PS1'', ''$PS2'', ''$IFS'']"
proof (rule conjI)
  have "\<not> Contains (ToLower uc s) p" if "list_ex is_upper p" for p
  proof
    assume "Contains (ToLower uc s) p"
    from Contains_set [OF this] assms have "set p \<subseteq> lower_char ` set s" by (simp add: ToLower_def)
    with that show False by (auto simp: list_ex_iff lower_char_not_upper)
  qed
  then show "validateBashScript (ToLower uc s) = None \<longleftrightarrow>
      list_all (\<lambda>p. \<not> Contains (ToLower uc s) p) (filter (\<lambda>p. \<not> list_ex is_upper p) dangerousBashPatterns) \<and>
      \<not> matches_backticks (ToLower uc s)"
    by (auto simp: validateBashScript_None list_all_iff)
  show "filter (list_ex is_upper) dangerousBashPatterns =
      [''export HOME='', ''export PATH='', ''export LD_'', ''export DYLD_'', ''/Users/'', ''$HOME'', ''$PATH'',
       ''$USER'', ''$SHELL'', ''$PWD'', ''$OLDPWD'', ''$PS1'', ''$PS2'', ''$IFS'']"
    by code_simp
qed

theorem bash_uppercase_patterns_dead_witness:
  "is_ascii ''Echo $HOME'' \<and> validateBashScript (ToLower id ''Echo $HOME'') = None"
proof -
  have a: "is_ascii ''Echo $HOME''" by code_simp
  have "list_all (\<lambda>p. \<not> Contains (ToLower id ''Echo $HOME'') p)
      (filter (\<lambda>p. \<not> list_ex is_upper p) dangerousBashPatterns)" by code_simp
  moreover have "\<not> matches_backticks (ToLower id ''Echo $HOME'')" by code_simp
  ultimately show ?thesis using a bash_uppercase_patterns_dead [OF a, of id] by simp
qed

text \<open>A Python script is accepted exactly when no dangerous pattern other than an import occurs in it and
  every line that is an import (after trimming) starts with a safe import or with no dangerous one. The safe
  import is compared as a prefix, so a line that starts with \<open>import requests\<close> passes as \<open>import re\<close>:
  that is the one dangerous import the safe list hides.\<close>

theorem python_accepted_iff:
  "(validatePythonScript s = None \<longleftrightarrow>
     list_all (\<lambda>p. is_import_line p \<or> \<not> Contains s p) dangerousPythonPatterns \<and>
     list_all (\<lambda>l. \<not> is_import_line (TrimSpace l) \<or> list_ex (HasPrefix (TrimSpace l)) safeImports \<or>
                  \<not> list_ex (HasPrefix (TrimSpace l)) dangerousPythonPatterns) (Split s newline)) \<and>
    filter (\<lambda>p. is_import_line p \<and> list_ex (HasPrefix p) safeImports) dangerousPythonPatterns =
      [''import requests'']"
proof (rule conjI)
  have "check_python_line l = None \<longleftrightarrow>
      \<not> is_import_line (TrimSpace l) \<or> list_ex (HasPrefix (TrimSpace l)) safeImports \<or>
      \<not> list_ex (HasPrefix (TrimSpace l)) dangerousPythonPatterns" for l
  proof -
    have "\<not> is_import_line x" if "x = [] \<or> HasPrefix x ''#''" for x
      using that by (cases x) (auto simp: is_import_line_def)
    then show ?thesis by (auto simp: check_python_line_def Let_def list_ex_iff)
  qed
  then show "validatePythonScript s = None \<longleftrightarrow>
     list_all (\<lambda>p. is_import_line p \<or> \<not> Contains s p) dangerousPythonPatterns \<and>
     list_all (\<lambda>l. \<not> is_import_line (TrimSpace l) \<or> list_ex (HasPrefix (TrimSpace l)) safeImports \<or>
                  \<not> list_ex (HasPrefix (TrimSpace l)) dangerousPythonPatterns) (Split s newline)"
    by (auto simp: validatePythonScript_None list_all_iff)
  show "filter (\<lambda>p. is_import_line p \<and> list_ex (HasPrefix p) safeImports) dangerousPythonPatterns =
      [''import requests'']"
    by code_simp
qed

theorem python_accepted_iff_witness:
  "validatePythonScript ''import requests'' = None"
proof -
  have p: "list_all (\<lambda>p. is_import_line p \<or> \<not> Contains ''import requests'' p) dangerousPythonPatterns"
    by code_simp
  have l: "list_all (\<lambda>l. \<not> is_import_line (TrimSpace l) \<or> list_ex (HasPrefix (TrimSpace l)) safeImports \<or>
                  \<not> list_ex (HasPrefix (TrimSpace l)) dangerousPythonPatterns)
        (Split ''import requests'' newline)"
    by code_simp
  show ?thesis using p l python_accepted_iff [of "''import requests''"] by blast
qed

end
