(* ===== verification/SecurityManager.thy ===== *)
theory SecurityManager
  imports ScriptChecks ExecConfig
begin

text \<open>
  The rest of \<open>internal/executor/security.go\<close>: the security configuration of a task, the validation of a
  container configuration (user, capabilities, security options, tmpfs mounts, resource limits, image,
  working directory, environment, timeout) and the sanitising of the environment. A \<open>SecurityManager\<close> holds
  only its \<open>Config\<close>, which is the first argument \<open>c\<close>. \<open>os.Stat\<close> is the argument \<open>stat\<close>: the state of the
  file system at the call.
\<close>

section \<open>Lists of the source\<close>

definition dangerousWorkingPaths :: "string list" where
  "dangerousWorkingPaths =
     [''/etc'', ''/root'', ''/home'', ''/var/log'', ''/var/run'', ''/proc'', ''/sys'', ''/dev'',
      ''/bin'', ''/sbin'', ''/usr/bin'', ''/usr/sbin'', ''/opt/voidrunner'']"

definition dangerousEnvPatterns :: "string list" where
  "dangerousEnvPatterns =
     [''LD_PRELOAD='', ''LD_LIBRARY_PATH='', ''DOCKER_HOST='', ''KUBERNETES_'', ''SECRET='',
      ''PASSWORD='', ''TOKEN='', ''KEY='', ''CREDENTIAL='']"

definition allowedImages :: "string list" where
  "allowedImages =
     [''python:3.11-alpine'', ''python:3.10-alpine'', ''python:3.9-alpine'', ''alpine:latest'',
      ''alpine:3.18'', ''alpine:3.17'', ''node:18-alpine'', ''node:16-alpine'',
      ''golang:1.21-alpine'', ''golang:1.20-alpine'']"

definition allowedEnvPrefixes :: "string list" where
  "allowedEnvPrefixes =
     [''PATH='', ''HOME='', ''USER='', ''LANG='', ''LC_'', ''TZ='', ''PYTHONPATH='',
      ''PYTHONIOENCODING='', ''NODE_ENV='', ''GOPATH='', ''GOOS='', ''GOARCH='']"

definition dangerousEnvVars :: "string list" where
  "dangerousEnvVars =
     [''LD_PRELOAD'', ''LD_LIBRARY_PATH'', ''DOCKER_HOST'', ''KUBERNETES_'', ''AWS_'', ''AZURE_'',
      ''GCP_'', ''SECRET'', ''PASSWORD'', ''TOKEN'', ''KEY'', ''CREDENTIAL'']"

definition safeEnvDefaults :: "string list" where
  "safeEnvDefaults =
     [''PATH=/usr/local/bin:/usr/bin:/bin'', ''HOME=/tmp'', ''USER=executor'',
      ''PYTHONIOENCODING=utf-8'']"

section \<open>Files\<close>

record FileInfo =
  FI_IsDir :: bool
  FI_Perm :: nat

type_synonym file_stat = "string \<Rightarrow> go_error + FileInfo"

definition mode_0600 :: nat where "mode_0600 = 384"
definition mode_0700 :: nat where "mode_0700 = 448"

definition quoted :: "string \<Rightarrow> string" where "quoted s = CHR 0x27 # s @ [CHR 0x27]"

text \<open>The octal rendering \<open>%o\<close> of a mode.\<close>

fun show_oct :: "nat \<Rightarrow> string" where
  "show_oct n = (if n < 8 then [digit n] else show_oct (n div 8) @ [digit (n mod 8)])"

declare show_oct.simps [simp del]

definition validateSecureDirectory :: "file_stat \<Rightarrow> string \<Rightarrow> go_error option" where
  "validateSecureDirectory stat dirPath =
     (case stat dirPath of
        Inl err \<Rightarrow> Some (Wrapf ''directory does not exist'' err)
      | Inr info \<Rightarrow>
          if \<not> FI_IsDir info then Some (Errorf (''path is not a directory: '' @ dirPath))
          else if FI_Perm info \<noteq> mode_0700
            then Some (Errorf (''directory has insecure permissions '' @ show_oct (FI_Perm info) @ '', expected 0700''))
          else None)"

definition validateFilePermissions :: "file_stat \<Rightarrow> string \<Rightarrow> nat \<Rightarrow> go_error option" where
  "validateFilePermissions stat filePath expectedMode =
     (case stat filePath of
        Inl err \<Rightarrow> Some (Wrapf ''file does not exist'' err)
      | Inr info \<Rightarrow>
          fail_if (FI_Perm info \<noteq> expectedMode)
            (Errorf (''file has incorrect permissions '' @ show_oct (FI_Perm info) @ '', expected '' @
                     show_oct expectedMode)))"

definition validateSeccompProfilePath :: "file_stat \<Rightarrow> string \<Rightarrow> go_error option" where
  "validateSeccompProfilePath stat profilePath =
     (if profilePath = []
        then Some (NewSecurityError ''validate_seccomp_profile'' ''seccomp profile path is empty'' None)
      else if \<not> HasPrefix profilePath ''/''
        then Some (NewSecurityError ''validate_seccomp_profile'' ''seccomp profile path must be absolute'' None)
      else map_option (Wrapf ''seccomp profile file validation failed'')
             (validateFilePermissions stat profilePath mode_0600))"

section \<open>The parts of a container configuration\<close>

definition validateUserSpecification :: "string \<Rightarrow> go_error option" where
  "validateUserSpecification user =
     (if user = ''root'' \<or> user = ''0'' \<or> user = ''0:0''
        then Some (NewSecurityError ''validate_user_specification'' ''root user execution is not allowed'' None)
      else (case Split user (CHR '':'') of
          [uid, gid] \<Rightarrow>
            (if uid = ''0''
               then Some (NewSecurityError ''validate_user_specification'' ''UID 0 (root) is not allowed'' None)
             else if gid = ''0''
               then Some (NewSecurityError ''validate_user_specification'' ''GID 0 (root) is not allowed'' None)
             else None)
        | _ \<Rightarrow> Some (NewSecurityError ''validate_user_specification'' ''user must be in UID:GID format'' None)))"

definition check_security_option :: "file_stat \<Rightarrow> string \<Rightarrow> go_error option" where
  "check_security_option stat opt =
     err_then
       (if HasPrefix opt ''seccomp='' then
          (let seccompProfile = TrimPrefix opt ''seccomp=''
           in if seccompProfile \<noteq> ''unconfined'' \<and> seccompProfile \<noteq> [] then
                map_option (Wrapf ''seccomp profile validation failed'')
                  (validateSeccompProfilePath stat seccompProfile)
              else None)
        else None)
       (if HasPrefix opt ''apparmor='' then
          fail_if (TrimPrefix opt ''apparmor='' = ''unconfined'')
            (NewSecurityError ''validate_security_options'' ''AppArmor unconfined profile is not allowed'' None)
        else None)"

definition validateSecurityOptions :: "file_stat \<Rightarrow> string list \<Rightarrow> go_error option" where
  "validateSecurityOptions stat opts =
     err_then (err_each (check_security_option stat) opts)
       (fail_if (\<not> list_ex (\<lambda>opt. HasPrefix opt ''no-new-privileges'') opts)
          (NewSecurityError ''validate_security_options''
             ''required security option 'no-new-privileges' is missing'' None))"

text \<open>
  The required options are checked by ranging over a map with the keys \<open>noexec\<close> and \<open>nosuid\<close>; when both
  are missing the order of that range decides which one the message names. The argument \<open>ro\<close> is that order.
\<close>

definition validateTmpfsOptions :: "string list \<Rightarrow> string \<Rightarrow> go_error option" where
  "validateTmpfsOptions ro options =
     (let opts = map TrimSpace (Split options (CHR '',''))
      in err_then
           (err_each (\<lambda>opt. err_then
                (fail_if (opt = ''exec'')
                   (NewSecurityError ''validate_tmpfs_options'' ''exec option is not allowed in tmpfs mounts'' None))
                (fail_if (opt = ''suid'')
                   (NewSecurityError ''validate_tmpfs_options'' ''suid option is not allowed in tmpfs mounts'' None)))
              opts)
           (err_each (\<lambda>req. fail_if (req \<notin> set opts)
              (NewSecurityError ''validate_tmpfs_options''
                 (''required tmpfs option '' @ quoted req @ '' is missing'') None)) ro))"

definition allowedTmpfsPaths :: "string list" where
  "allowedTmpfsPaths = [''/tmp'', ''/var/tmp'', ''/workspace'', ''/run'']"

definition validateTmpfsMounts :: "string list \<Rightarrow> (string \<times> string) list \<Rightarrow> go_error option" where
  "validateTmpfsMounts ro mounts =
     err_each (\<lambda>(path, options).
        if path \<notin> set allowedTmpfsPaths
          then Some (NewSecurityError ''validate_tmpfs_mounts''
                 (''tmpfs mount path '' @ quoted path @ '' is not allowed'') None)
        else map_option (Wrapf (''tmpfs options validation failed for path '' @ quoted path))
               (validateTmpfsOptions ro options))
       mounts"

definition validateSecurityConfig :: "file_stat \<Rightarrow> string list \<Rightarrow> SecurityConfig \<Rightarrow> go_error option" where
  "validateSecurityConfig stat ro config =
     err_then (fail_if (SC_User config = [])
                 (NewSecurityError ''validate_security_config'' ''user must be specified'' None))
    (err_then (map_option (Wrapf ''user specification validation failed'')
                 (validateUserSpecification (SC_User config)))
    (err_then (fail_if (\<not> SC_ReadOnlyRootfs config)
                 (NewSecurityError ''validate_security_config'' ''read-only root filesystem must be enabled'' None))
    (err_then (fail_if (\<not> SC_NetworkDisabled config)
                 (NewSecurityError ''validate_security_config'' ''network must be disabled for security'' None))
    (err_then (fail_if (\<not> SC_NoNewPrivileges config)
                 (NewSecurityError ''validate_security_config'' ''no-new-privileges must be enabled'' None))
    (err_then (fail_if (\<not> SC_DropAllCapabilities config)
                 (NewSecurityError ''validate_security_config'' ''all capabilities must be dropped'' None))
    (err_then (map_option (Wrapf ''security options validation failed'')
                 (validateSecurityOptions stat (SC_SecurityOpts config)))
              (map_option (Wrapf ''tmpfs mounts validation failed'')
                 (validateTmpfsMounts ro (SC_TmpfsMounts config)))))))))"

definition validateResourceLimits :: "Config \<Rightarrow> ResourceLimits \<Rightarrow> go_error option" where
  "validateResourceLimits c limits =
     (if MemoryLimitBytes limits \<le> 0
        then Some (NewSecurityError ''validate_resource_limits'' ''memory limit must be positive'' None)
      else if MemoryLimitBytes limits > MaxMemoryLimitBytes (Security c)
        then Some (NewSecurityError ''validate_resource_limits''
          (''memory limit ('' @ show_int (MemoryLimitBytes limits) @ '' bytes) exceeds maximum allowed ('' @
           show_int (MaxMemoryLimitBytes (Security c)) @ '' bytes)'') None)
      else if CPUQuota limits \<le> 0
        then Some (NewSecurityError ''validate_resource_limits'' ''CPU quota must be positive'' None)
      else if CPUQuota limits > MaxCPUQuota (Security c)
        then Some (NewSecurityError ''validate_resource_limits''
          (''CPU quota ('' @ show_int (CPUQuota limits) @ '') exceeds maximum allowed ('' @
           show_int (MaxCPUQuota (Security c)) @ '')'') None)
      else if PidsLimit limits \<le> 0
        then Some (NewSecurityError ''validate_resource_limits'' ''PID limit must be positive'' None)
      else if PidsLimit limits > MaxPidsLimit (Security c)
        then Some (NewSecurityError ''validate_resource_limits''
          (''PID limit ('' @ show_int (PidsLimit limits) @ '') exceeds maximum allowed ('' @
           show_int (MaxPidsLimit (Security c)) @ '')'') None)
      else if TimeoutSeconds limits \<le> 0
        then Some (NewSecurityError ''validate_resource_limits'' ''timeout must be positive'' None)
      else if TimeoutSeconds limits > MaxTimeoutSeconds (Security c)
        then Some (NewSecurityError ''validate_resource_limits''
          (''timeout ('' @ show_int (TimeoutSeconds limits) @ '' seconds) exceeds maximum allowed ('' @
           show_int (MaxTimeoutSeconds (Security c)) @ '' seconds)'') None)
      else None)"

definition validateWorkingDirectory :: "string \<Rightarrow> go_error option" where
  "validateWorkingDirectory workingDir =
     (if workingDir = []
        then Some (NewSecurityError ''validate_working_directory'' ''working directory must be specified'' None)
      else if \<not> HasPrefix workingDir ''/''
        then Some (NewSecurityError ''validate_working_directory'' ''working directory must be an absolute path'' None)
      else err_each (\<lambda>dangerousPath. fail_if (HasPrefix workingDir dangerousPath)
             (NewSecurityError ''validate_working_directory''
                (''working directory '' @ quoted workingDir @ '' is in restricted path '' @ quoted dangerousPath)
                None))
             dangerousWorkingPaths)"

definition validateEnvironmentVariables :: "casemap \<Rightarrow> string list \<Rightarrow> go_error option" where
  "validateEnvironmentVariables uc env =
     err_each (\<lambda>envVar. if envVar = [] then None
        else err_each (\<lambda>pattern. fail_if (HasPrefix (ToUpper uc envVar) pattern)
               (NewSecurityError ''validate_environment_variables''
                  (''dangerous environment variable pattern detected: '' @ pattern) None))
               dangerousEnvPatterns)
       env"

definition GenerateContainerName :: "string \<Rightarrow> string" where
  "GenerateContainerName taskID = ''voidrunner-task-'' @ taskID"

definition CheckImageSecurity :: "string \<Rightarrow> go_error option" where
  "CheckImageSecurity img =
     (if img = [] then Some (NewSecurityError ''check_image_security'' ''image name is empty'' None)
      else fail_if (img \<notin> set allowedImages)
             (NewSecurityError ''check_image_security'' (''image '' @ img @ '' is not in the allowed list'') None))"

text \<open>
  \<open>int(config.Timeout.Seconds())\<close> goes through a \<open>float64\<close>, which holds the seconds of a timeout up to
  \<open>2 ^ 23\<close> seconds (97 days) closely enough that truncating it is integer division.
\<close>

definition duration_seconds :: "int \<Rightarrow> int" where
  "duration_seconds d = go_div d Second"

definition ValidateContainerConfig ::
    "casemap \<Rightarrow> file_stat \<Rightarrow> string list \<Rightarrow> Config \<Rightarrow> ContainerConfig option \<Rightarrow> go_error option" where
  "ValidateContainerConfig uc stat ro c config0 =
     (case config0 of
        None \<Rightarrow> Some (NewSecurityError ''validate_container_config'' ''container config is nil'' None)
      | Some config \<Rightarrow>
          err_then (map_option (Wrapf ''security config validation failed'')
                      (validateSecurityConfig stat ro (CC_SecurityConfig config)))
         (err_then (map_option (Wrapf ''resource limits validation failed'')
                      (validateResourceLimits c (CC_ResourceLimits config)))
         (err_then (map_option (Wrapf ''image security validation failed'')
                      (CheckImageSecurity (CC_Image config)))
         (err_then (map_option (Wrapf ''working directory validation failed'')
                      (validateWorkingDirectory (CC_WorkingDir config)))
         (err_then (map_option (Wrapf ''environment validation failed'')
                      (validateEnvironmentVariables uc (CC_Environment config)))
         (err_then (fail_if (CC_Timeout config \<le> 0)
                      (NewSecurityError ''validate_container_config'' ''timeout must be positive'' None))
                   (fail_if (duration_seconds (CC_Timeout config) > MaxTimeoutSeconds (Security c))
                      (NewSecurityError ''validate_container_config''
                         (''timeout exceeds maximum allowed ('' @ show_int (MaxTimeoutSeconds (Security c)) @
                          '' seconds)'') None))))))))"

section \<open>Security configuration and environment\<close>

definition BuildSecurityConfig :: "casemap \<Rightarrow> Config \<Rightarrow> Task option \<Rightarrow> go_error + SecurityConfig" where
  "BuildSecurityConfig uc c task0 =
     (case task0 of
        None \<Rightarrow> Inl (NewSecurityError ''build_security_config'' ''task is nil'' None)
      | Some task \<Rightarrow>
          (case sm_ValidateScriptContent uc (Task_ScriptContent task) (Task_ScriptType task) of
             Some err \<Rightarrow> Inl (Wrapf ''script security validation failed'' err)
           | None \<Rightarrow>
               (let securityOpts0 = [''no-new-privileges''];
                    securityOpts1 =
                      (if EnableSeccomp (Security c) then
                         (if SeccompProfilePath (Security c) \<noteq> []
                          then securityOpts0 @ [''seccomp='' @ SeccompProfilePath (Security c)]
                          else securityOpts0 @ [''seccomp=unconfined''])
                       else securityOpts0);
                    securityOpts2 =
                      (if EnableAppArmor (Security c) \<and> AppArmorProfile (Security c) \<noteq> []
                       then securityOpts1 @ [''apparmor='' @ AppArmorProfile (Security c)]
                       else securityOpts1)
                in Inr \<lparr>SC_User = ExecutionUser (Security c), SC_NoNewPrivileges = True,
                        SC_ReadOnlyRootfs = True, SC_NetworkDisabled = True,
                        SC_SecurityOpts = securityOpts2,
                        SC_TmpfsMounts = [(''/tmp'', ''rw,noexec,nosuid,size=100m''),
                                          (''/var/tmp'', ''rw,noexec,nosuid,size=10m''),
                                          (''/workspace'', ''rw,noexec,nosuid,size=50m'')],
                        SC_DropAllCapabilities = True\<rparr>)))"

definition env_allowed :: "casemap \<Rightarrow> string \<Rightarrow> bool" where
  "env_allowed uc envVar =
     (list_ex (HasPrefix envVar) allowedEnvPrefixes \<and>
      \<not> list_ex (Contains (ToUpper uc envVar)) dangerousEnvVars)"

definition SanitizeEnvironment :: "casemap \<Rightarrow> string list \<Rightarrow> string list" where
  "SanitizeEnvironment uc env = filter (env_allowed uc) env @ safeEnvDefaults"

section \<open>What the validators accept\<close>

lemma Split_pair: "Split s c = [u, v] \<longleftrightarrow> s = u @ c # v \<and> c \<notin> set u \<and> c \<notin> set v"
proof
  assume "Split s c = [u, v]"
  then show "s = u @ c # v \<and> c \<notin> set u \<and> c \<notin> set v"
    using join_Split [of c s] Split_no_sep [of u s c] Split_no_sep [of v s c] by simp
next
  have single: "c \<notin> set v \<Longrightarrow> Split v c = [v]" for v by (induction v) auto
  have "c \<notin> set u \<Longrightarrow> c \<notin> set v \<Longrightarrow> Split (u @ c # v) c = [u, v]"
    by (induction u) (auto simp: single)
  moreover assume "s = u @ c # v \<and> c \<notin> set u \<and> c \<notin> set v"
  ultimately show "Split s c = [u, v]" by simp
qed

lemma validateUserSpecification_None [go_spec]:
  "validateUserSpecification user = None \<longleftrightarrow>
     (\<exists>uid gid. user = uid @ CHR '':'' # gid \<and> CHR '':'' \<notin> set uid \<and> CHR '':'' \<notin> set gid \<and>
        uid \<noteq> ''0'' \<and> gid \<noteq> ''0'')"
proof -
  have "validateUserSpecification user = None \<longleftrightarrow>
      (\<exists>uid gid. Split user (CHR '':'') = [uid, gid] \<and> uid \<noteq> ''0'' \<and> gid \<noteq> ''0'')"
    by (auto simp: validateUserSpecification_def split: list.splits)
  then show ?thesis by (auto simp: Split_pair)
qed

lemma validateSeccompProfilePath_None [go_spec]:
  "validateSeccompProfilePath stat path = None \<longleftrightarrow>
     HasPrefix path ''/'' \<and> (\<exists>info. stat path = Inr info \<and> FI_Perm info = mode_0600)"
  by (auto simp: validateSeccompProfilePath_def validateFilePermissions_def split: sum.splits)

text \<open>\<open>seccomp_ok\<close>: the profile a \<open>seccomp=\<close> option names is unconfined, empty or a readable file of mode 0600.\<close>

definition seccomp_ok :: "file_stat \<Rightarrow> string \<Rightarrow> bool" where
  "seccomp_ok stat profile \<longleftrightarrow>
     profile = ''unconfined'' \<or> profile = [] \<or>
     (HasPrefix profile ''/'' \<and> (\<exists>info. stat profile = Inr info \<and> FI_Perm info = mode_0600))"

lemma check_security_option_None [go_spec]:
  "check_security_option stat opt = None \<longleftrightarrow>
     (HasPrefix opt ''seccomp='' \<longrightarrow> seccomp_ok stat (TrimPrefix opt ''seccomp='')) \<and>
     (HasPrefix opt ''apparmor='' \<longrightarrow> TrimPrefix opt ''apparmor='' \<noteq> ''unconfined'')"
  by (auto simp: check_security_option_def Let_def seccomp_ok_def validateSeccompProfilePath_None)

lemma validateSecurityOptions_None [go_spec]:
  "validateSecurityOptions stat opts = None \<longleftrightarrow>
     (\<forall>opt\<in>set opts. check_security_option stat opt = None) \<and>
     (\<exists>opt\<in>set opts. HasPrefix opt ''no-new-privileges'')"
  by (auto simp: validateSecurityOptions_def list_ex_iff)

text \<open>\<open>tmpfs_ok\<close>: the options, split at commas and trimmed, hold \<open>noexec\<close> and \<open>nosuid\<close> and neither \<open>exec\<close>
  nor \<open>suid\<close>.\<close>

definition tmpfs_ok :: "string \<Rightarrow> bool" where
  "tmpfs_ok options \<longleftrightarrow>
     (let opts = set (map TrimSpace (Split options (CHR '','')))
      in ''noexec'' \<in> opts \<and> ''nosuid'' \<in> opts \<and> ''exec'' \<notin> opts \<and> ''suid'' \<notin> opts)"

lemma validateTmpfsOptions_None [go_spec]:
  assumes "set ro = {''noexec'', ''nosuid''}"
  shows "validateTmpfsOptions ro options = None \<longleftrightarrow> tmpfs_ok options"
proof -
  have "(\<forall>opt\<in>S. opt \<noteq> ''exec'' \<and> opt \<noteq> ''suid'') \<and> (\<forall>req\<in>{''noexec'', ''nosuid''}. \<not> req \<notin> S) \<longleftrightarrow>
      ''noexec'' \<in> S \<and> ''nosuid'' \<in> S \<and> ''exec'' \<notin> S \<and> ''suid'' \<notin> S" for S :: "string set"
    by blast
  then show ?thesis
    unfolding validateTmpfsOptions_def tmpfs_ok_def Let_def err_then_None err_each_None fail_if_None assms .
qed

lemma validateTmpfsMounts_None [go_spec]:
  assumes "set ro = {''noexec'', ''nosuid''}"
  shows "validateTmpfsMounts ro mounts = None \<longleftrightarrow>
     (\<forall>(path, options)\<in>set mounts. path \<in> set allowedTmpfsPaths \<and> tmpfs_ok options)"
proof -
  have "validateTmpfsOptions ro options = None \<longleftrightarrow> tmpfs_ok options" for options
    using assms by (rule validateTmpfsOptions_None)
  then show ?thesis by (auto simp: validateTmpfsMounts_def case_prod_beta)
qed

lemma validateResourceLimits_None [go_spec]:
  "validateResourceLimits c l = None \<longleftrightarrow> positive_limits l \<and> within_caps c l"
  by (auto simp: validateResourceLimits_def positive_limits_def within_caps_def)

lemma validateWorkingDirectory_None [go_spec]:
  "validateWorkingDirectory d = None \<longleftrightarrow>
     HasPrefix d ''/'' \<and> (\<forall>p\<in>set dangerousWorkingPaths. \<not> HasPrefix d p)"
  by (auto simp: validateWorkingDirectory_def)

lemma validateEnvironmentVariables_None [go_spec]:
  "validateEnvironmentVariables uc env = None \<longleftrightarrow>
     (\<forall>v\<in>set env. v = [] \<or> (\<forall>p\<in>set dangerousEnvPatterns. \<not> HasPrefix (ToUpper uc v) p))"
  by (auto simp: validateEnvironmentVariables_def split: if_splits)

lemma CheckImageSecurity_None [go_spec]: "CheckImageSecurity img = None \<longleftrightarrow> img \<in> set allowedImages"
  by (auto simp: CheckImageSecurity_def allowedImages_def)

text \<open>What a container configuration promises once it is validated.\<close>

definition secure_sandbox :: "file_stat \<Rightarrow> SecurityConfig \<Rightarrow> bool" where
  "secure_sandbox stat sc \<longleftrightarrow>
     validateUserSpecification (SC_User sc) = None \<and>
     SC_ReadOnlyRootfs sc \<and> SC_NetworkDisabled sc \<and> SC_NoNewPrivileges sc \<and> SC_DropAllCapabilities sc \<and>
     list_all (\<lambda>opt. check_security_option stat opt = None) (SC_SecurityOpts sc) \<and>
     list_ex (\<lambda>opt. HasPrefix opt ''no-new-privileges'') (SC_SecurityOpts sc) \<and>
     list_all (\<lambda>(path, options). path \<in> set allowedTmpfsPaths \<and> tmpfs_ok options) (SC_TmpfsMounts sc)"

definition secure_container :: "casemap \<Rightarrow> file_stat \<Rightarrow> Config \<Rightarrow> ContainerConfig \<Rightarrow> bool" where
  "secure_container uc stat c config \<longleftrightarrow>
     secure_sandbox stat (CC_SecurityConfig config) \<and>
     positive_limits (CC_ResourceLimits config) \<and> within_caps c (CC_ResourceLimits config) \<and>
     CC_Image config \<in> set allowedImages \<and>
     HasPrefix (CC_WorkingDir config) ''/'' \<and>
     list_all (\<lambda>p. \<not> HasPrefix (CC_WorkingDir config) p) dangerousWorkingPaths \<and>
     list_all (\<lambda>v. v = [] \<or> list_all (\<lambda>p. \<not> HasPrefix (ToUpper uc v) p) dangerousEnvPatterns)
       (CC_Environment config) \<and>
     0 < CC_Timeout config \<and> duration_seconds (CC_Timeout config) \<le> MaxTimeoutSeconds (Security c)"

lemma validateSecurityConfig_None [go_spec]:
  assumes "set ro = {''noexec'', ''nosuid''}"
  shows "validateSecurityConfig stat ro sc = None \<longleftrightarrow> secure_sandbox stat sc"
proof -
  have "validateUserSpecification u = None \<Longrightarrow> u \<noteq> []" for u
    by (auto simp: validateUserSpecification_None)
  moreover have "validateTmpfsMounts ro (SC_TmpfsMounts sc) = None \<longleftrightarrow>
      (\<forall>(path, options)\<in>set (SC_TmpfsMounts sc). path \<in> set allowedTmpfsPaths \<and> tmpfs_ok options)"
    using assms by (rule validateTmpfsMounts_None)
  ultimately show ?thesis
    by (auto simp: validateSecurityConfig_def secure_sandbox_def validateSecurityOptions_None
        list_all_iff list_ex_iff)
qed

lemma ValidateContainerConfig_None [go_spec]:
  assumes "set ro = {''noexec'', ''nosuid''}"
  shows "ValidateContainerConfig uc stat ro c (Some config) = None \<longleftrightarrow> secure_container uc stat c config"
proof -
  have "validateSecurityConfig stat ro (CC_SecurityConfig config) = None \<longleftrightarrow>
      secure_sandbox stat (CC_SecurityConfig config)"
    using assms by (rule validateSecurityConfig_None)
  then show ?thesis
    by (auto simp: ValidateContainerConfig_def secure_container_def
      validateResourceLimits_None CheckImageSecurity_None validateWorkingDirectory_None
      validateEnvironmentVariables_None list_all_iff)
qed

section \<open>Properties of the security manager\<close>

text \<open>C17: A container configuration passes \<open>ValidateContainerConfig\<close> exactly when it is a secure sandbox
  (a UID:GID user without a literal 0, read-only root, no network, no new privileges, no capabilities,
  checked security options, tmpfs mounts only at allowed paths and never executable), its limits are
  positive and within the caps, its image is on the allow list, its working directory is absolute and not
  below a restricted path, no environment entry has a dangerous name, and its timeout is in bounds.\<close>

theorem container_config_accepted_iff:
  assumes "set ro = {''noexec'', ''nosuid''}"
  shows "ValidateContainerConfig uc stat ro c (Some config) = None \<longleftrightarrow> secure_container uc stat c config"
  using assms by (rule ValidateContainerConfig_None)

definition example_config :: ContainerConfig where
  "example_config =
     \<lparr>CC_Image = ''alpine:latest'', CC_ScriptType = ScriptTypeBash, CC_ScriptContent = ''echo hi'',
      CC_Environment = [''LANG=C''], CC_WorkingDir = ''/tmp/workspace'',
      CC_ResourceLimits = DefaultResourceLimits NewDefaultConfig,
      CC_SecurityConfig =
        \<lparr>SC_User = ''1000:1000'', SC_NoNewPrivileges = True, SC_ReadOnlyRootfs = True,
         SC_NetworkDisabled = True, SC_SecurityOpts = [''no-new-privileges''],
         SC_TmpfsMounts = [(''/tmp'', ''rw,noexec,nosuid,size=100m'')], SC_DropAllCapabilities = True\<rparr>,
      CC_Timeout = 300 * Second\<rparr>"

theorem container_config_accepted_iff_witness:
  "secure_container id (\<lambda>_. Inl (Errorf ''no file'')) NewDefaultConfig example_config"
proof -
  have ro: "set [''noexec'', ''nosuid''] = {''noexec'', ''nosuid''}" by simp
  have "ValidateContainerConfig id (\<lambda>_. Inl (Errorf ''no file'')) [''noexec'', ''nosuid''] NewDefaultConfig
      (Some example_config) = None"
    by code_simp
  then show ?thesis using container_config_accepted_iff [OF ro] by blast
qed

text \<open>\<open>validateUserSpecification\<close> accepts exactly the specifications with one colon whose two parts are not
  the text \<open>0\<close>. Other spellings of root pass: \<open>root:root\<close> and \<open>00:00\<close>.\<close>

theorem user_specification_iff:
  "(validateUserSpecification user = None \<longleftrightarrow>
     (\<exists>uid gid. user = uid @ CHR '':'' # gid \<and> CHR '':'' \<notin> set uid \<and> CHR '':'' \<notin> set gid \<and>
        uid \<noteq> ''0'' \<and> gid \<noteq> ''0'')) \<and>
   validateUserSpecification ''root:root'' = None \<and> validateUserSpecification ''00:00'' = None"
proof -
  have "validateUserSpecification ''root:root'' = None" "validateUserSpecification ''00:00'' = None"
    by code_simp+
  then show ?thesis by (simp add: validateUserSpecification_None)
qed

lemma env_allowed_valid: "env_allowed uc v \<Longrightarrow> p \<in> set dangerousEnvPatterns \<Longrightarrow> \<not> HasPrefix (ToUpper uc v) p"
proof
  assume a: "env_allowed uc v" and p: "p \<in> set dangerousEnvPatterns" and h: "HasPrefix (ToUpper uc v) p"
  have "list_all (\<lambda>p. list_ex (Contains p) dangerousEnvVars) dangerousEnvPatterns" by code_simp
  with p obtain d where d: "d \<in> set dangerousEnvVars" "Contains p d"
    by (auto simp: list_all_iff list_ex_iff)
  from HasPrefix_imp_Contains [OF h] d(2) have "Contains (ToUpper uc v) d" by (rule Contains_trans)
  with a d(1) show False by (auto simp: env_allowed_def list_ex_iff)
qed

lemma sanitized_valid: "validateEnvironmentVariables uc (SanitizeEnvironment uc env) = None"
proof -
  have "list_all (\<lambda>v. is_ascii v \<and> list_all (\<lambda>p. \<not> HasPrefix (map upper_char v) p) dangerousEnvPatterns)
      safeEnvDefaults"
    by code_simp
  then have "\<not> HasPrefix (ToUpper uc v) p" if "v \<in> set safeEnvDefaults" "p \<in> set dangerousEnvPatterns" for v p
    using that by (auto simp: list_all_iff ToUpper_def)
  then show ?thesis
    by (auto simp: validateEnvironmentVariables_None SanitizeEnvironment_def env_allowed_valid)
qed

text \<open>Whatever the environment, what \<open>SanitizeEnvironment\<close> returns passes \<open>validateEnvironmentVariables\<close>,
  ends with the four safe defaults, and every other entry is an entry of the input that starts with an
  allowed prefix.\<close>

theorem sanitized_environment_validates:
  "validateEnvironmentVariables uc (SanitizeEnvironment uc env) = None \<and>
   (\<exists>kept. SanitizeEnvironment uc env = kept @ safeEnvDefaults \<and>
      set kept = {v \<in> set env. env_allowed uc v})"
proof
  show "validateEnvironmentVariables uc (SanitizeEnvironment uc env) = None" by (rule sanitized_valid)
  show "\<exists>kept. SanitizeEnvironment uc env = kept @ safeEnvDefaults \<and>
      set kept = {v \<in> set env. env_allowed uc v}"
    by (rule exI [of _ "filter (env_allowed uc) env"]) (auto simp: SanitizeEnvironment_def)
qed

lemma HasPrefix_fixed [simp]: "\<not> HasPrefix ''no-new-privileges'' ''seccomp=''"
  "\<not> HasPrefix ''no-new-privileges'' ''apparmor=''"
  by simp_all

lemma check_seccomp_option:
  "check_security_option stat (''seccomp='' @ p) = None \<longleftrightarrow> seccomp_ok stat p"
  by (simp add: check_security_option_None TrimPrefix_def)

lemma check_apparmor_option:
  "check_security_option stat (''apparmor='' @ p) = None \<longleftrightarrow> p \<noteq> ''unconfined''"
  by (simp add: check_security_option_None TrimPrefix_def)

lemma check_nnp_option: "check_security_option stat ''no-new-privileges'' = None"
  by (simp add: check_security_option_None)

lemma tmpfs_ok_consts [simp]:
  "tmpfs_ok ''rw,noexec,nosuid,size=100m''" "tmpfs_ok ''rw,noexec,nosuid,size=10m''"
  "tmpfs_ok ''rw,noexec,nosuid,size=50m''"
  by code_simp+

text \<open>The same facts for a literal prefix, as the simplifier writes it.\<close>

lemma check_option_chars:
  "check_security_option stat
     (CHR ''s'' # CHR ''e'' # CHR ''c'' # CHR ''c'' # CHR ''o'' # CHR ''m'' # CHR ''p'' # CHR ''='' # p) = None \<longleftrightarrow>
   seccomp_ok stat p"
  "check_security_option stat
     (CHR ''a'' # CHR ''p'' # CHR ''p'' # CHR ''a'' # CHR ''r'' # CHR ''m'' # CHR ''o'' # CHR ''r'' # CHR ''='' # p) = None
   \<longleftrightarrow> p \<noteq> ''unconfined''"
  using check_seccomp_option [of stat p] check_apparmor_option [of stat p] by simp_all

lemmas option_checks = check_seccomp_option check_apparmor_option check_nnp_option check_option_chars

text \<open>The security configuration \<open>BuildSecurityConfig\<close> returns for a task passes
  \<open>validateSecurityConfig\<close> exactly when the configured user is acceptable, the seccomp profile (if enabled)
  is unconfined, unset or an absolute path of a file of mode 0600, and the AppArmor profile (if enabled) is
  not the unconfined one.\<close>

theorem built_security_config_validates:
  assumes "BuildSecurityConfig uc c (Some task) = Inr sc" and "set ro = {''noexec'', ''nosuid''}"
  shows "validateSecurityConfig stat ro sc = None \<longleftrightarrow>
     validateUserSpecification (ExecutionUser (Security c)) = None \<and>
     (EnableSeccomp (Security c) \<longrightarrow> seccomp_ok stat (SeccompProfilePath (Security c))) \<and>
     (EnableAppArmor (Security c) \<longrightarrow> AppArmorProfile (Security c) \<noteq> ''unconfined'')"
proof -
  have unc: "check_security_option stat ''seccomp=unconfined'' = None"
    using check_seccomp_option [of stat "''unconfined''"] by (simp add: seccomp_ok_def)
  have empty: "seccomp_ok stat []" by (simp add: seccomp_ok_def)
  have "validateSecurityConfig stat ro sc = None \<longleftrightarrow> secure_sandbox stat sc"
    using assms(2) by (rule validateSecurityConfig_None)
  also have "\<dots> \<longleftrightarrow> validateUserSpecification (ExecutionUser (Security c)) = None \<and>
     (EnableSeccomp (Security c) \<longrightarrow> seccomp_ok stat (SeccompProfilePath (Security c))) \<and>
     (EnableAppArmor (Security c) \<longrightarrow> AppArmorProfile (Security c) \<noteq> ''unconfined'')"
    using assms(1)
    by (auto simp: BuildSecurityConfig_def Let_def secure_sandbox_def allowedTmpfsPaths_def check_option_chars unc
        empty check_nnp_option split: option.splits if_splits)
  finally show ?thesis .
qed

theorem built_security_config_validates_witness:
  "\<exists>sc. BuildSecurityConfig id (NewDefaultConfig\<lparr>Security := (Security NewDefaultConfig)\<lparr>EnableSeccomp := False\<rparr>\<rparr>)
      (Some \<lparr>Task_ID = 1, Task_UserID = 2, Task_Name = ''t'', Task_Description = None,
        Task_ScriptContent = ''echo hi'', Task_ScriptType = ScriptTypeBash, Task_Status = TaskStatusPending,
        Task_Priority = 5, Task_TimeoutSeconds = 300, Task_Metadata = None, Task_CreatedAt = 1,
        Task_UpdatedAt = 1\<rparr>) = Inr sc \<and>
     validateSecurityConfig (\<lambda>_. Inl (Errorf ''no file'')) [''noexec'', ''nosuid''] sc = None"
proof -
  let ?c = "NewDefaultConfig\<lparr>Security := (Security NewDefaultConfig)\<lparr>EnableSeccomp := False\<rparr>\<rparr>"
  let ?t = "\<lparr>Task_ID = 1, Task_UserID = 2, Task_Name = ''t'', Task_Description = None,
        Task_ScriptContent = ''echo hi'', Task_ScriptType = ScriptTypeBash, Task_Status = TaskStatusPending,
        Task_Priority = 5, Task_TimeoutSeconds = 300, Task_Metadata = None, Task_CreatedAt = 1,
        Task_UpdatedAt = 1\<rparr> :: Task"
  have ro: "set [''noexec'', ''nosuid''] = {''noexec'', ''nosuid''}" by simp
  have "sm_ValidateScriptContent id ''echo hi'' ScriptTypeBash = None" by code_simp
  then obtain sc where sc: "BuildSecurityConfig id ?c (Some ?t) = Inr sc"
    by (simp add: BuildSecurityConfig_def Let_def)
  have u: "validateUserSpecification (ExecutionUser (Security ?c)) = None" by code_simp
  have "\<not> EnableSeccomp (Security ?c)" "\<not> EnableAppArmor (Security ?c)"
    by (simp_all add: NewDefaultConfig_def)
  with u built_security_config_validates [OF sc ro, of "\<lambda>_. Inl (Errorf ''no file'')"] sc
  show ?thesis by blast
qed

text \<open>Every image of the default configuration is on the allow list of \<open>CheckImageSecurity\<close>, whatever the
  script type.\<close>

theorem default_images_allowed:
  "CheckImageSecurity (GetImageForScriptType NewDefaultConfig t) = None"
  by (simp add: CheckImageSecurity_None GetImageForScriptType_def NewDefaultConfig_def allowedImages_def)

end
