(* ===== verification/DockerClient.thy ===== *)
theory DockerClient
  imports ClientInterface SecurityManager
begin

unbundle bit_operations_syntax

text \<open>
  \<open>internal/executor/docker_client.go\<close>: the implementation of \<open>ContainerClient\<close> on the Docker SDK. The SDK is the
  argument \<open>api\<close>, a record with one function for each SDK call the client makes; \<open>api_IsNotFound\<close> is
  \<open>errdefs.IsNotFound\<close>. A reader the SDK returns is what \<open>io.ReadAll\<close> gets out of it. The logger has no
  effect on the state and is left out.
\<close>

section \<open>The Docker SDK\<close>

record DockerContainer =
  DC_Image :: string
  DC_User :: string
  DC_WorkingDir :: string
  DC_Env :: "string list"
  DC_AttachStdout :: bool
  DC_AttachStderr :: bool
  DC_Cmd :: "string list"

record DockerHost =
  DH_Memory :: int
  DH_CPUQuota :: int
  DH_PidsLimit :: "int option"
  DH_SecurityOpt :: "string list"
  DH_ReadonlyRootfs :: bool
  DH_AutoRemove :: bool
  DH_Tmpfs :: "(string \<times> string) list"
  DH_NetworkMode :: string
  DH_CapDrop :: "string list"

type_synonym reader = "go_error + string"

text \<open>The channel operation the \<open>select\<close> of \<open>WaitContainer\<close> takes.\<close>

datatype wait_event = ErrCh "go_error option" | StatusCh int | CtxDone

record 'w docker_api =
  api_ContainerCreate :: "Ctx \<Rightarrow> DockerContainer \<Rightarrow> DockerHost \<Rightarrow> string \<Rightarrow> 'w \<Rightarrow> (go_error + string \<times> string list) \<times> 'w"
  api_ContainerStart :: "Ctx \<Rightarrow> string \<Rightarrow> 'w \<Rightarrow> go_error option \<times> 'w"
  api_ContainerWait :: "Ctx \<Rightarrow> string \<Rightarrow> 'w \<Rightarrow> wait_event \<times> 'w"
  api_ContainerLogs :: "Ctx \<Rightarrow> string \<Rightarrow> 'w \<Rightarrow> (go_error + reader) \<times> 'w"
  api_ContainerRemove :: "Ctx \<Rightarrow> string \<Rightarrow> bool \<Rightarrow> bool \<Rightarrow> 'w \<Rightarrow> go_error option \<times> 'w"
  api_ContainerStop :: "Ctx \<Rightarrow> string \<Rightarrow> int \<Rightarrow> 'w \<Rightarrow> go_error option \<times> 'w"
  api_Ping :: "Ctx \<Rightarrow> 'w \<Rightarrow> go_error option \<times> 'w"
  api_ContainerList :: "Ctx \<Rightarrow> bool \<Rightarrow> 'w \<Rightarrow> (go_error + ContainerSummary list) \<times> 'w"
  api_ContainerInspect :: "Ctx \<Rightarrow> string \<Rightarrow> 'w \<Rightarrow> (go_error + json) \<times> 'w"
  api_ImagePull :: "Ctx \<Rightarrow> string \<Rightarrow> 'w \<Rightarrow> (go_error + reader) \<times> 'w"
  api_Info :: "Ctx \<Rightarrow> 'w \<Rightarrow> (go_error + json) \<times> 'w"
  api_ServerVersion :: "Ctx \<Rightarrow> 'w \<Rightarrow> (go_error + json) \<times> 'w"
  api_IsNotFound :: "go_error \<Rightarrow> bool"
  api_Now :: "'w \<Rightarrow> time"

section \<open>Identifiers\<close>

text \<open>The expression \<open>^[a-f0-9]{12,64}$\<close>.\<close>

definition is_hex :: "char \<Rightarrow> bool" where
  "is_hex c = (is_digit c \<or> in_range 97 102 c)"

definition match_containerID :: "string \<Rightarrow> bool" where
  "match_containerID s = (12 \<le> length s \<and> length s \<le> 64 \<and> list_all is_hex s)"

definition validateContainerID :: "string \<Rightarrow> go_error option" where
  "validateContainerID containerID =
     (if containerID = []
        then Some (NewContainerError [] ''validate_container_id'' ''container ID is empty'' None)
      else if TrimSpace containerID \<noteq> containerID
        then Some (NewContainerError containerID ''validate_container_id''
                     ''container ID contains invalid whitespace'' None)
      else if length containerID < 12
        then Some (NewContainerError containerID ''validate_container_id''
                     (''container ID too short ('' @ show_int (int (length containerID)) @
                      '' characters), must be at least 12'') None)
      else if length containerID > 64
        then Some (NewContainerError containerID ''validate_container_id''
                     (''container ID too long ('' @ show_int (int (length containerID)) @
                      '' characters), must be at most 64'') None)
      else if \<not> match_containerID containerID
        then Some (NewContainerError containerID ''validate_container_id''
                     ''container ID contains invalid characters, must be lowercase hexadecimal'' None)
      else None)"

section \<open>Creation\<close>

definition buildCommand :: "ScriptType \<Rightarrow> string \<Rightarrow> string list" where
  "buildCommand scriptType scriptContent =
     (if scriptType = ScriptTypePython then [''python3'', ''-c'', scriptContent]
      else if scriptType = ScriptTypeBash then [''sh'', ''-c'', scriptContent]
      else if scriptType = ScriptTypeJavaScript then [''node'', ''-e'', scriptContent]
      else if scriptType = ScriptTypeGo
        then [''sh'', ''-c'', ''echo '' @ quoted scriptContent @ '' > main.go && go run main.go'']
      else [''python3'', ''-c'', scriptContent])"

definition docker_container :: "ContainerConfig \<Rightarrow> DockerContainer" where
  "docker_container config =
     \<lparr>DC_Image = CC_Image config, DC_User = SC_User (CC_SecurityConfig config),
      DC_WorkingDir = CC_WorkingDir config, DC_Env = CC_Environment config,
      DC_AttachStdout = True, DC_AttachStderr = True,
      DC_Cmd = buildCommand (CC_ScriptType config) (CC_ScriptContent config)\<rparr>"

definition docker_host :: "ContainerConfig \<Rightarrow> DockerHost" where
  "docker_host config =
     (let sc = CC_SecurityConfig config;
          hc0 = \<lparr>DH_Memory = MemoryLimitBytes (CC_ResourceLimits config),
                 DH_CPUQuota = CPUQuota (CC_ResourceLimits config),
                 DH_PidsLimit = Some (PidsLimit (CC_ResourceLimits config)),
                 DH_SecurityOpt = SC_SecurityOpts sc, DH_ReadonlyRootfs = SC_ReadOnlyRootfs sc,
                 DH_AutoRemove = True, DH_Tmpfs = SC_TmpfsMounts sc, DH_NetworkMode = [],
                 DH_CapDrop = []\<rparr>;
          hc1 = (if SC_NetworkDisabled sc then hc0\<lparr>DH_NetworkMode := ''none''\<rparr> else hc0);
          hc2 = (if SC_DropAllCapabilities sc then hc1\<lparr>DH_CapDrop := [''ALL'']\<rparr> else hc1)
      in hc2)"

definition dc_CreateContainer ::
    "'w docker_api \<Rightarrow> Ctx \<Rightarrow> ContainerConfig option \<Rightarrow> 'w \<Rightarrow> (go_error + string) \<times> 'w" where
  "dc_CreateContainer api ctx config0 w =
     (case config0 of
        None \<Rightarrow> (Inl (NewExecutorError ''create_container'' ''container config is nil'' None), w)
      | Some config \<Rightarrow>
          (case api_ContainerCreate api ctx (docker_container config) (docker_host config) [] w of
             (Inl err, w') \<Rightarrow>
               (Inl (NewContainerError [] ''create_container'' ''failed to create container'' (Some err)), w')
           | (Inr (i, warnings), w') \<Rightarrow> (Inr i, w')))"

section \<open>Operations on a container\<close>

definition dc_StartContainer :: "'w docker_api \<Rightarrow> Ctx \<Rightarrow> string \<Rightarrow> 'w \<Rightarrow> go_error option \<times> 'w" where
  "dc_StartContainer api ctx containerID w =
     (case validateContainerID containerID of
        Some err \<Rightarrow> (Some (Wrapf ''start_container validation failed'' err), w)
      | None \<Rightarrow>
          (case api_ContainerStart api ctx containerID w of
             (Some err, w') \<Rightarrow>
               (Some (NewContainerError containerID ''start_container'' ''failed to start container'' (Some err)), w')
           | (None, w') \<Rightarrow> (None, w')))"

definition dc_WaitContainer :: "'w docker_api \<Rightarrow> Ctx \<Rightarrow> string \<Rightarrow> 'w \<Rightarrow> (int \<times> go_error option) \<times> 'w" where
  "dc_WaitContainer api ctx containerID w =
     (case validateContainerID containerID of
        Some err \<Rightarrow> ((- 1, Some (Wrapf ''wait_container validation failed'' err)), w)
      | None \<Rightarrow>
          (case api_ContainerWait api ctx containerID w of
             (ErrCh (Some err), w') \<Rightarrow>
               ((- 1, Some (NewContainerError containerID ''wait_container'' ''error waiting for container'' (Some err))), w')
           | (StatusCh code, w') \<Rightarrow> ((code, None), w')
           | (CtxDone, w') \<Rightarrow>
               ((- 1, Some (NewContainerError containerID ''wait_container'' ''context cancelled''
                              (ctx_Err ctx (api_Now api w')))), w')
           | (ErrCh None, w') \<Rightarrow>
               ((- 1, Some (NewContainerError containerID ''wait_container'' ''unexpected wait completion'' None)), w')))"

text \<open>The size field of a frame: four bytes, most significant first.\<close>

definition byte :: "string \<Rightarrow> nat \<Rightarrow> nat" where
  "byte s i = of_char (s ! i)"

definition frame_size :: "string \<Rightarrow> nat \<Rightarrow> nat" where
  "frame_size s i =
     push_bit 24 (byte s (i + 4)) OR push_bit 16 (byte s (i + 5)) OR push_bit 8 (byte s (i + 6)) OR byte s (i + 7)"

function demux_loop :: "string \<Rightarrow> nat \<Rightarrow> string \<Rightarrow> string \<Rightarrow> string \<times> string" where
  "demux_loop logData i stdout stderr =
     (if \<not> i < length logData then (stdout, stderr)
      else if i + 8 > length logData then (stdout, stderr)
      else
        let streamType = byte logData i;
            size = frame_size logData i;
            dataStart = i + 8;
            dataEnd = dataStart + size
        in if dataEnd > length logData then (stdout, stderr)
           else let dat = take (dataEnd - dataStart) (drop dataStart logData)
                in if streamType = 1 then demux_loop logData dataEnd (stdout @ dat) stderr
                   else if streamType = 2 then demux_loop logData dataEnd stdout (stderr @ dat)
                   else demux_loop logData dataEnd stdout stderr)"
  by pat_completeness auto
termination
  by (relation "measure (\<lambda>(logData, i, stdout, stderr). length logData - i)") auto

declare demux_loop.simps [simp del]

definition demultiplexLogs :: "string \<Rightarrow> string \<times> string" where
  "demultiplexLogs logData = demux_loop logData 0 [] []"

definition dc_GetContainerLogs ::
    "'w docker_api \<Rightarrow> Ctx \<Rightarrow> string \<Rightarrow> 'w \<Rightarrow> (string \<times> string \<times> go_error option) \<times> 'w" where
  "dc_GetContainerLogs api ctx containerID w =
     (case validateContainerID containerID of
        Some err \<Rightarrow> (([], [], Some (Wrapf ''get_container_logs validation failed'' err)), w)
      | None \<Rightarrow>
          (case api_ContainerLogs api ctx containerID w of
             (Inl err, w') \<Rightarrow>
               (([], [], Some (NewContainerError containerID ''get_logs'' ''failed to get container logs'' (Some err))), w')
           | (Inr (Inl err), w') \<Rightarrow>
               (([], [], Some (NewContainerError containerID ''get_logs'' ''failed to read container logs'' (Some err))), w')
           | (Inr (Inr logBytes), w') \<Rightarrow>
               (case demultiplexLogs logBytes of (stdout, stderr) \<Rightarrow> ((stdout, stderr, None), w'))))"

definition dc_RemoveContainer :: "'w docker_api \<Rightarrow> Ctx \<Rightarrow> string \<Rightarrow> bool \<Rightarrow> 'w \<Rightarrow> go_error option \<times> 'w" where
  "dc_RemoveContainer api ctx containerID force w =
     (case validateContainerID containerID of
        Some err \<Rightarrow> (Some (Wrapf ''remove_container validation failed'' err), w)
      | None \<Rightarrow>
          (case api_ContainerRemove api ctx containerID force True w of
             (None, w') \<Rightarrow> (None, w')
           | (Some err, w') \<Rightarrow>
               (if api_IsNotFound api err then (None, w')
                else (Some (NewContainerError containerID ''remove_container'' ''failed to remove container'' (Some err)), w'))))"

definition dc_StopContainer :: "'w docker_api \<Rightarrow> Ctx \<Rightarrow> string \<Rightarrow> int \<Rightarrow> 'w \<Rightarrow> go_error option \<times> 'w" where
  "dc_StopContainer api ctx containerID timeout w =
     (case validateContainerID containerID of
        Some err \<Rightarrow> (Some (Wrapf ''stop_container validation failed'' err), w)
      | None \<Rightarrow>
          (case api_ContainerStop api ctx containerID (duration_seconds timeout) w of
             (None, w') \<Rightarrow> (None, w')
           | (Some err, w') \<Rightarrow>
               (if api_IsNotFound api err then (None, w')
                else (Some (NewContainerError containerID ''stop_container'' ''failed to stop container'' (Some err)), w'))))"

section \<open>Operations on the daemon\<close>

definition dc_IsHealthy :: "'w docker_api \<Rightarrow> Ctx \<Rightarrow> 'w \<Rightarrow> go_error option \<times> 'w" where
  "dc_IsHealthy api ctx w =
     (case api_Ping api ctx w of
        (err, w') \<Rightarrow>
          (map_option (\<lambda>e. NewExecutorError ''health_check'' ''Docker daemon is not accessible'' (Some e)) err, w'))"

definition wrap_call :: "string \<Rightarrow> string \<Rightarrow> (go_error + 'a) \<times> 'w \<Rightarrow> (go_error + 'a) \<times> 'w" where
  "wrap_call op reason r =
     (case r of
        (Inl err, w') \<Rightarrow> (Inl (NewExecutorError op reason (Some err)), w')
      | (Inr x, w') \<Rightarrow> (Inr x, w'))"

definition dc_ListContainers :: "'w docker_api \<Rightarrow> Ctx \<Rightarrow> bool \<Rightarrow> 'w \<Rightarrow> (go_error + ContainerSummary list) \<times> 'w" where
  "dc_ListContainers api ctx all w =
     wrap_call ''list_containers'' ''failed to list containers'' (api_ContainerList api ctx all w)"

definition dc_PullImage :: "'w docker_api \<Rightarrow> Ctx \<Rightarrow> string \<Rightarrow> 'w \<Rightarrow> go_error option \<times> 'w" where
  "dc_PullImage api ctx imageName w =
     (if imageName = [] then (Some (NewExecutorError ''pull_image'' ''image name is empty'' None), w)
      else (case api_ImagePull api ctx imageName w of
          (Inl err, w') \<Rightarrow> (Some (NewExecutorError ''pull_image'' ''failed to pull image'' (Some err)), w')
        | (Inr (Inl err), w') \<Rightarrow> (Some (NewExecutorError ''pull_image'' ''failed to read pull output'' (Some err)), w')
        | (Inr (Inr out), w') \<Rightarrow> (None, w')))"

definition dc_GetContainerInfo :: "'w docker_api \<Rightarrow> Ctx \<Rightarrow> string \<Rightarrow> 'w \<Rightarrow> (go_error + json) \<times> 'w" where
  "dc_GetContainerInfo api ctx containerID w =
     (case validateContainerID containerID of
        Some err \<Rightarrow> (Inl (Wrapf ''get_container_info validation failed'' err), w)
      | None \<Rightarrow>
          (case api_ContainerInspect api ctx containerID w of
             (Inl err, w') \<Rightarrow>
               (Inl (NewContainerError containerID ''get_info'' ''failed to inspect container'' (Some err)), w')
           | (Inr info, w') \<Rightarrow> (Inr info, w')))"

definition dc_GetDockerInfo :: "'w docker_api \<Rightarrow> Ctx \<Rightarrow> 'w \<Rightarrow> (go_error + json) \<times> 'w" where
  "dc_GetDockerInfo api ctx w =
     wrap_call ''get_docker_info'' ''failed to get Docker info'' (api_Info api ctx w)"

definition dc_GetDockerVersion :: "'w docker_api \<Rightarrow> Ctx \<Rightarrow> 'w \<Rightarrow> (go_error + json) \<times> 'w" where
  "dc_GetDockerVersion api ctx w =
     wrap_call ''get_docker_version'' ''failed to get Docker version'' (api_ServerVersion api ctx w)"

definition docker_client :: "'w docker_api \<Rightarrow> 'w ContainerClient" where
  "docker_client api =
     \<lparr>CreateContainer = dc_CreateContainer api, StartContainer = dc_StartContainer api,
      WaitContainer = dc_WaitContainer api, GetContainerLogs = dc_GetContainerLogs api,
      RemoveContainer = dc_RemoveContainer api, StopContainer = dc_StopContainer api,
      IsHealthy = dc_IsHealthy api, ListContainers = dc_ListContainers api, PullImage = dc_PullImage api,
      GetDockerInfo = dc_GetDockerInfo api, GetDockerVersion = dc_GetDockerVersion api\<rparr>"

text \<open>
  \<open>NewDockerClient\<close>; \<open>new\<close> is the result of \<open>client.NewClientWithOpts\<close>. A client is its \<open>Config\<close> and the SDK
  connection behind it.
\<close>

definition NewDockerClient ::
    "(go_error + 'w docker_api) \<Rightarrow> Config option \<Rightarrow> 'w \<Rightarrow> (go_error + Config \<times> 'w docker_api) \<times> 'w" where
  "NewDockerClient new config0 w =
     (let config = (case config0 of None \<Rightarrow> NewDefaultConfig | Some c \<Rightarrow> c)
      in case Config_Validate config of
        Some err \<Rightarrow> (Inl (Wrapf ''invalid config'' err), w)
      | None \<Rightarrow>
          (case new of
             Inl err \<Rightarrow> (Inl (NewExecutorError ''docker_client_init'' ''failed to create Docker client'' (Some err)), w)
           | Inr api \<Rightarrow>
               (case dc_IsHealthy api (WithTimeout Background (api_Now api w) (10 * Second)) w of
                  (Some err, w') \<Rightarrow> (Inl (Wrapf ''docker health check failed'' err), w')
                | (None, w') \<Rightarrow> (Inr (config, api), w'))))"

section \<open>Identifiers are checked first\<close>

lemma space_seqs_not_hex:
  "list_all (\<lambda>q. q \<noteq> [] \<and> \<not> is_hex (hd q) \<and> \<not> is_hex (last q)) space_seqs"
  by code_simp

lemma drop_seq_None: "(\<And>q. q \<in> set qs \<Longrightarrow> q \<noteq> [] \<and> hd q \<noteq> c) \<Longrightarrow> drop_seq qs (c # s) = None"
proof (induction qs)
  case (Cons q qs)
  then have "q \<noteq> []" "hd q \<noteq> c" by auto
  then have "\<not> HasPrefix (c # s) q" by (cases q) auto
  with Cons show ?case by auto
qed simp

lemma drop_seq_Nil [simp]: "drop_seq qs [] = None"
proof (induction qs)
  case (Cons q qs)
  then show ?case by (cases q) auto
qed simp

lemma trim_seqs_Nil [simp]: "trim_seqs qs [] = []"
  by (simp add: trim_seqs_fixed)

lemma TrimSpace_hex:
  assumes "list_all is_hex s"
  shows "TrimSpace s = s"
proof -
  have 1: "trim_seqs space_seqs s = s"
  proof (cases s)
    case Nil
    then show ?thesis by simp
  next
    case (Cons c t)
    with assms have "is_hex c" by simp
    then have "drop_seq space_seqs s = None"
      unfolding Cons using space_seqs_not_hex by (intro drop_seq_None) (auto simp: list_all_iff)
    then show ?thesis by (rule trim_seqs_fixed)
  qed
  have 2: "trim_seqs (map rev space_seqs) (rev s) = rev s"
  proof (cases "rev s")
    case Nil
    then show ?thesis by simp
  next
    case (Cons c t)
    then have "c \<in> set s" by (metis list.set_intros(1) set_rev)
    with assms have "is_hex c" by (simp add: list_all_iff)
    then have "drop_seq (map rev space_seqs) (rev s) = None"
      unfolding Cons using space_seqs_not_hex
      by (intro drop_seq_None) (auto simp: list_all_iff hd_rev)
    then show ?thesis by (rule trim_seqs_fixed)
  qed
  show ?thesis by (simp add: TrimSpace_def 1 2)
qed

lemma validateContainerID_None [go_spec]:
  "validateContainerID s = None \<longleftrightarrow> match_containerID s"
  by (auto simp: validateContainerID_def match_containerID_def TrimSpace_hex)

section \<open>The log stream\<close>

text \<open>The wire format of Docker's multiplexed stream: the stream number, three zero bytes, the size, the data.\<close>

definition be32 :: "nat \<Rightarrow> string" where
  "be32 n = [char_of (drop_bit 24 n), char_of (drop_bit 16 n), char_of (drop_bit 8 n), char_of n]"

definition log_frame :: "char \<times> string \<Rightarrow> string" where
  "log_frame f = [fst f, CHR 0x00, CHR 0x00, CHR 0x00] @ be32 (length (snd f)) @ snd f"

lemma be32_value:
  assumes "n < 2 ^ 32"
  shows "push_bit 24 (of_char (char_of (drop_bit 24 n))) OR push_bit 16 (of_char (char_of (drop_bit 16 n))) OR
         push_bit 8 (of_char (char_of (drop_bit 8 n))) OR of_char (char_of n) = (n :: nat)"
    (is "?l = n")
proof (rule bit_eqI)
  fix j
  have n: "take_bit 32 n = n" using assms by (simp add: take_bit_nat_eq_self_iff)
  have high: "bit n j \<Longrightarrow> j < 32" by (subst (asm) n [symmetric]) (simp add: bit_take_bit_iff)
  have cm: "of_char (char_of m) = take_bit 8 (m :: nat)" for m
    by (simp add: take_bit_eq_mod)
  consider "j < 8" | "8 \<le> j" "j < 16" | "16 \<le> j" "j < 24" | "24 \<le> j" by linarith
  then show "bit ?l j = bit n j"
    by cases (use high in \<open>auto simp: cm bit_or_iff bit_push_bit_iff bit_take_bit_iff bit_drop_bit_eq
      simp del: of_char_of\<close>)
qed

lemma demux_loop_end: "length s < i + 8 \<Longrightarrow> demux_loop s i out err = (out, err)"
  by (subst demux_loop.simps) simp

lemma byte_append [simp]: "byte (xs @ ys) (length xs + k) = byte ys k"
  by (simp add: byte_def nth_append)

lemma frame_size_header:
  assumes "length d < 2 ^ 32"
  shows "frame_size (pre @ [t, r1, r2, r3] @ be32 (length d) @ rest) (length pre) = length d"
proof -
  have b: "byte (pre @ [t, r1, r2, r3] @ be32 (length d) @ rest) (length pre + k) =
      byte ([t, r1, r2, r3] @ be32 (length d) @ rest) k" for k
    by simp
  show ?thesis
    unfolding frame_size_def b using be32_value [OF assms] by (simp add: be32_def byte_def)
qed

lemma demux_loop_frame:
  assumes "length d < 2 ^ 32"
  shows "demux_loop (pre @ log_frame (t, d) @ rest) (length pre) out err =
         demux_loop (pre @ log_frame (t, d) @ rest) (length (pre @ log_frame (t, d)))
           (if t = CHR 0x01 then out @ d else out) (if t = CHR 0x02 then err @ d else err)"
proof -
  let ?s = "pre @ log_frame (t, d) @ rest"
  have len: "length (log_frame (t, d)) = 8 + length d" by (simp add: log_frame_def be32_def)
  have b0: "byte ?s (length pre) = of_char t" by (simp add: byte_def nth_append log_frame_def)
  have size: "frame_size ?s (length pre) = length d"
    using frame_size_header [OF assms, of pre t "CHR 0x00" "CHR 0x00" "CHR 0x00" "d @ rest"]
    by (simp add: log_frame_def)
  have dat: "drop 8 (log_frame (x, d)) = d" for x
    by (simp add: log_frame_def be32_def)
  have t: "(of_char t = Suc 0) = (t = CHR 0x01)" "(of_char t = (2::nat)) = (t = CHR 0x02)"
    using of_char_eq_iff [of t "CHR 0x01", where ?'a = nat] of_char_eq_iff [of t "CHR 0x02", where ?'a = nat]
    by (simp_all add: numeral_2_eq_2)
  show ?thesis
    by (subst demux_loop.simps) (simp add: b0 size dat len t Let_def algebra_simps)
qed

lemma demux_loop_truncated:
  assumes "length d < 2 ^ 32" and "k < length (log_frame (t, d))"
  shows "demux_loop (pre @ take k (log_frame (t, d))) (length pre) out err = (out, err)"
proof (cases "k < 8")
  case True
  then show ?thesis by (intro demux_loop_end) simp
next
  case False
  have len: "length (log_frame (t, d)) = 8 + length d" by (simp add: log_frame_def be32_def)
  define s where "s = pre @ take k (log_frame (t, d))"
  have "take k (log_frame (t, d)) = [t, CHR 0x00, CHR 0x00, CHR 0x00] @ be32 (length d) @ take (k - 8) d"
    using False by (simp add: log_frame_def be32_def take_Cons' eval_nat_numeral)
  then have size: "frame_size s (length pre) = length d"
    using frame_size_header [OF assms(1), of pre t "CHR 0x00" "CHR 0x00" "CHR 0x00" "take (k - 8) d"]
    by (simp add: s_def)
  have "length s < length pre + 8 + length d" using assms(2) len by (simp add: s_def)
  then have "demux_loop s (length pre) out err = (out, err)"
    by (subst demux_loop.simps) (simp add: size Let_def)
  then show ?thesis by (simp add: s_def)
qed

abbreviation frames_of :: "char \<Rightarrow> (char \<times> string) list \<Rightarrow> string" where
  "frames_of t fs \<equiv> concat (map snd (filter (\<lambda>f. fst f = t) fs))"

lemma demux_loop_frames:
  assumes "\<forall>f\<in>set fs. length (snd f) < 2 ^ 32"
  shows "demux_loop (pre @ concat (map log_frame fs) @ rest) (length pre) out err =
         demux_loop (pre @ concat (map log_frame fs) @ rest) (length (pre @ concat (map log_frame fs)))
           (out @ frames_of (CHR 0x01) fs) (err @ frames_of (CHR 0x02) fs)"
  using assms
proof (induction fs arbitrary: pre out err)
  case (Cons f fs)
  obtain t d where f: "f = (t, d)" by (cases f)
  have "demux_loop (pre @ concat (map log_frame (f # fs)) @ rest) (length pre) out err =
      demux_loop (pre @ log_frame (t, d) @ (concat (map log_frame fs) @ rest)) (length pre) out err"
    by (simp add: f)
  also have "\<dots> = demux_loop ((pre @ log_frame (t, d)) @ concat (map log_frame fs) @ rest)
      (length (pre @ log_frame (t, d)))
      (if t = CHR 0x01 then out @ d else out) (if t = CHR 0x02 then err @ d else err)"
    using Cons.prems by (subst demux_loop_frame) (auto simp: f)
  also have "\<dots> = demux_loop ((pre @ log_frame (t, d)) @ concat (map log_frame fs) @ rest)
      (length ((pre @ log_frame (t, d)) @ concat (map log_frame fs)))
      ((if t = CHR 0x01 then out @ d else out) @ frames_of (CHR 0x01) fs)
      ((if t = CHR 0x02 then err @ d else err) @ frames_of (CHR 0x02) fs)"
    using Cons.prems by (intro Cons.IH) auto
  finally show ?case by (simp add: f)
qed simp

text \<open>C15: \<open>demultiplexLogs\<close> recovers what was multiplexed: from a stream of frames, cut anywhere inside the frame
  after the complete ones, it returns the data of the complete stdout frames in order as stdout and of the
  complete stderr frames in order as stderr; other frames and the cut one leave no trace.\<close>

theorem demultiplex_truncated_stream:
  assumes "\<forall>f\<in>set (f # fs). length (snd f) < 2 ^ 32" and "k < length (log_frame f)"
  shows "demultiplexLogs (concat (map log_frame fs) @ take k (log_frame f)) =
         (frames_of (CHR 0x01) fs, frames_of (CHR 0x02) fs)"
proof -
  have "demux_loop ([] @ concat (map log_frame fs) @ take k (log_frame f)) (length []) [] [] =
      demux_loop (([] @ concat (map log_frame fs)) @ take k (log_frame f))
        (length ([] @ concat (map log_frame fs))) ([] @ frames_of (CHR 0x01) fs) ([] @ frames_of (CHR 0x02) fs)"
    using demux_loop_frames [of fs "[]" "take k (log_frame f)" "[]" "[]"] assms(1) by simp
  also have "\<dots> = ([] @ frames_of (CHR 0x01) fs, [] @ frames_of (CHR 0x02) fs)"
    using assms demux_loop_truncated [of "snd f" k "fst f" "[] @ concat (map log_frame fs)"] by simp
  finally show ?thesis by (simp add: demultiplexLogs_def)
qed

theorem demultiplex_truncated_stream_witness:
  "demultiplexLogs (concat (map log_frame [(CHR 0x01, ''ab''), (CHR 0x02, ''err''), (CHR 0x01, ''c'')]) @
     take 9 (log_frame (CHR 0x01, ''lost''))) = (''abc'', ''err'')"
  using demultiplex_truncated_stream [of "(CHR 0x01, ''lost'')" "[(CHR 0x01, ''ab''), (CHR 0x02, ''err''), (CHR 0x01, ''c'')]" 9]
  by (simp add: log_frame_def be32_def)

text \<open>The Docker client keeps the law of the interface, whatever the SDK does.\<close>

interpretation dc: checked_client "docker_client api" match_containerID
  by unfold_locales
    (auto simp: docker_client_def dc_StartContainer_def dc_WaitContainer_def dc_GetContainerLogs_def
      dc_RemoveContainer_def dc_StopContainer_def validateContainerID_None [symmetric] split: option.splits)

section \<open>What Docker is asked to create\<close>

definition isolated :: "Config \<Rightarrow> DockerContainer \<Rightarrow> DockerHost \<Rightarrow> bool" where
  "isolated c dc dh \<longleftrightarrow>
     DC_Image dc \<in> set allowedImages \<and> validateUserSpecification (DC_User dc) = None \<and>
     DH_NetworkMode dh = ''none'' \<and> DH_CapDrop dh = [''ALL''] \<and> DH_ReadonlyRootfs dh \<and> DH_AutoRemove dh \<and>
     list_ex (\<lambda>opt. HasPrefix opt ''no-new-privileges'') (DH_SecurityOpt dh) \<and>
     list_all (\<lambda>(path, options). path \<in> set allowedTmpfsPaths \<and> tmpfs_ok options) (DH_Tmpfs dh) \<and>
     0 < DH_Memory dh \<and> DH_Memory dh \<le> MaxMemoryLimitBytes (Security c) \<and>
     0 < DH_CPUQuota dh \<and> DH_CPUQuota dh \<le> MaxCPUQuota (Security c) \<and>
     (\<exists>p. DH_PidsLimit dh = Some p \<and> 0 < p \<and> p \<le> MaxPidsLimit (Security c))"



text \<open>An operation on a container whose identifier is not 12 to 64 lower-case hexadecimal digits fails and
  does not reach Docker: the state of the runtime is unchanged.\<close>

theorem malformed_id_never_reaches_docker:
  assumes "\<not> match_containerID i"
  shows "(\<exists>e. dc_StartContainer api ctx i w = (Some e, w)) \<and>
         (\<exists>e. dc_WaitContainer api ctx i w = ((- 1, Some e), w)) \<and>
         (\<exists>e. dc_GetContainerLogs api ctx i w = (([], [], Some e), w)) \<and>
         (\<exists>e. dc_RemoveContainer api ctx i force w = (Some e, w)) \<and>
         (\<exists>e. dc_StopContainer api ctx i d w = (Some e, w))"
  using dc.start_checked [OF assms, of api ctx w] dc.wait_checked [OF assms, of api ctx w]
    dc.logs_checked [OF assms, of api ctx w] dc.remove_checked [OF assms, of api ctx force w]
    dc.stop_checked [OF assms, of api ctx d w]
  by (simp add: docker_client_def)

theorem malformed_id_never_reaches_docker_witness:
  "\<forall>api w. \<exists>e. dc_RemoveContainer api Background ''ABC'' True w = (Some e, w)"
proof (intro allI)
  fix api :: "'a docker_api" and w :: 'a
  show "\<exists>e. dc_RemoveContainer api Background ''ABC'' True w = (Some e, w)"
    using malformed_id_never_reaches_docker [of "''ABC''" api Background w True 0]
    by (simp add: match_containerID_def)
qed

text \<open>
  The first word a shell reads after a single quote: what stands before the next single quote, and the text
  the shell goes on with.
\<close>

definition single_quoted_word :: "string \<Rightarrow> (string \<times> string) option" where
  "single_quoted_word s =
     (case s of
        [] \<Rightarrow> None
      | c # r \<Rightarrow>
          (if c \<noteq> CHR 0x27 then None
           else (case dropWhile (\<lambda>x. x \<noteq> CHR 0x27) r of
               [] \<Rightarrow> None
             | q # rest \<Rightarrow> Some (takeWhile (\<lambda>x. x \<noteq> CHR 0x27) r, rest))))"

lemma quote_split:
  assumes "CHR 0x27 \<notin> set x"
  shows "dropWhile (\<lambda>c. c \<noteq> CHR 0x27) (x @ CHR 0x27 # z) = CHR 0x27 # z"
    and "takeWhile (\<lambda>c. c \<noteq> CHR 0x27) (x @ CHR 0x27 # z) = x"
    and "dropWhile (\<lambda>c. c \<noteq> CHR 0x27) x = []"
    and "takeWhile (\<lambda>c. c \<noteq> CHR 0x27) x = x"
  using assms by (induction x) auto

text \<open>The command of a Go script passes the script to \<open>echo\<close> between single quotes without escaping it: the
  shell's word ends at the first single quote of the script, and the rest of the script is shell text. A
  script without a single quote is written to \<open>main.go\<close> in full.\<close>

theorem go_script_quoting:
  "single_quoted_word (drop 5 (last (buildCommand ScriptTypeGo content))) =
     Some (takeWhile (\<lambda>c. c \<noteq> CHR 0x27) content,
           (case dropWhile (\<lambda>c. c \<noteq> CHR 0x27) content of [] \<Rightarrow> [] | q # y \<Rightarrow> y @ [CHR 0x27]) @
           '' > main.go && go run main.go'')"
proof (cases "CHR 0x27 \<in> set content")
  case True
  then obtain x y where "content = x @ CHR 0x27 # y" "CHR 0x27 \<notin> set x" by (metis split_list_first)
  then show ?thesis
    by (simp add: buildCommand_def quoted_def single_quoted_word_def quote_split)
next
  case False
  then show ?thesis
    by (simp add: buildCommand_def quoted_def single_quoted_word_def quote_split
        del: dropWhile_eq_Nil_conv takeWhile_eq_all_conv)
qed

end
