(* ===== verification/Cleanup.thy ===== *)
theory Cleanup
  imports ClientInterface
begin

text \<open>
  \<open>internal/executor/cleanup.go\<close>: the registry of containers and the operations that stop, remove and
  unregister them. The state of a \<open>CleanupManager\<close> is the map \<open>containers\<close>; the client and the runtime
  behind it are arguments. \<open>clk\<close> reads the clock of the runtime (\<open>time.Now\<close>). A \<open>range\<close> over the map visits
  the keys in an order Go leaves open: it is the argument \<open>ord\<close>, and \<open>is_range ord cm\<close> says what is known of it.
  The mutex makes each access to the map atomic; an operation here is a sequence of such accesses.
\<close>

section \<open>State\<close>

record ContainerInfo =
  CI_ID :: string
  CI_TaskID :: uuid
  CI_ExecutionID :: uuid
  CI_CreatedAt :: time
  CI_StartedAt :: "time option"
  CI_Status :: string
  CI_Image :: string

type_synonym registry = "string \<rightharpoonup> ContainerInfo"

definition is_range :: "string list \<Rightarrow> registry \<Rightarrow> bool" where
  "is_range ord cm \<longleftrightarrow> distinct ord \<and> set ord = dom cm"

definition NewCleanupManager :: registry where
  "NewCleanupManager = Map.empty"

definition safeContainerID :: "string \<Rightarrow> string" where
  "safeContainerID containerID = (if length containerID \<le> 12 then containerID else take 12 containerID)"

section \<open>Registration\<close>

definition RegisterContainer ::
    "time \<Rightarrow> string \<Rightarrow> uuid \<Rightarrow> uuid \<Rightarrow> string \<Rightarrow> registry \<Rightarrow> go_error option \<times> registry" where
  "RegisterContainer now containerID taskID executionID img cm =
     (if containerID = [] then (Some (Errorf ''cannot register container with empty ID''), cm)
      else if taskID = uuid_Nil then (Some (Errorf ''cannot register container with nil task ID''), cm)
      else if executionID = uuid_Nil then (Some (Errorf ''cannot register container with nil execution ID''), cm)
      else if img = [] then (Some (Errorf ''cannot register container with empty image name''), cm)
      else if cm containerID \<noteq> None
        then (Some (Errorf (''container '' @ safeContainerID containerID @ '' is already registered'')), cm)
      else (None, cm(containerID \<mapsto>
              \<lparr>CI_ID = containerID, CI_TaskID = taskID, CI_ExecutionID = executionID, CI_CreatedAt = now,
               CI_StartedAt = None, CI_Status = ''created'', CI_Image = img\<rparr>)))"

definition MarkContainerStarted :: "time \<Rightarrow> string \<Rightarrow> registry \<Rightarrow> registry" where
  "MarkContainerStarted now containerID cm =
     (case cm containerID of
        None \<Rightarrow> cm
      | Some info \<Rightarrow> cm(containerID \<mapsto> info\<lparr>CI_StartedAt := Some now, CI_Status := ''running''\<rparr>))"

definition MarkContainerCompleted :: "string \<Rightarrow> string \<Rightarrow> registry \<Rightarrow> registry" where
  "MarkContainerCompleted containerID status cm =
     (case cm containerID of
        None \<Rightarrow> cm
      | Some info \<Rightarrow> cm(containerID \<mapsto> info\<lparr>CI_Status := status\<rparr>))"

definition UnregisterContainer :: "string \<Rightarrow> registry \<Rightarrow> registry" where
  "UnregisterContainer containerID cm = cm(containerID := None)"

section \<open>Cleaning up\<close>

text \<open>The manager with the runtime: what an operation that calls the client changes.\<close>

type_synonym 'w managed = "registry \<times> 'w"

definition CleanupContainer ::
    "'w ContainerClient \<Rightarrow> ('w \<Rightarrow> time) \<Rightarrow> Ctx \<Rightarrow> string \<Rightarrow> bool \<Rightarrow> 'w managed \<Rightarrow> go_error option \<times> 'w managed" where
  "CleanupContainer cl clk ctx containerID force0 s =
     (let (cm, w) = s;
          (force, w1) =
            (if \<not> force0 then
               (case StopContainer cl (WithTimeout ctx (clk w) (10 * Second)) containerID (5 * Second) w of
                  (Some err, w') \<Rightarrow> (True, w')
                | (None, w') \<Rightarrow> (force0, w'))
             else (force0, w))
      in case RemoveContainer cl (WithTimeout ctx (clk w1) (30 * Second)) containerID force w1 of
           (Some err, w2) \<Rightarrow>
             (Some (NewContainerError containerID ''cleanup'' ''failed to remove container'' (Some err)), cm, w2)
         | (None, w2) \<Rightarrow> (None, UnregisterContainer containerID cm, w2))"

text \<open>\<open>for _, x := range xs { if err := f(x); err != nil { lastErr = err } }\<close>\<close>

fun last_err_loop ::
    "('a \<Rightarrow> 's \<Rightarrow> go_error option \<times> 's) \<Rightarrow> 'a list \<Rightarrow> go_error option \<Rightarrow> 's \<Rightarrow> go_error option \<times> 's" where
  "last_err_loop f [] lastErr s = (lastErr, s)"
| "last_err_loop f (x # xs) lastErr s =
     (case f x s of
        (Some err, s') \<Rightarrow> last_err_loop f xs (Some err) s'
      | (None, s') \<Rightarrow> last_err_loop f xs lastErr s')"

definition select_containers :: "(ContainerInfo \<Rightarrow> bool) \<Rightarrow> string list \<Rightarrow> registry \<Rightarrow> string list" where
  "select_containers P ord cm = filter (\<lambda>i. case cm i of None \<Rightarrow> False | Some info \<Rightarrow> P info) ord"

definition CleanupExecution ::
    "'w ContainerClient \<Rightarrow> ('w \<Rightarrow> time) \<Rightarrow> string list \<Rightarrow> Ctx \<Rightarrow> uuid \<Rightarrow> 'w managed \<Rightarrow> go_error option \<times> 'w managed" where
  "CleanupExecution cl clk ord ctx executionID s =
     (let containersToCleanup = select_containers (\<lambda>info. CI_ExecutionID info = executionID) ord (fst s)
      in if length containersToCleanup = 0 then (None, s)
         else last_err_loop (\<lambda>i. CleanupContainer cl clk ctx i True) containersToCleanup None s)"

definition CleanupTask ::
    "'w ContainerClient \<Rightarrow> ('w \<Rightarrow> time) \<Rightarrow> string list \<Rightarrow> Ctx \<Rightarrow> uuid \<Rightarrow> 'w managed \<Rightarrow> go_error option \<times> 'w managed" where
  "CleanupTask cl clk ord ctx taskID s =
     (let containersToCleanup = select_containers (\<lambda>info. CI_TaskID info = taskID) ord (fst s)
      in if length containersToCleanup = 0 then (None, s)
         else last_err_loop (\<lambda>i. CleanupContainer cl clk ctx i True) containersToCleanup None s)"

definition CleanupStaleContainers ::
    "'w ContainerClient \<Rightarrow> ('w \<Rightarrow> time) \<Rightarrow> string list \<Rightarrow> Ctx \<Rightarrow> int \<Rightarrow> 'w managed \<Rightarrow> go_error option \<times> 'w managed" where
  "CleanupStaleContainers cl clk ord ctx maxAge s =
     (let now = clk (snd s);
          staleContainers = select_containers (\<lambda>info. time_Sub now (CI_CreatedAt info) > maxAge) ord (fst s)
      in if length staleContainers = 0 then (None, s)
         else last_err_loop (\<lambda>i. CleanupContainer cl clk ctx i True) staleContainers None s)"

definition CleanupAll ::
    "'w ContainerClient \<Rightarrow> ('w \<Rightarrow> time) \<Rightarrow> string list \<Rightarrow> Ctx \<Rightarrow> 'w managed \<Rightarrow> go_error option \<times> 'w managed" where
  "CleanupAll cl clk ord ctx s =
     (let allContainers = select_containers (\<lambda>info. True) ord (fst s)
      in if length allContainers = 0 then (None, s)
         else last_err_loop (\<lambda>i. CleanupContainer cl clk ctx i True) allContainers None s)"

definition cm_Stop ::
    "'w ContainerClient \<Rightarrow> ('w \<Rightarrow> time) \<Rightarrow> string list \<Rightarrow> Ctx \<Rightarrow> 'w managed \<Rightarrow> go_error option \<times> 'w managed" where
  "cm_Stop cl clk ord ctx s = CleanupAll cl clk ord ctx s"

text \<open>One tick of the background task: containers older than one hour, with two minutes for the sweep.\<close>

definition periodic_tick ::
    "'w ContainerClient \<Rightarrow> ('w \<Rightarrow> time) \<Rightarrow> string list \<Rightarrow> 'w managed \<Rightarrow> 'w managed" where
  "periodic_tick cl clk ord s =
     snd (CleanupStaleContainers cl clk ord (WithTimeout Background (clk (snd s)) (120 * Second)) (3600 * Second) s)"

text \<open>The names loop stops at the first name of the service, so a container counts once.\<close>

definition voidrunner_name :: "string \<Rightarrow> bool" where
  "voidrunner_name name0 =
     (let name = (if length name0 > 0 \<and> name0 ! 0 = CHR ''/'' then drop 1 name0 else name0)
      in length name > 10 \<and> take 10 name = ''voidrunner'')"

definition orphaned :: "registry \<Rightarrow> ContainerSummary \<Rightarrow> bool" where
  "orphaned cm container = (list_ex voidrunner_name (Sum_Names container) \<and> cm (Sum_ID container) = None)"

definition ForceCleanupOrphanedContainers ::
    "'w ContainerClient \<Rightarrow> ('w \<Rightarrow> time) \<Rightarrow> Ctx \<Rightarrow> 'w managed \<Rightarrow> go_error option \<times> 'w managed" where
  "ForceCleanupOrphanedContainers cl clk ctx s =
     (let (cm, w) = s
      in case ListContainers cl ctx True w of
        (Inl err, w') \<Rightarrow> (Some (Wrapf ''failed to list containers'' err), cm, w')
      | (Inr containers, w') \<Rightarrow>
          (let orphanedContainers = map Sum_ID (filter (orphaned cm) containers)
           in if length orphanedContainers = 0 then (None, cm, w')
              else last_err_loop (\<lambda>i. CleanupContainer cl clk ctx i True) orphanedContainers None (cm, w')))"

section \<open>Queries\<close>

record CleanupStats =
  TotalTracked :: int
  St_Created :: int
  St_Running :: int
  St_Completed :: int
  St_Failed :: int
  St_Stopped :: int

definition GetContainerInfo :: "registry \<Rightarrow> string \<Rightarrow> ContainerInfo option" where
  "GetContainerInfo cm containerID = cm containerID"

definition GetTrackedContainers :: "string list \<Rightarrow> registry \<Rightarrow> ContainerInfo list" where
  "GetTrackedContainers ord cm = map (\<lambda>i. the (cm i)) ord"

definition count_status :: "string \<Rightarrow> CleanupStats \<Rightarrow> CleanupStats" where
  "count_status status stats =
     (if status = ''created'' then stats\<lparr>St_Created := St_Created stats + 1\<rparr>
      else if status = ''running'' then stats\<lparr>St_Running := St_Running stats + 1\<rparr>
      else if status = ''completed'' then stats\<lparr>St_Completed := St_Completed stats + 1\<rparr>
      else if status = ''failed'' then stats\<lparr>St_Failed := St_Failed stats + 1\<rparr>
      else if status = ''stopped'' then stats\<lparr>St_Stopped := St_Stopped stats + 1\<rparr>
      else stats)"

definition GetStats :: "string list \<Rightarrow> registry \<Rightarrow> CleanupStats" where
  "GetStats ord cm =
     fold (\<lambda>i. count_status (CI_Status (the (cm i)))) ord
       \<lparr>TotalTracked = int (length ord), St_Created = 0, St_Running = 0, St_Completed = 0, St_Failed = 0,
        St_Stopped = 0\<rparr>"

section \<open>Sweeps\<close>

text \<open>
  \<open>sweep step tracked\<close>: the contract between a loop that removes items one by one and the removal of one
  item. A step that succeeds removes its item and no other; one that fails removes nothing.
\<close>

locale sweep =
  fixes step :: "'i \<Rightarrow> 's \<Rightarrow> go_error option \<times> 's"
    and tracked :: "'s \<Rightarrow> 'i \<rightharpoonup> 'v"
  assumes step_ok: "step i s = (None, s') \<Longrightarrow> tracked s' = (tracked s)(i := None)"
    and step_failed: "step i s = (Some e, s') \<Longrightarrow> tracked s' = tracked s"
begin

fun failed :: "'i list \<Rightarrow> 's \<Rightarrow> 'i list" where
  "failed [] s = []"
| "failed (i # is) s =
     (case step i s of (Some e, s') \<Rightarrow> i # failed is s' | (None, s') \<Rightarrow> failed is s')"

lemma failed_subset: "set (failed is s) \<subseteq> set is"
proof (induction "is" arbitrary: s)
  case (Cons i "is")
  obtain r s' where "step i s = (r, s')" by (cases "step i s")
  with Cons [of s'] show ?case by (cases r) auto
qed simp

text \<open>After the loop exactly the items whose removal failed are left of those it was given.\<close>

lemma loop_tracked:
  assumes "distinct is"
  shows "tracked (snd (last_err_loop step is le s)) =
         (\<lambda>i. if i \<in> set is \<and> i \<notin> set (failed is s) then None else tracked s i)"
  using assms
proof (induction "is" arbitrary: le s)
  case (Cons i "is")
  obtain r s' where st: "step i s = (r, s')" by (cases "step i s")
  show ?case
  proof (cases r)
    case None
    with st have "tracked s' = (tracked s)(i := None)" by (simp add: step_ok)
    with Cons None st failed_subset [of "is" s'] show ?thesis by (auto simp: fun_eq_iff)
  next
    case (Some e)
    with st have "tracked s' = tracked s" by (simp add: step_failed)
    with Cons Some st failed_subset [of "is" s'] show ?thesis by (auto simp: fun_eq_iff)
  qed
qed simp

text \<open>The loop reports an error exactly when a removal failed.\<close>

lemma loop_error: "fst (last_err_loop step is le s) = None \<longleftrightarrow> le = None \<and> failed is s = []"
  by (induction "is" arbitrary: le s) (auto split: prod.splits option.splits)

lemma loop_all:
  assumes "distinct is" and "last_err_loop step is le s = (None, s')"
  shows "tracked s' = (\<lambda>i. if i \<in> set is then None else tracked s i)"
  using loop_tracked [OF assms(1), of le s] loop_error [of "is" le s] assms(2) by auto

lemma loop_frame:
  assumes "distinct is" and "i \<notin> set is"
  shows "tracked (snd (last_err_loop step is le s)) i = tracked s i"
  using assms by (simp add: loop_tracked)

lemma loop_left:
  assumes "distinct is" and "i \<in> set is" and "tracked (snd (last_err_loop step is le s)) i \<noteq> None"
  shows "fst (last_err_loop step is le s) \<noteq> None"
  using assms by (auto simp: loop_tracked loop_error split: if_splits)

lemma loop_error_left:
  assumes "distinct is" and "fst (last_err_loop step is None s) \<noteq> None"
  shows "\<exists>i\<in>set is. tracked (snd (last_err_loop step is None s)) i = tracked s i"
proof -
  from assms(2) obtain i where "i \<in> set (failed is s)"
    by (cases "failed is s") (auto simp: loop_error)
  moreover from this failed_subset have "i \<in> set is" by blast
  ultimately show ?thesis using assms(1) by (auto simp: loop_tracked)
qed

end

lemma CleanupContainer_cases:
  "CleanupContainer cl clk ctx i force s = (r, s') \<Longrightarrow>
     (r = None \<and> fst s' = (fst s)(i := None)) \<or> ((\<exists>e. r = Some e) \<and> fst s' = fst s)"
  by (auto simp: CleanupContainer_def UnregisterContainer_def Let_def split: prod.splits option.splits if_splits)

interpretation cm: sweep "\<lambda>i. CleanupContainer cl clk ctx i force" fst
  by unfold_locales (auto dest: CleanupContainer_cases)

lemma select_containers_set:
  "is_range ord cm \<Longrightarrow> set (select_containers P ord cm) = {i. \<exists>info. cm i = Some info \<and> P info}"
  by (auto simp: select_containers_def is_range_def split: option.splits)

lemma select_containers_distinct: "is_range ord cm \<Longrightarrow> distinct (select_containers P ord cm)"
  by (simp add: select_containers_def is_range_def)

text \<open>The five sweeps are one: an empty selection makes the early return.\<close>

definition sweep_selected ::
    "'w ContainerClient \<Rightarrow> ('w \<Rightarrow> time) \<Rightarrow> Ctx \<Rightarrow> (ContainerInfo \<Rightarrow> bool) \<Rightarrow> string list \<Rightarrow> 'w managed \<Rightarrow> go_error option \<times> 'w managed" where
  "sweep_selected cl clk ctx P ord s =
     last_err_loop (\<lambda>i. CleanupContainer cl clk ctx i True) (select_containers P ord (fst s)) None s"

lemma sweeps:
  "CleanupExecution cl clk ord ctx eid s = sweep_selected cl clk ctx (\<lambda>info. CI_ExecutionID info = eid) ord s"
  "CleanupTask cl clk ord ctx tid s = sweep_selected cl clk ctx (\<lambda>info. CI_TaskID info = tid) ord s"
  "CleanupStaleContainers cl clk ord ctx d s =
     sweep_selected cl clk ctx (\<lambda>info. time_Sub (clk (snd s)) (CI_CreatedAt info) > d) ord s"
  "CleanupAll cl clk ord ctx s = sweep_selected cl clk ctx (\<lambda>info. True) ord s"
  by (simp_all add: CleanupExecution_def CleanupTask_def CleanupStaleContainers_def CleanupAll_def
      sweep_selected_def Let_def)

lemma sweep_selected_spec:
  assumes "is_range ord (fst s)"
  shows "(fst (sweep_selected cl clk ctx P ord s) = None \<longrightarrow>
            fst (snd (sweep_selected cl clk ctx P ord s)) =
              (\<lambda>i. case fst s i of None \<Rightarrow> None | Some info \<Rightarrow> if P info then None else Some info)) \<and>
         (\<forall>i info. fst s i = Some info \<and> \<not> P info \<longrightarrow>
            fst (snd (sweep_selected cl clk ctx P ord s)) i = Some info) \<and>
         fst (snd (sweep_selected cl clk ctx P ord s)) \<subseteq>\<^sub>m fst s"
proof -
  let ?is = "select_containers P ord (fst s)"
  have d: "distinct ?is" using assms by (rule select_containers_distinct)
  have st: "set ?is = {i. \<exists>info. fst s i = Some info \<and> P info}" using assms by (rule select_containers_set)
  have t: "fst (snd (sweep_selected cl clk ctx P ord s)) =
      (\<lambda>i. if i \<in> set ?is \<and> i \<notin> set (cm.failed cl clk ctx True ?is s) then None else fst s i)"
    unfolding sweep_selected_def using d by (rule cm.loop_tracked)
  have e: "fst (sweep_selected cl clk ctx P ord s) = None \<longleftrightarrow> cm.failed cl clk ctx True ?is s = []"
    by (simp add: sweep_selected_def cm.loop_error)
  show ?thesis
    unfolding t e by (auto simp: st fun_eq_iff map_le_def split: option.splits)
qed

section \<open>Properties of the sweeps\<close>

text \<open>\<open>CleanupExecution\<close> touches the containers of its execution only, never adds an entry, and when it
  returns no error it has unregistered all of them and nothing else.\<close>

theorem cleanup_execution_spec:
  assumes "is_range ord cm"
    and "CleanupExecution cl clk ord ctx eid (cm, w) = (err, cm', w')"
  shows "(\<forall>i info. cm i = Some info \<and> CI_ExecutionID info \<noteq> eid \<longrightarrow> cm' i = Some info) \<and>
         cm' \<subseteq>\<^sub>m cm \<and>
         (err = None \<longrightarrow> (\<forall>i. cm' i = (case cm i of None \<Rightarrow> None
            | Some info \<Rightarrow> if CI_ExecutionID info = eid then None else Some info)))"
  using sweep_selected_spec [of ord "(cm, w)" cl clk ctx "\<lambda>info. CI_ExecutionID info = eid"] assms
  by (simp add: sweeps)

text \<open>A client whose operations always succeed, on a state that is a clock.\<close>

definition idle_client :: "int ContainerClient" where
  "idle_client =
     \<lparr>CreateContainer = (\<lambda>ctx cfg w. (Inr ''0123456789ab'', w)), StartContainer = (\<lambda>ctx i w. (None, w)),
      WaitContainer = (\<lambda>ctx i w. ((0, None), w + Second)), GetContainerLogs = (\<lambda>ctx i w. ((''out'', [], None), w)),
      RemoveContainer = (\<lambda>ctx i force w. (None, w)), StopContainer = (\<lambda>ctx i d w. (None, w)),
      IsHealthy = (\<lambda>ctx w. (None, w)), ListContainers = (\<lambda>ctx all w. (Inr [], w)),
      PullImage = (\<lambda>ctx img w. (None, w)), GetDockerInfo = (\<lambda>ctx w. (Inr JNull, w)),
      GetDockerVersion = (\<lambda>ctx w. (Inr JNull, w))\<rparr>"

definition example_registry :: registry where
  "example_registry =
     snd (RegisterContainer 5 ''b'' 1 3 ''alpine:latest'' (snd (RegisterContainer 4 ''a'' 1 2 ''alpine:latest'' NewCleanupManager)))"

lemma example_registry_range: "is_range [''a'', ''b''] example_registry"
  by (auto simp: is_range_def example_registry_def RegisterContainer_def NewCleanupManager_def)

theorem cleanup_execution_spec_witness:
  "(let (err, cm', w') = CleanupExecution idle_client id [''a'', ''b''] Background 2 (example_registry, 7)
    in cm' ''b'' \<noteq> None \<and> err = None \<and> cm' ''a'' = None)"
proof -
  let ?r = "CleanupExecution idle_client id [''a'', ''b''] Background 2 (example_registry, 7)"
  obtain err cm' w' where r: "?r = (err, cm', w')" by (cases ?r)
  note spec = cleanup_execution_spec [OF example_registry_range r]
  have "fst ?r = None"
    by (simp add: CleanupExecution_def select_containers_def example_registry_def RegisterContainer_def
        NewCleanupManager_def CleanupContainer_def idle_client_def)
  with r have "err = None" by simp
  moreover have "\<exists>info. example_registry ''b'' = Some info \<and> CI_ExecutionID info \<noteq> 2"
    "\<exists>info. example_registry ''a'' = Some info \<and> CI_ExecutionID info = 2"
    by (simp_all add: example_registry_def RegisterContainer_def NewCleanupManager_def)
  ultimately show ?thesis using spec r by auto
qed

text \<open>\<open>Stop\<close> leaves the registry empty exactly when it reports success: a container it could not remove stays
  registered, and the error says so.\<close>

theorem stop_empties_registry:
  assumes "is_range ord cm" and "cm_Stop cl clk ord ctx (cm, w) = (err, cm', w')"
  shows "err = None \<longleftrightarrow> cm' = Map.empty"
proof -
  let ?is = "select_containers (\<lambda>info. True) ord cm"
  have is_dom: "set ?is = dom cm" using select_containers_set [OF assms(1)] by auto
  have r: "sweep_selected cl clk ctx (\<lambda>info. True) ord (cm, w) = (err, cm', w')"
    using assms(2) by (simp add: cm_Stop_def sweeps)
  have "cm' = Map.empty" if "err = None"
    using sweep_selected_spec [of ord "(cm, w)" cl clk ctx "\<lambda>info. True"] assms(1) r that
    by (simp add: fun_eq_iff split: option.splits)
  moreover have "cm' \<noteq> Map.empty" if "err \<noteq> None"
  proof -
    from r have "fst (last_err_loop (\<lambda>i. CleanupContainer cl clk ctx i True) ?is None (cm, w)) = err"
      and l: "fst (snd (last_err_loop (\<lambda>i. CleanupContainer cl clk ctx i True) ?is None (cm, w))) = cm'"
      by (simp_all add: sweep_selected_def)
    with that cm.loop_error_left [OF select_containers_distinct [OF assms(1)], of cl clk ctx True _ "(cm, w)"]
    obtain i where "i \<in> set ?is" "cm' i = cm i" by auto
    with is_dom show ?thesis by auto
  qed
  ultimately show ?thesis by blast
qed

theorem stop_empties_registry_witness:
  "fst (snd (cm_Stop idle_client id [''a'', ''b''] Background (example_registry, 7))) = Map.empty"
proof -
  let ?r = "cm_Stop idle_client id [''a'', ''b''] Background (example_registry, 7)"
  have "?r = (fst ?r, fst (snd ?r), snd (snd ?r))" by simp
  from stop_empties_registry [OF example_registry_range this]
  have "fst ?r = None \<longleftrightarrow> fst (snd ?r) = Map.empty" .
  moreover have "fst ?r = None"
    by (simp add: cm_Stop_def CleanupAll_def select_containers_def example_registry_def RegisterContainer_def
        NewCleanupManager_def CleanupContainer_def idle_client_def)
  ultimately show ?thesis by blast
qed

section \<open>The registry as a state machine\<close>

text \<open>The statuses \<open>MarkContainerCompleted\<close> is called with: the terminal statuses of an execution.\<close>

definition final_statuses :: "string list" where
  "final_statuses =
     [ExecutionStatusCompleted, ExecutionStatusFailed, ExecutionStatusTimeout, ExecutionStatusCancelled]"

inductive cm_step :: "'w ContainerClient \<Rightarrow> ('w \<Rightarrow> time) \<Rightarrow> 'w managed \<Rightarrow> 'w managed \<Rightarrow> bool"
  for cl clk where
  register: "RegisterContainer (clk w) i tid eid img cm = (r, cm') \<Longrightarrow> cm_step cl clk (cm, w) (cm', w)"
| started: "cm_step cl clk (cm, w) (MarkContainerStarted (clk w) i cm, w)"
| completed: "status \<in> set final_statuses \<Longrightarrow>
    cm_step cl clk (cm, w) (MarkContainerCompleted i status cm, w)"
| unregister: "cm_step cl clk (cm, w) (UnregisterContainer i cm, w)"
| cleanup: "CleanupContainer cl clk ctx i force s = (r, s') \<Longrightarrow> cm_step cl clk s s'"
| runtime: "cm_step cl clk (cm, w) (cm, w')"

inductive_cases cm_stepE: "cm_step cl clk s s'"

inductive cm_reach :: "'w ContainerClient \<Rightarrow> ('w \<Rightarrow> time) \<Rightarrow> 'w managed \<Rightarrow> bool" for cl clk where
  init: "cm_reach cl clk (NewCleanupManager, w)"
| step: "cm_reach cl clk s \<Longrightarrow> cm_step cl clk s s' \<Longrightarrow> cm_reach cl clk s'"

text \<open>
  An entry is well tracked: it is stored under its own identifier, which is not empty, belongs to a task and
  an execution, names an image, and its status fits its start time.
\<close>

definition well_tracked :: "string \<Rightarrow> ContainerInfo \<Rightarrow> bool" where
  "well_tracked i info \<longleftrightarrow>
     CI_ID info = i \<and> i \<noteq> [] \<and> CI_TaskID info \<noteq> uuid_Nil \<and> CI_ExecutionID info \<noteq> uuid_Nil \<and>
     CI_Image info \<noteq> [] \<and> CI_Status info \<in> set (''created'' # ''running'' # final_statuses) \<and>
     (CI_Status info = ''created'' \<longrightarrow> CI_StartedAt info = None) \<and>
     (CI_Status info = ''running'' \<longrightarrow> CI_StartedAt info \<noteq> None)"

definition registry_ok :: "registry \<Rightarrow> bool" where
  "registry_ok cm \<longleftrightarrow> (\<forall>i info. cm i = Some info \<longrightarrow> well_tracked i info)"

lemma registry_ok_empty: "registry_ok NewCleanupManager"
  by (simp add: registry_ok_def NewCleanupManager_def)

lemma registry_ok_upd: "registry_ok cm \<Longrightarrow> well_tracked i info \<Longrightarrow> registry_ok (cm(i \<mapsto> info))"
  by (auto simp: registry_ok_def)

lemma registry_ok_del: "registry_ok cm \<Longrightarrow> registry_ok (cm(i := None))"
  by (auto simp: registry_ok_def)

lemma RegisterContainer_ok:
  "registry_ok cm \<Longrightarrow> RegisterContainer now i tid eid img cm = (r, cm') \<Longrightarrow> registry_ok cm'"
  by (auto simp: RegisterContainer_def well_tracked_def split: if_splits intro!: registry_ok_upd)

lemma MarkContainerStarted_ok: "registry_ok cm \<Longrightarrow> registry_ok (MarkContainerStarted now i cm)"
  by (auto simp: MarkContainerStarted_def registry_ok_def well_tracked_def split: option.splits)

lemma MarkContainerCompleted_ok:
  "registry_ok cm \<Longrightarrow> status \<in> set final_statuses \<Longrightarrow> registry_ok (MarkContainerCompleted i status cm)"
  by (auto simp: MarkContainerCompleted_def registry_ok_def well_tracked_def final_statuses_def split: option.splits)

lemma CleanupContainer_ok:
  "registry_ok (fst s) \<Longrightarrow> CleanupContainer cl clk ctx i force s = (r, s') \<Longrightarrow> registry_ok (fst s')"
  by (auto dest!: CleanupContainer_cases intro: registry_ok_del)

lemma cm_step_ok: "cm_step cl clk s s' \<Longrightarrow> registry_ok (fst s) \<Longrightarrow> registry_ok (fst s')"
  by (induction rule: cm_step.induct)
    (auto simp: UnregisterContainer_def intro: RegisterContainer_ok MarkContainerStarted_ok
      MarkContainerCompleted_ok CleanupContainer_ok registry_ok_del)

lemma cm_reach_ok: "cm_reach cl clk s \<Longrightarrow> registry_ok (fst s)"
  by (induction rule: cm_reach.induct) (auto simp: registry_ok_empty intro: cm_step_ok)

text \<open>A sweep is a sequence of steps.\<close>

lemma last_err_loop_reach:
  "cm_reach cl clk s \<Longrightarrow>
   cm_reach cl clk (snd (last_err_loop (\<lambda>i. CleanupContainer cl clk ctx i force) is le s))"
proof (induction "is" arbitrary: le s)
  case (Cons i "is")
  obtain r s' where r: "CleanupContainer cl clk ctx i force s = (r, s')"
    by (cases "CleanupContainer cl clk ctx i force s")
  then have "cm_reach cl clk s'" by (rule cm_reach.step [OF Cons.prems cm_step.cleanup])
  with Cons.IH r show ?case by (cases r) auto
qed simp

text \<open>C20: Every entry of the registry is well tracked in every state that registrations, status changes,
  cleanups and changes of the runtime can reach from the empty registry, in any order.\<close>

theorem registry_invariant:
  assumes "cm_reach cl clk (cm, w)" and "cm i = Some info"
  shows "well_tracked i info"
  using cm_reach_ok [OF assms(1)] assms(2) by (simp add: registry_ok_def)

lemma example_registry_reach:
  "cm_reach idle_client id (example_registry, 5)"
  "cm_reach idle_client id (MarkContainerCompleted ''a'' ExecutionStatusTimeout example_registry, 5)"
proof -
  let ?r1 = "RegisterContainer 4 ''a'' 1 2 ''alpine:latest'' NewCleanupManager"
  have "cm_reach idle_client id (NewCleanupManager, 4)" by (rule cm_reach.init)
  moreover have "cm_step idle_client id (NewCleanupManager, 4) (snd ?r1, 4)"
    by (rule cm_step.register [where r = "fst ?r1"]) simp
  ultimately have "cm_reach idle_client id (snd ?r1, 4)" by (rule cm_reach.step)
  then have "cm_reach idle_client id (snd ?r1, 5)" by (rule cm_reach.step [OF _ cm_step.runtime])
  moreover have "cm_step idle_client id (snd ?r1, 5) (example_registry, 5)"
    unfolding example_registry_def
    by (rule cm_step.register [where r = "fst (RegisterContainer 5 ''b'' 1 3 ''alpine:latest'' (snd ?r1))"]) simp
  ultimately show r: "cm_reach idle_client id (example_registry, 5)" by (rule cm_reach.step)
  show "cm_reach idle_client id (MarkContainerCompleted ''a'' ExecutionStatusTimeout example_registry, 5)"
    by (rule cm_reach.step [OF r cm_step.completed]) (simp add: final_statuses_def)
qed

theorem registry_invariant_witness:
  "well_tracked ''b'' (the (example_registry ''b''))"
proof -
  have "example_registry ''b'' = Some (the (example_registry ''b''))"
    by (simp add: example_registry_def RegisterContainer_def NewCleanupManager_def)
  with example_registry_reach(1) show ?thesis by (rule registry_invariant)
qed

section \<open>Statistics\<close>

definition status_count :: "string \<Rightarrow> string list \<Rightarrow> registry \<Rightarrow> int" where
  "status_count st ord cm = int (length (filter (\<lambda>i. CI_Status (the (cm i)) = st) ord))"

lemma fold_count_status:
  "fold (\<lambda>i. count_status (CI_Status (the (cm i)))) ord stats =
     \<lparr>TotalTracked = TotalTracked stats,
      St_Created = St_Created stats + status_count ''created'' ord cm,
      St_Running = St_Running stats + status_count ''running'' ord cm,
      St_Completed = St_Completed stats + status_count ''completed'' ord cm,
      St_Failed = St_Failed stats + status_count ''failed'' ord cm,
      St_Stopped = St_Stopped stats + status_count ''stopped'' ord cm\<rparr>"
  by (induction ord arbitrary: stats) (auto simp: status_count_def count_status_def)

lemma GetStats_eq:
  "GetStats ord cm =
     \<lparr>TotalTracked = int (length ord), St_Created = status_count ''created'' ord cm,
      St_Running = status_count ''running'' ord cm, St_Completed = status_count ''completed'' ord cm,
      St_Failed = status_count ''failed'' ord cm, St_Stopped = status_count ''stopped'' ord cm\<rparr>"
  by (simp add: GetStats_def fold_count_status)

lemma status_count_total:
  assumes "\<forall>i\<in>set ord. CI_Status (the (cm i)) \<in> set (''created'' # ''running'' # final_statuses)"
  shows "int (length ord) = status_count ''created'' ord cm + status_count ''running'' ord cm +
     status_count ''completed'' ord cm + status_count ''failed'' ord cm +
     status_count ''timeout'' ord cm + status_count ''cancelled'' ord cm"
  using assms by (induction ord) (auto simp: status_count_def final_statuses_def)

text \<open>In a reachable registry the five status counters of \<open>GetStats\<close> miss \<open>TotalTracked\<close> by exactly the
  containers whose execution timed out or was cancelled, and the counter \<open>Stopped\<close> is always zero.\<close>

theorem stats_miss_timeout_and_cancelled:
  assumes "cm_reach cl clk (cm, w)" and "is_range ord cm"
  shows "TotalTracked (GetStats ord cm) =
     St_Created (GetStats ord cm) + St_Running (GetStats ord cm) + St_Completed (GetStats ord cm) +
     St_Failed (GetStats ord cm) + status_count ''timeout'' ord cm + status_count ''cancelled'' ord cm \<and>
   St_Stopped (GetStats ord cm) = 0"
proof -
  have st: "CI_Status (the (cm i)) \<in> set (''created'' # ''running'' # final_statuses)" if "i \<in> set ord" for i
  proof -
    from assms(2) that obtain info where i: "cm i = Some info" by (auto simp: is_range_def)
    with cm_reach_ok [OF assms(1)] have "well_tracked i info" by (simp add: registry_ok_def)
    with i show ?thesis by (simp add: well_tracked_def)
  qed
  then have "filter (\<lambda>i. CI_Status (the (cm i)) = ''stopped'') ord = []"
    by (fastforce simp: filter_empty_conv final_statuses_def)
  with status_count_total [of ord cm] st show ?thesis
    by (simp add: GetStats_eq) (simp add: status_count_def)
qed

theorem stats_miss_timeout_and_cancelled_witness:
  "(let cm = MarkContainerCompleted ''a'' ExecutionStatusTimeout example_registry; st = GetStats [''a'', ''b''] cm
    in TotalTracked st = 2 \<and> St_Created st + St_Running st + St_Completed st + St_Failed st = 1)"
proof -
  let ?cm = "MarkContainerCompleted ''a'' ExecutionStatusTimeout example_registry"
  have e: "?cm = [''a'' \<mapsto> \<lparr>CI_ID = ''a'', CI_TaskID = 1, CI_ExecutionID = 2, CI_CreatedAt = 4,
      CI_StartedAt = None, CI_Status = ''timeout'', CI_Image = ''alpine:latest''\<rparr>,
     ''b'' \<mapsto> \<lparr>CI_ID = ''b'', CI_TaskID = 1, CI_ExecutionID = 3, CI_CreatedAt = 5, CI_StartedAt = None,
      CI_Status = ''created'', CI_Image = ''alpine:latest''\<rparr>]"
    by (simp add: MarkContainerCompleted_def example_registry_def RegisterContainer_def NewCleanupManager_def fun_eq_iff)
  have "is_range [''a'', ''b''] ?cm" by (auto simp: e is_range_def)
  note stats = stats_miss_timeout_and_cancelled [OF example_registry_reach(2) this]
  have "status_count ''timeout'' [''a'', ''b''] ?cm = 1" "status_count ''cancelled'' [''a'', ''b''] ?cm = 0"
    by (simp_all add: e status_count_def)
  moreover have "TotalTracked (GetStats [''a'', ''b''] ?cm) = 2" by (simp add: GetStats_eq)
  ultimately show ?thesis using stats by (simp add: Let_def)
qed

end
