(* ===== verification/Executor.thy ===== *)
theory Executor
  imports DockerClient Cleanup
begin

text \<open>
  \<open>internal/executor/executor.go\<close>: running a task in a container. An \<open>Executor\<close> is its client, its
  configuration and the readings of the environment its calls make: the clock, the file system, the order of
  the map ranged over in the validation of tmpfs options, and the renderings of UUIDs and of non-ASCII case.
  Its state is the registry of the cleanup manager together with the runtime behind the client. A run-time
  panic of Go (a nil dereference, an index out of range) is the outcome \<open>Panic\<close>.
\<close>

section \<open>Data\<close>

datatype 'a outcome = Return 'a | Panic

record ExecutionContext =
  EC_Task :: "Task option"
  EC_Execution :: "TaskExecution option"
  EC_Timeout :: int
  EC_ResourceLimits :: ResourceLimits

record 'w Executor =
  ex_client :: "'w ContainerClient"
  ex_config :: Config
  ex_clock :: "'w \<Rightarrow> time"
  ex_stat :: "'w \<Rightarrow> file_stat"
  ex_range :: "string list"
  ex_case :: casemap
  ex_uuid :: "uuid \<Rightarrow> string"

type_synonym result = "ExecutionResult option \<times> go_error option"

definition zero_result :: ExecutionResult where
  "zero_result =
     \<lparr>Res_Status = [], Res_ReturnCode = None, Res_Stdout = None, Res_Stderr = None,
      Res_ExecutionTimeMs = None, Res_MemoryUsageBytes = None, Res_StartedAt = None, Res_CompletedAt = None\<rparr>"

section \<open>The container configuration of a task\<close>

definition base_environment :: "string list" where
  "base_environment =
     [''PATH=/usr/local/bin:/usr/bin:/bin'', ''HOME=/tmp'', ''USER=executor'', ''PYTHONIOENCODING=utf-8'']"

definition buildContainerConfig :: "'w Executor \<Rightarrow> Task \<Rightarrow> ResourceLimits \<Rightarrow> int \<Rightarrow> go_error + ContainerConfig" where
  "buildContainerConfig e task resourceLimits0 timeout0 =
     (let img = GetImageForScriptType (ex_config e) (Task_ScriptType task)
      in case CheckImageSecurity img of
        Some err \<Rightarrow> Inl (Wrapf ''image security check failed'' err)
      | None \<Rightarrow>
          (let resourceLimits = (if MemoryLimitBytes resourceLimits0 = 0
                                 then GetResourceLimitsForTask (ex_config e) task else resourceLimits0);
               timeout = (if timeout0 = 0 then GetTimeoutForTask (ex_config e) task else timeout0)
           in Inr \<lparr>CC_Image = img, CC_ScriptType = Task_ScriptType task,
                   CC_ScriptContent = Task_ScriptContent task,
                   CC_Environment = SanitizeEnvironment (ex_case e) base_environment,
                   CC_WorkingDir = ''/tmp/workspace'', CC_ResourceLimits = resourceLimits,
                   CC_SecurityConfig = GetSecurityConfigForTask (ex_config e) task,
                   CC_Timeout = timeout\<rparr>))"

section \<open>Running a container\<close>

text \<open>The status after the wait: \<open>err\<close> is its error and \<open>ctxErr\<close> is \<open>ctx.Err()\<close> at that moment.\<close>

definition classify_wait :: "go_error option \<Rightarrow> go_error option \<Rightarrow> int \<Rightarrow> ExecutionResult \<Rightarrow> ExecutionResult" where
  "classify_wait err0 ctxErr exitCode result =
     (case err0 of
        Some err \<Rightarrow>
          (if IsTimeoutError err \<or> ctxErr = Some (Sentinel CtxDeadlineExceeded)
             then result\<lparr>Res_Status := ExecutionStatusTimeout\<rparr>
           else if IsCancelledError err \<or> ctxErr = Some (Sentinel CtxCanceled)
             then result\<lparr>Res_Status := ExecutionStatusCancelled\<rparr>
           else result\<lparr>Res_Status := ExecutionStatusFailed\<rparr>)
      | None \<Rightarrow>
          (let result1 = result\<lparr>Res_ReturnCode := Some exitCode\<rparr>
           in if exitCode = 0 then result1\<lparr>Res_Status := ExecutionStatusCompleted\<rparr>
              else result1\<lparr>Res_Status := ExecutionStatusFailed\<rparr>))"

text \<open>The body of \<open>executeContainer\<close> between the registration of the cleanup and its execution.\<close>

definition run_container ::
    "'w Executor \<Rightarrow> Ctx \<Rightarrow> string \<Rightarrow> time \<Rightarrow> ExecutionResult \<Rightarrow> 'w managed \<Rightarrow> result \<times> 'w managed" where
  "run_container e ctx containerID startTime result0 s =
     (let (cm, w) = s
      in case StartContainer (ex_client e) ctx containerID w of
        (Some err, w1) \<Rightarrow>
          ((Some (result0\<lparr>Res_Status := ExecutionStatusFailed\<rparr>),
            Some (NewExecutorError ''execute_container'' ''failed to start container'' (Some err))), cm, w1)
      | (None, w1) \<Rightarrow>
          (let cm1 = MarkContainerStarted (ex_clock e w1) containerID cm
           in case WaitContainer (ex_client e) ctx containerID w1 of
             ((exitCode, err), w2) \<Rightarrow>
               (let endTime = ex_clock e w2;
                    result1 = result0\<lparr>Res_CompletedAt := Some endTime,
                                      Res_ExecutionTimeMs := Some (Milliseconds (time_Sub endTime startTime))\<rparr>;
                    result2 = classify_wait err (ctx_Err ctx endTime) exitCode result1
                in case GetContainerLogs (ex_client e) ctx containerID w2 of
                  ((stdout, stderr0, logErr), w3) \<Rightarrow>
                    (let stderr = (case logErr of
                                     None \<Rightarrow> stderr0
                                   | Some le \<Rightarrow> ''Failed to retrieve logs: '' @ error_message (ex_uuid e) le);
                         result3 = (if stdout \<noteq> [] then result2\<lparr>Res_Stdout := Some stdout\<rparr> else result2);
                         result4 = (if stderr \<noteq> [] then result3\<lparr>Res_Stderr := Some stderr\<rparr> else result3);
                         cm2 = MarkContainerCompleted containerID (Res_Status result4) cm1
                     in ((Some result4, err), cm2, w3)))))"

text \<open>
  \<open>containerID[:12]\<close> panics when the identifier is shorter, \<open>execCtx.Execution.ID\<close> when the execution is nil;
  both come before the deferred removal is registered.
\<close>

definition executeContainer ::
    "'w Executor \<Rightarrow> Ctx \<Rightarrow> ContainerConfig \<Rightarrow> Task \<Rightarrow> ExecutionContext \<Rightarrow> 'w managed \<Rightarrow> result outcome \<times> 'w managed" where
  "executeContainer e ctx config task execCtx s =
     (let (cm, w) = s;
          startTime = ex_clock e w;
          result0 = zero_result\<lparr>Res_Status := ExecutionStatusRunning, Res_StartedAt := Some startTime\<rparr>
      in case CreateContainer (ex_client e) ctx (Some config) w of
        (Inl err, w1) \<Rightarrow>
          (Return (Some (result0\<lparr>Res_Status := ExecutionStatusFailed\<rparr>),
                   Some (NewExecutorError ''execute_container'' ''failed to create container'' (Some err))), cm, w1)
      | (Inr containerID, w1) \<Rightarrow>
          (if length containerID < 12 then (Panic, cm, w1)
           else (case EC_Execution execCtx of
               None \<Rightarrow> (Panic, cm, w1)
             | Some execution \<Rightarrow>
                 (let (regErr, cm1) = RegisterContainer (ex_clock e w1) containerID (Task_ID task)
                                        (Exec_ID execution) (CC_Image config) cm;
                      (r, cm2, w2) = run_container e ctx containerID startTime result0 (cm1, w1);
                      (rmErr, w3) = RemoveContainer (ex_client e)
                                      (WithTimeout Background (ex_clock e w2) (30 * Second)) containerID True w2
                  in (Return r, cm2, w3)))))"

definition failed_result :: "'w Executor \<Rightarrow> string \<Rightarrow> go_error \<Rightarrow> result" where
  "failed_result e pre err =
     (Some (zero_result\<lparr>Res_Status := ExecutionStatusFailed,
                        Res_Stderr := Some (pre @ error_message (ex_uuid e) err)\<rparr>), Some err)"

definition Execute ::
    "'w Executor \<Rightarrow> Ctx \<Rightarrow> ExecutionContext option \<Rightarrow> 'w managed \<Rightarrow> result outcome \<times> 'w managed" where
  "Execute e ctx execCtx0 s =
     (case Option.bind execCtx0 (\<lambda>x. map_option (Pair x) (EC_Task x)) of
        None \<Rightarrow> (Return (None, Some (NewExecutorError ''execute'' ''execution context or task is nil'' None)), s)
      | Some (execCtx, task) \<Rightarrow>
          (case sm_ValidateScriptContent (ex_case e) (Task_ScriptContent task) (Task_ScriptType task) of
             Some err \<Rightarrow> (Return (failed_result e ''Security validation failed: '' err), s)
           | None \<Rightarrow>
               (case buildContainerConfig e task (EC_ResourceLimits execCtx) (EC_Timeout execCtx) of
                  Inl err \<Rightarrow> (Return (failed_result e ''Configuration error: '' err), s)
                | Inr containerConfig \<Rightarrow>
                    (case ValidateContainerConfig (ex_case e) (ex_stat e (snd s)) (ex_range e) (ex_config e)
                            (Some containerConfig) of
                       Some err \<Rightarrow> (Return (failed_result e ''Security validation failed: '' err), s)
                     | None \<Rightarrow>
                         (let execTimeout = (if EC_Timeout execCtx = 0 then GetTimeoutForTask (ex_config e) task
                                             else EC_Timeout execCtx);
                              ctxWithTimeout = WithTimeout ctx (ex_clock e (snd s)) execTimeout
                          in case executeContainer e ctxWithTimeout containerConfig task execCtx s of
                            (Panic, s') \<Rightarrow> (Panic, s')
                          | (Return (None, Some err), s') \<Rightarrow>
                              (Return (failed_result e ''Execution error: '' err), s')
                          | (Return r, s') \<Rightarrow> (Return r, s'))))))"

section \<open>The other operations\<close>

definition Cancel ::
    "'w Executor \<Rightarrow> string list \<Rightarrow> Ctx \<Rightarrow> uuid \<Rightarrow> 'w managed \<Rightarrow> go_error option \<times> 'w managed" where
  "Cancel e ord ctx executionID s =
     (case CleanupExecution (ex_client e) (ex_clock e) ord ctx executionID s of
        (Some err, s') \<Rightarrow>
          (Some (NewExecutorError ''cancel'' ''failed to cancel execution containers'' (Some err)), s')
      | (None, s') \<Rightarrow> (None, s'))"

definition ensureImageAvailable :: "'w Executor \<Rightarrow> Ctx \<Rightarrow> string \<Rightarrow> go_error option" where
  "ensureImageAvailable e ctx img = None"

definition Executor_IsHealthy :: "'w Executor \<Rightarrow> Ctx \<Rightarrow> 'w \<Rightarrow> go_error option \<times> 'w" where
  "Executor_IsHealthy e ctx w =
     (case IsHealthy (ex_client e) ctx w of
        (Some err, w') \<Rightarrow> (Some (Wrapf ''Docker client health check failed'' err), w')
      | (None, w') \<Rightarrow> (map_option (Wrapf ''configuration validation failed'') (Config_Validate (ex_config e)), w'))"

text \<open>\<open>close\<close> is the client's \<open>Close\<close> method, \<open>None\<close> when it has none.\<close>

definition Executor_Cleanup ::
    "'w Executor \<Rightarrow> string list \<Rightarrow> ('w \<Rightarrow> go_error option \<times> 'w) option \<Rightarrow> Ctx \<Rightarrow> 'w managed \<Rightarrow>
     go_error option \<times> 'w managed" where
  "Executor_Cleanup e ord close ctx s =
     (let (stopErr, cm, w) = cm_Stop (ex_client e) (ex_clock e) ord ctx s
      in case close of
        None \<Rightarrow> (None, cm, w)
      | Some f \<Rightarrow> (case f w of (err, w') \<Rightarrow> (err, cm, w')))"

record ExecutorInfo =
  EI_Version :: string
  EI_DockerInfo :: json
  EI_Config :: Config
  EI_IsHealthy :: bool

definition GetExecutorInfo :: "'w Executor \<Rightarrow> Ctx \<Rightarrow> 'w \<Rightarrow> (go_error + ExecutorInfo) \<times> 'w" where
  "GetExecutorInfo e ctx w =
     (case GetDockerInfo (ex_client e) ctx w of
        (Inl err, w') \<Rightarrow> (Inl (Wrapf ''failed to get Docker info'' err), w')
      | (Inr dockerInfo, w') \<Rightarrow>
          (case Executor_IsHealthy e ctx w' of
             (healthErr, w'') \<Rightarrow>
               (Inr \<lparr>EI_Version = ''1.0.0'', EI_DockerInfo = dockerInfo, EI_Config = ex_config e,
                     EI_IsHealthy = (healthErr = None)\<rparr>, w'')))"

text \<open>\<open>env\<close> gives the readings of the environment; its client and configuration are replaced.\<close>

definition NewExecutor ::
    "'w Executor \<Rightarrow> (go_error + 'w docker_api) \<Rightarrow> Config option \<Rightarrow> 'w \<Rightarrow> (go_error + 'w Executor) \<times> 'w managed" where
  "NewExecutor env new config0 w =
     (let config = (case config0 of None \<Rightarrow> NewDefaultConfig | Some c \<Rightarrow> c)
      in case NewDockerClient new (Some config) w of
        (Inl err, w') \<Rightarrow> (Inl (Wrapf ''failed to create Docker client'' err), NewCleanupManager, w')
      | (Inr (dcConfig, api), w') \<Rightarrow>
          (Inr (env\<lparr>ex_client := docker_client api, ex_config := config\<rparr>), NewCleanupManager, w'))"

section \<open>The calls of one execution\<close>

definition traced_executor :: "'w Executor \<Rightarrow> ('w \<times> client_event list) Executor" where
  "traced_executor e =
     \<lparr>ex_client = traced (ex_client e), ex_config = ex_config e, ex_clock = (\<lambda>s. ex_clock e (fst s)),
      ex_stat = (\<lambda>s. ex_stat e (fst s)), ex_range = ex_range e, ex_case = ex_case e, ex_uuid = ex_uuid e\<rparr>"

lemma traced_executor_simps [simp]:
  "ex_client (traced_executor e) = traced (ex_client e)"
  "ex_config (traced_executor e) = ex_config e"
  "ex_clock (traced_executor e) s = ex_clock e (fst s)"
  "ex_stat (traced_executor e) s = ex_stat e (fst s)"
  "ex_range (traced_executor e) = ex_range e"
  "ex_case (traced_executor e) = ex_case e"
  "ex_uuid (traced_executor e) = ex_uuid e"
  by (simp_all add: traced_executor_def)

text \<open>The life of a container as its client sees it.\<close>

datatype phase = Fresh | Created string | NotStarted string | Started string | Ended string | Logged string | Done

fun advance :: "phase \<Rightarrow> client_event \<Rightarrow> phase option" where
  "advance Fresh (EvCreate cfg (Inl err)) = Some Done"
| "advance Fresh (EvCreate cfg (Inr i)) = Some (Created i)"
| "advance (Created i) (EvStart j r) =
     (if j \<noteq> i then None else case r of None \<Rightarrow> Some (Started i) | Some err \<Rightarrow> Some (NotStarted i))"
| "advance (Started i) (EvWait j r) = (if j = i then Some (Ended i) else None)"
| "advance (Ended i) (EvLogs j r) = (if j = i then Some (Logged i) else None)"
| "advance (NotStarted i) (EvRemove j force r) = (if j = i \<and> force then Some Done else None)"
| "advance (Logged i) (EvRemove j force r) = (if j = i \<and> force then Some Done else None)"
| "advance _ _ = None"

fun life :: "phase \<Rightarrow> client_event list \<Rightarrow> phase option" where
  "life p [] = Some p"
| "life p (e # es) = Option.bind (advance p e) (\<lambda>q. life q es)"

fun is_create :: "client_event \<Rightarrow> bool" where
  "is_create (EvCreate cfg r) = True"
| "is_create _ = False"

text \<open>A call that creates a container is given a validated configuration of the task's own script.\<close>

fun safe_call :: "casemap \<Rightarrow> file_stat \<Rightarrow> Config \<Rightarrow> Task \<Rightarrow> client_event \<Rightarrow> bool" where
  "safe_call uc stat c task (EvCreate cfg r) =
     (case cfg of
        None \<Rightarrow> False
      | Some config \<Rightarrow>
          secure_container uc stat c config \<and> CC_ScriptContent config = Task_ScriptContent task \<and>
          CC_ScriptType config = Task_ScriptType task \<and>
          sm_ValidateScriptContent uc (Task_ScriptContent task) (Task_ScriptType task) = None)"
| "safe_call uc stat c task _ = True"

lemma run_container_trace:
  assumes "run_container (traced_executor e) ctx i t r0 (cm, w, es) = (r, cm', w', es')"
  shows "(\<exists>err. es' = es @ [EvStart i (Some err)]) \<or>
         (\<exists>rw rl. es' = es @ [EvStart i None, EvWait i rw, EvLogs i rl])"
  using assms
  by (auto simp: run_container_def Let_def split: prod.splits option.splits)

lemma executeContainer_trace:
  assumes "executeContainer (traced_executor e) ctx config task ec (cm, w, []) = (out, cm', w', es)"
  shows "(\<exists>err. out \<noteq> Panic \<and> es = [EvCreate (Some config) (Inl err)]) \<or>
         (\<exists>i. out = Panic \<and> (length i < 12 \<or> EC_Execution ec = None) \<and> es = [EvCreate (Some config) (Inr i)]) \<or>
         (\<exists>i err rm. out \<noteq> Panic \<and> es = [EvCreate (Some config) (Inr i), EvStart i (Some err), EvRemove i True rm]) \<or>
         (\<exists>i rw rl rm. out \<noteq> Panic \<and>
            es = [EvCreate (Some config) (Inr i), EvStart i None, EvWait i rw, EvLogs i rl, EvRemove i True rm])"
proof -
  have tail: "(\<exists>err. rm = [EvCreate (Some config) (Inr i)] @ [EvStart i (Some err)]) \<or>
      (\<exists>rw rl. rm = [EvCreate (Some config) (Inr i)] @ [EvStart i None, EvWait i rw, EvLogs i rl])"
    if "run_container (traced_executor e) ctx i t r0 (cm1, w1, [EvCreate (Some config) (Inr i)]) = (r, cm2, w2, rm)"
    for i t r0 cm1 w1 r cm2 w2 rm
    using run_container_trace [OF that] .
  from assms show ?thesis
    by (fastforce simp: executeContainer_def Let_def split: prod.splits option.splits sum.splits if_splits
        dest!: tail)
qed

text \<open>\<open>Execute\<close> either rejects and changes nothing, or runs a validated configuration.\<close>

lemma Execute_cases:
  assumes "Execute e ctx (Some ec) s = (out, s')" and "EC_Task ec = Some task"
  shows "(\<exists>err pre. out = Return (failed_result e pre err) \<and> s' = s) \<or>
         (\<exists>config. buildContainerConfig e task (EC_ResourceLimits ec) (EC_Timeout ec) = Inr config \<and>
            sm_ValidateScriptContent (ex_case e) (Task_ScriptContent task) (Task_ScriptType task) = None \<and>
            ValidateContainerConfig (ex_case e) (ex_stat e (snd s)) (ex_range e) (ex_config e) (Some config) = None \<and>
            (\<exists>out1. executeContainer e (WithTimeout ctx (ex_clock e (snd s)) (CC_Timeout config)) config task ec s
                = (out1, s') \<and> (out1 = Panic \<longleftrightarrow> out = Panic) \<and> (\<forall>res err. out1 = Return (Some res, err) \<longrightarrow> out = out1)))"
proof (cases "sm_ValidateScriptContent (ex_case e) (Task_ScriptContent task) (Task_ScriptType task)")
  case (Some err)
  with assms show ?thesis by (auto simp: Execute_def)
next
  case script: None
  show ?thesis
  proof (cases "buildContainerConfig e task (EC_ResourceLimits ec) (EC_Timeout ec)")
    case (Inl err)
    with assms script show ?thesis by (auto simp: Execute_def)
  next
    case (Inr config)
    have t: "CC_Timeout config = (if EC_Timeout ec = 0 then GetTimeoutForTask (ex_config e) task else EC_Timeout ec)"
      using Inr by (auto simp: buildContainerConfig_def Let_def split: option.splits)
    show ?thesis
    proof (cases "ValidateContainerConfig (ex_case e) (ex_stat e (snd s)) (ex_range e) (ex_config e) (Some config)")
      case (Some err)
      with assms script Inr show ?thesis by (auto simp: Execute_def)
    next
      case None
      obtain out1 s1 where x:
        "executeContainer e (WithTimeout ctx (ex_clock e (snd s)) (CC_Timeout config)) config task ec s = (out1, s1)"
        by (cases "executeContainer e (WithTimeout ctx (ex_clock e (snd s)) (CC_Timeout config)) config task ec s")
      with assms(1,2) script Inr None
      have "s1 = s'" "out1 = Panic \<longleftrightarrow> out = Panic" "\<forall>res err. out1 = Return (Some res, err) \<longrightarrow> out = out1"
        by (auto simp: Execute_def Let_def t [symmetric] split: outcome.splits prod.splits option.splits)
      with x script Inr None show ?thesis by blast
    qed
  qed
qed

lemma buildContainerConfig_script:
  "buildContainerConfig e task rl d = Inr config \<Longrightarrow>
     CC_ScriptContent config = Task_ScriptContent task \<and> CC_ScriptType config = Task_ScriptType task"
  by (auto simp: buildContainerConfig_def Let_def split: option.splits)


text \<open>C18: The two panics of \<open>executeContainer\<close> leak a container. When \<open>Execute\<close> panics, the container it created
  is neither started nor removed nor registered, and its identifier is shorter than 12 bytes or the execution
  of the context is nil.\<close>

theorem execute_panic_leaks_container:
  assumes "EC_Task ec = Some task"
    and "Execute (traced_executor e) ctx (Some ec) (cm, w, []) = (Panic, cm', w', es)"
  shows "(\<exists>config i. es = [EvCreate (Some config) (Inr i)] \<and> (length i < 12 \<or> EC_Execution ec = None)) \<and> cm' = cm"
proof -
  from Execute_cases [OF assms(2,1)] obtain config ctx1 out1 where
    x: "executeContainer (traced_executor e) ctx1 config task ec (cm, w, []) = (Panic, cm', w', es)"
    by auto
  then have "cm' = cm"
    by (auto simp: executeContainer_def Let_def split: prod.splits option.splits sum.splits if_splits)
  with executeContainer_trace [OF x] show ?thesis by auto
qed

text \<open>A final result: what an execution may end with, next to the error it returns.\<close>

definition final_result :: "go_error option \<Rightarrow> ExecutionResult \<Rightarrow> bool" where
  "final_result err res \<longleftrightarrow>
     Res_Status res \<in> set final_statuses \<and>
     (Res_Status res = ExecutionStatusCompleted \<longleftrightarrow> Res_ReturnCode res = Some 0) \<and>
     (err = None \<longleftrightarrow> Res_ReturnCode res \<noteq> None) \<and>
     (Res_Status res \<in> {ExecutionStatusTimeout, ExecutionStatusCancelled} \<longrightarrow> Res_ReturnCode res = None)"

lemma classify_wait_final:
  "Res_ReturnCode res = None \<Longrightarrow> final_result err (classify_wait err ctxErr code res)"
  by (auto simp: classify_wait_def final_result_def final_statuses_def Let_def split: option.splits)

lemma final_result_output [simp]:
  "final_result err (res\<lparr>Res_Stdout := x\<rparr>) = final_result err res"
  "final_result err (res\<lparr>Res_Stderr := x\<rparr>) = final_result err res"
  by (simp_all add: final_result_def)

lemma run_container_final:
  assumes "run_container e ctx i t r0 s = ((res0, err), s')" and "Res_ReturnCode r0 = None"
  shows "\<exists>res. res0 = Some res \<and> final_result err res"
proof -
  have "final_result (Some x) (r0\<lparr>Res_Status := ExecutionStatusFailed\<rparr>)" for x
    using assms(2) by (simp add: final_result_def final_statuses_def)
  with assms show ?thesis
    by (auto simp: run_container_def Let_def split: prod.splits option.splits intro!: classify_wait_final)
qed

lemma executeContainer_final:
  assumes "executeContainer e ctx config task ec s = (Return (res0, err), s')"
  shows "\<exists>res. res0 = Some res \<and> final_result err res"
proof -
  obtain cm w where s: "s = (cm, w)" by (cases s)
  let ?r0 = "zero_result\<lparr>Res_Status := ExecutionStatusRunning, Res_StartedAt := Some (ex_clock e w)\<rparr>"
  show ?thesis
  proof (cases "fst (CreateContainer (ex_client e) ctx (Some config) w)")
    case (Inl x)
    with assms show ?thesis
      by (auto simp: s executeContainer_def Let_def final_result_def final_statuses_def zero_result_def
          split: prod.splits)
  next
    case (Inr i)
    with assms obtain s1 s2 where "run_container e ctx i (ex_clock e w) ?r0 s1 = ((res0, err), s2)"
      by (auto simp: s executeContainer_def Let_def split: prod.splits if_splits option.splits)
    then show ?thesis by (rule run_container_final) (simp add: zero_result_def)
  qed
qed

text \<open>What \<open>Execute\<close> returns for a task is always a final result: the status is never pending or running,
  \<open>completed\<close> means exit code 0, a return code is there exactly when no error is returned, and a timed-out or
  cancelled execution has none.\<close>

theorem execute_result_final:
  assumes "EC_Task ec = Some task" and "Execute e ctx (Some ec) s = (Return (res0, err), s')"
  shows "\<exists>res. res0 = Some res \<and> final_result err res"
proof -
  have f: "\<exists>res. fst (failed_result e pre er) = Some res \<and> final_result (snd (failed_result e pre er)) res" for pre er
    by (simp add: failed_result_def final_result_def final_statuses_def zero_result_def)
  from Execute_cases [OF assms(2,1)] show ?thesis
  proof (elim disjE exE conjE)
    fix er pre assume "Return (res0, err) = Return (failed_result e pre er)"
    with f [of pre er] show ?thesis by (metis fst_conv snd_conv outcome.inject)
  next
    fix config out1
    assume x: "executeContainer e (WithTimeout ctx (ex_clock e (snd s)) (CC_Timeout config)) config task ec s = (out1, s')"
      and p: "(out1 = Panic) = (Return (res0, err) = Panic)"
      and r: "\<forall>res er. out1 = Return (Some res, er) \<longrightarrow> Return (res0, err) = out1"
    from p obtain res1 er1 where o: "out1 = Return (res1, er1)" by (cases out1) auto
    with executeContainer_final x obtain res where "res1 = Some res" "final_result er1 res" by blast
    with o r show ?thesis by simp
  qed
qed

subsection \<open>Examples\<close>

definition example_task :: Task where
  "example_task =
     \<lparr>Task_ID = 1, Task_UserID = 2, Task_Name = ''t'', Task_Description = None,
      Task_ScriptContent = ''echo hi'', Task_ScriptType = ScriptTypeBash, Task_Status = TaskStatusPending,
      Task_Priority = 5, Task_TimeoutSeconds = 300, Task_Metadata = None, Task_CreatedAt = 1,
      Task_UpdatedAt = 1\<rparr>"

definition example_execution :: TaskExecution where
  "example_execution =
     \<lparr>Exec_ID = 3, Exec_TaskID = 1, Exec_Status = ExecutionStatusRunning, Exec_ReturnCode = None,
      Exec_Stdout = None, Exec_Stderr = None, Exec_ExecutionTimeMs = None, Exec_MemoryUsageBytes = None,
      Exec_StartedAt = None, Exec_CompletedAt = None, Exec_CreatedAt = 1\<rparr>"

definition example_context :: "TaskExecution option \<Rightarrow> ExecutionContext" where
  "example_context ex =
     \<lparr>EC_Task = Some example_task, EC_Execution = ex, EC_Timeout = 0,
      EC_ResourceLimits = \<lparr>MemoryLimitBytes = 0, CPUQuota = 0, PidsLimit = 0, TimeoutSeconds = 0\<rparr>\<rparr>"

definition example_executor :: "int Executor" where
  "example_executor =
     \<lparr>ex_client = idle_client, ex_config = NewDefaultConfig, ex_clock = id,
      ex_stat = (\<lambda>_ _. Inr \<lparr>FI_IsDir = False, FI_Perm = mode_0600\<rparr>), ex_range = [''noexec'', ''nosuid''],
      ex_case = id, ex_uuid = (\<lambda>_. [])\<rparr>"

lemma example_executor_range: "set (ex_range example_executor) = {''noexec'', ''nosuid''}"
  by (simp add: example_executor_def)

lemma example_context_task: "EC_Task (example_context ex) = Some example_task"
  by (simp add: example_context_def)

lemma split_result: "\<exists>out cm w es. x = (out, cm, w, es)"
  by (cases x) auto

text \<open>One run of the example, evaluated once.\<close>

abbreviation example_run :: "_" where
  "example_run \<equiv> Execute (traced_executor example_executor) Background
     (Some (example_context (Some example_execution))) (Map.empty, 10, [])"

lemma example_run_value:
  "case example_run of (out, cm, w, es) \<Rightarrow> (case out of Return (r, None) \<Rightarrow> True | _ \<Rightarrow> False) \<and> length es = 5"
  by code_simp


theorem execute_panic_leaks_container_witness:
  "\<exists>config i. snd (snd (snd (Execute (traced_executor example_executor) Background
     (Some (example_context None)) (Map.empty, 10, [])))) = [EvCreate (Some config) (Inr i)]"
proof -
  let ?x = "Execute (traced_executor example_executor) Background (Some (example_context None)) (Map.empty, 10, [])"
  obtain out cm w es where x: "?x = (out, cm, w, es)" by (metis split_result)
  have "(case fst ?x of Panic \<Rightarrow> True | _ \<Rightarrow> False)" by code_simp
  with x have "?x = (Panic, cm, w, es)" by (auto split: outcome.splits)
  from execute_panic_leaks_container [OF example_context_task this] x show ?thesis by auto
qed

theorem execute_result_final_witness:
  "\<exists>res. fst example_run = Return (Some res, None) \<and> Res_Status res \<in> set final_statuses"
proof -
  let ?x = "example_run"
  have "(case fst ?x of Return (r, None) \<Rightarrow> True | _ \<Rightarrow> False)"
    using example_run_value by (cases ?x) auto
  then obtain r where "fst ?x = Return (r, None)" by (auto split: outcome.splits prod.splits option.splits)
  note f = this
  then have x: "?x = (Return (r, None), snd ?x)" by (metis prod.collapse)
  from execute_result_final [OF example_context_task x] obtain res where "r = Some res" "final_result None res"
    by blast
  with f show ?thesis unfolding final_result_def by blast
qed

section \<open>What the executor configures\<close>

lemma HasPrefix_workspace: "list_all (\<lambda>p. \<not> HasPrefix ''/tmp/workspace'' p) dangerousWorkingPaths"
  by code_simp

lemma buildContainerConfig_default:
  assumes "GetImageForScriptType (ex_config e) (Task_ScriptType task) \<in> set allowedImages"
    and "MemoryLimitBytes rl = 0"
  shows "\<exists>config. buildContainerConfig e task rl 0 = Inr config \<and>
     CC_Image config = GetImageForScriptType (ex_config e) (Task_ScriptType task) \<and>
     CC_ResourceLimits config = GetResourceLimitsForTask (ex_config e) task \<and>
     CC_Timeout config = GetTimeoutForTask (ex_config e) task \<and>
     CC_WorkingDir config = ''/tmp/workspace'' \<and>
     CC_Environment config = SanitizeEnvironment (ex_case e) base_environment \<and>
     CC_SecurityConfig config = GetSecurityConfigForTask (ex_config e) task"
  using assms by (simp add: buildContainerConfig_def CheckImageSecurity_None [THEN iffD2])



section \<open>The registry after an execution\<close>

lemma run_container_registry:
  assumes "run_container e ctx i t r0 (cm, w) = (r, cm', w')" and "cm i = Some info"
  shows "(\<exists>info'. cm' i = Some info' \<and> CI_ExecutionID info' = CI_ExecutionID info) \<and> (\<forall>j. j \<noteq> i \<longrightarrow> cm' j = cm j)"
  using assms
  by (auto simp: run_container_def Let_def MarkContainerStarted_def MarkContainerCompleted_def
      split: prod.splits option.splits)

text \<open>The deferred removal of \<open>executeContainer\<close> goes to the client, not to the cleanup manager: after the
  execution has returned and its container is removed, the container is still registered under its
  execution, until a sweep finds it. No other entry changes.\<close>

theorem executed_container_stays_registered:
  assumes "executeContainer e ctx config task ec (cm, w) = (Return r, cm', w')"
    and "CreateContainer (ex_client e) ctx (Some config) w = (Inr i, w1)" and "cm i = None"
    and "EC_Execution ec = Some execution" "Exec_ID execution \<noteq> uuid_Nil" "Task_ID task \<noteq> uuid_Nil"
    and "CC_Image config \<noteq> []"
  shows "(\<exists>info. cm' i = Some info \<and> CI_ExecutionID info = Exec_ID execution) \<and> (\<forall>j. j \<noteq> i \<longrightarrow> cm' j = cm j)"
proof -
  have len: "12 \<le> length i"
    using assms(1,2) by (auto simp: executeContainer_def Let_def split: if_splits)
  then have "i \<noteq> []" by auto
  then obtain cm1 info where reg: "RegisterContainer (ex_clock e w1) i (Task_ID task) (Exec_ID execution) (CC_Image config) cm = (None, cm1)"
    and cm1: "cm1 = cm(i \<mapsto> info)" "CI_ExecutionID info = Exec_ID execution"
    using assms(3,5-7) by (simp add: RegisterContainer_def)
  obtain r0 w2 where "run_container e ctx i (ex_clock e w) r0 (cm1, w1) = (r, cm', w2)"
    using assms(1,2,4) len reg by (auto simp: executeContainer_def Let_def split: prod.splits)
  from run_container_registry [OF this] cm1 show ?thesis by auto
qed

theorem executed_container_stays_registered_witness:
  "\<exists>cm' w' r. executeContainer example_executor Background example_config example_task (example_context (Some example_execution)) (Map.empty, 10)
     = (Return r, cm', w') \<and> cm' ''0123456789ab'' \<noteq> None"
proof -
  let ?x = "executeContainer example_executor Background example_config example_task (example_context (Some example_execution)) (Map.empty, 10)"
  have "(case fst ?x of Return r \<Rightarrow> True | Panic \<Rightarrow> False)" by code_simp
  then obtain r where "fst ?x = Return r" by (auto split: outcome.splits)
  then obtain cm' w' where x: "?x = (Return r, cm', w')" by (metis prod.collapse)
  have "CreateContainer (ex_client example_executor) Background (Some example_config) 10 = (Inr ''0123456789ab'', 10)"
    by (simp add: example_executor_def idle_client_def)
  from executed_container_stays_registered [OF x this, of example_execution] x show ?thesis
    by (auto simp: example_context_def example_execution_def example_task_def example_config_def)
qed

end
