(* ===== verification/MockExecutor.thy ===== *)
theory MockExecutor
  imports Executor
begin

text \<open>
  \<open>internal/executor/mock_executor.go\<close>: the executor the service falls back to without Docker. Its state is
  the map \<open>executions\<close>. An entry is a pointer the map shares with the call of \<open>Execute\<close> that made it, so the
  map from execution ids to entries is the store both work on. \<open>Execute\<close> registers the entry, then waits in a
  \<open>select\<close>; other calls run in between, so its two halves are \<open>mock_begin\<close> and \<open>mock_end\<close>, and
  \<open>mock_Execute\<close> is the two without interruption.
\<close>

record mockExecution =
  me_id :: uuid
  me_status :: ExecutionStatus
  me_startedAt :: time
  me_result :: "ExecutionResult option"

type_synonym mock_state = "uuid \<rightharpoonup> mockExecution"

definition NewMockExecutor :: mock_state where
  "NewMockExecutor = Map.empty"

definition matches_start :: "string list \<Rightarrow> string \<Rightarrow> bool" where
  "matches_start patterns content =
     list_ex (\<lambda>pattern. length content > length pattern \<and> take (length pattern) content = pattern) patterns"

definition containsErrorPatterns :: "string \<Rightarrow> bool" where
  "containsErrorPatterns content =
     matches_start [''exit 1'', ''raise Exception'', ''throw new Error'', ''panic(''] content"

definition containsTimeoutPatterns :: "string \<Rightarrow> bool" where
  "containsTimeoutPatterns content =
     matches_start [''sleep('', ''time.sleep'', ''setTimeout'', ''Thread.sleep''] content"

definition newline :: string where "newline = [CHR 0x0A]"

definition generateMockResult :: "time \<Rightarrow> Task \<Rightarrow> ExecutionContext \<Rightarrow> ExecutionResult" where
  "generateMockResult now task execCtx =
     (let startedAt = now - 100 * Millisecond;
          stdout0 = (if Task_ScriptType task = ScriptTypePython then ''Mock Python execution output'' @ newline
                     else if Task_ScriptType task = ScriptTypeBash then ''Mock Bash execution output'' @ newline
                     else if Task_ScriptType task = ScriptTypeJavaScript then ''Mock JavaScript execution output'' @ newline
                     else ''Mock execution output'' @ newline);
          content = Task_ScriptContent task;
          finish = (\<lambda>stdout stderr returnCode.
             \<lparr>Res_Status = (if returnCode \<noteq> 0 then ExecutionStatusFailed else ExecutionStatusCompleted),
              Res_ReturnCode = Some returnCode, Res_Stdout = Some stdout, Res_Stderr = Some stderr,
              Res_ExecutionTimeMs = Some 100, Res_MemoryUsageBytes = Some (1024 * 1024),
              Res_StartedAt = Some startedAt, Res_CompletedAt = Some now\<rparr>)
      in if content \<noteq> [] \<and> containsErrorPatterns content then finish [] (''Mock execution error'' @ newline) 1
         else if content \<noteq> [] \<and> containsTimeoutPatterns content then
           \<lparr>Res_Status = ExecutionStatusTimeout, Res_ReturnCode = Some (- 1), Res_Stdout = Some [],
            Res_Stderr = Some ''execution timed out'',
            Res_ExecutionTimeMs = Some (Milliseconds (EC_Timeout execCtx)), Res_MemoryUsageBytes = None,
            Res_StartedAt = Some startedAt, Res_CompletedAt = Some now\<rparr>
         else finish stdout0 [] 0)"

definition cancelled_result :: "time \<Rightarrow> mockExecution \<Rightarrow> ExecutionResult" where
  "cancelled_result now me =
     \<lparr>Res_Status = ExecutionStatusCancelled, Res_ReturnCode = Some (- 1), Res_Stdout = Some [],
      Res_Stderr = Some ''execution cancelled'',
      Res_ExecutionTimeMs = Some (Milliseconds (time_Sub now (me_startedAt me))), Res_MemoryUsageBytes = None,
      Res_StartedAt = Some (me_startedAt me), Res_CompletedAt = Some now\<rparr>"

text \<open>The time the simulation takes.\<close>

definition mock_duration :: "ExecutionContext \<Rightarrow> int" where
  "mock_duration execCtx =
     (let executionTime = 100 * Millisecond
      in if EC_Timeout execCtx > 0 \<and> EC_Timeout execCtx < executionTime then EC_Timeout execCtx else executionTime)"

text \<open>The call up to its \<open>select\<close>.\<close>

definition mock_begin ::
    "time \<Rightarrow> ExecutionContext option \<Rightarrow> mock_state \<Rightarrow> (result + Task \<times> ExecutionContext \<times> mockExecution) \<times> mock_state" where
  "mock_begin now execCtx0 m =
     (case execCtx0 of
        None \<Rightarrow> (Inl (None, Some (NewExecutorError ''mock_execute'' ''invalid execution context'' None)), m)
      | Some execCtx \<Rightarrow>
          (case (EC_Task execCtx, EC_Execution execCtx) of
             (Some task, Some execution) \<Rightarrow>
               (let mockExec = \<lparr>me_id = Exec_ID execution, me_status = ExecutionStatusRunning,
                                me_startedAt = now, me_result = None\<rparr>
                in (Inr (task, execCtx, mockExec), m(Exec_ID execution \<mapsto> mockExec)))
           | _ \<Rightarrow> (Inl (None, Some (NewExecutorError ''mock_execute'' ''invalid execution context'' None)), m)))"

text \<open>
  The call from its \<open>select\<close> on. \<open>done\<close> says that the context ended first. The entry is updated through the
  pointer; the map still leads to it unless another call has replaced or dropped it (\<open>me_startedAt\<close> of the
  entry of this call is fixed, so it stands for the pointer).
\<close>

definition set_entry :: "mockExecution \<Rightarrow> (mockExecution \<Rightarrow> mockExecution) \<Rightarrow> mock_state \<Rightarrow> mock_state" where
  "set_entry me f m =
     (case m (me_id me) of
        None \<Rightarrow> m
      | Some cur \<Rightarrow> (if me_startedAt cur = me_startedAt me then m(me_id me \<mapsto> f cur) else m))"

definition mock_end ::
    "time \<Rightarrow> Ctx \<Rightarrow> bool \<Rightarrow> Task \<times> ExecutionContext \<times> mockExecution \<Rightarrow> mock_state \<Rightarrow> result \<times> mock_state" where
  "mock_end now ctx done call m =
     (case call of (task, execCtx, mockExec) \<Rightarrow>
        (if \<not> done then
           (let result = generateMockResult now task execCtx
            in ((Some result, None),
                set_entry mockExec (\<lambda>me. me\<lparr>me_result := Some result, me_status := Res_Status result\<rparr>) m))
         else
           (let result = cancelled_result now mockExec
            in ((Some result, ctx_Err ctx now),
                set_entry mockExec (\<lambda>me. me\<lparr>me_result := Some result, me_status := ExecutionStatusCancelled\<rparr>) m))))"

text \<open>The uninterrupted call: the context wins the \<open>select\<close> when it ends before the timer fires.\<close>

definition mock_Execute :: "time \<Rightarrow> Ctx \<Rightarrow> ExecutionContext option \<Rightarrow> mock_state \<Rightarrow> result \<times> mock_state" where
  "mock_Execute now ctx execCtx0 m =
     (case mock_begin now execCtx0 m of
        (Inl r, m') \<Rightarrow> (r, m')
      | (Inr (task, execCtx, mockExec), m') \<Rightarrow>
          (let fires = now + mock_duration execCtx
           in case ctx of
             Some (t, reason) \<Rightarrow>
               (if t < fires then mock_end (max now t) ctx True (task, execCtx, mockExec) m'
                else mock_end fires ctx False (task, execCtx, mockExec) m')
           | None \<Rightarrow> mock_end fires ctx False (task, execCtx, mockExec) m'))"

definition mock_Cancel :: "time \<Rightarrow> uuid \<Rightarrow> mock_state \<Rightarrow> go_error option \<times> mock_state" where
  "mock_Cancel now executionID m =
     (case m executionID of
        None \<Rightarrow> (Some (NewExecutorError ''mock_cancel'' ''execution not found'' None), m)
      | Some mockExec \<Rightarrow>
          (if me_status mockExec \<noteq> ExecutionStatusRunning
             then (Some (NewExecutorError ''mock_cancel'' ''execution not running'' None), m)
           else
             (let me1 = mockExec\<lparr>me_status := ExecutionStatusCancelled\<rparr>;
                  me2 = (if me_result me1 = None then me1\<lparr>me_result := Some (cancelled_result now me1)\<rparr> else me1)
              in (None, m(executionID \<mapsto> me2)))))"

definition mock_IsHealthy :: "go_error option" where "mock_IsHealthy = None"

definition mock_Cleanup :: "mock_state \<Rightarrow> go_error option \<times> mock_state" where
  "mock_Cleanup m = (None, Map.empty)"

section \<open>Properties\<close>

lemma generateMockResult_status:
  "Res_Status (generateMockResult now task ec) =
     (if containsErrorPatterns (Task_ScriptContent task) then ExecutionStatusFailed
      else if containsTimeoutPatterns (Task_ScriptContent task) then ExecutionStatusTimeout
      else ExecutionStatusCompleted)"
proof -
  have "\<not> containsErrorPatterns []" "\<not> containsTimeoutPatterns []" by code_simp+
  then show ?thesis by (auto simp: generateMockResult_def Let_def)
qed

text \<open>Whatever the script, the mock returns a final status, a return code and both outputs, and the return code
  is -1, which the database does not accept, exactly when the script is taken for one that times out.\<close>

theorem mock_result_final:
  "Res_Status (generateMockResult now task ec) \<in> set final_statuses \<and>
   Res_Stdout (generateMockResult now task ec) \<noteq> None \<and> Res_Stderr (generateMockResult now task ec) \<noteq> None \<and>
   (case Res_ReturnCode (generateMockResult now task ec) of
      None \<Rightarrow> False
    | Some code \<Rightarrow> (code < 0) = (Res_Status (generateMockResult now task ec) = ExecutionStatusTimeout) \<and>
        (code = 0) = (Res_Status (generateMockResult now task ec) = ExecutionStatusCompleted))"
  by (auto simp: generateMockResult_def Let_def final_statuses_def)

text \<open>A cancellation between the two halves of \<open>Execute\<close> is overwritten: \<open>Cancel\<close> reports success, and when
  the timer fires the entry becomes the mock result all the same, which is also what \<open>Execute\<close> returns.\<close>

theorem mock_cancel_is_lost:
  assumes "EC_Task ec = Some task" "EC_Execution ec = Some execution"
    and "mock_begin t0 (Some ec) m = (Inr call, m1)"
    and "mock_Cancel t1 (Exec_ID execution) m1 = (err, m2)"
    and "mock_end t2 ctx False call m2 = (r, m3)"
  shows "err = None \<and> r = (Some (generateMockResult t2 task ec), None) \<and>
     (case m3 (Exec_ID execution) of None \<Rightarrow> False
      | Some me \<Rightarrow> me_status me = Res_Status (generateMockResult t2 task ec))"
  using assms
  by (auto simp: mock_begin_def mock_Cancel_def mock_end_def set_entry_def Let_def)

theorem mock_cancel_is_lost_witness:
  "(let ec = example_context (Some example_execution);
        (call, m1) = mock_begin 5 (Some ec) NewMockExecutor;
        (err, m2) = mock_Cancel 6 3 m1
    in case call of Inl _ \<Rightarrow> False
       | Inr c \<Rightarrow> err = None \<and> fst (fst (mock_end 7 Background False c m2)) = Some (generateMockResult 7 example_task ec))"
proof -
  let ?ec = "example_context (Some example_execution)"
  have t: "EC_Task ?ec = Some example_task" "EC_Execution ?ec = Some example_execution"
    by (simp_all add: example_context_def)
  obtain call m1 where b: "mock_begin 5 (Some ?ec) NewMockExecutor = (Inr call, m1)"
    by (auto simp: mock_begin_def t Let_def)
  obtain err m2 where c: "mock_Cancel 6 (Exec_ID example_execution) m1 = (err, m2)" by fastforce
  obtain r m3 where e: "mock_end 7 Background False call m2 = (r, m3)" by fastforce
  from mock_cancel_is_lost [OF t b c e] b c e show ?thesis
    by (simp add: example_execution_def)
qed

end
