(* ===== verification/Services.thy ===== *)
theory Services
  imports Repositories MockExecutor
begin

text \<open>
  \<open>internal/services\<close>: \<open>TaskExecutionService\<close>, whose operations are transactions on tasks and executions, and
  \<open>TaskExecutorService\<close>, which runs an execution through a \<open>TaskExecutor\<close> (the Docker executor or the mock, an
  argument here) and stores its result. The state is the database session with the state \<open>'x\<close> of the executor.
  Loggers are left out.
\<close>

section \<open>\<open>TaskExecutionService\<close>\<close>

definition deny :: go_error where
  "deny = Errorf ''access denied: task does not belong to user''"

text \<open>The reading half of \<open>CreateExecutionAndUpdateTaskStatus\<close>, then the writing half.\<close>

definition create_check :: "uuid \<Rightarrow> uuid \<Rightarrow> Session \<Rightarrow> go_error option \<times> Session" where
  "create_check taskID userID s =
     (case tasks_GetByID taskID s of
        (Inl err, s1) \<Rightarrow>
          (Some (if err = Sentinel ErrTaskNotFound then Errorf ''task not found''
                 else Wrapf ''failed to get task'' err), s1)
      | (Inr task, s1) \<Rightarrow>
          (if Task_UserID task \<noteq> userID then (Some deny, s1)
           else if Task_Status task = TaskStatusRunning then (Some (Errorf ''task is already running''), s1)
           else if Task_Status task = TaskStatusCompleted \<or> Task_Status task = TaskStatusFailed \<or>
                   Task_Status task = TaskStatusCancelled
             then (Some (Errorf (''cannot execute task with status: '' @ Task_Status task)), s1)
           else (None, s1)))"

definition new_execution :: "uuid \<Rightarrow> uuid \<Rightarrow> TaskExecution" where
  "new_execution i taskID =
     \<lparr>Exec_ID = i, Exec_TaskID = taskID, Exec_Status = ExecutionStatusPending, Exec_ReturnCode = None,
      Exec_Stdout = None, Exec_Stderr = None, Exec_ExecutionTimeMs = None, Exec_MemoryUsageBytes = None,
      Exec_StartedAt = None, Exec_CompletedAt = None, Exec_CreatedAt = 0\<rparr>"

definition create_write :: "uuid \<Rightarrow> Session \<Rightarrow> (go_error option \<times> TaskExecution option) \<times> Session" where
  "create_write taskID s0 =
     (let (i, s) = new_id s0
      in case execs_Create (Some (new_execution i taskID)) s of
        ((Some err, e), s1) \<Rightarrow> ((Some (Wrapf ''failed to create task execution'' err), e), s1)
      | ((None, e), s1) \<Rightarrow>
          (case tasks_UpdateStatus taskID TaskStatusRunning s1 of
             (Some err, s2) \<Rightarrow> ((Some (Wrapf ''failed to update task status'' err), e), s2)
           | (None, s2) \<Rightarrow> ((None, e), s2)))"

definition create_tx :: "uuid \<Rightarrow> uuid \<Rightarrow> Session \<Rightarrow> (go_error option \<times> TaskExecution option) \<times> Session" where
  "create_tx taskID userID s =
     (case create_check taskID userID s of
        (Some err, s1) \<Rightarrow> ((Some err, None), s1)
      | (None, s1) \<Rightarrow> create_write taskID s1)"

definition CreateExecutionAndUpdateTaskStatus ::
    "uuid \<Rightarrow> uuid \<Rightarrow> Session \<Rightarrow> (go_error option \<times> TaskExecution option) \<times> Session" where
  "CreateExecutionAndUpdateTaskStatus taskID userID s =
     (case WithTransaction (create_tx taskID userID) None s of
        ((Some err, _), s') \<Rightarrow> ((Some err, None), s')
      | ((None, execution), s') \<Rightarrow> ((None, execution), s'))"

text \<open>The functions passed to \<open>WithTransaction\<close> are named \<open>..._tx\<close>. The common beginning of the other operations: the execution, and its task, which must be the user's.\<close>

definition owned_execution :: "uuid \<Rightarrow> uuid \<Rightarrow> Session \<Rightarrow> (go_error + TaskExecution) \<times> Session" where
  "owned_execution executionID userID s =
     (case execs_GetByID executionID s of
        (Inl err, s1) \<Rightarrow>
          (Inl (if err = Sentinel ErrExecutionNotFound then Errorf ''execution not found''
                else Wrapf ''failed to get execution'' err), s1)
      | (Inr execution, s1) \<Rightarrow>
          (case tasks_GetByID (Exec_TaskID execution) s1 of
             (Inl err, s2) \<Rightarrow> (Inl (Wrapf ''failed to get task'' err), s2)
           | (Inr task, s2) \<Rightarrow>
               (if Task_UserID task \<noteq> userID then (Inl deny, s2) else (Inr execution, s2))))"

definition update_tx :: "uuid \<Rightarrow> ExecutionStatus \<Rightarrow> uuid \<Rightarrow> TaskStatus \<Rightarrow> uuid \<Rightarrow> Session \<Rightarrow> (go_error option \<times> unit) \<times> Session" where
  "update_tx executionID executionStatus taskID taskStatus userID s =
     (case owned_execution executionID userID s of
         (Inl err, s1) \<Rightarrow> ((Some err, ()), s1)
       | (Inr execution, s1) \<Rightarrow>
           (if Exec_TaskID execution \<noteq> taskID
              then ((Some (Errorf ''execution does not belong to the specified task''), ()), s1)
            else (case execs_UpdateStatus executionID executionStatus s1 of
                (Some err, s2) \<Rightarrow> ((Some (Wrapf ''failed to update execution status'' err), ()), s2)
              | (None, s2) \<Rightarrow>
                  (case tasks_UpdateStatus taskID taskStatus s2 of
                     (Some err, s3) \<Rightarrow> ((Some (Wrapf ''failed to update task status'' err), ()), s3)
                   | (None, s3) \<Rightarrow> ((None, ()), s3)))))"

definition UpdateExecutionAndTaskStatus :: "uuid \<Rightarrow> ExecutionStatus \<Rightarrow> uuid \<Rightarrow> TaskStatus \<Rightarrow> uuid \<Rightarrow> Session \<Rightarrow> (go_error option \<times> unit) \<times> Session" where
  "UpdateExecutionAndTaskStatus executionID executionStatus taskID taskStatus userID s = WithTransaction (update_tx executionID executionStatus taskID taskStatus userID) () s"

definition cancel_tx :: "uuid \<Rightarrow> uuid \<Rightarrow> Session \<Rightarrow> (go_error option \<times> unit) \<times> Session" where
  "cancel_tx executionID userID s =
     (case owned_execution executionID userID s of
         (Inl err, s1) \<Rightarrow> ((Some err, ()), s1)
       | (Inr execution, s1) \<Rightarrow>
           (if Exec_Status execution = ExecutionStatusCompleted \<or> Exec_Status execution = ExecutionStatusFailed \<or>
               Exec_Status execution = ExecutionStatusCancelled
              then ((Some (Errorf (''cannot cancel execution with status: '' @ Exec_Status execution)), ()), s1)
            else (case execs_UpdateStatus executionID ExecutionStatusCancelled s1 of
                (Some err, s2) \<Rightarrow> ((Some (Wrapf ''failed to cancel execution'' err), ()), s2)
              | (None, s2) \<Rightarrow>
                  (case tasks_UpdateStatus (Exec_TaskID execution) TaskStatusPending s2 of
                     (Some err, s3) \<Rightarrow> ((Some (Wrapf ''failed to reset task status'' err), ()), s3)
                   | (None, s3) \<Rightarrow> ((None, ()), s3)))))"

definition CancelExecutionAndResetTaskStatus :: "uuid \<Rightarrow> uuid \<Rightarrow> Session \<Rightarrow> (go_error option \<times> unit) \<times> Session" where
  "CancelExecutionAndResetTaskStatus executionID userID s = WithTransaction (cancel_tx executionID userID) () s"

definition complete_tx :: "TaskExecution \<Rightarrow> TaskStatus \<Rightarrow> uuid \<Rightarrow> Session \<Rightarrow> (go_error option \<times> unit) \<times> Session" where
  "complete_tx execution taskStatus userID s =
     (case owned_execution (Exec_ID execution) userID s of
         (Inl err, s1) \<Rightarrow> ((Some err, ()), s1)
       | (Inr existingExecution, s1) \<Rightarrow>
           (if Exec_Status existingExecution = ExecutionStatusCompleted \<or>
               Exec_Status existingExecution = ExecutionStatusCancelled
              then ((Some (Errorf (''cannot complete execution with status: '' @ Exec_Status existingExecution)), ()), s1)
            else (case execs_Update (Some execution) s1 of
                (Some err, s2) \<Rightarrow> ((Some (Wrapf ''failed to update execution'' err), ()), s2)
              | (None, s2) \<Rightarrow>
                  (case tasks_UpdateStatus (Exec_TaskID existingExecution) taskStatus s2 of
                     (Some err, s3) \<Rightarrow> ((Some (Wrapf ''failed to update task status'' err), ()), s3)
                   | (None, s3) \<Rightarrow> ((None, ()), s3)))))"

definition CompleteExecutionAndFinalizeTaskStatus :: "TaskExecution \<Rightarrow> TaskStatus \<Rightarrow> uuid \<Rightarrow> Session \<Rightarrow> (go_error option \<times> unit) \<times> Session" where
  "CompleteExecutionAndFinalizeTaskStatus execution taskStatus userID s = WithTransaction (complete_tx execution taskStatus userID) () s"

section \<open>\<open>TaskExecutorService\<close>\<close>

text \<open>The interfaces \<open>TaskExecutor\<close> and, when there is one, the cleanup manager.\<close>

record 'x TaskExecutor =
  te_Execute :: "Ctx \<Rightarrow> ExecutionContext option \<Rightarrow> 'x \<Rightarrow> result outcome \<times> 'x"
  te_Cancel :: "Ctx \<Rightarrow> uuid \<Rightarrow> 'x \<Rightarrow> go_error option \<times> 'x"
  te_IsHealthy :: "Ctx \<Rightarrow> 'x \<Rightarrow> go_error option \<times> 'x"
  te_Cleanup :: "Ctx \<Rightarrow> 'x \<Rightarrow> go_error option \<times> 'x"

record 'x CleanupCalls =
  cc_CleanupExecution :: "Ctx \<Rightarrow> uuid \<Rightarrow> 'x \<Rightarrow> go_error option \<times> 'x"
  cc_CleanupStale :: "Ctx \<Rightarrow> int \<Rightarrow> 'x \<Rightarrow> go_error option \<times> 'x"
  cc_GetStats :: "'x \<Rightarrow> CleanupStats"
  cc_Stop :: "Ctx \<Rightarrow> 'x \<Rightarrow> go_error option \<times> 'x"

record 'x TaskExecutorService =
  ts_executor :: "'x TaskExecutor"
  ts_cleanup :: "'x CleanupCalls option"
  ts_uuid :: "uuid \<Rightarrow> string"

definition getTaskByID :: "uuid \<Rightarrow> Session \<Rightarrow> (go_error + Task) \<times> Session" where
  "getTaskByID taskID s =
     (case tasks_GetByID taskID s of
        (Inl err, s') \<Rightarrow>
          (Inl (if err = Sentinel ErrTaskNotFound then Errorf ''task not found''
                else Wrapf ''failed to get task'' err), s')
      | (Inr task, s') \<Rightarrow> (Inr task, s'))"

definition rollbackExecution :: "uuid \<Rightarrow> uuid \<Rightarrow> Session \<Rightarrow> go_error option \<times> Session" where
  "rollbackExecution executionID userID s =
     (case CancelExecutionAndResetTaskStatus executionID userID s of ((err, _), s') \<Rightarrow> (err, s'))"

text \<open>
  \<open>ExecuteTask\<close> up to the start of the goroutine: an error, or the execution it returns and the task the
  goroutine is started with.
\<close>

definition ExecuteTask :: "uuid \<Rightarrow> uuid \<Rightarrow> Session \<Rightarrow> (go_error + TaskExecution \<times> Task) \<times> Session" where
  "ExecuteTask taskID userID s =
     (case CreateExecutionAndUpdateTaskStatus taskID userID s of
        ((Some err, _), s1) \<Rightarrow> (Inl (Wrapf ''failed to create execution record'' err), s1)
      | ((None, None), s1) \<Rightarrow> (Inl (Errorf ''unreachable: no error and no execution''), s1)
      | ((None, Some execution), s1) \<Rightarrow>
          (case getTaskByID taskID s1 of
             (Inl err, s2) \<Rightarrow>
               (case rollbackExecution (Exec_ID execution) userID s2 of
                  (rollbackErr, s3) \<Rightarrow> (Inl (Wrapf ''failed to get task details'' err), s3))
           | (Inr task, s2) \<Rightarrow> (Inr (execution, task), s2)))"

definition updateExecutionStatus :: "uuid \<Rightarrow> ExecutionStatus \<Rightarrow> Session \<Rightarrow> go_error option \<times> Session" where
  "updateExecutionStatus executionID status s = execs_UpdateStatus executionID status s"

definition execution_context :: "Task \<Rightarrow> TaskExecution \<Rightarrow> ExecutionContext" where
  "execution_context task execution =
     \<lparr>EC_Task = Some task, EC_Execution = Some execution, EC_Timeout = i64 (Task_TimeoutSeconds task * Second),
      EC_ResourceLimits = \<lparr>MemoryLimitBytes = 128 * 1024 * 1024, CPUQuota = 50000, PidsLimit = 128,
                           TimeoutSeconds = Task_TimeoutSeconds task\<rparr>\<rparr>"

definition task_status_of :: "ExecutionStatus \<Rightarrow> TaskStatus" where
  "task_status_of status =
     (if status = ExecutionStatusCompleted then TaskStatusCompleted
      else if status = ExecutionStatusFailed then TaskStatusFailed
      else if status = ExecutionStatusTimeout then TaskStatusTimeout
      else if status = ExecutionStatusCancelled then TaskStatusCancelled
      else TaskStatusFailed)"

definition result_execution :: "uuid \<Rightarrow> ExecutionResult \<Rightarrow> TaskExecution" where
  "result_execution executionID result =
     \<lparr>Exec_ID = executionID, Exec_TaskID = uuid_Nil, Exec_Status = Res_Status result,
      Exec_ReturnCode = Res_ReturnCode result, Exec_Stdout = Res_Stdout result, Exec_Stderr = Res_Stderr result,
      Exec_ExecutionTimeMs = Res_ExecutionTimeMs result, Exec_MemoryUsageBytes = Res_MemoryUsageBytes result,
      Exec_StartedAt = Res_StartedAt result, Exec_CompletedAt = Res_CompletedAt result, Exec_CreatedAt = 0\<rparr>"

definition updateExecutionWithResults :: "uuid \<Rightarrow> ExecutionResult \<Rightarrow> uuid \<Rightarrow> Session \<Rightarrow> go_error option \<times> Session" where
  "updateExecutionWithResults executionID result userID s =
     (case CompleteExecutionAndFinalizeTaskStatus (result_execution executionID result)
             (task_status_of (Res_Status result)) userID s of
        ((err, _), s') \<Rightarrow> (err, s'))"

text \<open>The goroutine. Its result is what it hands to the database; a panic of the executor ends the process.\<close>

definition executeTaskAsync ::
    "'x TaskExecutorService \<Rightarrow> Ctx \<Rightarrow> Task \<Rightarrow> TaskExecution \<Rightarrow> uuid \<Rightarrow> Session \<times> 'x \<Rightarrow>
     (ExecutionResult \<times> go_error option) outcome \<times> Session \<times> 'x" where
  "executeTaskAsync svc ctx task execution userID st =
     (let (s, x) = st;
          (markErr, s1) = updateExecutionStatus (Exec_ID execution) ExecutionStatusRunning s
      in case te_Execute (ts_executor svc) ctx (Some (execution_context task execution)) x of
        (Panic, x1) \<Rightarrow> (Panic, s1, x1)
      | (Return (None, None), x1) \<Rightarrow> (Panic, s1, x1)
      | (Return (r, err), x1) \<Rightarrow>
          (let result = (case (r, err) of
                (None, Some e) \<Rightarrow>
                  zero_result\<lparr>Res_Status := ExecutionStatusFailed,
                              Res_Stderr := Some (''Execution error: '' @ error_message (ts_uuid svc) e)\<rparr>
              | (Some res, _) \<Rightarrow> res);
              (updErr, s2) = updateExecutionWithResults (Exec_ID execution) result userID s1;
              x2 = (case ts_cleanup svc of None \<Rightarrow> x1
                    | Some cc \<Rightarrow> snd (cc_CleanupExecution cc ctx (Exec_ID execution) x1))
           in (Return (result, updErr), s2, x2)))"

definition CancelTaskExecution ::
    "'x TaskExecutorService \<Rightarrow> Ctx \<Rightarrow> uuid \<Rightarrow> uuid \<Rightarrow> Session \<times> 'x \<Rightarrow> go_error option \<times> Session \<times> 'x" where
  "CancelTaskExecution svc ctx executionID userID st =
     (let (s, x) = st;
          (cancelErr, x1) = te_Cancel (ts_executor svc) ctx executionID x;
          x2 = (case ts_cleanup svc of None \<Rightarrow> x1
                | Some cc \<Rightarrow> snd (cc_CleanupExecution cc ctx executionID x1))
      in case CancelExecutionAndResetTaskStatus executionID userID s of
        ((Some err, _), s1) \<Rightarrow> (Some (Wrapf ''failed to cancel execution'' err), s1, x2)
      | ((None, _), s1) \<Rightarrow> (None, s1, x2))"

text \<open>The methods that give it the interface of the execution service.\<close>

definition svc_CreateExecutionAndUpdateTaskStatus :: "uuid \<Rightarrow> uuid \<Rightarrow> Session \<Rightarrow> (go_error + TaskExecution) \<times> Session" where
  "svc_CreateExecutionAndUpdateTaskStatus taskID userID s =
     (case ExecuteTask taskID userID s of
        (Inl err, s1) \<Rightarrow> (Inl err, s1)
      | (Inr (execution, task), s1) \<Rightarrow> (Inr execution, s1))"

definition svc_CancelExecutionAndResetTaskStatus ::
    "'x TaskExecutorService \<Rightarrow> Ctx \<Rightarrow> uuid \<Rightarrow> uuid \<Rightarrow> Session \<times> 'x \<Rightarrow> go_error option \<times> Session \<times> 'x" where
  "svc_CancelExecutionAndResetTaskStatus svc ctx executionID userID st = CancelTaskExecution svc ctx executionID userID st"

definition svc_CompleteExecutionAndFinalizeTaskStatus ::
    "TaskExecution \<Rightarrow> TaskStatus \<Rightarrow> uuid \<Rightarrow> Session \<Rightarrow> go_error option \<times> Session" where
  "svc_CompleteExecutionAndFinalizeTaskStatus execution taskStatus userID s =
     (case CompleteExecutionAndFinalizeTaskStatus execution taskStatus userID s of ((err, u), s1) \<Rightarrow> (err, s1))"

definition GetExecutorHealth :: "'x TaskExecutorService \<Rightarrow> Ctx \<Rightarrow> 'x \<Rightarrow> go_error option \<times> 'x" where
  "GetExecutorHealth svc ctx x = te_IsHealthy (ts_executor svc) ctx x"

definition GetExecutionStats :: "'x TaskExecutorService \<Rightarrow> 'x \<Rightarrow> CleanupStats" where
  "GetExecutionStats svc x =
     (case ts_cleanup svc of
        Some cc \<Rightarrow> cc_GetStats cc x
      | None \<Rightarrow> \<lparr>TotalTracked = 0, St_Created = 0, St_Running = 0, St_Completed = 0, St_Failed = 0, St_Stopped = 0\<rparr>)"

definition CleanupStaleExecutions :: "'x TaskExecutorService \<Rightarrow> Ctx \<Rightarrow> int \<Rightarrow> 'x \<Rightarrow> go_error option \<times> 'x" where
  "CleanupStaleExecutions svc ctx maxAge x =
     (case ts_cleanup svc of
        None \<Rightarrow> (None, x)
      | Some cc \<Rightarrow>
          (case cc_CleanupStale cc ctx maxAge x of
             (err, x') \<Rightarrow> (map_option (Wrapf ''failed to cleanup stale executions'') err, x')))"

definition Shutdown :: "'x TaskExecutorService \<Rightarrow> Ctx \<Rightarrow> 'x \<Rightarrow> go_error option \<times> 'x" where
  "Shutdown svc ctx x =
     (let x1 = (case ts_cleanup svc of None \<Rightarrow> x | Some cc \<Rightarrow> snd (cc_Stop cc ctx x))
      in case te_Cleanup (ts_executor svc) ctx x1 of
        (err, x2) \<Rightarrow> (map_option (Wrapf ''failed to cleanup executor'') err, x2))"

section \<open>What the repository calls do\<close>

text \<open>\<open>same_but_db\<close>: the sessions differ in the database, the faults and the ids only.\<close>

lemma run_stmt_Inr:
  "run_stmt f s = (Inr x, s') \<Longrightarrow> f (se_now s) (se_db s) = Inr (x, se_db s') \<and> se_now s' = se_now s"
  by (auto simp: run_stmt_def next_fault_def split: prod.splits option.splits sum.splits list.splits)

lemma run_stmt_Inl: "run_stmt f s = (Inl e, s') \<Longrightarrow> se_db s' = se_db s \<and> se_now s' = se_now s"
  by (auto simp: run_stmt_def next_fault_def split: prod.splits option.splits sum.splits list.splits)

lemma run_stmt_no_fault:
  "se_faults s = [] \<Longrightarrow> run_stmt f s =
     (case f (se_now s) (se_db s) of Inl e \<Rightarrow> (Inl e, s) | Inr (x, db) \<Rightarrow> (Inr x, s\<lparr>se_db := db\<rparr>))"
  by (simp add: run_stmt_def next_fault_def)

lemma tasks_GetByID_Inr:
  "tasks_GetByID i s = (Inr t, s') \<Longrightarrow>
     \<exists>r. get_row Task_ID i (T_tasks (se_db s)) = Some r \<and> t = scan_task r \<and> se_db s' = se_db s \<and> se_now s' = se_now s"
  by (auto simp: tasks_GetByID_def sql_get_def split: prod.splits sum.splits option.splits dest!: run_stmt_Inr)

lemma tasks_GetByID_Inl: "tasks_GetByID i s = (Inl e, s') \<Longrightarrow> se_db s' = se_db s"
  by (auto simp: tasks_GetByID_def split: prod.splits sum.splits dest!: run_stmt_Inl)

lemma execs_GetByID_Inr:
  "execs_GetByID i s = (Inr e, s') \<Longrightarrow>
     get_row Exec_ID i (T_execs (se_db s)) = Some e \<and> se_db s' = se_db s \<and> se_now s' = se_now s"
  by (auto simp: execs_GetByID_def sql_get_def split: prod.splits sum.splits option.splits dest!: run_stmt_Inr)

lemma tasks_UpdateStatus_None:
  assumes "tasks_UpdateStatus i st s = (None, s')"
  shows "\<exists>t. get_row Task_ID i (T_tasks (se_db s)) = Some t \<and> st \<in> set task_statuses \<and>
     se_db s' = (se_db s)\<lparr>T_tasks := put_row Task_ID (t\<lparr>Task_Status := st, Task_UpdatedAt := se_now s\<rparr>) (T_tasks (se_db s))\<rparr>"
proof -
  from assms obtain row where "run_stmt (sql_update_task i (\<lambda>t. t\<lparr>Task_Status := st\<rparr>)) s = (Inr (Some row), s')"
    by (auto simp: tasks_UpdateStatus_def split: prod.splits sum.splits option.splits)
  from run_stmt_Inr [OF this] show ?thesis
    by (auto simp: sql_update_task_def Let_def check_task_def split: option.splits)
qed

lemma execs_UpdateStatus_None:
  assumes "execs_UpdateStatus i st s = (None, s')"
  shows "\<exists>e. get_row Exec_ID i (T_execs (se_db s)) = Some e \<and> st \<in> set task_statuses \<and>
     se_db s' = (se_db s)\<lparr>T_execs := put_row Exec_ID (e\<lparr>Exec_Status := st\<rparr>) (T_execs (se_db s))\<rparr> \<and> se_now s' = se_now s"
proof -
  from assms obtain row where "run_stmt (sql_update_exec i (\<lambda>e. e\<lparr>Exec_Status := st\<rparr>)) s = (Inr (Some row), s')"
    by (auto simp: execs_UpdateStatus_def split: prod.splits sum.splits option.splits)
  from run_stmt_Inr [OF this] show ?thesis
    by (auto simp: sql_update_exec_def Let_def check_exec_def split: option.splits)
qed

lemma execs_Update_None:
  assumes "execs_Update (Some x) s = (None, s')"
  shows "\<exists>e. get_row Exec_ID (Exec_ID x) (T_execs (se_db s)) = Some e \<and> row_ok_exec x \<and>
     se_db s' = (se_db s)\<lparr>T_execs := put_row Exec_ID (x\<lparr>Exec_TaskID := Exec_TaskID e, Exec_CreatedAt := Exec_CreatedAt e\<rparr>)
       (T_execs (se_db s))\<rparr> \<and> se_now s' = se_now s"
proof -
  from assms obtain row where r: "run_stmt (sql_update_exec (Exec_ID x)
      (\<lambda>e. x\<lparr>Exec_ID := Exec_ID e, Exec_TaskID := Exec_TaskID e, Exec_CreatedAt := Exec_CreatedAt e\<rparr>)) s = (Inr (Some row), s')"
    by (auto simp: execs_Update_def split: prod.splits sum.splits option.splits)
  from run_stmt_Inr [OF r] obtain e where e: "get_row Exec_ID (Exec_ID x) (T_execs (se_db s)) = Some e"
    by (auto simp: sql_update_exec_def split: option.splits)
  then have "Exec_ID e = Exec_ID x" by (auto dest!: get_row_Some)
  then have "x\<lparr>Exec_ID := Exec_ID e, Exec_TaskID := Exec_TaskID e, Exec_CreatedAt := Exec_CreatedAt e\<rparr> =
      x\<lparr>Exec_TaskID := Exec_TaskID e, Exec_CreatedAt := Exec_CreatedAt e\<rparr>"
    by simp
  with run_stmt_Inr [OF r] e show ?thesis
    by (auto simp: sql_update_exec_def Let_def row_ok_exec_def type_exec_def check_exec_def split: option.splits)
qed

lemma execs_Create_None:
  assumes "execs_Create (Some x) s = ((None, e), s')"
  shows "\<exists>i. e = Some (x\<lparr>Exec_ID := i, Exec_CreatedAt := se_now s\<rparr>) \<and>
     se_db s' = (se_db s)\<lparr>T_execs := T_execs (se_db s) @ [x\<lparr>Exec_ID := i, Exec_CreatedAt := se_now s\<rparr>]\<rparr> \<and>
     get_row Exec_ID i (T_execs (se_db s)) = None \<and> se_now s' = se_now s"
proof -
  obtain x1 s1 where 1: "(if Exec_ID x = uuid_Nil then (case new_id s of (i, s') \<Rightarrow> (x\<lparr>Exec_ID := i\<rparr>, s')) else (x, s)) = (x1, s1)"
    by fastforce
  then have s1: "se_db s1 = se_db s" "se_now s1 = se_now s" "x1 = x\<lparr>Exec_ID := Exec_ID x1\<rparr>"
    by (auto simp: new_id_def split: if_splits)
  from assms 1 obtain row where r: "run_stmt (sql_insert_exec x1) s1 = (Inr row, s')"
    and e: "e = Some (x1\<lparr>Exec_CreatedAt := Exec_CreatedAt row\<rparr>)"
    by (auto simp: execs_Create_def Let_def split: prod.splits sum.splits option.splits)
  from run_stmt_Inr [OF r] have db: "row = x1\<lparr>Exec_CreatedAt := se_now s\<rparr>" "se_now s' = se_now s"
    "get_row Exec_ID (Exec_ID x1) (T_execs (se_db s)) = None"
    "se_db s' = (se_db s)\<lparr>T_execs := T_execs (se_db s) @ [x1\<lparr>Exec_CreatedAt := se_now s\<rparr>]\<rparr>"
    by (auto simp: sql_insert_exec_def Let_def s1(1,2) split: option.splits)
  have "x1\<lparr>Exec_CreatedAt := se_now s\<rparr> = x\<lparr>Exec_ID := Exec_ID x1, Exec_CreatedAt := se_now s\<rparr>"
    by (subst s1(3)) simp
  with e db show ?thesis by (intro exI [of _ "Exec_ID x1"]) auto
qed

lemma WithTransaction_None:
  assumes "WithTransaction fn d s = ((None, x), s')"
  shows "\<exists>s1 s2. se_db s1 = se_db s \<and> se_now s1 = se_now s \<and> fn s1 = ((None, x), s2) \<and> se_db s' = se_db s2"
proof -
  obtain f s1 where 1: "next_fault s = (f, s1)" by fastforce
  moreover have "se_now s1 = se_now s" using 1 by (auto simp: next_fault_def split: list.splits)
  moreover obtain r y s2 where 2: "fn s1 = ((r, y), s2)" by (metis prod.collapse)
  moreover obtain g s3 where 3: "next_fault s2 = (g, s3)" by fastforce
  ultimately show ?thesis
    using assms next_fault_session [OF 1] next_fault_session [OF 3]
    by (cases f; cases r; cases g) (auto simp: WithTransaction_def)
qed

lemma WithTransaction_Some:
  assumes "WithTransaction fn d s = ((Some e, x), s')"
  shows "se_db s' = se_db s"
proof -
  obtain f s1 where 1: "next_fault s = (f, s1)" by fastforce
  moreover obtain r y s2 where 2: "fn s1 = ((r, y), s2)" by (metis prod.collapse)
  moreover obtain g s3 where 3: "next_fault s2 = (g, s3)" by fastforce
  ultimately show ?thesis
    using assms next_fault_session [OF 1]
    by (cases f; cases r; cases g) (auto simp: WithTransaction_def)
qed

section \<open>Transactions as a contract\<close>

text \<open>
  \<open>transactional tx eff\<close>: when the body \<open>tx\<close> of a transaction succeeds, its effect on the database is one that
  \<open>eff\<close> describes. The transaction then has that effect or none, whichever statement, begin or commit fails.
\<close>

locale transactional =
  fixes tx :: "Session \<Rightarrow> (go_error option \<times> 'a) \<times> Session"
    and eff :: "time \<Rightarrow> DB \<Rightarrow> 'a \<Rightarrow> DB \<Rightarrow> bool"
  assumes effect: "tx s = ((None, x), s') \<Longrightarrow> eff (se_now s) (se_db s) x (se_db s')"
begin

lemma all_or_nothing:
  "WithTransaction tx d s = ((r, x), s') \<Longrightarrow>
     if r = None then eff (se_now s) (se_db s) x (se_db s') else se_db s' = se_db s"
  using WithTransaction_None [of tx d s x s'] WithTransaction_Some [of tx d s _ x s'] effect
  by (cases r) (simp, metis, simp)

lemma unchanged_or_effect:
  "se_db (snd (WithTransaction tx d s)) = se_db s \<or>
   (\<exists>x. eff (se_now s) (se_db s) x (se_db (snd (WithTransaction tx d s))))"
proof -
  obtain r x s' where w: "WithTransaction tx d s = ((r, x), s')" by (metis prod.collapse)
  from all_or_nothing [OF this] show ?thesis unfolding w by (auto split: if_splits)
qed

end

section \<open>Creation\<close>

definition executable_status :: "TaskStatus \<Rightarrow> bool" where
  "executable_status st \<longleftrightarrow> st \<notin> {TaskStatusRunning, TaskStatusCompleted, TaskStatusFailed, TaskStatusCancelled}"

lemma create_check_None:
  assumes "create_check tid uid s = (None, s')"
  shows "\<exists>t. get_row Task_ID tid (T_tasks (se_db s)) = Some t \<and> Task_UserID t = uid \<and>
     executable_status (Task_Status t) \<and> se_db s' = se_db s \<and> se_now s' = se_now s"
  using assms
  by (auto simp: create_check_def executable_status_def scan_task_def split: prod.splits sum.splits if_splits
      dest!: tasks_GetByID_Inr)

lemma new_id_session: "new_id s = (i, s') \<Longrightarrow> se_db s' = se_db s \<and> se_now s' = se_now s"
  by (auto simp: new_id_def)

lemma create_write_None:
  assumes "create_write tid s = ((None, e), s')"
  shows "\<exists>i t. e = Some ((new_execution i tid)\<lparr>Exec_CreatedAt := se_now s\<rparr>) \<and>
     get_row Task_ID tid (T_tasks (se_db s)) = Some t \<and> get_row Exec_ID i (T_execs (se_db s)) = None \<and>
     se_db s' = (se_db s)\<lparr>T_execs := T_execs (se_db s) @ [the e],
       T_tasks := put_row Task_ID (t\<lparr>Task_Status := TaskStatusRunning, Task_UpdatedAt := se_now s\<rparr>) (T_tasks (se_db s))\<rparr>"
proof -
  obtain i0 s0 where 0: "new_id s = (i0, s0)" by fastforce
  from assms 0 obtain s1 where 1: "execs_Create (Some (new_execution i0 tid)) s0 = ((None, e), s1)"
    and 2: "tasks_UpdateStatus tid TaskStatusRunning s1 = (None, s')"
    by (auto simp: create_write_def Let_def split: prod.splits option.splits)
  from execs_Create_None [OF 1] tasks_UpdateStatus_None [OF 2] new_id_session [OF 0] show ?thesis
    by (auto simp: new_execution_def)
qed

definition create_effect :: "uuid \<Rightarrow> uuid \<Rightarrow> time \<Rightarrow> DB \<Rightarrow> TaskExecution option \<Rightarrow> DB \<Rightarrow> bool" where
  "create_effect tid uid now db e db' \<longleftrightarrow>
     (\<exists>t row. get_row Task_ID tid (T_tasks db) = Some t \<and> Task_UserID t = uid \<and>
        executable_status (Task_Status t) \<and> e = Some row \<and> Exec_TaskID row = tid \<and> IsPending row \<and>
        get_row Exec_ID (Exec_ID row) (T_execs db) = None \<and>
        db' = db\<lparr>T_execs := T_execs db @ [row],
                 T_tasks := put_row Task_ID (t\<lparr>Task_Status := TaskStatusRunning, Task_UpdatedAt := now\<rparr>) (T_tasks db)\<rparr>)"

interpretation create: transactional "create_tx tid uid" "create_effect tid uid"
proof
  fix s x s'
  assume "create_tx tid uid s = ((None, x), s')"
  then obtain s1 where c: "create_check tid uid s = (None, s1)" "create_write tid s1 = ((None, x), s')"
    by (auto simp: create_tx_def split: prod.splits option.splits)
  from create_check_None [OF c(1)] create_write_None [OF c(2)]
  show "create_effect tid uid (se_now s) (se_db s) x (se_db s')"
    by (auto simp: create_effect_def IsPending_def new_execution_def)
qed

section \<open>Operations on an execution\<close>

lemma owned_execution_Inr:
  assumes "owned_execution eid uid s = (Inr e, s')"
  shows "get_row Exec_ID eid (T_execs (se_db s)) = Some e \<and>
     (\<exists>t. get_row Task_ID (Exec_TaskID e) (T_tasks (se_db s)) = Some t \<and> Task_UserID t = uid) \<and>
     se_db s' = se_db s \<and> se_now s' = se_now s"
  using assms
  by (auto simp: owned_execution_def scan_task_def split: prod.splits sum.splits if_splits
      dest!: execs_GetByID_Inr tasks_GetByID_Inr)

text \<open>
  \<open>exec_effect eid uid ok row est st\<close>: the execution \<open>eid\<close> belongs to a task of the user and satisfies \<open>ok\<close>; its
  row becomes \<open>row e\<close> and the status of its task \<open>st\<close>, and nothing else changes.
\<close>

definition exec_effect ::
    "uuid \<Rightarrow> uuid \<Rightarrow> (TaskExecution \<Rightarrow> bool) \<Rightarrow> (TaskExecution \<Rightarrow> TaskExecution) \<Rightarrow> TaskStatus \<Rightarrow> time \<Rightarrow> DB \<Rightarrow> unit \<Rightarrow> DB \<Rightarrow> bool"
  where
  "exec_effect eid uid ok row st now db u db' \<longleftrightarrow>
     (\<exists>e t. get_row Exec_ID eid (T_execs db) = Some e \<and>
        get_row Task_ID (Exec_TaskID e) (T_tasks db) = Some t \<and> Task_UserID t = uid \<and> ok e \<and>
        db' = db\<lparr>T_execs := put_row Exec_ID (row e) (T_execs db),
                 T_tasks := put_row Task_ID (t\<lparr>Task_Status := st, Task_UpdatedAt := now\<rparr>) (T_tasks db)\<rparr>)"

definition cancellable :: "TaskExecution \<Rightarrow> bool" where
  "cancellable e \<longleftrightarrow> Exec_Status e \<notin> {ExecutionStatusCompleted, ExecutionStatusFailed, ExecutionStatusCancelled}"

definition completable :: "TaskExecution \<Rightarrow> bool" where
  "completable e \<longleftrightarrow> Exec_Status e \<notin> {ExecutionStatusCompleted, ExecutionStatusCancelled}"

abbreviation cancelled_row :: "TaskExecution \<Rightarrow> TaskExecution" where
  "cancelled_row e \<equiv> e\<lparr>Exec_Status := ExecutionStatusCancelled\<rparr>"

abbreviation result_row :: "TaskExecution \<Rightarrow> TaskExecution \<Rightarrow> TaskExecution" where
  "result_row x e \<equiv> x\<lparr>Exec_TaskID := Exec_TaskID e, Exec_CreatedAt := Exec_CreatedAt e\<rparr>"

interpretation cancel: transactional "cancel_tx eid uid"
  "exec_effect eid uid cancellable cancelled_row TaskStatusPending"
proof
  fix s x s'
  assume "cancel_tx eid uid s = ((None, x), s')"
  then obtain e s1 s2 where 1: "owned_execution eid uid s = (Inr e, s1)" "cancellable e"
      "execs_UpdateStatus eid ExecutionStatusCancelled s1 = (None, s2)"
      "tasks_UpdateStatus (Exec_TaskID e) TaskStatusPending s2 = (None, s')"
    by (auto simp: cancel_tx_def cancellable_def split: prod.splits sum.splits option.splits if_splits)
  from owned_execution_Inr [OF 1(1)] execs_UpdateStatus_None [OF 1(3)] tasks_UpdateStatus_None [OF 1(4)] 1(2)
  show "exec_effect eid uid cancellable cancelled_row TaskStatusPending (se_now s) (se_db s) x (se_db s')"
    by (auto simp: exec_effect_def)
qed

interpretation complete: transactional "complete_tx x st uid"
  "exec_effect (Exec_ID x) uid (\<lambda>e. completable e \<and> row_ok_exec x) (result_row x) st"
proof
  fix s u s'
  assume "complete_tx x st uid s = ((None, u), s')"
  then obtain e s1 s2 where 1: "owned_execution (Exec_ID x) uid s = (Inr e, s1)" "completable e"
      "execs_Update (Some x) s1 = (None, s2)" "tasks_UpdateStatus (Exec_TaskID e) st s2 = (None, s')"
    by (auto simp: complete_tx_def completable_def split: prod.splits sum.splits option.splits if_splits)
  from owned_execution_Inr [OF 1(1)] execs_Update_None [OF 1(3)] tasks_UpdateStatus_None [OF 1(4)] 1(2)
  show "exec_effect (Exec_ID x) uid (\<lambda>e. completable e \<and> row_ok_exec x) (result_row x) st (se_now s) (se_db s) u (se_db s')"
    by (auto simp: exec_effect_def)
qed

interpretation update: transactional "update_tx eid est tid st uid"
  "exec_effect eid uid (\<lambda>e. Exec_TaskID e = tid \<and> est \<in> set task_statuses) (\<lambda>e. e\<lparr>Exec_Status := est\<rparr>) st"
proof
  fix s u s'
  assume "update_tx eid est tid st uid s = ((None, u), s')"
  then obtain e s1 s2 where 1: "owned_execution eid uid s = (Inr e, s1)" "Exec_TaskID e = tid"
      "execs_UpdateStatus eid est s1 = (None, s2)" "tasks_UpdateStatus tid st s2 = (None, s')"
    by (auto simp: update_tx_def split: prod.splits sum.splits option.splits if_splits)
  from owned_execution_Inr [OF 1(1)] execs_UpdateStatus_None [OF 1(3)] tasks_UpdateStatus_None [OF 1(4)] 1(2)
  show "exec_effect eid uid (\<lambda>e. Exec_TaskID e = tid \<and> est \<in> set task_statuses) (\<lambda>e. e\<lparr>Exec_Status := est\<rparr>) st
      (se_now s) (se_db s) u (se_db s')"
    by (auto simp: exec_effect_def)
qed

section \<open>Properties of the service\<close>

text \<open>C7: A successful \<open>CreateExecutionAndUpdateTaskStatus\<close> adds exactly one row, a pending execution of the task,
  and sets exactly one status, the task's, to running; the task was the user's and was not running,
  completed, failed or cancelled. An unsuccessful one returns no execution and changes nothing. Both hold
  whatever statements fail.\<close>

theorem create_execution_spec:
  "(case CreateExecutionAndUpdateTaskStatus tid uid s of
      ((Some err, e), s') \<Rightarrow> e = None \<and> se_db s' = se_db s
    | ((None, e), s') \<Rightarrow> create_effect tid uid (se_now s) (se_db s) e (se_db s'))"
proof -
  obtain r e s' where w: "WithTransaction (create_tx tid uid) None s = ((r, e), s')" by (metis prod.collapse)
  from create.all_or_nothing [OF w] w show ?thesis
    by (simp add: CreateExecutionAndUpdateTaskStatus_def split: option.splits if_splits)
qed

text \<open>C6: A successful cancellation is the owner's; it sets the execution to cancelled and its task to pending and
  changes nothing else, and the execution was pending, running or timed out. A failed one changes nothing.\<close>

theorem cancel_execution_spec:
  "(case CancelExecutionAndResetTaskStatus eid uid s of
      ((Some err, u), s') \<Rightarrow> se_db s' = se_db s
    | ((None, u), s') \<Rightarrow>
        exec_effect eid uid cancellable cancelled_row TaskStatusPending (se_now s) (se_db s) u (se_db s'))"
proof -
  obtain r u s' where w: "CancelExecutionAndResetTaskStatus eid uid s = ((r, u), s')" by (metis prod.collapse)
  from cancel.all_or_nothing [OF w [unfolded CancelExecutionAndResetTaskStatus_def]] show ?thesis
    unfolding w by (cases r) simp_all
qed


text \<open>C13: A result the schema does not accept is lost: when the return code is outside 0..255 (the mock's timeout
  result has -1) or an output is not text PostgreSQL can store (a zero byte, malformed UTF-8), storing the
  result fails and execution and task keep the status they have.\<close>

theorem unstorable_results_are_lost:
  assumes "\<not> opt_all (\<lambda>c. 0 \<le> c \<and> c \<le> 255) (Res_ReturnCode res) \<or> \<not> opt_text (Res_Stdout res) \<or>
     \<not> opt_text (Res_Stderr res)"
  shows "fst (updateExecutionWithResults eid res uid s) \<noteq> None \<and>
     se_db (snd (updateExecutionWithResults eid res uid s)) = se_db s"
proof -
  let ?x = "result_execution eid res"
  obtain r u s' where w: "CompleteExecutionAndFinalizeTaskStatus ?x (task_status_of (Res_Status res)) uid s = ((r, u), s')"
    by (metis prod.collapse)
  have "\<not> row_ok_exec ?x"
    using assms by (auto simp: row_ok_exec_def type_exec_def check_exec_def result_execution_def)
  then have "r \<noteq> None \<and> se_db s' = se_db s"
    using complete.all_or_nothing [OF w [unfolded CompleteExecutionAndFinalizeTaskStatus_def]]
    by (auto simp: exec_effect_def split: if_splits)
  with w show ?thesis by (simp add: updateExecutionWithResults_def)
qed

theorem unstorable_results_are_lost_witness:
  "fst (updateExecutionWithResults 3 (generateMockResult 0 (example_task\<lparr>Task_ScriptContent := ''sleep(10)''\<rparr>)
     (example_context None)) 2 (fresh_session empty_db)) \<noteq> None"
proof -
  let ?r = "generateMockResult 0 (example_task\<lparr>Task_ScriptContent := ''sleep(10)''\<rparr>) (example_context None)"
  have "Res_ReturnCode ?r = Some (- 1)" by code_simp
  then have "\<not> opt_all (\<lambda>c. 0 \<le> c \<and> c \<le> 255) (Res_ReturnCode ?r)" by (simp add: opt_all_def)
  then show ?thesis using unstorable_results_are_lost [of ?r 3 2 "fresh_session empty_db"] by blast
qed

section \<open>Runs without faults\<close>

lemma statuses_text: "list_all (\<lambda>st. pg_text st \<and> utf8_length st \<le> 50) task_statuses"
  by code_simp

lemma row_ok_exec_status: "row_ok_exec e \<Longrightarrow> st \<in> set task_statuses \<Longrightarrow> row_ok_exec (e\<lparr>Exec_Status := st\<rparr>)"
  using statuses_text by (auto simp: row_ok_exec_def type_exec_def check_exec_def list_all_iff)

lemma row_ok_task_status:
  "row_ok_task t \<Longrightarrow> st \<in> set task_statuses \<Longrightarrow> row_ok_task (t\<lparr>Task_Status := st, Task_UpdatedAt := now\<rparr>)"
  using statuses_text by (auto simp: row_ok_task_def type_task_def check_task_def list_all_iff)

lemma db_ok_task: "db_ok db \<Longrightarrow> get_row Task_ID i (T_tasks db) = Some t \<Longrightarrow> row_ok_task t \<and> Task_ID t = i"
  by (auto simp: db_ok_def dest!: get_row_Some)

lemma db_ok_exec: "db_ok db \<Longrightarrow> get_row Exec_ID i (T_execs db) = Some e \<Longrightarrow> row_ok_exec e \<and> Exec_ID e = i"
  by (auto simp: db_ok_def dest!: get_row_Some)

lemma tasks_GetByID_run:
  "se_faults s = [] \<Longrightarrow> get_row Task_ID i (T_tasks (se_db s)) = Some t \<Longrightarrow> tasks_GetByID i s = (Inr (scan_task t), s)"
  by (simp add: tasks_GetByID_def run_stmt_no_fault sql_get_def)

lemma execs_GetByID_run:
  "se_faults s = [] \<Longrightarrow> get_row Exec_ID i (T_execs (se_db s)) = Some e \<Longrightarrow> execs_GetByID i s = (Inr e, s)"
  by (simp add: execs_GetByID_def run_stmt_no_fault sql_get_def)

lemma execs_UpdateStatus_run:
  "se_faults s = [] \<Longrightarrow> get_row Exec_ID i (T_execs (se_db s)) = Some e \<Longrightarrow> row_ok_exec e \<Longrightarrow> st \<in> set task_statuses \<Longrightarrow>
     execs_UpdateStatus i st s =
       (None, s\<lparr>se_db := (se_db s)\<lparr>T_execs := put_row Exec_ID (e\<lparr>Exec_Status := st\<rparr>) (T_execs (se_db s))\<rparr>\<rparr>)"
  using row_ok_exec_status [of e st]
  by (simp add: execs_UpdateStatus_def run_stmt_no_fault sql_update_exec_def Let_def row_ok_exec_def)

lemma tasks_UpdateStatus_run:
  "se_faults s = [] \<Longrightarrow> get_row Task_ID i (T_tasks (se_db s)) = Some t \<Longrightarrow> row_ok_task t \<Longrightarrow> st \<in> set task_statuses \<Longrightarrow>
     tasks_UpdateStatus i st s =
       (None, s\<lparr>se_db := (se_db s)\<lparr>T_tasks := put_row Task_ID (t\<lparr>Task_Status := st, Task_UpdatedAt := se_now s\<rparr>)
                                             (T_tasks (se_db s))\<rparr>\<rparr>)"
  using row_ok_task_status [of t st "se_now s"]
  by (simp add: tasks_UpdateStatus_def run_stmt_no_fault sql_update_task_def Let_def row_ok_task_def)

lemma execs_Update_run:
  assumes "se_faults s = []" and "get_row Exec_ID (Exec_ID x) (T_execs (se_db s)) = Some e" and "row_ok_exec x"
  shows "execs_Update (Some x) s =
       (None, s\<lparr>se_db := (se_db s)\<lparr>T_execs := put_row Exec_ID (result_row x e) (T_execs (se_db s))\<rparr>\<rparr>)"
proof -
  have "Exec_ID e = Exec_ID x" using assms(2) by (auto dest!: get_row_Some)
  then have x: "x\<lparr>Exec_ID := Exec_ID e, Exec_TaskID := Exec_TaskID e, Exec_CreatedAt := Exec_CreatedAt e\<rparr> = result_row x e"
    by simp
  have "type_exec (result_row x e) = None" "check_exec (result_row x e) = None"
    using assms(3) by (simp_all add: row_ok_exec_def type_exec_def check_exec_def)
  with assms show ?thesis
    by (simp add: execs_Update_def run_stmt_no_fault sql_update_exec_def Let_def x)
qed

lemma owned_execution_run:
  "se_faults s = [] \<Longrightarrow> get_row Exec_ID i (T_execs (se_db s)) = Some e \<Longrightarrow> get_row Task_ID (Exec_TaskID e) (T_tasks (se_db s)) = Some t \<Longrightarrow>
     owned_execution i (Task_UserID t) s = (Inr e, s)"
  by (simp add: owned_execution_def execs_GetByID_run tasks_GetByID_run scan_task_def)

lemma create_check_run:
  "se_faults s = [] \<Longrightarrow> get_row Task_ID i (T_tasks (se_db s)) = Some t \<Longrightarrow> executable_status (Task_Status t) \<Longrightarrow>
     create_check i (Task_UserID t) s = (None, s)"
  by (simp add: create_check_def tasks_GetByID_run scan_task_def executable_status_def)

lemma WithTransaction_run:
  "se_faults s = [] \<Longrightarrow> fn s = ((None, x), s') \<Longrightarrow> se_faults s' = [] \<Longrightarrow> WithTransaction fn d s = ((None, x), s')"
  by (simp add: WithTransaction_def next_fault_def)

lemmas run_simps = tasks_GetByID_run execs_GetByID_run execs_UpdateStatus_run tasks_UpdateStatus_run
  execs_Update_run owned_execution_run create_check_run WithTransaction_run

section \<open>The life of an execution\<close>

lemma task_status_of_ok: "task_status_of st \<in> set task_statuses"
  by (simp add: task_status_of_def task_statuses_def)

lemma complete_run:
  assumes "se_faults s = []" and "db_ok (se_db s)" and "row_ok_exec x" and "st \<in> set task_statuses"
    and "get_row Exec_ID (Exec_ID x) (T_execs (se_db s)) = Some e" and "completable e"
    and "get_row Task_ID (Exec_TaskID e) (T_tasks (se_db s)) = Some t"
  shows "CompleteExecutionAndFinalizeTaskStatus x st (Task_UserID t) s =
     ((None, ()), s\<lparr>se_db := (se_db s)\<lparr>T_execs := put_row Exec_ID (result_row x e) (T_execs (se_db s)),
        T_tasks := put_row Task_ID (t\<lparr>Task_Status := st, Task_UpdatedAt := se_now s\<rparr>) (T_tasks (se_db s))\<rparr>\<rparr>)"
proof -
  have t: "row_ok_task t" using db_ok_task [OF assms(2,7)] by simp
  have "complete_tx x st (Task_UserID t) s = ((None, ()), s\<lparr>se_db := (se_db s)\<lparr>T_execs := put_row Exec_ID (result_row x e) (T_execs (se_db s)),
        T_tasks := put_row Task_ID (t\<lparr>Task_Status := st, Task_UpdatedAt := se_now s\<rparr>) (T_tasks (se_db s))\<rparr>\<rparr>)"
    using assms(1,3-7) t
    by (simp add: complete_tx_def completable_def owned_execution_run execs_Update_run tasks_UpdateStatus_run)
  then show ?thesis
    unfolding CompleteExecutionAndFinalizeTaskStatus_def using assms(1) by (intro WithTransaction_run) simp_all
qed


definition demo_task :: Task where
  "demo_task = stored_task\<lparr>Task_ID := 1\<rparr>"

definition demo_db :: "TaskExecution list \<Rightarrow> DB" where
  "demo_db es = \<lparr>T_users = [example_user], T_tasks = [demo_task], T_execs = es\<rparr>"

definition demo_result :: ExecutionResult where
  "demo_result = zero_result\<lparr>Res_Status := ExecutionStatusCompleted, Res_ReturnCode := Some 0, Res_Stdout := Some ''hi''\<rparr>"

definition demo_service :: "unit TaskExecutorService" where
  "demo_service =
     \<lparr>ts_executor = \<lparr>te_Execute = (\<lambda>ctx ec x. (Return (Some demo_result, None), x)), te_Cancel = (\<lambda>ctx i x. (None, x)),
                     te_IsHealthy = (\<lambda>ctx x. (None, x)), te_Cleanup = (\<lambda>ctx x. (None, x))\<rparr>,
      ts_cleanup = None, ts_uuid = (\<lambda>_. [])\<rparr>"

definition demo_cancelled :: TaskExecution where
  "demo_cancelled = (new_execution 3 1)\<lparr>Exec_Status := ExecutionStatusCancelled\<rparr>"

lemma demo_rows_ok:
  "type_user example_user = None" "row_ok_task demo_task" "row_ok_exec demo_cancelled"
  "row_ok_exec (result_execution 3 demo_result)"
  unfolding row_ok_task_def row_ok_exec_def by code_simp+

lemma demo_db_ok: "db_ok (demo_db [])" "db_ok (demo_db [demo_cancelled])"
  using demo_rows_ok
  by (simp_all add: db_ok_def demo_db_def demo_task_def stored_task_def example_user_def demo_cancelled_def new_execution_def)


section \<open>Interleaved creations\<close>

lemma create_write_run:
  assumes "se_faults s = []" and "db_ok (se_db s)" and "get_row Task_ID tid (T_tasks (se_db s)) = Some t"
    and "new_id s = (i, s0)" and "i \<noteq> uuid_Nil" and "get_row Exec_ID i (T_execs (se_db s)) = None"
  shows "create_write tid s =
     ((None, Some ((new_execution i tid)\<lparr>Exec_CreatedAt := se_now s\<rparr>)),
      s0\<lparr>se_db := (se_db s)\<lparr>T_execs := T_execs (se_db s) @ [(new_execution i tid)\<lparr>Exec_CreatedAt := se_now s\<rparr>],
        T_tasks := put_row Task_ID (t\<lparr>Task_Status := TaskStatusRunning, Task_UpdatedAt := se_now s\<rparr>) (T_tasks (se_db s))\<rparr>\<rparr>)"
proof -
  let ?row = "(new_execution i tid)\<lparr>Exec_CreatedAt := se_now s\<rparr>"
  have s0: "se_db s0 = se_db s" "se_faults s0 = []" "se_now s0 = se_now s"
    using assms(1,4) by (auto simp: new_id_def)
  have st: "pg_text ''pending''" "utf8_length ''pending'' \<le> 50" by code_simp+
  have ok: "type_exec ?row = None" "check_exec ?row = None"
    using st by (simp_all add: type_exec_def check_exec_def new_execution_def opt_all_def opt_text_def task_statuses_def)
  have 1: "execs_Create (Some (new_execution i tid)) s0 =
      ((None, Some ?row), s0\<lparr>se_db := (se_db s)\<lparr>T_execs := T_execs (se_db s) @ [?row]\<rparr>\<rparr>)"
    using assms(3,5,6) ok
    by (simp add: execs_Create_def run_stmt_no_fault sql_insert_exec_def Let_def s0 new_execution_def)
  have "row_ok_task t" using db_ok_task [OF assms(2,3)] by simp
  moreover have "TaskStatusRunning \<in> set task_statuses" by (simp add: task_statuses_def)
  ultimately have "tasks_UpdateStatus tid TaskStatusRunning (s0\<lparr>se_db := (se_db s)\<lparr>T_execs := T_execs (se_db s) @ [?row]\<rparr>\<rparr>) =
     (None, s0\<lparr>se_db := (se_db s)\<lparr>T_execs := T_execs (se_db s) @ [?row],
        T_tasks := put_row Task_ID (t\<lparr>Task_Status := TaskStatusRunning, Task_UpdatedAt := se_now s\<rparr>) (T_tasks (se_db s))\<rparr>\<rparr>)"
    using assms(3) s0 by (simp add: tasks_UpdateStatus_run)
  with 1 assms(4) show ?thesis by (simp add: create_write_def)
qed

text \<open>C12: The check of \<open>CreateExecutionAndUpdateTaskStatus\<close> does not exclude a second creation. Under READ COMMITTED
  two transactions can both read the task before either writes; then both succeed, one after the other, and
  the task has two pending executions, though the check is there to refuse a task that is already running.\<close>

theorem concurrent_creations_both_succeed:
  assumes "se_faults s = []" and "db_ok (se_db s)"
    and "get_row Task_ID tid (T_tasks (se_db s)) = Some t" and "executable_status (Task_Status t)"
    and "se_newid s (se_ids s) = i" "se_newid s (se_ids s + 1) = j" "i \<noteq> j" "i \<noteq> uuid_Nil" "j \<noteq> uuid_Nil"
    and "get_row Exec_ID i (T_execs (se_db s)) = None" "get_row Exec_ID j (T_execs (se_db s)) = None"
  shows "create_check tid (Task_UserID t) s = (None, s) \<and>
     (case create_write tid s of
        ((Some err, _), _) \<Rightarrow> False
      | ((None, e1), s1) \<Rightarrow>
          (case create_write tid s1 of
             ((Some err, _), _) \<Rightarrow> False
           | ((None, e2), s2) \<Rightarrow>
               e1 \<noteq> e2 \<and> length (filter (\<lambda>e. Exec_TaskID e = tid \<and> IsPending e) (T_execs (se_db s2))) \<ge> 2))"
proof -
  let ?r1 = "(new_execution i tid)\<lparr>Exec_CreatedAt := se_now s\<rparr>" and ?r2 = "(new_execution j tid)\<lparr>Exec_CreatedAt := se_now s\<rparr>"
  let ?t1 = "t\<lparr>Task_Status := TaskStatusRunning, Task_UpdatedAt := se_now s\<rparr>"
  have tid: "Task_ID t = tid" using db_ok_task [OF assms(2,3)] by simp
  define s1 where "s1 = s\<lparr>se_ids := se_ids s + 1,
     se_db := (se_db s)\<lparr>T_execs := T_execs (se_db s) @ [?r1], T_tasks := put_row Task_ID ?t1 (T_tasks (se_db s))\<rparr>\<rparr>"
  have w1: "create_write tid s = ((None, Some ?r1), s1)"
    using create_write_run [OF assms(1,2,3), of i] assms(5,8,10) by (simp add: new_id_def s1_def)
  have s1: "se_faults s1 = []" "se_now s1 = se_now s" "se_newid s1 = se_newid s" "se_ids s1 = se_ids s + 1"
      "se_db s1 = (se_db s)\<lparr>T_execs := T_execs (se_db s) @ [?r1], T_tasks := put_row Task_ID ?t1 (T_tasks (se_db s))\<rparr>"
    using assms(1) by (simp_all add: s1_def)
  have ok1: "db_ok (se_db s1)"
  proof -
    have "keeps (create_write tid)"
      unfolding keeps_def create_write_def Let_def
      using keepsD [OF creates_keep(2)] keepsD [OF tasks_writes_keep(2)]
      by (auto simp: new_id_def split: prod.splits option.splits) (metis Session.select_convs(1) Session.surjective Session.update_convs(5) snd_conv)+
    from keepsD [OF this assms(2)] w1 show ?thesis by simp
  qed
  have g: "get_row Task_ID tid (T_tasks (se_db s1)) = Some ?t1" "get_row Exec_ID j (T_execs (se_db s1)) = None"
    using tasks.get_put_same [of ?t1 "T_tasks (se_db s)" t] assms(3,7,11) tid
    by (simp_all add: s1 get_row_append new_execution_def)
  obtain s2 where w2: "create_write tid s1 = ((None, Some ?r2), s2)" and s2: "T_execs (se_db s2) = T_execs (se_db s1) @ [?r2]"
    using create_write_run [OF s1(1) ok1 g(1), of j] assms(6,9) g(2) s1(2-4) by (auto simp: new_id_def)
  have "?r1 \<noteq> ?r2" using assms(7) by (simp add: new_execution_def)
  moreover have "length (filter (\<lambda>e. Exec_TaskID e = tid \<and> IsPending e) (T_execs (se_db s2))) \<ge> 2"
    by (simp add: s2 s1 new_execution_def IsPending_def)
  ultimately show ?thesis
    using create_check_run [OF assms(1,3,4)] w1 w2 by simp
qed

theorem concurrent_creations_both_succeed_witness:
  "create_check 1 2 (fresh_session (demo_db [])) = (None, fresh_session (demo_db []))"
proof -
  have "Task_UserID demo_task = 2" by (simp add: demo_task_def stored_task_def)
  then show ?thesis
    using concurrent_creations_both_succeed [of "fresh_session (demo_db [])" 1 demo_task 50 51] demo_db_ok(1)
    by (simp add: fresh_session_def demo_db_def demo_task_def stored_task_def executable_status_def)
qed

end
