(* ===== verification/AppConfig.thy ===== *)
theory AppConfig
  imports Services
begin

text \<open>
  The configuration of the server (\<open>internal/config/config.go\<close>) and the wiring of \<open>cmd/api/main.go\<close> that
  chooses the executor. The environment is a function from names to values, empty when a variable is not set;
  \<open>strconv\<close> is modelled, and \<open>time.ParseDuration\<close> is an argument.
\<close>

section \<open>Numbers as text (\<open>strconv\<close>)\<close>

definition digits_value :: "string \<Rightarrow> int" where
  "digits_value s = foldl (\<lambda>n c. n * 10 + int (of_char c - 48)) 0 s"

text \<open>\<open>strconv.ParseInt(s, 10, 64)\<close>: an optional sign and at least one decimal digit, in the range of 64 bits.\<close>

definition ParseInt64 :: "string \<Rightarrow> go_error + int" where
  "ParseInt64 s =
     (let (neg, d) = (case s of
            [] \<Rightarrow> (False, [])
          | c # r \<Rightarrow> (if c = CHR ''-'' then (True, r) else if c = CHR ''+'' then (False, r) else (False, s)));
          v = (if neg then - digits_value d else digits_value d)
      in if d = [] \<or> \<not> list_all is_digit d then Inl (ExternalErr ''invalid syntax'')
         else if \<not> i64_range v then Inl (ExternalErr ''value out of range'')
         else Inr v)"

definition Atoi :: "string \<Rightarrow> go_error + int" where "Atoi s = ParseInt64 s"

definition ParseBool :: "string \<Rightarrow> go_error + bool" where
  "ParseBool s =
     (if s \<in> set [''1'', ''t'', ''T'', ''true'', ''TRUE'', ''True''] then Inr True
      else if s \<in> set [''0'', ''f'', ''F'', ''false'', ''FALSE'', ''False''] then Inr False
      else Inl (ExternalErr ''invalid syntax''))"

lemma ParseInt64_range: "ParseInt64 s = Inr v \<Longrightarrow> i64_range v"
  by (auto simp: ParseInt64_def Let_def split: prod.splits if_splits)

text \<open>What \<open>%d\<close> prints is read back.\<close>

lemma digits_value_append: "digits_value (s @ [c]) = digits_value s * 10 + int (of_char c - 48)"
  by (simp add: digits_value_def)

lemma of_char_digit: "of_char (digit n) = (48 + n mod 10 :: nat)"
proof -
  have "48 + n mod 10 < 256" by (rule less_trans [of _ 58]) auto
  then show ?thesis by simp
qed

lemma show_nat_digits: "digits_value (show_nat n) = int n \<and> list_all is_digit (show_nat n) \<and> show_nat n \<noteq> []"
proof (induction n rule: show_nat.induct)
  case (1 n)
  have d: "is_digit (digit n)" by (simp add: is_digit_def in_range_def of_char_digit del: digit.simps)
  show ?case
  proof (cases "n < 10")
    case True
    with d show ?thesis
      by (subst (1 2 3) show_nat.simps) (simp add: digits_value_def of_char_digit del: digit.simps)
  next
    case False
    with 1 d show ?thesis
      by (subst (1 2 3) show_nat.simps)
        (simp add: digits_value_append of_char_digit zdiv_int zmod_int del: digit.simps)
  qed
qed

lemma ParseInt64_show_int: "i64_range v \<Longrightarrow> ParseInt64 (show_int v) = Inr v"
proof -
  assume r: "i64_range v"
  have h: "\<exists>c r. show_nat n = c # r \<and> c \<noteq> CHR ''-'' \<and> c \<noteq> CHR ''+''" for n
  proof -
    obtain c r where cr: "show_nat n = c # r" using show_nat_digits [of n] by (cases "show_nat n") auto
    with show_nat_digits [of n] have "is_digit c" by simp
    then have "c \<noteq> CHR ''-''" "c \<noteq> CHR ''+''" by (auto simp: is_digit_def in_range_def)
    with cr show ?thesis by blast
  qed
  show ?thesis
  proof (cases "v < 0")
    case True
    with r show ?thesis
      by (simp add: ParseInt64_def show_int_def show_nat_digits)
  next
    case False
    obtain c r' where cr: "show_nat (nat v) = c # r'" "c \<noteq> CHR ''-''" "c \<noteq> CHR ''+''" using h by blast
    from show_nat_digits [of "nat v"] have "digits_value (c # r') = v" "list_all is_digit (c # r')"
      using False by (simp_all add: cr(1))
    with False cr r show ?thesis by (simp add: ParseInt64_def show_int_def)
  qed
qed

section \<open>Environment\<close>

type_synonym environment = "string \<Rightarrow> string"

definition getEnv :: "environment \<Rightarrow> string \<Rightarrow> string \<Rightarrow> string" where
  "getEnv env key defaultValue = (if env key \<noteq> [] then env key else defaultValue)"

definition getEnvSlice :: "environment \<Rightarrow> string \<Rightarrow> string list \<Rightarrow> string list" where
  "getEnvSlice env key defaultValue =
     (if env key \<noteq> [] then map TrimSpace (Split (env key) (CHR '','')) else defaultValue)"

definition getEnvDuration :: "(string \<Rightarrow> go_error + int) \<Rightarrow> environment \<Rightarrow> string \<Rightarrow> int \<Rightarrow> int" where
  "getEnvDuration ParseDuration env key defaultValue =
     (if env key \<noteq> [] then (case ParseDuration (env key) of Inr d \<Rightarrow> d | Inl err \<Rightarrow> defaultValue) else defaultValue)"

definition getEnvInt :: "environment \<Rightarrow> string \<Rightarrow> int \<Rightarrow> int" where
  "getEnvInt env key defaultValue =
     (if env key \<noteq> [] then (case Atoi (env key) of Inr i \<Rightarrow> i | Inl err \<Rightarrow> defaultValue) else defaultValue)"

definition getEnvInt64 :: "environment \<Rightarrow> string \<Rightarrow> int \<Rightarrow> int" where
  "getEnvInt64 env key defaultValue =
     (if env key \<noteq> [] then (case ParseInt64 (env key) of Inr i \<Rightarrow> i | Inl err \<Rightarrow> defaultValue) else defaultValue)"

definition getEnvBool :: "environment \<Rightarrow> string \<Rightarrow> bool \<Rightarrow> bool" where
  "getEnvBool env key defaultValue =
     (if env key \<noteq> [] then (case ParseBool (env key) of Inr b \<Rightarrow> b | Inl err \<Rightarrow> defaultValue) else defaultValue)"

section \<open>Configuration\<close>

record ServerConfig =
  Srv_Port :: string
  Srv_Host :: string
  Srv_Env :: string

record DatabaseConfig =
  Db_Host :: string
  Db_Port :: string
  Db_User :: string
  Db_Password :: string
  Db_Database :: string
  Db_SSLMode :: string

record LoggerConfig =
  Log_Level :: string
  Log_Format :: string

record CORSConfig =
  Cors_AllowedOrigins :: "string list"
  Cors_AllowedMethods :: "string list"
  Cors_AllowedHeaders :: "string list"

record JWTConfig =
  Jwt_SecretKey :: string
  Jwt_AccessTokenDuration :: int
  Jwt_RefreshTokenDuration :: int
  Jwt_Issuer :: string
  Jwt_Audience :: string

record ExecutorConfig =
  Xc_DockerEndpoint :: string
  Xc_DefaultMemoryLimitMB :: int
  Xc_DefaultCPUQuota :: int
  Xc_DefaultPidsLimit :: int
  Xc_DefaultTimeoutSeconds :: int
  Xc_PythonImage :: string
  Xc_BashImage :: string
  Xc_JavaScriptImage :: string
  Xc_GoImage :: string
  Xc_EnableSeccomp :: bool
  Xc_SeccompProfilePath :: string
  Xc_EnableAppArmor :: bool
  Xc_AppArmorProfile :: string
  Xc_ExecutionUser :: string

record AppConfig =
  App_Server :: ServerConfig
  App_Database :: DatabaseConfig
  App_Logger :: LoggerConfig
  App_CORS :: CORSConfig
  App_JWT :: JWTConfig
  App_Executor :: ExecutorConfig

definition app_validate :: "AppConfig \<Rightarrow> go_error option" where
  "app_validate c =
     err_then (fail_if (Srv_Port (App_Server c) = []) (Errorf ''server port is required''))
    (err_then (fail_if (isl (Atoi (Srv_Port (App_Server c))))
                 (Errorf (''invalid server port: '' @ Srv_Port (App_Server c))))
    (err_then (fail_if (Db_Host (App_Database c) = []) (Errorf ''database host is required''))
    (err_then (fail_if (Db_User (App_Database c) = []) (Errorf ''database user is required''))
    (err_then (fail_if (Db_Database (App_Database c) = []) (Errorf ''database name is required''))
    (err_then (fail_if (Jwt_SecretKey (App_JWT c) = []) (Errorf ''JWT secret key is required''))
    (err_then (fail_if (Jwt_AccessTokenDuration (App_JWT c) \<le> 0)
                 (Errorf ''JWT access token duration must be positive''))
    (err_then (fail_if (Jwt_RefreshTokenDuration (App_JWT c) \<le> 0)
                 (Errorf ''JWT refresh token duration must be positive''))
    (err_then (fail_if (Xc_DefaultMemoryLimitMB (App_Executor c) \<le> 0)
                 (Errorf ''executor default memory limit must be positive''))
    (err_then (fail_if (Xc_DefaultCPUQuota (App_Executor c) \<le> 0)
                 (Errorf ''executor default CPU quota must be positive''))
    (err_then (fail_if (Xc_DefaultPidsLimit (App_Executor c) \<le> 0)
                 (Errorf ''executor default PID limit must be positive''))
    (err_then (fail_if (Xc_DefaultTimeoutSeconds (App_Executor c) \<le> 0)
                 (Errorf ''executor default timeout must be positive''))
    (err_then (fail_if (Xc_PythonImage (App_Executor c) = []) (Errorf ''executor Python image must be specified''))
              (fail_if (Xc_BashImage (App_Executor c) = []) (Errorf ''executor Bash image must be specified''))))))))))))))"

abbreviation Minute :: int where "Minute \<equiv> 60 * Second"
abbreviation Hour :: int where "Hour \<equiv> 60 * Minute"

definition loaded_config :: "(string \<Rightarrow> go_error + int) \<Rightarrow> environment \<Rightarrow> AppConfig" where
  "loaded_config ParseDuration env =
     \<lparr>App_Server = \<lparr>Srv_Port = getEnv env ''SERVER_PORT'' ''8080'', Srv_Host = getEnv env ''SERVER_HOST'' ''localhost'',
                     Srv_Env = getEnv env ''SERVER_ENV'' ''development''\<rparr>,
      App_Database = \<lparr>Db_Host = getEnv env ''DB_HOST'' ''localhost'', Db_Port = getEnv env ''DB_PORT'' ''5432'',
                       Db_User = getEnv env ''DB_USER'' ''postgres'', Db_Password = getEnv env ''DB_PASSWORD'' [],
                       Db_Database = getEnv env ''DB_NAME'' ''voidrunner'',
                       Db_SSLMode = getEnv env ''DB_SSL_MODE'' ''disable''\<rparr>,
      App_Logger = \<lparr>Log_Level = getEnv env ''LOG_LEVEL'' ''info'', Log_Format = getEnv env ''LOG_FORMAT'' ''json''\<rparr>,
      App_CORS =
        \<lparr>Cors_AllowedOrigins = getEnvSlice env ''CORS_ALLOWED_ORIGINS'' [''http://localhost:3000'', ''http://localhost:5173''],
         Cors_AllowedMethods = getEnvSlice env ''CORS_ALLOWED_METHODS'' [''GET'', ''POST'', ''PUT'', ''DELETE'', ''OPTIONS''],
         Cors_AllowedHeaders = getEnvSlice env ''CORS_ALLOWED_HEADERS'' [''Content-Type'', ''Authorization'', ''X-Request-ID'']\<rparr>,
      App_JWT =
        \<lparr>Jwt_SecretKey = getEnv env ''JWT_SECRET_KEY'' ''your-secret-key-change-in-production'',
         Jwt_AccessTokenDuration = getEnvDuration ParseDuration env ''JWT_ACCESS_TOKEN_DURATION'' (15 * Minute),
         Jwt_RefreshTokenDuration = getEnvDuration ParseDuration env ''JWT_REFRESH_TOKEN_DURATION'' (7 * 24 * Hour),
         Jwt_Issuer = getEnv env ''JWT_ISSUER'' ''voidrunner'', Jwt_Audience = getEnv env ''JWT_AUDIENCE'' ''voidrunner-api''\<rparr>,
      App_Executor =
        \<lparr>Xc_DockerEndpoint = getEnv env ''DOCKER_ENDPOINT'' ''unix:///var/run/docker.sock'',
         Xc_DefaultMemoryLimitMB = getEnvInt env ''EXECUTOR_DEFAULT_MEMORY_LIMIT_MB'' 128,
         Xc_DefaultCPUQuota = getEnvInt64 env ''EXECUTOR_DEFAULT_CPU_QUOTA'' 50000,
         Xc_DefaultPidsLimit = getEnvInt64 env ''EXECUTOR_DEFAULT_PIDS_LIMIT'' 128,
         Xc_DefaultTimeoutSeconds = getEnvInt env ''EXECUTOR_DEFAULT_TIMEOUT_SECONDS'' 300,
         Xc_PythonImage = getEnv env ''EXECUTOR_PYTHON_IMAGE'' ''python:3.11-alpine'',
         Xc_BashImage = getEnv env ''EXECUTOR_BASH_IMAGE'' ''alpine:latest'',
         Xc_JavaScriptImage = getEnv env ''EXECUTOR_JAVASCRIPT_IMAGE'' ''node:18-alpine'',
         Xc_GoImage = getEnv env ''EXECUTOR_GO_IMAGE'' ''golang:1.21-alpine'',
         Xc_EnableSeccomp = getEnvBool env ''EXECUTOR_ENABLE_SECCOMP'' True,
         Xc_SeccompProfilePath = getEnv env ''EXECUTOR_SECCOMP_PROFILE_PATH'' ''/opt/voidrunner/seccomp-profile.json'',
         Xc_EnableAppArmor = getEnvBool env ''EXECUTOR_ENABLE_APPARMOR'' False,
         Xc_AppArmorProfile = getEnv env ''EXECUTOR_APPARMOR_PROFILE'' ''voidrunner-executor'',
         Xc_ExecutionUser = getEnv env ''EXECUTOR_EXECUTION_USER'' ''1000:1000''\<rparr>\<rparr>"

definition Load :: "(string \<Rightarrow> go_error + int) \<Rightarrow> environment \<Rightarrow> go_error + AppConfig" where
  "Load ParseDuration env =
     (case app_validate (loaded_config ParseDuration env) of
        Some err \<Rightarrow> Inl (Wrapf ''config validation failed'' err)
      | None \<Rightarrow> Inr (loaded_config ParseDuration env))"

definition IsProduction :: "casemap \<Rightarrow> AppConfig \<Rightarrow> bool" where
  "IsProduction uc c = (ToLower uc (Srv_Env (App_Server c)) = ''production'')"

definition IsDevelopment :: "casemap \<Rightarrow> AppConfig \<Rightarrow> bool" where
  "IsDevelopment uc c = (ToLower uc (Srv_Env (App_Server c)) = ''development'')"

definition IsTest :: "casemap \<Rightarrow> AppConfig \<Rightarrow> bool" where
  "IsTest uc c = (ToLower uc (Srv_Env (App_Server c)) = ''test'')"

section \<open>The choice of the executor (\<open>main\<close>)\<close>

text \<open>The configuration of the executor; the fields the literal leaves out are zero.\<close>

definition executor_config :: "AppConfig \<Rightarrow> Config" where
  "executor_config c =
     (let x = App_Executor c
      in \<lparr>DockerEndpoint = Xc_DockerEndpoint x,
          DefaultResourceLimits =
            \<lparr>MemoryLimitBytes = i64 (Xc_DefaultMemoryLimitMB x * 1024 * 1024), CPUQuota = Xc_DefaultCPUQuota x,
             PidsLimit = Xc_DefaultPidsLimit x, TimeoutSeconds = Xc_DefaultTimeoutSeconds x\<rparr>,
          DefaultTimeoutSeconds = Xc_DefaultTimeoutSeconds x,
          Images = \<lparr>Img_Python = Xc_PythonImage x, Img_Bash = Xc_BashImage x, Img_JavaScript = Xc_JavaScriptImage x,
                     Img_Go = Xc_GoImage x\<rparr>,
          Security =
            \<lparr>EnableSeccomp = Xc_EnableSeccomp x, SeccompProfilePath = Xc_SeccompProfilePath x,
             EnableAppArmor = Xc_EnableAppArmor x, AppArmorProfile = Xc_AppArmorProfile x,
             ExecutionUser = Xc_ExecutionUser x, AllowedSyscalls = [],
             MaxMemoryLimitBytes = 0, MaxCPUQuota = 0, MaxPidsLimit = 0, MaxTimeoutSeconds = 0\<rparr>\<rparr>)"

datatype 'w task_executor = DockerExecutor "'w Executor" | MockExecutor

text \<open>
  The executor \<open>main\<close> hands to the services: the Docker executor when it can be built and is healthy, the mock
  otherwise; an unhealthy Docker executor is cleaned up first. \<open>env\<close> holds the clock and file system of the
  executor, \<open>new\<close> the connection to Docker and \<open>close\<close> its end, \<open>ord\<close> the order of a range over the registry.
\<close>

definition initialize_executor ::
    "'w Executor \<Rightarrow> (go_error + 'w docker_api) \<Rightarrow> ('w \<Rightarrow> go_error option \<times> 'w) \<Rightarrow> string list \<Rightarrow> Config \<Rightarrow>
     'w \<Rightarrow> 'w task_executor \<times> 'w" where
  "initialize_executor env new close ord config w =
     (case NewExecutor env new (Some config) w of
        (Inl err, cm, w1) \<Rightarrow> (MockExecutor, w1)
      | (Inr dockerExecutor, cm, w1) \<Rightarrow>
          (case Executor_IsHealthy dockerExecutor (WithTimeout Background (ex_clock env w1) (10 * Second)) w1 of
             (Some err, w2) \<Rightarrow>
               (case Executor_Cleanup dockerExecutor ord (Some close) Background (cm, w2) of
                  (cleanupErr, cm', w3) \<Rightarrow> (MockExecutor, w3))
           | (None, w2) \<Rightarrow> (DockerExecutor dockerExecutor, w2)))"

text \<open>C34: The executor configuration \<open>main\<close> builds never passes \<open>Config.Validate\<close>, because it leaves the maxima
  of the security settings zero: whatever the environment and whether or not Docker runs, the service gets the
  mock executor, and Docker is not even contacted.\<close>

theorem main_always_uses_the_mock:
  "initialize_executor e new close ord (executor_config c) w = (MockExecutor, w) \<and>
   (\<exists>err. Config_Validate (executor_config c) = Some err)"
proof -
  have "\<exists>err. Config_Validate (executor_config c) = Some err"
    by (simp add: Config_Validate_def executor_config_def Let_def)
  then show ?thesis
    by (auto simp: initialize_executor_def NewExecutor_def NewDockerClient_def)
qed

text \<open>With the maxima of the default configuration it would validate, when the limits are within them.\<close>

lemma capped_executor_config_validates:
  assumes "app_validate c = None" and "c' = (executor_config c)\<lparr>Security := Security NewDefaultConfig\<rparr>"
    and "Xc_DefaultMemoryLimitMB (App_Executor c) \<le> 1024" "Xc_DefaultCPUQuota (App_Executor c) \<le> 200000"
      "Xc_DefaultPidsLimit (App_Executor c) \<le> 1000" "Xc_DefaultTimeoutSeconds (App_Executor c) \<le> 3600"
  shows "Config_Validate c' = None"
proof -
  have p: "0 < Xc_DefaultMemoryLimitMB (App_Executor c)" "0 < Xc_DefaultCPUQuota (App_Executor c)"
    "0 < Xc_DefaultPidsLimit (App_Executor c)" "0 < Xc_DefaultTimeoutSeconds (App_Executor c)"
    "Xc_PythonImage (App_Executor c) \<noteq> []" "Xc_BashImage (App_Executor c) \<noteq> []"
    using assms(1) by (simp_all add: app_validate_def)
  have "i64 (Xc_DefaultMemoryLimitMB (App_Executor c) * 1024 * 1024) = Xc_DefaultMemoryLimitMB (App_Executor c) * 1024 * 1024"
    using p(1) assms(3) by (intro i64_id) (simp add: i64_range_def)
  with p assms(3-6) show ?thesis
    by (simp add: assms(2) Config_Validate_def executor_config_def NewDefaultConfig_def Let_def)
qed

lemma getEnv_nonempty: "d \<noteq> [] \<Longrightarrow> getEnv env key d \<noteq> []"
  by (simp add: getEnv_def)

text \<open>Which environments \<open>Load\<close> accepts: the port is an integer (of any size or sign), the two token
  durations and the four executor limits are positive. The other guards of \<open>validate\<close> are dead, because a
  variable that is not set has a non-empty default, and a number that does not parse becomes its default.\<close>

theorem load_accepts_iff:
  "(\<exists>c. Load pd env = Inr c) \<longleftrightarrow>
     (\<exists>p. Atoi (getEnv env ''SERVER_PORT'' ''8080'') = Inr p) \<and>
     0 < getEnvDuration pd env ''JWT_ACCESS_TOKEN_DURATION'' (15 * Minute) \<and>
     0 < getEnvDuration pd env ''JWT_REFRESH_TOKEN_DURATION'' (7 * 24 * Hour) \<and>
     0 < getEnvInt env ''EXECUTOR_DEFAULT_MEMORY_LIMIT_MB'' 128 \<and>
     0 < getEnvInt64 env ''EXECUTOR_DEFAULT_CPU_QUOTA'' 50000 \<and>
     0 < getEnvInt64 env ''EXECUTOR_DEFAULT_PIDS_LIMIT'' 128 \<and>
     0 < getEnvInt env ''EXECUTOR_DEFAULT_TIMEOUT_SECONDS'' 300"
proof -
  have "(\<exists>c. Load pd env = Inr c) \<longleftrightarrow> app_validate (loaded_config pd env) = None"
    by (simp add: Load_def split: option.splits)
  moreover have "(\<not> isl x) = (\<exists>p. x = Inr p)" for x :: "go_error + int"
    by (cases x) simp_all
  ultimately show ?thesis
    by (simp add: app_validate_def loaded_config_def getEnv_nonempty not_le)
qed

end
