(* ===== verification/Auth.thy ===== *)
theory Auth
  imports AppConfig
begin

text \<open>
  Authentication (\<open>internal/auth\<close> and the claims of \<open>internal/models/user.go\<close>): tokens, registration, login,
  refresh and the check of an access token. The packages \<open>golang-jwt\<close> and \<open>bcrypt\<close> are records of functions,
  arguments of the service; what the code relies on of them is stated as the predicates \<open>jwt_laws\<close> and
  \<open>bcrypt_laws\<close>. \<open>time.Now()\<close> is the clock of the session; the calls within one operation read one value.
\<close>

section \<open>Tokens (\<open>jwt.go\<close>)\<close>

record JWTClaims =
  JC_Issuer :: string
  JC_Subject :: string
  JC_Audience :: "string list"
  JC_ExpiresAt :: time
  JC_NotBefore :: time
  JC_IssuedAt :: time
  JC_UserID :: uuid
  JC_Email :: string
  JC_Type :: string

datatype jwt_method = HMAC | OtherMethod string

text \<open>
  The package: dates in seconds, signing with HS256 and a key, and parsing, which asks the key function for the
  key of the method the token names and returns the claims and the field \<open>Valid\<close>.
\<close>

record jwt_lib =
  jl_NumericDate :: "time \<Rightarrow> time"
  jl_SignedString :: "string \<Rightarrow> JWTClaims \<Rightarrow> go_error + string"
  jl_ParseWithClaims :: "time \<Rightarrow> string \<Rightarrow> (jwt_method \<Rightarrow> go_error + string) \<Rightarrow> go_error + JWTClaims \<times> bool"

record JWTService =
  js_config :: JWTConfig
  js_lib :: jwt_lib
  js_uuid :: "uuid \<Rightarrow> string"

record TokenPair =
  TP_AccessToken :: string
  TP_RefreshToken :: string
  TP_ExpiresIn :: int

definition ToJWTClaims ::
    "jwt_lib \<Rightarrow> (uuid \<Rightarrow> string) \<Rightarrow> time \<Rightarrow> User \<Rightarrow> string \<Rightarrow> string \<Rightarrow> string \<Rightarrow> time \<Rightarrow> JWTClaims" where
  "ToJWTClaims lib us now u tokenType issuer audience expiresAt =
     \<lparr>JC_Issuer = issuer, JC_Subject = us (User_ID u), JC_Audience = [audience],
      JC_ExpiresAt = jl_NumericDate lib expiresAt, JC_NotBefore = jl_NumericDate lib now,
      JC_IssuedAt = jl_NumericDate lib now, JC_UserID = User_ID u, JC_Email = User_Email u, JC_Type = tokenType\<rparr>"

definition generateToken :: "JWTService \<Rightarrow> time \<Rightarrow> User \<Rightarrow> string \<Rightarrow> int \<Rightarrow> go_error + string" where
  "generateToken s now user tokenType duration =
     (let expiresAt = now + duration;
          claims = ToJWTClaims (js_lib s) (js_uuid s) now user tokenType (Jwt_Issuer (js_config s))
                     (Jwt_Audience (js_config s)) expiresAt
      in case jl_SignedString (js_lib s) (Jwt_SecretKey (js_config s)) claims of
           Inl err \<Rightarrow> Inl (Wrapf ''failed to sign token'' err)
         | Inr tokenString \<Rightarrow> Inr tokenString)"

definition GenerateTokenPair :: "JWTService \<Rightarrow> time \<Rightarrow> User option \<Rightarrow> go_error + TokenPair" where
  "GenerateTokenPair s now user0 =
     (case user0 of
        None \<Rightarrow> Inl (Errorf ''user cannot be nil'')
      | Some user \<Rightarrow>
          (case generateToken s now user ''access'' (Jwt_AccessTokenDuration (js_config s)) of
             Inl err \<Rightarrow> Inl (Wrapf ''failed to generate access token'' err)
           | Inr accessToken \<Rightarrow>
               (case generateToken s now user ''refresh'' (Jwt_RefreshTokenDuration (js_config s)) of
                  Inl err \<Rightarrow> Inl (Wrapf ''failed to generate refresh token'' err)
                | Inr refreshToken \<Rightarrow>
                    Inr \<lparr>TP_AccessToken = accessToken, TP_RefreshToken = refreshToken,
                         TP_ExpiresIn = go_div (Jwt_AccessTokenDuration (js_config s)) Second\<rparr>)))"

definition key_of :: "JWTService \<Rightarrow> jwt_method \<Rightarrow> go_error + string" where
  "key_of s m =
     (case m of
        HMAC \<Rightarrow> Inr (Jwt_SecretKey (js_config s))
      | OtherMethod alg \<Rightarrow> Inl (Errorf (''unexpected signing method: '' @ alg)))"

definition ValidateToken :: "JWTService \<Rightarrow> time \<Rightarrow> string \<Rightarrow> go_error + JWTClaims" where
  "ValidateToken s now tokenString =
     (case jl_ParseWithClaims (js_lib s) now tokenString (key_of s) of
        Inl err \<Rightarrow> Inl (Wrapf ''failed to parse token'' err)
      | Inr (claims, valid) \<Rightarrow>
          (if valid then
             (if JC_Issuer claims \<noteq> Jwt_Issuer (js_config s) then Inl (Errorf ''invalid issuer'')
              else if length (JC_Audience claims) = 0 \<or> hd (JC_Audience claims) \<noteq> Jwt_Audience (js_config s)
                then Inl (Errorf ''invalid audience'')
              else Inr claims)
           else Inl (Errorf ''invalid token'')))"

definition jwt_RefreshToken :: "JWTService \<Rightarrow> time \<Rightarrow> string \<Rightarrow> go_error + TokenPair" where
  "jwt_RefreshToken s now refreshTokenString =
     (case ValidateToken s now refreshTokenString of
        Inl err \<Rightarrow> Inl (Wrapf ''invalid refresh token'' err)
      | Inr claims \<Rightarrow>
          (if JC_Type claims \<noteq> ''refresh'' then Inl (Errorf ''token is not a refresh token'')
           else (let user = \<lparr>User_ID = JC_UserID claims, User_Email = JC_Email claims, User_PasswordHash = [],
                             User_Name = [], User_CreatedAt = 0, User_UpdatedAt = 0\<rparr>
                 in case GenerateTokenPair s now (Some user) of
                      Inl err \<Rightarrow> Inl (Wrapf ''failed to generate new token pair'' err)
                    | Inr tokenPair \<Rightarrow> Inr tokenPair)))"

definition ExtractUserID :: "JWTService \<Rightarrow> time \<Rightarrow> string \<Rightarrow> go_error + uuid" where
  "ExtractUserID s now tokenString = map_sum id JC_UserID (ValidateToken s now tokenString)"

definition IsAccessToken :: "JWTService \<Rightarrow> time \<Rightarrow> string \<Rightarrow> bool" where
  "IsAccessToken s now tokenString =
     (case ValidateToken s now tokenString of Inl err \<Rightarrow> False | Inr claims \<Rightarrow> JC_Type claims = ''access'')"

definition IsRefreshToken :: "JWTService \<Rightarrow> time \<Rightarrow> string \<Rightarrow> bool" where
  "IsRefreshToken s now tokenString =
     (case ValidateToken s now tokenString of Inl err \<Rightarrow> False | Inr claims \<Rightarrow> JC_Type claims = ''refresh'')"

section \<open>The service (\<open>service.go\<close>)\<close>

record bcrypt =
  bc_GenerateFromPassword :: "string \<Rightarrow> go_error + string"
  bc_CompareHashAndPassword :: "string \<Rightarrow> string \<Rightarrow> go_error option"

record AuthService =
  as_jwt :: JWTService
  as_bcrypt :: bcrypt
  as_case :: casemap
  as_format :: "time \<Rightarrow> string"

record RegisterRequest =
  RR_Email :: string
  RR_Password :: string
  RR_Name :: string

record LoginRequest =
  LR_Email :: string
  LR_Password :: string

record AuthResponse =
  AR_AccessToken :: string
  AR_RefreshToken :: string
  AR_TokenType :: string
  AR_ExpiresIn :: int
  AR_User :: UserResponse

definition validateName :: "string \<Rightarrow> go_error option" where
  "validateName name =
     (if TrimSpace name = [] then Some (Errorf ''name is required'')
      else if length name > 255 then Some (Errorf ''name is too long (max 255 characters)'')
      else None)"

definition hashPassword :: "AuthService \<Rightarrow> string \<Rightarrow> go_error + string" where
  "hashPassword svc password = bc_GenerateFromPassword (as_bcrypt svc) password"

definition verifyPassword :: "AuthService \<Rightarrow> string \<Rightarrow> string \<Rightarrow> go_error option" where
  "verifyPassword svc password hash = bc_CompareHashAndPassword (as_bcrypt svc) hash password"

definition auth_response :: "AuthService \<Rightarrow> TokenPair \<Rightarrow> User \<Rightarrow> AuthResponse" where
  "auth_response svc tokenPair user =
     \<lparr>AR_AccessToken = TP_AccessToken tokenPair, AR_RefreshToken = TP_RefreshToken tokenPair, AR_TokenType = ''Bearer'',
      AR_ExpiresIn = TP_ExpiresIn tokenPair, AR_User = User_ToResponse (as_format svc) user\<rparr>"

definition with_tokens :: "AuthService \<Rightarrow> User \<Rightarrow> Session \<Rightarrow> (go_error + AuthResponse) \<times> Session" where
  "with_tokens svc user s =
     (case GenerateTokenPair (as_jwt svc) (se_now s) (Some user) of
        Inl err \<Rightarrow> (Inl (Wrapf ''failed to generate tokens'' err), s)
      | Inr tokenPair \<Rightarrow> (Inr (auth_response svc tokenPair user), s))"

text \<open>The checks of the request, each wrapped in its sentinel.\<close>

definition register_checks :: "AuthService \<Rightarrow> RegisterRequest \<Rightarrow> go_error option" where
  "register_checks svc req =
     err_then (map_option (WrapThen (Sentinel AuthErrInvalidEmail)) (ValidateEmail (as_case svc) (RR_Email req)))
    (err_then (map_option (WrapThen (Sentinel AuthErrInvalidPassword)) (ValidatePassword (RR_Password req)))
              (map_option (WrapThen (Sentinel AuthErrValidationFailed)) (validateName (RR_Name req))))"

definition create_user :: "AuthService \<Rightarrow> RegisterRequest \<Rightarrow> Session \<Rightarrow> (go_error + AuthResponse) \<times> Session" where
  "create_user svc req s =
     (case hashPassword svc (RR_Password req) of
        Inl err \<Rightarrow> (Inl (Wrapf ''failed to hash password'' err), s)
      | Inr passwordHash \<Rightarrow>
          (let user0 = \<lparr>User_ID = uuid_Nil, User_Email = RR_Email req, User_PasswordHash = passwordHash,
                        User_Name = RR_Name req, User_CreatedAt = 0, User_UpdatedAt = 0\<rparr>
           in case users_Create (Some user0) s of
                ((Some err, _), s1) \<Rightarrow> (Inl (Wrapf ''failed to create user'' err), s1)
              | ((None, Some user), s1) \<Rightarrow> with_tokens svc user s1
              | ((None, None), s1) \<Rightarrow> with_tokens svc user0 s1))"

definition Register :: "AuthService \<Rightarrow> RegisterRequest \<Rightarrow> Session \<Rightarrow> (go_error + AuthResponse) \<times> Session" where
  "Register svc req s =
     (case register_checks svc req of
        Some err \<Rightarrow> (Inl err, s)
      | None \<Rightarrow>
          (case users_GetByEmail (RR_Email req) s of
             (Inr existingUser, s1) \<Rightarrow> (Inl (Sentinel AuthErrUserAlreadyExists), s1)
           | (Inl err, s1) \<Rightarrow>
               (if err \<noteq> Sentinel ErrUserNotFound then (Inl (Wrapf ''failed to check existing user'' err), s1)
                else create_user svc req s1)))"

definition Login :: "AuthService \<Rightarrow> LoginRequest \<Rightarrow> Session \<Rightarrow> (go_error + AuthResponse) \<times> Session" where
  "Login svc req s =
     (case ValidateEmail (as_case svc) (LR_Email req) of
        Some err \<Rightarrow> (Inl (WrapThen (Sentinel AuthErrInvalidEmail) err), s)
      | None \<Rightarrow>
          (if LR_Password req = [] then (Inl (Sentinel AuthErrPasswordRequired), s)
           else (case users_GetByEmail (LR_Email req) s of
               (Inl err, s1) \<Rightarrow>
                 (Inl (if err = Sentinel ErrUserNotFound then Sentinel AuthErrInvalidCredentials
                       else Wrapf ''failed to get user'' err), s1)
             | (Inr user, s1) \<Rightarrow>
                 (case verifyPassword svc (LR_Password req) (User_PasswordHash user) of
                    Some err \<Rightarrow> (Inl (Sentinel AuthErrInvalidCredentials), s1)
                  | None \<Rightarrow> with_tokens svc user s1))))"

definition auth_RefreshToken :: "AuthService \<Rightarrow> string \<Rightarrow> Session \<Rightarrow> (go_error + AuthResponse) \<times> Session" where
  "auth_RefreshToken svc refreshToken s =
     (case jwt_RefreshToken (as_jwt svc) (se_now s) refreshToken of
        Inl err \<Rightarrow> (Inl (WrapThen (Sentinel AuthErrInvalidRefreshToken) err), s)
      | Inr tokenPair \<Rightarrow>
          (case ExtractUserID (as_jwt svc) (se_now s) (TP_AccessToken tokenPair) of
             Inl err \<Rightarrow> (Inl (Wrapf ''failed to extract user ID'' err), s)
           | Inr userID \<Rightarrow>
               (case users_GetByID userID s of
                  (Inl err, s1) \<Rightarrow>
                    (Inl (if err = Sentinel ErrUserNotFound then Sentinel AuthErrUserNotFound
                          else Wrapf ''failed to get user'' err), s1)
                | (Inr user, s1) \<Rightarrow> (Inr (auth_response svc tokenPair user), s1))))"

definition ValidateAccessToken :: "AuthService \<Rightarrow> string \<Rightarrow> Session \<Rightarrow> (go_error + User) \<times> Session" where
  "ValidateAccessToken svc tokenString s =
     (case ValidateToken (as_jwt svc) (se_now s) tokenString of
        Inl err \<Rightarrow> (Inl (Wrapf ''invalid token'' err), s)
      | Inr claims \<Rightarrow>
          (if JC_Type claims \<noteq> ''access'' then (Inl (Errorf ''token is not an access token''), s)
           else (case users_GetByID (JC_UserID claims) s of
               (Inl err, s1) \<Rightarrow>
                 (Inl (if err = Sentinel ErrUserNotFound then Errorf ''user not found''
                       else Wrapf ''failed to get user'' err), s1)
             | (Inr user, s1) \<Rightarrow> (Inr user, s1))))"

section \<open>What is relied on\<close>

text \<open>
  The documented behaviour of \<open>golang-jwt\<close>: dates are cut to seconds, and a token signed with the key the key
  function gives for HMAC parses to its claims as long as its time has come and has not passed; after that it is
  rejected.
\<close>

definition jwt_laws :: "jwt_lib \<Rightarrow> bool" where
  "jwt_laws lib \<longleftrightarrow>
     (\<forall>t. jl_NumericDate lib t = t - t mod Second) \<and>
     (\<forall>key c tok now kf. jl_SignedString lib key c = Inr tok \<longrightarrow> kf HMAC = Inr key \<longrightarrow>
        (if JC_NotBefore c \<le> now \<and> now < JC_ExpiresAt c then jl_ParseWithClaims lib now tok kf = Inr (c, True)
         else isl (jl_ParseWithClaims lib now tok kf)))"

text \<open>
  The documented behaviour of \<open>bcrypt\<close>: a password longer than 72 bytes is refused, and a hash compares with the
  password it was made from.
\<close>

definition bcrypt_laws :: "bcrypt \<Rightarrow> bool" where
  "bcrypt_laws b \<longleftrightarrow>
     (\<forall>p. 72 < length p \<longrightarrow> (\<exists>m. bc_GenerateFromPassword b p = Inl (ExternalErr m))) \<and>
     (\<forall>p h. bc_GenerateFromPassword b p = Inr h \<longrightarrow> bc_CompareHashAndPassword b h p = None)"

lemma jwt_parse:
  assumes "jwt_laws lib" and "jl_SignedString lib key c = Inr tok" and "kf HMAC = Inr key"
  shows "JC_NotBefore c \<le> now \<Longrightarrow> now < JC_ExpiresAt c \<Longrightarrow> jl_ParseWithClaims lib now tok kf = Inr (c, True)"
    and "\<not> (JC_NotBefore c \<le> now \<and> now < JC_ExpiresAt c) \<Longrightarrow> isl (jl_ParseWithClaims lib now tok kf)"
  using assms by (simp_all add: jwt_laws_def)

section \<open>Tokens\<close>

definition token_claims :: "JWTService \<Rightarrow> time \<Rightarrow> User \<Rightarrow> string \<Rightarrow> int \<Rightarrow> JWTClaims" where
  "token_claims s now u tokenType duration =
     ToJWTClaims (js_lib s) (js_uuid s) now u tokenType (Jwt_Issuer (js_config s)) (Jwt_Audience (js_config s)) (now + duration)"

lemma token_claims_simps [simp]:
  "JC_UserID (token_claims s now u ty d) = User_ID u" "JC_Type (token_claims s now u ty d) = ty"
  "JC_Email (token_claims s now u ty d) = User_Email u"
  "JC_Issuer (token_claims s now u ty d) = Jwt_Issuer (js_config s)"
  "JC_Audience (token_claims s now u ty d) = [Jwt_Audience (js_config s)]"
  "JC_NotBefore (token_claims s now u ty d) = jl_NumericDate (js_lib s) now"
  "JC_ExpiresAt (token_claims s now u ty d) = jl_NumericDate (js_lib s) (now + d)"
  by (simp_all add: token_claims_def ToJWTClaims_def)

lemma generated_token:
  assumes "jwt_laws (js_lib s)" and "generateToken s t0 u ty d = Inr tok" and "t0 \<le> t"
  shows "t < jl_NumericDate (js_lib s) (t0 + d) \<Longrightarrow> ValidateToken s t tok = Inr (token_claims s t0 u ty d)"
    and "jl_NumericDate (js_lib s) (t0 + d) \<le> t \<Longrightarrow> isl (ValidateToken s t tok)"
proof -
  have sign: "jl_SignedString (js_lib s) (Jwt_SecretKey (js_config s)) (token_claims s t0 u ty d) = Inr tok"
    using assms(2) by (simp add: generateToken_def token_claims_def Let_def split: sum.splits)
  have "t0 mod Second \<ge> 0" by (simp add: Second_def)
  then have "jl_NumericDate (js_lib s) t0 \<le> t" using assms(1,3) by (simp add: jwt_laws_def)
  then have p: "t < jl_NumericDate (js_lib s) (t0 + d) \<Longrightarrow>
      jl_ParseWithClaims (js_lib s) t tok (key_of s) = Inr (token_claims s t0 u ty d, True)"
    and q: "\<not> t < jl_NumericDate (js_lib s) (t0 + d) \<Longrightarrow> isl (jl_ParseWithClaims (js_lib s) t tok (key_of s))"
    using jwt_parse [OF assms(1) sign, of "key_of s" t] by (simp_all add: key_of_def)
  show "jl_NumericDate (js_lib s) (t0 + d) \<le> t \<Longrightarrow> isl (ValidateToken s t tok)"
    using q by (auto simp: ValidateToken_def isl_def)
  show "t < jl_NumericDate (js_lib s) (t0 + d) \<Longrightarrow> ValidateToken s t tok = Inr (token_claims s t0 u ty d)"
    using p by (simp add: ValidateToken_def)
qed

lemma GenerateTokenPair_Inr:
  assumes "GenerateTokenPair s t0 (Some u) = Inr p"
  shows "generateToken s t0 u ''access'' (Jwt_AccessTokenDuration (js_config s)) = Inr (TP_AccessToken p)"
    and "generateToken s t0 u ''refresh'' (Jwt_RefreshTokenDuration (js_config s)) = Inr (TP_RefreshToken p)"
  using assms by (auto simp: GenerateTokenPair_def split: sum.splits)

text \<open>C25: A token pair issued at \<open>t0\<close> validates later exactly until its expiry in whole seconds: the access token to
  claims of type \<open>access\<close>, the refresh token to claims of type \<open>refresh\<close>, both of the user; and at no time is one
  taken for the other.\<close>

theorem issued_tokens_validate:
  assumes "jwt_laws (js_lib s)" and "GenerateTokenPair s t0 (Some u) = Inr p" and "t0 \<le> t"
    and "c = js_config s" and "expiry = (\<lambda>d. (t0 + d) - (t0 + d) mod Second)"
  shows "IsAccessToken s t (TP_AccessToken p) = (t < expiry (Jwt_AccessTokenDuration c)) \<and>
     IsRefreshToken s t (TP_RefreshToken p) = (t < expiry (Jwt_RefreshTokenDuration c)) \<and>
     \<not> IsAccessToken s t (TP_RefreshToken p) \<and> \<not> IsRefreshToken s t (TP_AccessToken p) \<and>
     (t < expiry (Jwt_AccessTokenDuration c) \<longrightarrow> ExtractUserID s t (TP_AccessToken p) = Inr (User_ID u))"
proof -
  have nd: "jl_NumericDate (js_lib s) x = x - x mod Second" for x using assms(1) by (simp add: jwt_laws_def)
  have a: "t < expiry (Jwt_AccessTokenDuration c) \<Longrightarrow> ValidateToken s t (TP_AccessToken p) = Inr (token_claims s t0 u ''access'' (Jwt_AccessTokenDuration c))"
    "\<not> t < expiry (Jwt_AccessTokenDuration c) \<Longrightarrow> isl (ValidateToken s t (TP_AccessToken p))"
    using generated_token [OF assms(1) GenerateTokenPair_Inr(1) [OF assms(2)] assms(3)] by (simp_all add: assms(4,5) nd)
  have r: "t < expiry (Jwt_RefreshTokenDuration c) \<Longrightarrow> ValidateToken s t (TP_RefreshToken p) = Inr (token_claims s t0 u ''refresh'' (Jwt_RefreshTokenDuration c))"
    "\<not> t < expiry (Jwt_RefreshTokenDuration c) \<Longrightarrow> isl (ValidateToken s t (TP_RefreshToken p))"
    using generated_token [OF assms(1) GenerateTokenPair_Inr(2) [OF assms(2)] assms(3)] by (simp_all add: assms(4,5) nd)
  show ?thesis
    by (cases "t < expiry (Jwt_AccessTokenDuration c)"; cases "t < expiry (Jwt_RefreshTokenDuration c)")
      (use a r in \<open>auto simp: IsAccessToken_def IsRefreshToken_def ExtractUserID_def isl_def\<close>)
qed

text \<open>A package that satisfies the laws: a token is the number of a table of claims, here of one user.\<close>

definition toy_claims :: "string \<Rightarrow> int \<Rightarrow> JWTClaims" where
  "toy_claims ty expires =
     \<lparr>JC_Issuer = ''voidrunner'', JC_Subject = ''u'', JC_Audience = [''voidrunner-api''], JC_ExpiresAt = expires,
      JC_NotBefore = 0, JC_IssuedAt = 0, JC_UserID = 7, JC_Email = ''a@b.io'', JC_Type = ty\<rparr>"

abbreviation toy_access :: JWTClaims where "toy_access \<equiv> toy_claims ''access'' (10 * Second)"
abbreviation toy_refresh :: JWTClaims where "toy_refresh \<equiv> toy_claims ''refresh'' (100 * Second)"

definition toy_jwt :: jwt_lib where
  "toy_jwt =
     \<lparr>jl_NumericDate = (\<lambda>t. t - t mod Second),
      jl_SignedString = (\<lambda>key c. if key = ''k'' \<and> c = toy_access then Inr ''A'' else if key = ''k'' \<and> c = toy_refresh then Inr ''R''
                                else Inl (Errorf ''no token'')),
      jl_ParseWithClaims = (\<lambda>now tok kf.
        if kf HMAC = Inr ''k'' \<and> tok = ''A'' \<and> 0 \<le> now \<and> now < JC_ExpiresAt toy_access then Inr (toy_access, True)
        else if kf HMAC = Inr ''k'' \<and> tok = ''R'' \<and> 0 \<le> now \<and> now < JC_ExpiresAt toy_refresh then Inr (toy_refresh, True)
        else Inl (Errorf ''token is invalid''))\<rparr>"

definition toy_service :: JWTService where
  "toy_service =
     \<lparr>js_config = \<lparr>Jwt_SecretKey = ''k'', Jwt_AccessTokenDuration = 10 * Second, Jwt_RefreshTokenDuration = 100 * Second,
                   Jwt_Issuer = ''voidrunner'', Jwt_Audience = ''voidrunner-api''\<rparr>,
      js_lib = toy_jwt, js_uuid = (\<lambda>i. ''u'')\<rparr>"

definition toy_user :: User where
  "toy_user = \<lparr>User_ID = 7, User_Email = ''a@b.io'', User_PasswordHash = ''h'', User_Name = ''A'', User_CreatedAt = 0, User_UpdatedAt = 0\<rparr>"

definition toy_pair :: TokenPair where
  "toy_pair = \<lparr>TP_AccessToken = ''A'', TP_RefreshToken = ''R'', TP_ExpiresIn = 10\<rparr>"

lemma toy_jwt_laws: "jwt_laws (js_lib toy_service)"
  by (auto simp: jwt_laws_def toy_service_def toy_jwt_def toy_claims_def)

lemma toy_pair_issued: "GenerateTokenPair toy_service 0 (Some toy_user) = Inr toy_pair"
  by (simp add: GenerateTokenPair_def generateToken_def ToJWTClaims_def toy_service_def toy_jwt_def toy_user_def toy_claims_def
      toy_pair_def Let_def Second_def go_div_def)

theorem issued_tokens_validate_witness:
  "IsAccessToken toy_service (9 * Second) ''A'' \<and> \<not> IsAccessToken toy_service (10 * Second) ''A'' \<and>
   \<not> IsAccessToken toy_service (9 * Second) ''R'' \<and> ExtractUserID toy_service (9 * Second) ''A'' = Inr 7"
  using issued_tokens_validate [OF toy_jwt_laws toy_pair_issued, of "9 * Second"]
    issued_tokens_validate [OF toy_jwt_laws toy_pair_issued, of "10 * Second"]
  by (simp add: toy_pair_def toy_service_def toy_user_def Second_def)

section \<open>Accounts\<close>

lemma users_Create_new:
  assumes "users_Create (Some u0) s = ((r, u'), s')"
  shows "se_now s' = se_now s" and "r \<noteq> None \<Longrightarrow> se_db s' = se_db s"
    and "r = None \<Longrightarrow> \<exists>u. u' = Some u \<and> se_db s' = (se_db s)\<lparr>T_users := T_users (se_db s) @ [u]\<rparr> \<and>
      User_Email u = User_Email u0 \<and> User_PasswordHash u = User_PasswordHash u0 \<and>
      User_Email u \<notin> User_Email ` set (T_users (se_db s))"
proof -
  obtain u1 s1 where ids: "(if User_ID u0 = uuid_Nil then (case new_id s of (i, s') \<Rightarrow> (u0\<lparr>User_ID := i\<rparr>, s')) else (u0, s)) = (u1, s1)"
    by fastforce
  then have s1: "se_db s1 = se_db s" "se_now s1 = se_now s" and u1: "User_Email u1 = User_Email u0" "User_PasswordHash u1 = User_PasswordHash u0"
    by (auto simp: new_id_def split: if_splits)
  obtain q s2 where run: "run_stmt (sql_insert_user u1) s1 = (q, s2)" by fastforce
  have now: "se_now s2 = se_now s"
    using run s1 by (auto simp: run_stmt_def next_fault_def split: list.splits option.splits sum.splits)
  have c: "users_Create (Some u0) s =
      (case (q, s2) of
         (Inr row, s2) \<Rightarrow> ((None, Some (u1\<lparr>User_CreatedAt := User_CreatedAt row, User_UpdatedAt := User_UpdatedAt row\<rparr>)), s2)
       | (Inl err, s2) \<Rightarrow>
           ((Some (case pg_error err of
               Some (code, detail) \<Rightarrow>
                 (if code = ''23505'' then
                    (if Contains detail ''email'' then Errorf (''user with email '' @ User_Email u1 @ '' already exists'')
                     else ErrorfID ''user with ID '' (User_ID u1) '' already exists'')
                  else Wrapf ''failed to create user'' err)
             | None \<Rightarrow> Wrapf ''failed to create user'' err), Some u1), s2))"
    unfolding users_Create_def by (simp add: ids run split: sum.splits)
  show "se_now s' = se_now s" using assms c now by (auto split: sum.splits)
  have err: "isl q \<Longrightarrow> se_db s2 = se_db s"
    using run s1 by (auto simp: run_stmt_def next_fault_def split: list.splits option.splits sum.splits)
  then show "r \<noteq> None \<Longrightarrow> se_db s' = se_db s" using assms c by (auto split: sum.splits)
  assume "r = None"
  then obtain row where q: "q = Inr row" "s' = s2"
      and u': "u' = Some (u1\<lparr>User_CreatedAt := User_CreatedAt row, User_UpdatedAt := User_UpdatedAt row\<rparr>)"
    using assms c by (auto split: sum.splits)
  with run obtain now' db where ins: "sql_insert_user u1 now' (se_db s) = Inr (row, db)" "se_db s2 = db"
    using s1 by (auto simp: run_stmt_def next_fault_def split: list.splits option.splits sum.splits)
  define w where "w = u1\<lparr>User_CreatedAt := now', User_UpdatedAt := now'\<rparr>"
  from ins(1) have w: "row = w" "db = (se_db s)\<lparr>T_users := T_users (se_db s) @ [w]\<rparr>" "\<not> email_taken w (se_db s)"
      "User_ID w \<notin> User_ID ` set (T_users (se_db s))"
    by (auto simp: sql_insert_user_def w_def Let_def get_row_None [symmetric] get_row_in [symmetric] split: option.splits)
  then have "User_Email w \<notin> User_Email ` set (T_users (se_db s))"
    by (auto simp: email_taken_def list_ex_iff image_iff)
  with w u' q ins(2) u1 show "\<exists>u. u' = Some u \<and> se_db s' = (se_db s)\<lparr>T_users := T_users (se_db s) @ [u]\<rparr> \<and>
      User_Email u = User_Email u0 \<and> User_PasswordHash u = User_PasswordHash u0 \<and>
      User_Email u \<notin> User_Email ` set (T_users (se_db s))"
    by (auto simp: w_def)
qed

text \<open>\<open>new_account svc req s s' u\<close>: the row of \<open>u\<close> is the only change.\<close>

definition new_account :: "AuthService \<Rightarrow> RegisterRequest \<Rightarrow> Session \<Rightarrow> Session \<Rightarrow> User \<Rightarrow> bool" where
  "new_account svc req s s' u \<longleftrightarrow>
     se_db s' = (se_db s)\<lparr>T_users := T_users (se_db s) @ [u]\<rparr> \<and> User_Email u = RR_Email req \<and>
     hashPassword svc (RR_Password req) = Inr (User_PasswordHash u) \<and> User_Email u \<notin> User_Email ` set (T_users (se_db s))"

definition account_result :: "AuthService \<Rightarrow> RegisterRequest \<Rightarrow> Session \<Rightarrow> Session \<Rightarrow> go_error + AuthResponse \<Rightarrow> bool" where
  "account_result svc req s s' r \<longleftrightarrow>
     (case r of
        Inr resp \<Rightarrow>
          (\<exists>u p. new_account svc req s s' u \<and> GenerateTokenPair (as_jwt svc) (se_now s) (Some u) = Inr p \<and>
             resp = auth_response svc p u)
      | Inl err \<Rightarrow>
          se_db s' = se_db s \<or> (\<exists>u e. new_account svc req s s' u \<and> err = Wrapf ''failed to generate tokens'' e))"

lemma create_user_cases:
  assumes "create_user svc req s = (r, s')"
  shows "se_now s' = se_now s \<and> account_result svc req s s' r"
proof (cases "hashPassword svc (RR_Password req)")
  case (Inl e)
  with assms show ?thesis by (auto simp: create_user_def account_result_def)
next
  case (Inr h)
  define u0 where "u0 = \<lparr>User_ID = uuid_Nil, User_Email = RR_Email req, User_PasswordHash = h, User_Name = RR_Name req,
      User_CreatedAt = 0, User_UpdatedAt = 0\<rparr>"
  obtain e u' s1 where c: "users_Create (Some u0) s = ((e, u'), s1)" by (metis prod.collapse)
  note n = users_Create_new [OF c]
  show ?thesis
  proof (cases e)
    case (Some er)
    with assms Inr c n(1,2) show ?thesis by (auto simp: create_user_def u0_def account_result_def)
  next
    case None
    with n(3) obtain u where u: "u' = Some u" "new_account svc req s s1 u"
      using Inr by (auto simp: u0_def new_account_def)
    with assms Inr c None n(1) show ?thesis
      by (auto simp: create_user_def u0_def with_tokens_def account_result_def split: sum.splits)
  qed
qed

lemma users_GetByEmail_db:
  assumes "users_GetByEmail e s = (r, s')"
  shows "se_db s' = se_db s" "se_now s' = se_now s"
  using assms by (auto simp: users_GetByEmail_def sql_get_email_def run_stmt_def next_fault_def split: if_splits list.splits option.splits sum.splits)

lemma account_result_session:
  "se_db s1 = se_db s \<Longrightarrow> se_now s1 = se_now s \<Longrightarrow> account_result svc req s1 s' r = account_result svc req s s' r"
  by (cases r) (simp_all add: account_result_def new_account_def)

lemma Register_cases:
  assumes "Register svc req s = (r, s')"
  shows "se_now s' = se_now s \<and> account_result svc req s s' r \<and> (register_checks svc req = None \<or> isl r)"
proof (cases "register_checks svc req")
  case (Some e)
  with assms show ?thesis by (auto simp: Register_def account_result_def)
next
  case None
  obtain q s1 where g: "users_GetByEmail (RR_Email req) s = (q, s1)" by fastforce
  note d = users_GetByEmail_db [OF g]
  show ?thesis
  proof (cases "q = Inl (Sentinel ErrUserNotFound)")
    case True
    with assms g None have c: "create_user svc req s1 = (r, s')" by (simp add: Register_def)
    show ?thesis using create_user_cases [OF c] None d(2) account_result_session [OF d, of svc req s' r] by simp
  next
    case False
    have "s' = s1 \<and> (\<exists>err. r = Inl err)"
    proof (cases q)
      case (Inl err)
      with assms g None False show ?thesis by (auto simp: Register_def)
    next
      case (Inr u)
      with assms g None show ?thesis by (auto simp: Register_def)
    qed
    with d show ?thesis by (auto simp: account_result_def)
  qed
qed

text \<open>C26: A successful registration has added exactly one row: an account with the e-mail address of the request,
  byte for byte, under which no account existed, and the hash of the password; the response is that account with
  tokens issued for it. A failing one changes nothing, except that an account whose tokens could not be issued
  stays.\<close>

theorem register_effect:
  "(case Register svc req s of
      (Inr resp, s') \<Rightarrow>
        (\<exists>u p. se_db s' = (se_db s)\<lparr>T_users := T_users (se_db s) @ [u]\<rparr> \<and> User_Email u = RR_Email req \<and>
           hashPassword svc (RR_Password req) = Inr (User_PasswordHash u) \<and>
           RR_Email req \<notin> User_Email ` set (T_users (se_db s)) \<and>
           GenerateTokenPair (as_jwt svc) (se_now s) (Some u) = Inr p \<and> resp = auth_response svc p u) \<and>
        register_checks svc req = None
    | (Inl err, s') \<Rightarrow>
        se_db s' = se_db s \<or>
        (\<exists>u e. se_db s' = (se_db s)\<lparr>T_users := T_users (se_db s) @ [u]\<rparr> \<and> User_Email u = RR_Email req \<and>
           err = Wrapf ''failed to generate tokens'' e))"
proof -
  obtain r s' where r: "Register svc req s = (r, s')" by fastforce
  note c = Register_cases [OF r]
  show ?thesis
  proof (cases r)
    case (Inl err)
    then show ?thesis using c unfolding r by (auto simp: account_result_def new_account_def)
  next
    case (Inr resp)
    then obtain u p where "new_account svc req s s' u" "GenerateTokenPair (as_jwt svc) (se_now s) (Some u) = Inr p"
        "resp = auth_response svc p u" "register_checks svc req = None"
      using c by (auto simp: account_result_def)
    then show ?thesis unfolding r Inr by (auto simp: new_account_def)
  qed
qed

lemma login_run:
  assumes "se_faults s = []" and "ValidateEmail (as_case svc) email = None" and "password \<noteq> []"
    and "find (\<lambda>u. User_Email u = email) (T_users (se_db s)) = Some u"
    and "verifyPassword svc password (User_PasswordHash u) = None"
  shows "Login svc \<lparr>LR_Email = email, LR_Password = password\<rparr> s = with_tokens svc u s"
proof -
  have "email \<noteq> []" using assms(2) by (auto simp: ValidateEmail_def)
  then have "users_GetByEmail email s = (Inr u, s)"
    using assms(1,4) by (simp add: users_GetByEmail_def sql_get_email_def run_stmt_def next_fault_def)
  with assms show ?thesis by (simp add: Login_def)
qed

text \<open>C24: Who has registered can log in with the same e-mail address and password, and is the same user.\<close>

theorem register_then_login:
  assumes "bcrypt_laws (as_bcrypt svc)" and "Register svc req s = (Inr resp, s')" and "se_faults s' = []"
  shows "\<exists>resp'. Login svc \<lparr>LR_Email = RR_Email req, LR_Password = RR_Password req\<rparr> s' = (Inr resp', s') \<and>
     AR_User resp' = AR_User resp"
proof -
  from Register_cases [OF assms(2)] obtain u p where n: "new_account svc req s s' u"
      and g: "GenerateTokenPair (as_jwt svc) (se_now s) (Some u) = Inr p" and resp: "resp = auth_response svc p u"
      and now: "se_now s' = se_now s" and ok: "register_checks svc req = None"
    by (auto simp: account_result_def)
  have ok': "ValidateEmail (as_case svc) (RR_Email req) = None" "ValidatePassword (RR_Password req) = None"
    using ok by (simp_all add: register_checks_def)
  then have "RR_Password req \<noteq> []" by (auto simp: ValidatePassword_def)
  moreover have "find (\<lambda>x. User_Email x = RR_Email req) (T_users (se_db s')) = Some u"
  proof -
    have f: "(\<forall>x\<in>set xs. \<not> P x) \<Longrightarrow> P y \<Longrightarrow> find P (xs @ [y]) = Some y" for P and xs :: "User list" and y
      by (induction xs) auto
    from n show ?thesis by (auto simp: new_account_def image_iff intro!: f)
  qed
  moreover have "verifyPassword svc (RR_Password req) (User_PasswordHash u) = None"
    using n assms(1) by (simp add: verifyPassword_def new_account_def hashPassword_def bcrypt_laws_def)
  ultimately have "Login svc \<lparr>LR_Email = RR_Email req, LR_Password = RR_Password req\<rparr> s' = with_tokens svc u s'"
    by (intro login_run assms(3) ok') simp_all
  with g now resp show ?thesis by (simp add: with_tokens_def auth_response_def)
qed

definition toy_bcrypt :: bcrypt where
  "toy_bcrypt =
     \<lparr>bc_GenerateFromPassword = (\<lambda>p. if 72 < length p then Inl (ExternalErr ''password length exceeds 72 bytes'') else Inr (''$2a$'' @ p)),
      bc_CompareHashAndPassword = (\<lambda>h p. if h = ''$2a$'' @ p then None else Some (ExternalErr ''mismatch''))\<rparr>"

definition toy_auth :: AuthService where
  "toy_auth = \<lparr>as_jwt = toy_service, as_bcrypt = toy_bcrypt, as_case = id, as_format = (\<lambda>t. ''t'')\<rparr>"

definition toy_session :: "User list \<Rightarrow> Session" where
  "toy_session us = \<lparr>se_db = \<lparr>T_users = us, T_tasks = [], T_execs = []\<rparr>, se_now = 0, se_faults = [], se_newid = (\<lambda>n. 7), se_ids = 0\<rparr>"

definition toy_request :: RegisterRequest where
  "toy_request = \<lparr>RR_Email = ''a@b.io'', RR_Password = ''Secret#1'', RR_Name = ''Ann''\<rparr>"

lemma toy_bcrypt_laws: "bcrypt_laws (as_bcrypt toy_auth)"
  by (auto simp: bcrypt_laws_def toy_bcrypt_def toy_auth_def)

theorem register_then_login_witness:
  "\<exists>resp s'. Register toy_auth toy_request (toy_session []) = (Inr resp, s') \<and>
     (\<exists>resp'. Login toy_auth \<lparr>LR_Email = ''a@b.io'', LR_Password = ''Secret#1''\<rparr> s' = (Inr resp', s') \<and>
        AR_User resp' = AR_User resp)"
proof -
  obtain r s' where r: "Register toy_auth toy_request (toy_session []) = (r, s')" by fastforce
  have "\<not> isl (fst (Register toy_auth toy_request (toy_session [])))"
      "se_faults (snd (Register toy_auth toy_request (toy_session []))) = []" by code_simp+
  then obtain resp where "r = Inr resp" "se_faults s' = []" unfolding r by (cases r) auto
  with r register_then_login [OF toy_bcrypt_laws, of toy_request "toy_session []" resp s']
  show ?thesis by (simp add: toy_request_def)
qed

text \<open>A request is authenticated only as a user of the database, by a token of type \<open>access\<close> that names that
  user and is valid now; the check changes nothing.\<close>

theorem access_token_names_a_stored_user:
  assumes "ValidateAccessToken svc tok s = (Inr u, s')"
  shows "IsAccessToken (as_jwt svc) (se_now s) tok \<and> ExtractUserID (as_jwt svc) (se_now s) tok = Inr (User_ID u) \<and>
     u \<in> set (T_users (se_db s)) \<and> se_db s' = se_db s"
proof -
  obtain claims where v: "ValidateToken (as_jwt svc) (se_now s) tok = Inr claims" "JC_Type claims = ''access''"
      and g: "users_GetByID (JC_UserID claims) s = (Inr u, s')"
    using assms by (auto simp: ValidateAccessToken_def split: sum.splits if_splits prod.splits)
  from g have "get_row User_ID (JC_UserID claims) (T_users (se_db s)) = Some u \<and> se_db s' = se_db s"
    by (auto simp: users_GetByID_def sql_get_def run_stmt_def next_fault_def split: list.splits option.splits sum.splits)
  with v get_row_Some show ?thesis
    by (fastforce simp: IsAccessToken_def ExtractUserID_def)
qed

theorem access_token_names_a_stored_user_witness:
  "fst (ValidateAccessToken toy_auth ''A'' (toy_session [toy_user])) = Inr toy_user \<and>
   IsAccessToken (as_jwt toy_auth) 0 ''A'' \<and> isl (fst (ValidateAccessToken toy_auth ''R'' (toy_session [toy_user])))"
proof -
  have v: "ValidateAccessToken toy_auth ''A'' (toy_session [toy_user]) = (Inr toy_user, toy_session [toy_user])"
    "isl (fst (ValidateAccessToken toy_auth ''R'' (toy_session [toy_user])))"
    by (simp_all add: ValidateAccessToken_def ValidateToken_def key_of_def toy_auth_def toy_service_def toy_jwt_def toy_session_def
        toy_claims_def toy_user_def users_GetByID_def sql_get_def run_stmt_def next_fault_def Second_def)
  from access_token_names_a_stored_user [OF v(1)] v show ?thesis by (simp add: toy_session_def)
qed

end
