(* ===== verification/RateLimit.thy ===== *)
theory RateLimit
  imports AppConfig
begin

text \<open>
  The rate limiter of \<open>internal/api/middleware/rate_limit.go\<close>: for each identifier the times of the requests it
  allowed, a check that forgets the times outside the window, and the periodic clean-up. The map is a partial
  function, the lock makes every operation one step. The time of a step is an argument; a run is a sequence of
  steps with times that do not decrease (Go's clock readings are monotonic).
\<close>

section \<open>The limiter\<close>

record RateLimiter =
  rl_requests :: "string \<rightharpoonup> time list"
  rl_window :: int
  rl_maxReqs :: int

definition NewRateLimiter :: "int \<Rightarrow> int \<Rightarrow> RateLimiter" where
  "NewRateLimiter maxReqs window = \<lparr>rl_requests = Map.empty, rl_window = window, rl_maxReqs = maxReqs\<rparr>"

definition validRequests :: "time \<Rightarrow> RateLimiter \<Rightarrow> time list \<Rightarrow> time list" where
  "validRequests now rl requests = filter (\<lambda>req. req > now - rl_window rl) requests"

definition Allow :: "time \<Rightarrow> string \<Rightarrow> RateLimiter \<Rightarrow> bool \<times> RateLimiter" where
  "Allow now identifier rl =
     (let requests = (case rl_requests rl identifier of None \<Rightarrow> [] | Some rs \<Rightarrow> rs);
          valid = validRequests now rl requests
      in if int (length valid) \<ge> rl_maxReqs rl then (False, rl)
         else (True, rl\<lparr>rl_requests := (rl_requests rl)(identifier \<mapsto> valid @ [now])\<rparr>))"

text \<open>One tick of \<open>cleanup\<close>.\<close>

definition cleanup_tick :: "time \<Rightarrow> RateLimiter \<Rightarrow> RateLimiter" where
  "cleanup_tick now rl =
     rl\<lparr>rl_requests := (\<lambda>identifier.
       case rl_requests rl identifier of
         None \<Rightarrow> None
       | Some requests \<Rightarrow>
           (let valid = validRequests now rl requests in if length valid = 0 then None else Some valid))\<rparr>"

section \<open>The limits of the endpoints\<close>

definition AuthRateLimit :: RateLimiter where "AuthRateLimit = NewRateLimiter 10 Hour"
definition RegisterRateLimit :: RateLimiter where "RegisterRateLimit = NewRateLimiter 5 Hour"
definition RegisterRateLimitForTest :: RateLimiter where "RegisterRateLimitForTest = NewRateLimiter 1000 Hour"
definition AuthRateLimitForTest :: RateLimiter where "AuthRateLimitForTest = NewRateLimiter 1000 Hour"
definition RefreshRateLimit :: RateLimiter where "RefreshRateLimit = NewRateLimiter 100 Hour"
definition TaskRateLimit :: RateLimiter where "TaskRateLimit = NewRateLimiter 100 Hour"
definition TaskExecutionRateLimit :: RateLimiter where "TaskExecutionRateLimit = NewRateLimiter 50 Hour"
definition TaskCreationRateLimit :: RateLimiter where "TaskCreationRateLimit = NewRateLimiter 20 Hour"
definition ExecutionCreationRateLimit :: RateLimiter where "ExecutionCreationRateLimit = NewRateLimiter 30 Hour"
definition TaskRateLimitForTest :: RateLimiter where "TaskRateLimitForTest = NewRateLimiter 1000 Hour"
definition TaskCreationRateLimitForTest :: RateLimiter where "TaskCreationRateLimitForTest = NewRateLimiter 1000 Hour"
definition TaskExecutionRateLimitForTest :: RateLimiter where "TaskExecutionRateLimitForTest = NewRateLimiter 1000 Hour"
definition ExecutionCreationRateLimitForTest :: RateLimiter where
  "ExecutionCreationRateLimitForTest = NewRateLimiter 1000 Hour"

section \<open>Runs\<close>

text \<open>
  \<open>rl_reach max window st\<close>: \<open>st\<close> holds the limiter, the time of the last step and the requests allowed so far,
  the latest first.
\<close>

inductive rl_reach :: "int \<Rightarrow> int \<Rightarrow> RateLimiter \<times> time \<times> (time \<times> string) list \<Rightarrow> bool" for maxReqs window where
  start: "rl_reach maxReqs window (NewRateLimiter maxReqs window, t, [])"
| allow: "rl_reach maxReqs window (rl, t, h) \<Longrightarrow> t \<le> now \<Longrightarrow> Allow now i rl = (b, rl') \<Longrightarrow>
    rl_reach maxReqs window (rl', now, if b then (now, i) # h else h)"
| tick: "rl_reach maxReqs window (rl, t, h) \<Longrightarrow> t \<le> now \<Longrightarrow> rl_reach maxReqs window (cleanup_tick now rl, now, h)"

definition stored :: "RateLimiter \<Rightarrow> string \<Rightarrow> time list" where
  "stored rl i = (case rl_requests rl i of None \<Rightarrow> [] | Some rs \<Rightarrow> rs)"

definition allowed_times :: "(time \<times> string) list \<Rightarrow> string \<Rightarrow> time list" where
  "allowed_times h i = map fst (filter (\<lambda>e. snd e = i) h)"

text \<open>How many requests of the history fall into the window that ends at \<open>c\<close>.\<close>

definition in_window :: "int \<Rightarrow> time \<Rightarrow> time list \<Rightarrow> nat" where
  "in_window window c ts = length (filter (\<lambda>x. c - window < x \<and> x \<le> c) ts)"

lemma Allow_cases:
  "Allow now i rl =
     (if int (length (validRequests now rl (stored rl i))) \<ge> rl_maxReqs rl then (False, rl)
      else (True, rl\<lparr>rl_requests := (rl_requests rl)(i \<mapsto> validRequests now rl (stored rl i) @ [now])\<rparr>))"
  by (simp add: Allow_def stored_def Let_def)

lemma stored_update [simp]:
  "stored (rl\<lparr>rl_requests := (rl_requests rl)(i \<mapsto> rs)\<rparr>) j = (if j = i then rs else stored rl j)"
  by (simp add: stored_def)

lemma stored_tick [simp]: "stored (cleanup_tick now rl) i = validRequests now rl (stored rl i)"
  by (simp add: stored_def cleanup_tick_def validRequests_def Let_def split: option.splits)

lemma limiter_params [simp]:
  "rl_window (cleanup_tick now rl) = rl_window rl" "rl_maxReqs (cleanup_tick now rl) = rl_maxReqs rl"
  by (simp_all add: cleanup_tick_def)

text \<open>
  What is stored for an identifier are the allowed times, the earliest first, up to times that have left the
  window.
\<close>

definition rl_inv :: "int \<Rightarrow> int \<Rightarrow> RateLimiter \<Rightarrow> time \<Rightarrow> (time \<times> string) list \<Rightarrow> bool" where
  "rl_inv maxReqs window rl t h \<longleftrightarrow>
     rl_maxReqs rl = maxReqs \<and> rl_window rl = window \<and> (\<forall>e\<in>set h. fst e \<le> t) \<and>
     (\<forall>i c. t - window \<le> c \<longrightarrow> filter (\<lambda>x. x > c) (rev (stored rl i)) = filter (\<lambda>x. x > c) (allowed_times h i)) \<and>
     (\<forall>i c. int (in_window window c (allowed_times h i)) \<le> max 0 maxReqs)"

lemma validRequests_length:
  assumes "rl_inv maxReqs window rl t h" and "t \<le> now"
  shows "length (validRequests now rl (stored rl i)) = length (filter (\<lambda>x. x > now - window) (allowed_times h i))"
proof -
  have "filter (\<lambda>x. x > now - window) (rev (stored rl i)) = filter (\<lambda>x. x > now - window) (allowed_times h i)"
    using assms by (simp add: rl_inv_def)
  then have "length (filter (\<lambda>x. x > now - window) (stored rl i)) = length (filter (\<lambda>x. x > now - window) (allowed_times h i))"
    by (metis length_rev rev_filter)
  with assms show ?thesis by (simp add: validRequests_def rl_inv_def)
qed

lemma later_filter: "a \<le> (c :: int) \<Longrightarrow> filter (\<lambda>x. a < x \<and> c < x) xs = filter (\<lambda>x. c < x) xs"
  by (induction xs) auto

lemma window_le: "in_window window c xs \<le> length (filter (\<lambda>x. x > c - window) xs)"
  by (induction xs) (auto simp: in_window_def)

lemma filter_length_mono: "(\<And>x. P x \<Longrightarrow> Q x) \<Longrightarrow> length (filter P xs) \<le> length (filter Q xs)"
  by (induction xs) auto

lemma rl_inv_allow:
  assumes inv: "rl_inv maxReqs window rl t h" and "t \<le> now" and "Allow now i rl = (True, rl')"
  shows "rl_inv maxReqs window rl' now ((now, i) # h)"
proof -
  have lim: "int (length (validRequests now rl (stored rl i))) < maxReqs"
    and rl': "rl' = rl\<lparr>rl_requests := (rl_requests rl)(i \<mapsto> validRequests now rl (stored rl i) @ [now])\<rparr>"
    using assms by (auto simp: Allow_cases rl_inv_def split: if_splits)
  have w: "rl_window rl = window" using inv by (simp add: rl_inv_def)
  have a: "allowed_times ((now, i) # h) j = (if j = i then now # allowed_times h j else allowed_times h j)" for j
    by (simp add: allowed_times_def)
  have "filter (\<lambda>x. x > c) (rev (stored rl' j)) = filter (\<lambda>x. x > c) (allowed_times ((now, i) # h) j)"
    if c: "now - window \<le> c" for j c
  proof (cases "j = i")
    case True
    have "filter (\<lambda>x. x > c) (rev (validRequests now rl (stored rl i))) = filter (\<lambda>x. x > c) (rev (stored rl i))"
      using c by (simp add: validRequests_def w rev_filter later_filter)
    also have "\<dots> = filter (\<lambda>x. x > c) (allowed_times h i)"
      using inv c assms(2) by (simp add: rl_inv_def)
    finally show ?thesis using True by (simp add: rl' a)
  next
    case False
    with inv c assms(2) show ?thesis by (simp add: rl' a rl_inv_def)
  qed
  moreover have "int (in_window window c (allowed_times ((now, i) # h) j)) \<le> max 0 maxReqs" for j c
  proof (cases "j = i \<and> now \<le> c")
    case True
    have "in_window window c (allowed_times h i) \<le> length (filter (\<lambda>x. x > now - window) (allowed_times h i))"
      using True by (intro order.trans [OF window_le] filter_length_mono) simp
    also have "\<dots> = length (validRequests now rl (stored rl i))"
      using validRequests_length [OF inv assms(2)] by simp
    finally have "int (in_window window c (allowed_times h i)) < maxReqs" using lim by simp
    moreover have "in_window window c (now # xs) \<le> Suc (in_window window c xs)" for xs
      by (simp add: in_window_def)
    ultimately show ?thesis using True
      by (simp add: a) (metis (no_types, opaque_lifting) add1_zle_eq int_Suc le_max_iff_disj of_nat_mono order_trans add.commute)
  next
    case False
    then have "in_window window c (allowed_times ((now, i) # h) j) = in_window window c (allowed_times h j)"
      by (auto simp: a in_window_def)
    with inv show ?thesis by (simp add: rl_inv_def)
  qed
  moreover have "\<forall>e\<in>set ((now, i) # h). fst e \<le> now"
    using inv assms(2) by (auto simp: rl_inv_def)
  ultimately show ?thesis using inv by (simp add: rl_inv_def rl')
qed

lemma rl_inv_later:
  assumes "rl_inv maxReqs window rl t h" and "t \<le> now"
  shows "rl_inv maxReqs window rl now h" and "rl_inv maxReqs window (cleanup_tick now rl) now h"
proof -
  show i: "rl_inv maxReqs window rl now h" using assms by (force simp: rl_inv_def)
  have "rl_window rl = window" using assms by (simp add: rl_inv_def)
  then have "filter (\<lambda>x. x > c) (rev (stored (cleanup_tick now rl) j)) = filter (\<lambda>x. x > c) (rev (stored rl j))"
    if "now - window \<le> c" for j c
    using that by (simp add: validRequests_def rev_filter later_filter)
  with i show "rl_inv maxReqs window (cleanup_tick now rl) now h" by (simp add: rl_inv_def)
qed

lemma rl_reach_inv: "rl_reach maxReqs window (rl, t, h) \<Longrightarrow> rl_inv maxReqs window rl t h"
proof (induction "(rl, t, h)" arbitrary: rl t h rule: rl_reach.induct)
  case (start t)
  then show ?case
    by (simp add: rl_inv_def NewRateLimiter_def stored_def allowed_times_def in_window_def)
next
  case (allow rl t h now i b rl')
  show ?case
  proof (cases b)
    case True
    with allow rl_inv_allow show ?thesis by auto
  next
    case False
    with allow have "rl' = rl" by (auto simp: Allow_cases split: if_splits)
    with False allow rl_inv_later(1) show ?thesis by auto
  qed
next
  case (tick rl t h now)
  then show ?case using rl_inv_later(2) by blast
qed

text \<open>C27: However requests and clean-ups interleave, no identifier is allowed more than the limit in any window:
  among the allowed requests of a run, at most \<open>max 0 maxReqs\<close> of an identifier lie in the window that ends at
  \<open>c\<close>, for every \<open>c\<close>.\<close>

theorem rate_limit_per_window:
  assumes "rl_reach maxReqs window (rl, t, h)"
  shows "int (in_window window c (allowed_times h i)) \<le> max 0 maxReqs"
  using rl_reach_inv [OF assms] by (simp add: rl_inv_def)

text \<open>In a reachable state, a request of \<open>i\<close> is allowed exactly when fewer than \<open>maxReqs\<close> requests of \<open>i\<close> were
  allowed in the window before it: refused requests, other identifiers and clean-ups do not count, and a refused
  one leaves no trace.\<close>

theorem allow_iff_under_limit:
  assumes "rl_reach maxReqs window (rl, t, h)" and "t \<le> now"
  shows "fst (Allow now i rl) = (int (length (filter (\<lambda>x. x > now - window) (allowed_times h i))) < maxReqs) \<and>
     (fst (Allow now i rl) \<or> snd (Allow now i rl) = rl) \<and>
     fst (Allow now i (cleanup_tick now rl)) = fst (Allow now i rl)"
proof -
  have inv: "rl_inv maxReqs window rl t h" by (rule rl_reach_inv [OF assms(1)])
  then have m: "rl_maxReqs rl = maxReqs" by (simp add: rl_inv_def)
  show ?thesis
    using validRequests_length [OF inv assms(2), of i]
    by (auto simp: Allow_cases m validRequests_def)
qed

definition example_limiter :: RateLimiter where
  "example_limiter = snd (Allow 5 ''ip'' (NewRateLimiter 1 10))"

lemma example_limiter_reach: "rl_reach 1 10 (example_limiter, 5, [(5, ''ip'')])"
proof -
  have "rl_reach 1 10 (example_limiter, 5, if True then (5, ''ip'') # [] else [])"
    by (rule rl_reach.allow [OF rl_reach.start [of _ _ 0]])
      (simp_all add: Allow_def NewRateLimiter_def validRequests_def example_limiter_def)
  then show ?thesis by simp
qed

theorem rate_limit_per_window_witness: "int (in_window 10 14 (allowed_times [(5, ''ip'')] ''ip'')) \<le> 1"
  using rate_limit_per_window [OF example_limiter_reach, of 14 "''ip''"] by simp

theorem allow_iff_under_limit_witness:
  "\<not> fst (Allow 14 ''ip'' example_limiter) \<and> fst (Allow 15 ''ip'' example_limiter) \<and> fst (Allow 6 ''other'' example_limiter)"
  using allow_iff_under_limit [OF example_limiter_reach, of 14 "''ip''"]
    allow_iff_under_limit [OF example_limiter_reach, of 15 "''ip''"]
    allow_iff_under_limit [OF example_limiter_reach, of 6 "''other''"]
  by (simp add: allowed_times_def)

end
