(* ===== verification/Http.thy ===== *)
theory Http
  imports Auth RateLimit
begin

text \<open>
  Requests, replies and the middleware of \<open>internal/api/middleware\<close>: the bearer token, authentication, the
  limits on size and rate, and the validation of bodies. A middleware looks at the context of a request and
  either aborts with a reply or lets the next handler go on. \<open>cx_Bind\<close> is what decoding the body gives (an error or
  a value) when only so many bytes of it may be read; \<open>cx_limit\<close> is the limit \<open>http.MaxBytesReader\<close> has set. The engine of \<open>go-playground/validator\<close> checks the tags of a field from left to right and
  reports the first that fails; the tags the models use are modelled with the three validators of this package.
\<close>

section \<open>Contexts and replies\<close>

text \<open>\<open>gin.Context\<close>: the request, and the values earlier handlers have set.\<close>

record 'b gin_context =
  cx_Authorization :: string
  cx_Param :: "string \<Rightarrow> string"
  cx_Query :: "string \<Rightarrow> string"
  cx_ClientIP :: string
  cx_ContentLength :: int
  cx_Bind :: "int option \<Rightarrow> go_error + 'b"
  cx_limit :: "int option"
  cx_user :: "User option"
  cx_validated :: "'b option"

definition ShouldBindJSON :: "'b gin_context \<Rightarrow> go_error + 'b" where
  "ShouldBindJSON c = cx_Bind c (cx_limit c)"

text \<open>
  A JSON reply: a value, the field \<open>error\<close> alone, or with the fields \<open>details\<close>, \<open>retry_after\<close> or
  \<open>validation_errors\<close>.
\<close>

record validation_error =
  ve_field :: string
  ve_value :: string
  ve_tag :: string
  ve_message :: string

datatype 'a reply =
    Success nat 'a
  | Failure nat string
  | FailureDetails nat string go_error
  | RetryAfter nat string int
  | Invalid nat string "validation_error list"

fun reply_code :: "'a reply \<Rightarrow> nat" where
  "reply_code (Success code x) = code"
| "reply_code (Failure code msg) = code"
| "reply_code (FailureDetails code msg err) = code"
| "reply_code (RetryAfter code msg n) = code"
| "reply_code (Invalid code msg es) = code"

section \<open>Authentication (\<open>auth.go\<close>)\<close>

text \<open>\<open>strings.SplitN(s, " ", 2)\<close>: the parts before and after the first space.\<close>

definition split_space :: "string \<Rightarrow> (string \<times> string) option" where
  "split_space s =
     (case dropWhile (\<lambda>c. c \<noteq> CHR '' '') s of
        [] \<Rightarrow> None
      | c # rest \<Rightarrow> Some (takeWhile (\<lambda>c. c \<noteq> CHR '' '') s, rest))"

definition extractToken :: "'b gin_context \<Rightarrow> string" where
  "extractToken c =
     (if cx_Authorization c = [] then []
      else (case split_space (cx_Authorization c) of
          None \<Rightarrow> []
        | Some (scheme, rest) \<Rightarrow>
            (if scheme \<noteq> ''Bearer'' then []
             else (let token = TrimSpace rest in if token = [] then [] else token))))"

definition RequireAuth :: "AuthService \<Rightarrow> 'b gin_context \<Rightarrow> Session \<Rightarrow> ('a reply + 'b gin_context) \<times> Session" where
  "RequireAuth svc c s =
     (let token = extractToken c
      in if token = [] then (Inl (Failure 401 ''authorization header required''), s)
         else (case ValidateAccessToken svc token s of
             (Inl err, s1) \<Rightarrow> (Inl (Failure 401 ''Invalid or expired token''), s1)
           | (Inr user, s1) \<Rightarrow> (Inr (c\<lparr>cx_user := Some user\<rparr>), s1)))"

definition OptionalAuth :: "AuthService \<Rightarrow> 'b gin_context \<Rightarrow> Session \<Rightarrow> ('a reply + 'b gin_context) \<times> Session" where
  "OptionalAuth svc c s =
     (let token = extractToken c
      in if token = [] then (Inr c, s)
         else (case ValidateAccessToken svc token s of
             (Inl err, s1) \<Rightarrow> (Inr c, s1)
           | (Inr user, s1) \<Rightarrow> (Inr (c\<lparr>cx_user := Some user\<rparr>), s1)))"

definition GetUserFromContext :: "'b gin_context \<Rightarrow> User option" where
  "GetUserFromContext c = cx_user c"

text \<open>\<open>us\<close> is \<open>uuid.UUID.String\<close>.\<close>

definition RequireUserID :: "(uuid \<Rightarrow> string) \<Rightarrow> 'b gin_context \<Rightarrow> 'a reply + 'b gin_context" where
  "RequireUserID us c =
     (case cx_user c of
        None \<Rightarrow> Inl (Failure 401 ''Unauthorized'')
      | Some userModel \<Rightarrow>
          (if cx_Param c ''user_id'' = [] then Inl (Failure 400 ''User ID parameter required'')
           else if us (User_ID userModel) \<noteq> cx_Param c ''user_id'' then Inl (Failure 403 ''Access denied'')
           else Inr c))"

section \<open>Size and rate\<close>

definition ValidateRequestSize :: "int \<Rightarrow> 'b gin_context \<Rightarrow> 'a reply + 'b gin_context" where
  "ValidateRequestSize maxSize c =
     (if cx_ContentLength c > maxSize
        then Inl (Failure 413 (''Request body too large. Maximum size: '' @ show_int maxSize @ '' bytes''))
      else Inr (c\<lparr>cx_limit := Some maxSize\<rparr>))"

definition RequestSizeLimit :: "'b gin_context \<Rightarrow> 'a reply + 'b gin_context" where
  "RequestSizeLimit = ValidateRequestSize (1024 * 1024)"

definition RateLimit :: "time \<Rightarrow> 'b gin_context \<Rightarrow> RateLimiter \<Rightarrow> ('a reply + 'b gin_context) \<times> RateLimiter" where
  "RateLimit now c rl =
     (case Allow now (cx_ClientIP c) rl of
        (False, rl') \<Rightarrow> (Inl (RetryAfter 429 ''Rate limit exceeded'' (go_div (rl_window rl) Second)), rl')
      | (True, rl') \<Rightarrow> (Inr c, rl'))"

definition RateLimitByUserID ::
    "(uuid \<Rightarrow> string) \<Rightarrow> time \<Rightarrow> 'b gin_context \<Rightarrow> RateLimiter \<Rightarrow> ('a reply + 'b gin_context) \<times> RateLimiter" where
  "RateLimitByUserID us now c rl =
     (case Allow now (case cx_user c of None \<Rightarrow> cx_ClientIP c | Some u \<Rightarrow> us (User_ID u)) rl of
        (False, rl') \<Rightarrow> (Inl (RetryAfter 429 ''Rate limit exceeded'' (go_div (rl_window rl) Second)), rl')
      | (True, rl') \<Rightarrow> (Inr c, rl'))"

end
