(* ===== verification/Validation.thy ===== *)
theory Validation
  imports Http
begin

text \<open>
  The validation of request bodies (\<open>internal/api/middleware/validation.go\<close>) with the tags of the request types in
  \<open>internal/models\<close>: the three custom validators, the messages, and \<open>ValidateJSON\<close>.
\<close>

section \<open>Custom validators\<close>

definition vm_dangerousPatterns :: "string list" where
  "vm_dangerousPatterns =
     [''rm -rf'', ''rm -r'', ''rm -f'', ''rmdir'', ''del /f'', ''del /s'', ''format c:'', ''mkfs'', ''dd if='',
      '':(){ :|:& };:'', ''chmod 777'', ''chmod +x'', ''/etc/passwd'', ''/etc/shadow'', ''sudo'', ''su -'', ''passwd'',
      ''useradd'', ''userdel'', ''curl'', ''wget'', ''nc -'', ''netcat'', ''telnet'', ''ssh'', ''scp'', ''rsync'',
      ''ping -f'', ''iptables'', ''firewall'', ''kill -9'', ''killall'', ''pkill'', ''reboot'', ''shutdown'', ''halt'',
      ''poweroff'', ''mount'', ''umount'', ''fdisk'', ''crontab'', ''at '', ''batch'', ''nohup'', ''disown'', ''exec('',
      ''eval('', ''system('', ''shell_exec'', ''passthru'', ''proc_open'', ''popen'', ''file_get_contents'',
      ''file_put_contents'', ''fopen'', ''fwrite'', ''include('', ''require('', ''import os'', ''import subprocess'',
      ''import sys'', ''__import__'', ''exec('', ''eval('', ''compile('', ''open('', ''input('', ''raw_input('',
      ''execfile('', ''reload('', ''exit('', ''quit('']"

definition suspiciousPaths :: "string list" where
  "suspiciousPaths =
     [''/bin/'', ''/sbin/'', ''/usr/bin/'', ''/usr/sbin/'', ''/etc/'', ''/var/'', ''/tmp/'', ''/proc/'', ''/sys/'', ''/dev/'',
      ''/root/'', ''/home/'', ''c:'' @ [CHR 0x5C], ''c:/'', ''../'', ''./'', ''~/'']"

definition vm_validateScriptContent :: "casemap \<Rightarrow> string \<Rightarrow> bool" where
  "vm_validateScriptContent uc content0 =
     (let content = ToLower uc (TrimSpace content0)
      in if content = [] then False
         else if list_ex (Contains content) vm_dangerousPatterns then False
         else if list_ex (Contains content) suspiciousPaths then False
         else if Contains content ''base64'' \<or> Contains content ''b64decode'' then False
         else if Contains content (CHR 0x5C # ''x'') \<or> Contains content ''0x'' then False
         else True)"

definition vm_validateScriptType :: "string \<Rightarrow> bool" where
  "vm_validateScriptType scriptType = list_ex (\<lambda>validType. scriptType = validType) [''python'', ''javascript'', ''bash'', ''go'']"

definition invalidChars :: "char list" where
  "invalidChars =
     [CHR 0x3C, CHR 0x3E, CHR 0x22, CHR 0x27, CHR 0x26, CHR 0x3B, CHR 0x7C, CHR 0x60, CHR 0x24, CHR 0x28, CHR 0x29,
      CHR 0x7B, CHR 0x7D, CHR 0x5B, CHR 0x5D, CHR 0x5C, CHR 0x2F, CHR 0x3A, CHR 0x2A, CHR 0x3F, CHR 0x0A, CHR 0x0D,
      CHR 0x09]"

definition vm_validateTaskName :: "string \<Rightarrow> bool" where
  "vm_validateTaskName name0 =
     (let name = TrimSpace name0
      in if name = [] \<or> length name > 255 then False
         else \<not> list_ex (\<lambda>char. Contains name [char]) invalidChars)"

section \<open>Tags\<close>

definition getValidationMessage :: "string \<Rightarrow> string \<Rightarrow> string \<Rightarrow> string" where
  "getValidationMessage field tag param =
     (if tag = ''required'' then field @ '' is required''
      else if tag = ''min'' then field @ '' must be at least '' @ param @ '' characters''
      else if tag = ''max'' then field @ '' must be at most '' @ param @ '' characters''
      else if tag = ''email'' then field @ '' must be a valid email address''
      else if tag = ''oneof'' then field @ '' must be one of: '' @ param
      else if tag = ''script_content'' then ''Script content contains potentially dangerous patterns''
      else if tag = ''script_type'' then ''Invalid script type. Supported types: python, javascript, bash, go''
      else if tag = ''task_name'' then ''Task name contains invalid characters or is too long''
      else field @ '' failed validation: '' @ tag)"

text \<open>A tag: its name, its parameter and what it demands.\<close>

type_synonym 'v tag_rule = "string \<times> string \<times> ('v \<Rightarrow> bool)"

definition check_field :: "string \<Rightarrow> ('v \<Rightarrow> string) \<Rightarrow> 'v tag_rule list \<Rightarrow> 'v \<Rightarrow> validation_error list" where
  "check_field field show rules v =
     (case find (\<lambda>(tag, param, ok). \<not> ok v) rules of
        None \<Rightarrow> []
      | Some (tag, param, ok) \<Rightarrow>
          [\<lparr>ve_field = field, ve_value = show v, ve_tag = tag, ve_message = getValidationMessage field tag param\<rparr>])"

text \<open>\<open>omitempty\<close> on a pointer: a missing value is not checked.\<close>

definition check_optional :: "string \<Rightarrow> ('v \<Rightarrow> string) \<Rightarrow> 'v tag_rule list \<Rightarrow> 'v option \<Rightarrow> validation_error list" where
  "check_optional field show rules v = (case v of None \<Rightarrow> [] | Some x \<Rightarrow> check_field field show rules x)"

definition required :: "string tag_rule" where "required = (''required'', [], \<lambda>s. s \<noteq> [])"
definition min_runes :: "nat \<Rightarrow> string tag_rule" where "min_runes n = (''min'', show_nat n, \<lambda>s. n \<le> utf8_length s)"
definition max_runes :: "nat \<Rightarrow> string tag_rule" where "max_runes n = (''max'', show_nat n, \<lambda>s. utf8_length s \<le> n)"
definition min_value :: "nat \<Rightarrow> int tag_rule" where "min_value n = (''min'', show_nat n, \<lambda>v. int n \<le> v)"
definition max_value :: "nat \<Rightarrow> int tag_rule" where "max_value n = (''max'', show_nat n, \<lambda>v. v \<le> int n)"
definition task_name_tag :: "string tag_rule" where "task_name_tag = (''task_name'', [], vm_validateTaskName)"
definition script_type_tag :: "string tag_rule" where "script_type_tag = (''script_type'', [], vm_validateScriptType)"
definition script_content_tag :: "casemap \<Rightarrow> string tag_rule" where
  "script_content_tag uc = (''script_content'', [], vm_validateScriptContent uc)"

lemmas tag_defs = required_def min_runes_def max_runes_def min_value_def max_value_def task_name_tag_def
  script_type_tag_def script_content_tag_def

definition tags_CreateTaskRequest :: "casemap \<Rightarrow> CreateTaskRequest \<Rightarrow> validation_error list" where
  "tags_CreateTaskRequest uc r =
     check_field ''Name'' id [required, task_name_tag, min_runes 1, max_runes 255] (CT_Name r) @
     check_optional ''Description'' id [max_runes 1000] (CT_Description r) @
     check_field ''ScriptContent'' id [required, script_content_tag uc, min_runes 1, max_runes 65535] (CT_ScriptContent r) @
     check_field ''ScriptType'' id [required, script_type_tag] (CT_ScriptType r) @
     check_optional ''Priority'' show_int [min_value 0, max_value 10] (CT_Priority r) @
     check_optional ''TimeoutSeconds'' show_int [min_value 1, max_value 3600] (CT_TimeoutSeconds r)"

definition tags_UpdateTaskRequest :: "casemap \<Rightarrow> UpdateTaskRequest \<Rightarrow> validation_error list" where
  "tags_UpdateTaskRequest uc r =
     check_optional ''Name'' id [task_name_tag, min_runes 1, max_runes 255] (UT_Name r) @
     check_optional ''Description'' id [max_runes 1000] (UT_Description r) @
     check_optional ''ScriptContent'' id [script_content_tag uc, min_runes 1, max_runes 65535] (UT_ScriptContent r) @
     check_optional ''ScriptType'' id [script_type_tag] (UT_ScriptType r) @
     check_optional ''Priority'' show_int [min_value 0, max_value 10] (UT_Priority r) @
     check_optional ''TimeoutSeconds'' show_int [min_value 1, max_value 3600] (UT_TimeoutSeconds r)"

definition tags_UpdateTaskExecutionRequest :: "UpdateTaskExecutionRequest \<Rightarrow> validation_error list" where
  "tags_UpdateTaskExecutionRequest r =
     check_optional ''ReturnCode'' show_int [min_value 0, max_value 255] (UE_ReturnCode r) @
     check_optional ''ExecutionTimeMs'' show_int [min_value 0] (UE_ExecutionTimeMs r) @
     check_optional ''MemoryUsageBytes'' show_int [min_value 0] (UE_MemoryUsageBytes r)"

section \<open>The middleware\<close>

definition ValidateJSON :: "('b \<Rightarrow> validation_error list) \<Rightarrow> 'b gin_context \<Rightarrow> 'a reply + 'b gin_context" where
  "ValidateJSON validate c =
     (case ShouldBindJSON c of
        Inl err \<Rightarrow> Inl (FailureDetails 400 ''Invalid request format'' err)
      | Inr model \<Rightarrow>
          (if validate model \<noteq> [] then Inl (Invalid 400 ''Validation failed'' (validate model))
           else Inr (c\<lparr>cx_validated := Some model\<rparr>)))"

definition ValidateTaskCreation :: "casemap \<Rightarrow> CreateTaskRequest gin_context \<Rightarrow> 'a reply + CreateTaskRequest gin_context" where
  "ValidateTaskCreation uc = ValidateJSON (tags_CreateTaskRequest uc)"

definition ValidateTaskUpdate :: "casemap \<Rightarrow> UpdateTaskRequest gin_context \<Rightarrow> 'a reply + UpdateTaskRequest gin_context" where
  "ValidateTaskUpdate uc = ValidateJSON (tags_UpdateTaskRequest uc)"

definition ValidateTaskExecutionUpdate ::
    "UpdateTaskExecutionRequest gin_context \<Rightarrow> 'a reply + UpdateTaskExecutionRequest gin_context" where
  "ValidateTaskExecutionUpdate = ValidateJSON tags_UpdateTaskExecutionRequest"

section \<open>What the middleware accepts\<close>

lemma check_field_ok [simp]: "check_field field show rules v = [] \<longleftrightarrow> (\<forall>(tag, param, ok)\<in>set rules. ok v)"
proof -
  have "check_field field show rules v = [] \<longleftrightarrow> find (\<lambda>(tag, param, ok). \<not> ok v) rules = None"
    by (simp add: check_field_def split: option.split prod.split)
  then show ?thesis by (auto simp: find_None_iff)
qed

lemma check_optional_ok [simp]: "check_optional field show rules x = [] \<longleftrightarrow> (case x of None \<Rightarrow> True | Some v \<Rightarrow> check_field field show rules v = [])"
  by (simp add: check_optional_def split: option.split)

end
