(* ===== verification/Cursor.thy ===== *)
theory Cursor
  imports Repositories
begin

text \<open>
  Cursor pagination (\<open>internal/database/cursor.go\<close> and the \<open>...Cursor\<close> methods of the repositories): the
  encoding of cursors, the normalisation of a request, the \<open>WHERE\<close> and \<open>ORDER BY\<close> clauses with their
  numbered parameters, and the listings. The JSON text of a cursor (\<open>encoding/json\<close>) is an argument, a
  \<open>json_codec\<close>; base64 is modelled. PostgreSQL runs a query that is a text and a list of arguments, so the
  listings take the query engine as an argument; for the \<open>WHERE\<close> clauses alone the meaning of the text is
  given by \<open>sat\<close>, with the comparison of values of different types as the error PostgreSQL makes of it.
\<close>

section \<open>Base64\<close>

text \<open>\<open>base64.URLEncoding\<close>: the alphabet of RFC 4648 section 5, with padding.\<close>

definition b64_alphabet :: string where
  "b64_alphabet = ''ABCDEFGHIJKLMNOPQRSTUVWXYZabcdefghijklmnopqrstuvwxyz0123456789-_''"

definition b64_char :: "nat \<Rightarrow> char" where
  "b64_char n = b64_alphabet ! n"

fun index_of :: "'a \<Rightarrow> 'a list \<Rightarrow> nat option" where
  "index_of x [] = None"
| "index_of x (y # ys) = (if x = y then Some 0 else map_option Suc (index_of x ys))"

definition b64_val :: "char \<Rightarrow> nat option" where
  "b64_val c = index_of c b64_alphabet"

abbreviation b64_pad :: char where "b64_pad \<equiv> CHR ''=''"

fun b64_encode :: "nat list \<Rightarrow> string" where
  "b64_encode [] = []"
| "b64_encode [a] = [b64_char (a div 4), b64_char (a mod 4 * 16), b64_pad, b64_pad]"
| "b64_encode [a, b] =
     [b64_char (a div 4), b64_char (a mod 4 * 16 + b div 16), b64_char (b mod 16 * 4), b64_pad]"
| "b64_encode (a # b # c # s) =
     b64_char (a div 4) # b64_char (a mod 4 * 16 + b div 16) # b64_char (b mod 16 * 4 + c div 64) #
     b64_char (c mod 64) # b64_encode s"

text \<open>Groups of four digits; a padded group must be the last one.\<close>

fun b64_groups :: "string \<Rightarrow> nat list option" where
  "b64_groups [] = Some []"
| "b64_groups (p # q # r # t # s) =
     (case (b64_val p, b64_val q) of
        (Some w, Some x) \<Rightarrow>
          (if r = b64_pad then (if t = b64_pad \<and> s = [] then Some [w * 4 + x div 16] else None)
           else (case b64_val r of
               None \<Rightarrow> None
             | Some y \<Rightarrow>
                 (if t = b64_pad then (if s = [] then Some [w * 4 + x div 16, x mod 16 * 16 + y div 4] else None)
                  else (case (b64_val t, b64_groups s) of
                      (Some z, Some bs) \<Rightarrow>
                        Some ((w * 4 + x div 16) # (x mod 16 * 16 + y div 4) # (y mod 4 * 64 + z) # bs)
                    | _ \<Rightarrow> None))))
      | _ \<Rightarrow> None)"
| "b64_groups _ = None"

definition EncodeToString :: "string \<Rightarrow> string" where
  "EncodeToString s = b64_encode (map of_char s)"

text \<open>The decoder skips line breaks anywhere; of its error only the fact is kept, not the offset.\<close>

definition DecodeString :: "string \<Rightarrow> go_error + string" where
  "DecodeString s =
     (case b64_groups (filter (\<lambda>c. c \<noteq> CHR 0x0A \<and> c \<noteq> CHR 0x0D) s) of
        None \<Rightarrow> Inl (ExternalErr ''illegal base64 data'')
      | Some bs \<Rightarrow> Inr (map char_of bs))"

lemma b64_digits:
  "list_all (\<lambda>n. b64_val (b64_char n) = Some n \<and> b64_char n \<noteq> b64_pad \<and> b64_char n \<noteq> CHR 0x0A \<and>
     b64_char n \<noteq> CHR 0x0D) [0..<64]"
  by code_simp

lemma b64_char_simps [simp]:
  assumes "n < 64"
  shows "b64_val (b64_char n) = Some n" "b64_char n \<noteq> b64_pad" "b64_char n \<noteq> CHR 0x0A" "b64_char n \<noteq> CHR 0x0D"
  using b64_digits assms by (simp_all add: list_all_iff)

lemma digit_split [simp]: "(r :: nat) < k \<Longrightarrow> (m * k + r) div k = m" "r < k \<Longrightarrow> (m * k + r) mod k = r"
  by simp_all

lemma b64_ranges:
  assumes "(a :: nat) < 256" "(b :: nat) < 256" "(c :: nat) < 256"
  shows "a div 4 < 64" "a mod 4 * 16 < 64" "a mod 4 * 16 + b div 16 < 64" "b mod 16 * 4 < 64"
    "b mod 16 * 4 + c div 64 < 64" "c mod 64 < 64" "b div 16 < 16" "c div 64 < 4"
  using assms by linarith+

lemma b64_groups_encode: "list_all (\<lambda>a. a < 256) bs \<Longrightarrow> b64_groups (b64_encode bs) = Some bs"
proof (induction bs rule: b64_encode.induct)
  case (4 a b c s)
  then have "a < 256" "b < 256" "c < 256" by simp_all
  note r = b64_ranges [OF this]
  have "a div 4 * 4 + (a mod 4 * 16 + b div 16) div 16 = a"
    "(a mod 4 * 16 + b div 16) mod 16 * 16 + (b mod 16 * 4 + c div 64) div 4 = b"
    "(b mod 16 * 4 + c div 64) mod 4 * 64 + c mod 64 = c"
    by (simp_all only: digit_split r div_mult_mod_eq)
  with r 4 show ?case by (simp del: digit_split)
next
  case (3 a b)
  then have "a < 256" "b < 256" by simp_all
  note r = b64_ranges [OF this this(2)]
  have "a div 4 * 4 + (a mod 4 * 16 + b div 16) div 16 = a"
    "(a mod 4 * 16 + b div 16) mod 16 * 16 + b mod 16 * 4 div 4 = b"
    by (simp_all only: digit_split r div_mult_mod_eq nonzero_mult_div_cancel_right)
  with r show ?case by (simp del: digit_split)
next
  case (2 a)
  then have "a div 4 < 64" "a mod 4 * 16 < 64" "a div 4 * 4 + a mod 4 * 16 div 16 = a" by simp_all
  then show ?case by simp
qed simp

lemma b64_encode_no_breaks:
  "list_all (\<lambda>a. a < 256) bs \<Longrightarrow> filter (\<lambda>c. c \<noteq> CHR 0x0A \<and> c \<noteq> CHR 0x0D) (b64_encode bs) = b64_encode bs"
proof (induction bs rule: b64_encode.induct)
  case (4 a b c s)
  then have "a div 4 < 64" "a mod 4 * 16 + b div 16 < 64" "b mod 16 * 4 + c div 64 < 64" "c mod 64 < 64"
    by simp_all linarith+
  with 4 show ?case by simp
next
  case (3 a b)
  then have "a div 4 < 64" "a mod 4 * 16 + b div 16 < 64" "b mod 16 * 4 < 64" by simp_all linarith+
  then show ?case by simp
qed simp_all

lemma DecodeString_EncodeToString: "DecodeString (EncodeToString s) = Inr s"
proof -
  have "list_all (\<lambda>a. a < 256) (map of_char s :: nat list)" by (simp add: list_all_iff)
  then show ?thesis
    by (simp add: DecodeString_def EncodeToString_def b64_encode_no_breaks b64_groups_encode comp_def)
qed

section \<open>Cursors\<close>

record TaskCursor =
  TC_CreatedAt :: time
  TC_ID :: uuid
  TC_Priority :: "int option"

record ExecutionCursor =
  EC_CreatedAt :: time
  EC_ID :: uuid

text \<open>\<open>json.Marshal\<close> and \<open>json.Unmarshal\<close> at one type.\<close>

record 'c json_codec =
  json_Marshal :: "'c \<Rightarrow> go_error + string"
  json_Unmarshal :: "string \<Rightarrow> go_error + 'c"

definition EncodeTaskCursor :: "TaskCursor json_codec \<Rightarrow> TaskCursor \<Rightarrow> go_error + string" where
  "EncodeTaskCursor J cursor =
     (case json_Marshal J cursor of
        Inl err \<Rightarrow> Inl (Wrapf ''failed to marshal task cursor'' err)
      | Inr data \<Rightarrow> Inr (EncodeToString data))"

definition DecodeTaskCursor :: "TaskCursor json_codec \<Rightarrow> string \<Rightarrow> go_error + TaskCursor" where
  "DecodeTaskCursor J encoded =
     (if encoded = [] then Inl (Sentinel ErrInvalidCursor)
      else (case DecodeString encoded of
          Inl err \<Rightarrow> Inl (Wrapf ''failed to decode cursor'' err)
        | Inr data \<Rightarrow>
            (case json_Unmarshal J data of
               Inl err \<Rightarrow> Inl (Wrapf ''failed to unmarshal task cursor'' err)
             | Inr cursor \<Rightarrow>
                 (if TC_ID cursor = uuid_Nil \<or> time_IsZero (TC_CreatedAt cursor)
                    then Inl (Sentinel ErrInvalidCursor) else Inr cursor))))"

definition EncodeExecutionCursor :: "ExecutionCursor json_codec \<Rightarrow> ExecutionCursor \<Rightarrow> go_error + string" where
  "EncodeExecutionCursor J cursor =
     (case json_Marshal J cursor of
        Inl err \<Rightarrow> Inl (Wrapf ''failed to marshal execution cursor'' err)
      | Inr data \<Rightarrow> Inr (EncodeToString data))"

definition DecodeExecutionCursor :: "ExecutionCursor json_codec \<Rightarrow> string \<Rightarrow> go_error + ExecutionCursor" where
  "DecodeExecutionCursor J encoded =
     (if encoded = [] then Inl (Sentinel ErrInvalidCursor)
      else (case DecodeString encoded of
          Inl err \<Rightarrow> Inl (Wrapf ''failed to decode cursor'' err)
        | Inr data \<Rightarrow>
            (case json_Unmarshal J data of
               Inl err \<Rightarrow> Inl (Wrapf ''failed to unmarshal execution cursor'' err)
             | Inr cursor \<Rightarrow>
                 (if EC_ID cursor = uuid_Nil \<or> time_IsZero (EC_CreatedAt cursor)
                    then Inl (Sentinel ErrInvalidCursor) else Inr cursor))))"

definition CreateTaskCursor :: "uuid \<Rightarrow> time \<Rightarrow> int option \<Rightarrow> TaskCursor" where
  "CreateTaskCursor i createdAt priority = \<lparr>TC_CreatedAt = createdAt, TC_ID = i, TC_Priority = priority\<rparr>"

definition CreateExecutionCursor :: "uuid \<Rightarrow> time \<Rightarrow> ExecutionCursor" where
  "CreateExecutionCursor i createdAt = \<lparr>EC_CreatedAt = createdAt, EC_ID = i\<rparr>"

text \<open>An encoded text is not empty, so the first guard of the decoders never meets one.\<close>

lemma EncodeToString_Nil [simp]: "EncodeToString s = [] \<longleftrightarrow> s = []"
  by (cases "map of_char s :: nat list" rule: b64_encode.cases) (auto simp: EncodeToString_def)

lemma task_cursor_roundtrip:
  assumes "EncodeTaskCursor J c = Inr text"
    and "\<And>data. json_Marshal J c = Inr data \<Longrightarrow> data \<noteq> [] \<and> json_Unmarshal J data = Inr c"
    and "TC_ID c \<noteq> uuid_Nil" "TC_CreatedAt c \<noteq> 0"
  shows "DecodeTaskCursor J text = Inr c"
  using assms by (auto simp: EncodeTaskCursor_def DecodeTaskCursor_def DecodeString_EncodeToString split: sum.splits)

lemma execution_cursor_roundtrip:
  assumes "EncodeExecutionCursor J c = Inr text"
    and "\<And>data. json_Marshal J c = Inr data \<Longrightarrow> data \<noteq> [] \<and> json_Unmarshal J data = Inr c"
    and "EC_ID c \<noteq> uuid_Nil" "EC_CreatedAt c \<noteq> 0"
  shows "DecodeExecutionCursor J text = Inr c"
  using assms
  by (auto simp: EncodeExecutionCursor_def DecodeExecutionCursor_def DecodeString_EncodeToString split: sum.splits)

section \<open>Requests\<close>

record CursorPaginationRequest =
  CP_Limit :: int
  CP_Cursor :: "string option"
  CP_SortOrder :: string
  CP_SortField :: string

record CursorPaginationResponse =
  CR_HasMore :: bool
  CR_NextCursor :: "string option"
  CR_PrevCursor :: "string option"

abbreviation zero_page :: CursorPaginationResponse where
  "zero_page \<equiv> \<lparr>CR_HasMore = False, CR_NextCursor = None, CR_PrevCursor = None\<rparr>"

definition validSortFields :: "string list" where
  "validSortFields = [''created_at'', ''updated_at'', ''priority'', ''name'']"

definition ValidatePaginationRequest :: "CursorPaginationRequest \<Rightarrow> CursorPaginationRequest" where
  "ValidatePaginationRequest r0 =
     (let r1 = (if CP_Limit r0 \<le> 0 then r0\<lparr>CP_Limit := 20\<rparr> else r0);
          r2 = (if CP_Limit r1 > 100 then r1\<lparr>CP_Limit := 100\<rparr> else r1);
          r3 = (if CP_SortOrder r2 = [] then r2\<lparr>CP_SortOrder := ''desc''\<rparr> else r2);
          r4 = (if CP_SortOrder r3 \<noteq> ''asc'' \<and> CP_SortOrder r3 \<noteq> ''desc''
                  then r3\<lparr>CP_SortOrder := ''desc''\<rparr> else r3);
          r5 = (if CP_SortField r4 = [] then r4\<lparr>CP_SortField := ''created_at''\<rparr> else r4)
      in if CP_SortField r5 \<notin> set validSortFields then r5\<lparr>CP_SortField := ''created_at''\<rparr> else r5)"

definition normal_request :: "CursorPaginationRequest \<Rightarrow> bool" where
  "normal_request r \<longleftrightarrow>
     1 \<le> CP_Limit r \<and> CP_Limit r \<le> 100 \<and> (CP_SortOrder r = ''asc'' \<or> CP_SortOrder r = ''desc'') \<and>
     CP_SortField r \<in> set validSortFields"

text \<open>\<open>ValidatePaginationRequest\<close> always ends in a normal request (a limit between 1 and 100, a known
  order, a known field), keeps the cursor, and leaves a request alone exactly when it is normal already, so it
  can be applied twice, as the handler and the repository do.\<close>

theorem pagination_request_normalised:
  "normal_request (ValidatePaginationRequest r) \<and> CP_Cursor (ValidatePaginationRequest r) = CP_Cursor r \<and>
   (ValidatePaginationRequest r = r) = normal_request r \<and>
   ValidatePaginationRequest (ValidatePaginationRequest r) = ValidatePaginationRequest r"
proof -
  have n: "normal_request (ValidatePaginationRequest x)" for x
    by (simp add: ValidatePaginationRequest_def normal_request_def validSortFields_def Let_def)
  have f: "normal_request x \<Longrightarrow> ValidatePaginationRequest x = x" for x
    by (auto simp: ValidatePaginationRequest_def normal_request_def validSortFields_def Let_def)
  have c: "CP_Cursor (ValidatePaginationRequest r) = CP_Cursor r"
    by (simp add: ValidatePaginationRequest_def Let_def)
  from n [of r] f [of r] f [OF n] c show ?thesis by metis
qed

section \<open>The \<open>WHERE\<close> clause\<close>

datatype sql_arg = ArgUUID uuid | ArgText string | ArgTime time | ArgInt int

text \<open>The text of a numbered parameter.\<close>

definition ph :: "nat \<Rightarrow> string" where
  "ph n = CHR 0x24 # show_nat n"

definition or_break :: string where
  "or_break = '' OR '' @ [CHR 0x0A, CHR 0x09, CHR 0x09, CHR 0x09, CHR 0x09]"

definition created_at_condition :: "string \<Rightarrow> string \<Rightarrow> string \<Rightarrow> nat \<Rightarrow> string" where
  "created_at_condition column primaryOp secondaryOp n =
     ''('' @ column @ '' '' @ primaryOp @ '' '' @ ph n @ '' OR ('' @ column @ '' = '' @ ph n @
     '' AND id '' @ secondaryOp @ '' '' @ ph (n + 1) @ ''))''"

definition buildCursorCondition :: "TaskCursor \<Rightarrow> string \<Rightarrow> string \<Rightarrow> nat \<Rightarrow> string \<times> sql_arg list" where
  "buildCursorCondition cursor sortOrder sortField n =
     (let (primaryOp, secondaryOp) = (if sortOrder = ''asc'' then (''>'', ''>'') else (''<'', ''<''));
          by_time = [ArgTime (TC_CreatedAt cursor), ArgTime (TC_CreatedAt cursor), ArgUUID (TC_ID cursor)]
      in if sortField = ''priority'' then
           (case TC_Priority cursor of
              None \<Rightarrow> (created_at_condition ''created_at'' primaryOp secondaryOp n, by_time)
            | Some p \<Rightarrow>
                (''(priority '' @ primaryOp @ '' '' @ ph n @ or_break @
                 ''(priority = '' @ ph n @ '' AND created_at '' @ primaryOp @ '' '' @ ph (n + 1) @ '')'' @ or_break @
                 ''(priority = '' @ ph n @ '' AND created_at = '' @ ph (n + 1) @ '' AND id '' @ secondaryOp @
                 '' '' @ ph (n + 2) @ ''))'',
                 [ArgInt p, ArgInt p, ArgTime (TC_CreatedAt cursor),
                  ArgInt p, ArgTime (TC_CreatedAt cursor), ArgUUID (TC_ID cursor)]))
         else if sortField = ''created_at'' then (created_at_condition ''created_at'' primaryOp secondaryOp n, by_time)
         else if sortField = ''updated_at'' then (created_at_condition ''updated_at'' primaryOp secondaryOp n, by_time)
         else if sortField = ''name'' then (created_at_condition ''created_at'' primaryOp secondaryOp n, by_time)
         else (created_at_condition ''created_at'' primaryOp secondaryOp n, by_time))"

text \<open>\<open>"WHERE " + conditions[0] + " AND " + conditions[1] ...\<close>\<close>

definition where_clause :: "string list \<Rightarrow> string" where
  "where_clause conditions =
     (case conditions of
        [] \<Rightarrow> []
      | c # cs \<Rightarrow> foldl (\<lambda>w x. w @ '' AND '' @ x) (''WHERE '' @ c) cs)"

definition BuildTaskCursorWhere ::
    "TaskCursor option \<Rightarrow> string \<Rightarrow> string \<Rightarrow> uuid option \<Rightarrow> string option \<Rightarrow> string \<times> sql_arg list" where
  "BuildTaskCursorWhere cursor sortOrder sortField userID status =
     (let (conditions1, args1, n1) =
            (case userID of None \<Rightarrow> ([], [], 1) | Some u \<Rightarrow> ([''user_id = '' @ ph 1], [ArgUUID u], 2));
          (conditions2, args2, n2) =
            (case status of
               None \<Rightarrow> (conditions1, args1, n1)
             | Some st \<Rightarrow> (conditions1 @ [''status = '' @ ph n1], args1 @ [ArgText st], n1 + 1));
          (conditions3, args3) =
            (case cursor of
               None \<Rightarrow> (conditions2, args2)
             | Some c \<Rightarrow>
                 (case buildCursorCondition c sortOrder sortField n2 of
                    (cursorCondition, cursorArgs) \<Rightarrow>
                      (if cursorCondition \<noteq> [] then (conditions2 @ [cursorCondition], args2 @ cursorArgs)
                       else (conditions2, args2))))
      in if length conditions3 = 0 then ([], args3) else (where_clause conditions3, args3))"

definition BuildExecutionCursorWhere ::
    "ExecutionCursor option \<Rightarrow> string \<Rightarrow> uuid option \<Rightarrow> string option \<Rightarrow> string \<times> sql_arg list" where
  "BuildExecutionCursorWhere cursor sortOrder taskID status =
     (let (conditions1, args1, n1) =
            (case taskID of None \<Rightarrow> ([], [], 1) | Some t \<Rightarrow> ([''task_id = '' @ ph 1], [ArgUUID t], 2));
          (conditions2, args2, n2) =
            (case status of
               None \<Rightarrow> (conditions1, args1, n1)
             | Some st \<Rightarrow> (conditions1 @ [''status = '' @ ph n1], args1 @ [ArgText st], n1 + 1));
          (conditions3, args3) =
            (case cursor of
               None \<Rightarrow> (conditions2, args2)
             | Some c \<Rightarrow>
                 (conditions2 @
                    [if sortOrder = ''asc'' then created_at_condition ''created_at'' ''>'' ''>'' n2
                     else created_at_condition ''created_at'' ''<'' ''<'' n2],
                  args2 @ [ArgTime (EC_CreatedAt c), ArgTime (EC_CreatedAt c), ArgUUID (EC_ID c)]))
      in if length conditions3 = 0 then ([], args3) else (where_clause conditions3, args3))"

definition buildOrderByClause :: "string \<Rightarrow> string \<Rightarrow> string" where
  "buildOrderByClause sortField sortOrder =
     (let direction = (if sortOrder = ''asc'' then ''ASC'' else ''DESC'')
      in if sortField = ''priority''
           then ''ORDER BY priority '' @ direction @ '', created_at '' @ direction @ '', id '' @ direction
         else if sortField = ''created_at'' then ''ORDER BY created_at '' @ direction @ '', id '' @ direction
         else if sortField = ''updated_at'' then ''ORDER BY updated_at '' @ direction @ '', id '' @ direction
         else if sortField = ''name''
           then ''ORDER BY name '' @ direction @ '', created_at '' @ direction @ '', id '' @ direction
         else ''ORDER BY created_at '' @ direction @ '', id '' @ direction)"

section \<open>The meaning of a condition\<close>

text \<open>
  The conditions as syntax: a column compared with a numbered parameter, conjunctions, disjunctions (with the
  separator of the text) and parentheses.
\<close>

datatype sql_cond =
    Cmp string string nat
  | All "sql_cond list"
  | Any string "sql_cond list"
  | Paren sql_cond

fun joined :: "string \<Rightarrow> string list \<Rightarrow> string" where
  "joined sep [] = []"
| "joined sep [x] = x"
| "joined sep (x # xs) = x @ sep @ joined sep xs"

primrec show_cond :: "sql_cond \<Rightarrow> string" where
  "show_cond (Cmp column cmp n) = column @ '' '' @ cmp @ '' '' @ ph n"
| "show_cond (All cs) = joined '' AND '' (map show_cond cs)"
| "show_cond (Any sep cs) = joined sep (map show_cond cs)"
| "show_cond (Paren c) = ''('' @ show_cond c @ '')''"

definition compare_as :: "string \<Rightarrow> 'a :: linorder \<Rightarrow> 'a \<Rightarrow> bool option" where
  "compare_as cmp x y =
     (if cmp = ''='' then Some (x = y) else if cmp = ''<'' then Some (x < y) else if cmp = ''>'' then Some (x > y)
      else None)"

text \<open>Two values compare when they have the same type.\<close>

fun sql_compare :: "string \<Rightarrow> sql_arg \<Rightarrow> sql_arg \<Rightarrow> bool option" where
  "sql_compare cmp (ArgUUID x) (ArgUUID y) = compare_as cmp x y"
| "sql_compare cmp (ArgTime x) (ArgTime y) = compare_as cmp x y"
| "sql_compare cmp (ArgInt x) (ArgInt y) = compare_as cmp x y"
| "sql_compare cmp (ArgText x) (ArgText y) = (if cmp = ''='' then Some (x = y) else None)"
| "sql_compare cmp _ _ = None"

definition bool_list :: "(bool list \<Rightarrow> bool) \<Rightarrow> bool option list \<Rightarrow> bool option" where
  "bool_list f xs = (if list_all (\<lambda>x. x \<noteq> None) xs then Some (f (map the xs)) else None)"

text \<open>
  \<open>sat env row c\<close>: the truth value of \<open>c\<close> for a row and the bound parameters. A comparison of an unknown column
  or an unbound parameter, or of values of different types, makes the statement fail, whatever its position: the
  server types the whole statement before it runs it.
\<close>

primrec sat :: "(nat \<Rightarrow> sql_arg option) \<Rightarrow> (string \<Rightarrow> sql_arg option) \<Rightarrow> sql_cond \<Rightarrow> bool option" where
  "sat env row (Cmp column cmp n) =
     (case (row column, env n) of (Some x, Some y) \<Rightarrow> sql_compare cmp x y | _ \<Rightarrow> None)"
| "sat env row (All cs) = bool_list (list_all id) (map (sat env row) cs)"
| "sat env row (Any sep cs) = bool_list (list_ex id) (map (sat env row) cs)"
| "sat env row (Paren c) = sat env row c"

text \<open>\<open>$1\<close> is the first argument.\<close>

definition bound :: "sql_arg list \<Rightarrow> nat \<Rightarrow> sql_arg option" where
  "bound args n = (if 1 \<le> n \<and> n \<le> length args then Some (args ! (n - 1)) else None)"

definition task_column :: "Task \<Rightarrow> string \<Rightarrow> sql_arg option" where
  "task_column t column =
     (if column = ''id'' then Some (ArgUUID (Task_ID t))
      else if column = ''user_id'' then Some (ArgUUID (Task_UserID t))
      else if column = ''status'' then Some (ArgText (Task_Status t))
      else if column = ''priority'' then Some (ArgInt (Task_Priority t))
      else if column = ''created_at'' then Some (ArgTime (Task_CreatedAt t))
      else if column = ''updated_at'' then Some (ArgTime (Task_UpdatedAt t))
      else None)"

definition exec_column :: "TaskExecution \<Rightarrow> string \<Rightarrow> sql_arg option" where
  "exec_column e column =
     (if column = ''id'' then Some (ArgUUID (Exec_ID e))
      else if column = ''task_id'' then Some (ArgUUID (Exec_TaskID e))
      else if column = ''status'' then Some (ArgText (Exec_Status e))
      else if column = ''created_at'' then Some (ArgTime (Exec_CreatedAt e))
      else None)"

text \<open>The syntax of the conditions the code builds.\<close>

definition time_cond :: "string \<Rightarrow> string \<Rightarrow> nat \<Rightarrow> sql_cond" where
  "time_cond column cmp n =
     Paren (Any '' OR '' [Cmp column cmp n, Paren (All [Cmp column ''='' n, Cmp ''id'' cmp (n + 1)])])"

definition priority_cond :: "string \<Rightarrow> nat \<Rightarrow> sql_cond" where
  "priority_cond cmp n =
     Paren (Any or_break
       [Cmp ''priority'' cmp n,
        Paren (All [Cmp ''priority'' ''='' n, Cmp ''created_at'' cmp (n + 1)]),
        Paren (All [Cmp ''priority'' ''='' n, Cmp ''created_at'' ''='' (n + 1), Cmp ''id'' cmp (n + 2)])])"

definition order_cmp :: "string \<Rightarrow> string" where
  "order_cmp sortOrder = (if sortOrder = ''asc'' then ''>'' else ''<'')"

definition cursor_cond :: "TaskCursor \<Rightarrow> string \<Rightarrow> string \<Rightarrow> nat \<Rightarrow> sql_cond" where
  "cursor_cond cursor sortOrder sortField n =
     (if sortField = ''priority'' \<and> TC_Priority cursor \<noteq> None then priority_cond (order_cmp sortOrder) n
      else time_cond (if sortField = ''updated_at'' then ''updated_at'' else ''created_at'') (order_cmp sortOrder) n)"

lemma time_cond_text: "show_cond (time_cond column cmp n) = created_at_condition column cmp cmp n"
  by (simp add: time_cond_def created_at_condition_def)

lemma cursor_cond_text: "fst (buildCursorCondition cursor so sf n) = show_cond (cursor_cond cursor so sf n)"
  by (cases "TC_Priority cursor")
    (auto simp: buildCursorCondition_def cursor_cond_def order_cmp_def time_cond_text priority_cond_def Let_def)

definition where_text :: "sql_cond list \<Rightarrow> string" where
  "where_text cs = (if cs = [] then [] else ''WHERE '' @ show_cond (All cs))"

definition filter_conds :: "string \<Rightarrow> uuid option \<Rightarrow> string option \<Rightarrow> sql_cond list" where
  "filter_conds column owner status =
     (case owner of None \<Rightarrow> [] | Some u \<Rightarrow> [Cmp column ''='' 1]) @
     (case status of None \<Rightarrow> [] | Some st \<Rightarrow> [Cmp ''status'' ''='' (if owner = None then 1 else 2)])"

definition task_conds :: "TaskCursor option \<Rightarrow> string \<Rightarrow> string \<Rightarrow> uuid option \<Rightarrow> string option \<Rightarrow> sql_cond list" where
  "task_conds cursor so sf owner status =
     filter_conds ''user_id'' owner status @
     (case cursor of None \<Rightarrow> []
      | Some c \<Rightarrow> [cursor_cond c so sf (Suc (length (filter_conds ''user_id'' owner status)))])"

definition exec_conds :: "ExecutionCursor option \<Rightarrow> string \<Rightarrow> uuid option \<Rightarrow> string option \<Rightarrow> sql_cond list" where
  "exec_conds cursor so owner status =
     filter_conds ''task_id'' owner status @
     (case cursor of None \<Rightarrow> []
      | Some c \<Rightarrow> [time_cond ''created_at'' (order_cmp so) (Suc (length (filter_conds ''task_id'' owner status)))])"

lemma where_clause_text: "where_clause (map show_cond cs) = where_text cs"
proof -
  have "foldl (\<lambda>w x. w @ '' AND '' @ x) w xs = w @ concat (map (\<lambda>x. '' AND '' @ x) xs)" for w and xs :: "string list"
    by (induction xs arbitrary: w) auto
  moreover have "joined '' AND '' (x # xs) = x @ concat (map (\<lambda>x. '' AND '' @ x) xs)" for x and xs :: "string list"
    by (induction xs arbitrary: x) auto
  ultimately show ?thesis by (cases cs) (simp_all add: where_clause_def where_text_def)
qed

lemma cursor_condition_nonempty [simp]: "fst (buildCursorCondition c so sf n) \<noteq> []"
  by (cases "TC_Priority c") (simp_all add: buildCursorCondition_def created_at_condition_def Let_def)

lemma show_cursor_cond_nonempty [simp]: "show_cond (cursor_cond c so sf n) \<noteq> []"
  by (simp flip: cursor_cond_text)

lemma task_where_text: "fst (BuildTaskCursorWhere cursor so sf owner status) = where_text (task_conds cursor so sf owner status)"
  unfolding where_clause_text [symmetric]
  by (cases owner; cases status; cases cursor)
    (simp_all add: BuildTaskCursorWhere_def task_conds_def filter_conds_def split_beta cursor_cond_text where_clause_def
      numeral_2_eq_2 numeral_3_eq_3)

lemma exec_where_text: "fst (BuildExecutionCursorWhere cursor so owner status) = where_text (exec_conds cursor so owner status)"
  unfolding where_clause_text [symmetric]
  by (cases owner; cases status; cases cursor)
    (simp_all add: BuildExecutionCursorWhere_def exec_conds_def filter_conds_def time_cond_text order_cmp_def where_clause_def
      numeral_2_eq_2 numeral_3_eq_3)

lemma task_where_args:
  "snd (BuildTaskCursorWhere cursor so sf owner status) =
     (case owner of None \<Rightarrow> [] | Some u \<Rightarrow> [ArgUUID u]) @ (case status of None \<Rightarrow> [] | Some st \<Rightarrow> [ArgText st]) @
     (case cursor of None \<Rightarrow> [] | Some c \<Rightarrow> snd (buildCursorCondition c so sf (Suc (length (filter_conds ''user_id'' owner status)))))"
  by (cases owner; cases status; cases cursor)
    (simp_all add: BuildTaskCursorWhere_def filter_conds_def split_beta where_clause_def numeral_2_eq_2 numeral_3_eq_3)

lemma exec_where_args:
  "snd (BuildExecutionCursorWhere cursor so owner status) =
     (case owner of None \<Rightarrow> [] | Some u \<Rightarrow> [ArgUUID u]) @ (case status of None \<Rightarrow> [] | Some st \<Rightarrow> [ArgText st]) @
     (case cursor of None \<Rightarrow> [] | Some c \<Rightarrow> [ArgTime (EC_CreatedAt c), ArgTime (EC_CreatedAt c), ArgUUID (EC_ID c)])"
  by (cases owner; cases status; cases cursor)
    (simp_all add: BuildExecutionCursorWhere_def where_clause_def)

text \<open>Parameters after a prefix of arguments.\<close>

lemma bound_shift: "1 \<le> k \<Longrightarrow> bound (xs @ ys) (length xs + k) = bound ys k"
  by (auto simp: bound_def nth_append)

lemma bool_list_append:
  "bool_list (list_all id) (xs @ ys) =
     (case (bool_list (list_all id) xs, bool_list (list_all id) ys) of (Some a, Some b) \<Rightarrow> Some (a \<and> b) | _ \<Rightarrow> None)"
  by (simp add: bool_list_def)

text \<open>Rows beyond the cursor in the order of the listing.\<close>

definition beyond :: "string \<Rightarrow> 'a :: order \<Rightarrow> 'a \<Rightarrow> bool" where
  "beyond sortOrder x y = (if sortOrder = ''asc'' then y < x else x < y)"

definition sort_arguments :: "TaskCursor \<Rightarrow> string \<Rightarrow> sql_arg list" where
  "sort_arguments c sf =
     (if sf = ''priority'' then map ArgInt (case TC_Priority c of None \<Rightarrow> [] | Some p \<Rightarrow> [p]) else []) @
     [ArgTime (TC_CreatedAt c), ArgUUID (TC_ID c)]"

lemma sat_time_cond:
  assumes "row column = Some (ArgTime t)" "row ''id'' = Some (ArgUUID i)"
    and "env n = Some (ArgTime u)" "env (Suc n) = Some (ArgUUID j)"
  shows "sat env row (time_cond column (order_cmp so) n) = Some (beyond so (t, i) (u, j))"
  using assms by (auto simp: time_cond_def bool_list_def compare_as_def beyond_def order_cmp_def)

lemma sat_priority_cond:
  assumes "row ''priority'' = Some (ArgInt p)" "row ''created_at'' = Some (ArgTime t)" "row ''id'' = Some (ArgUUID i)"
    and "env n = Some (ArgInt q)" "env (Suc n) = Some (ArgTime u)" "env (Suc (Suc n)) = Some (ArgUUID j)"
  shows "sat env row (priority_cond (order_cmp so) n) = Some (beyond so (p, t, i) (q, u, j))"
  using assms by (auto simp: priority_cond_def bool_list_def compare_as_def beyond_def order_cmp_def)

lemma sat_mistyped:
  assumes "row ''id'' = Some (ArgUUID i)" and "env (Suc n) = Some (ArgTime u)"
  shows "sat env row (time_cond column cmp n) = None"
  using assms by (simp add: time_cond_def bool_list_def split: option.splits)

lemma sat_mistyped_priority:
  assumes "row ''created_at'' = Some (ArgTime t)" and "env (Suc n) = Some (ArgInt q)"
  shows "sat env row (priority_cond cmp n) = None"
  using assms by (simp add: priority_cond_def bool_list_def split: option.splits)

lemma bound_after [simp]:
  "bound (pre @ x # xs) (Suc (length pre)) = Some x"
  "bound (pre @ x # y # xs) (Suc (Suc (length pre))) = Some y"
  "bound (pre @ x # y # z # xs) (Suc (Suc (Suc (length pre)))) = Some z"
  by (simp_all add: bound_def nth_append)

lemma task_column_simps [simp]:
  "task_column t ''id'' = Some (ArgUUID (Task_ID t))"
  "task_column t ''user_id'' = Some (ArgUUID (Task_UserID t))"
  "task_column t ''status'' = Some (ArgText (Task_Status t))"
  "task_column t ''priority'' = Some (ArgInt (Task_Priority t))"
  "task_column t ''created_at'' = Some (ArgTime (Task_CreatedAt t))"
  "task_column t ''updated_at'' = Some (ArgTime (Task_UpdatedAt t))"
  by (simp_all add: task_column_def)

lemma exec_column_simps [simp]:
  "exec_column e ''id'' = Some (ArgUUID (Exec_ID e))"
  "exec_column e ''task_id'' = Some (ArgUUID (Exec_TaskID e))"
  "exec_column e ''status'' = Some (ArgText (Exec_Status e))"
  "exec_column e ''created_at'' = Some (ArgTime (Exec_CreatedAt e))"
  by (simp_all add: exec_column_def)

lemma keyset_sat:
  "sat (bound (pre @ [ArgTime u, ArgUUID j])) (task_column t) (time_cond ''created_at'' (order_cmp so) (Suc (length pre))) =
     Some (beyond so (Task_CreatedAt t, Task_ID t) (u, j))"
  "sat (bound (pre @ [ArgTime u, ArgUUID j])) (task_column t) (time_cond ''updated_at'' (order_cmp so) (Suc (length pre))) =
     Some (beyond so (Task_UpdatedAt t, Task_ID t) (u, j))"
  "sat (bound (pre @ [ArgInt p, ArgTime u, ArgUUID j])) (task_column t) (priority_cond (order_cmp so) (Suc (length pre))) =
     Some (beyond so (Task_Priority t, Task_CreatedAt t, Task_ID t) (p, u, j))"
  by (rule sat_time_cond sat_priority_cond; simp)+

text \<open>The condition of a cursor, when its parameters are bound to the values of the sort key, selects the rows
  beyond the cursor in the order of the listing: by priority, creation time and id for the field \<open>priority\<close>
  (when the cursor has one), by update time and id for \<open>updated_at\<close>, by creation time and id otherwise, the
  field \<open>name\<close> included, whose listing is ordered by name.\<close>

theorem cursor_condition_is_keyset:
  "fst (buildCursorCondition c so sf (Suc (length pre))) = show_cond (cursor_cond c so sf (Suc (length pre))) \<and>
   sat (bound (pre @ sort_arguments c sf)) (task_column t) (cursor_cond c so sf (Suc (length pre))) =
     Some (case (sf = ''priority'', TC_Priority c) of
        (True, Some p) \<Rightarrow>
          beyond so (Task_Priority t, Task_CreatedAt t, Task_ID t) (p, TC_CreatedAt c, TC_ID c)
      | _ \<Rightarrow>
          (if sf = ''updated_at'' then beyond so (Task_UpdatedAt t, Task_ID t) (TC_CreatedAt c, TC_ID c)
           else beyond so (Task_CreatedAt t, Task_ID t) (TC_CreatedAt c, TC_ID c)))"
  by (cases "TC_Priority c")
    (simp_all add: cursor_cond_text cursor_cond_def sort_arguments_def keyset_sat)

lemma length_filter_conds:
  "length (filter_conds column owner status) =
     length ((case owner of None \<Rightarrow> [] | Some u \<Rightarrow> [ArgUUID u]) @ (case status of None \<Rightarrow> [] | Some st \<Rightarrow> [ArgText st]))"
  by (simp add: filter_conds_def split: option.splits)

lemma sat_All_append:
  "sat env row (All (xs @ ys)) =
     (case (sat env row (All xs), sat env row (All ys)) of (Some a, Some b) \<Rightarrow> Some (a \<and> b) | _ \<Rightarrow> None)"
  by (simp add: bool_list_def)

lemma sat_All_None: "sat env row c = None \<Longrightarrow> sat env row (All (xs @ [c])) = None"
  by (simp add: bool_list_def)

lemma cursor_cond_mistyped:
  "sat (bound (pre @ snd (buildCursorCondition c so sf (Suc (length pre))))) (task_column t)
     (cursor_cond c so sf (Suc (length pre))) = None"
  by (cases "TC_Priority c")
    (simp_all add: cursor_cond_def buildCursorCondition_def Let_def
      sat_mistyped [of _ "Task_ID t" _ _ "TC_CreatedAt c"] sat_mistyped_priority [of _ "Task_CreatedAt t"])

text \<open>C29: Without a cursor the \<open>WHERE\<close> clause of a listing of tasks means its filters. With a cursor no row ever
  gets a truth value: the clause reuses a parameter where the argument list repeats the value, so \<open>id\<close> (or
  \<open>created_at\<close>, when sorting by priority) is compared with a value of another type, and the statement fails.\<close>

theorem task_cursor_parameters:
  "fst (BuildTaskCursorWhere cursor so sf owner status) = where_text (task_conds cursor so sf owner status) \<and>
   sat (bound (snd (BuildTaskCursorWhere cursor so sf owner status))) (task_column t)
       (All (task_conds cursor so sf owner status)) =
     (case cursor of
        None \<Rightarrow> Some ((case owner of None \<Rightarrow> True | Some u \<Rightarrow> Task_UserID t = u) \<and>
                      (case status of None \<Rightarrow> True | Some st \<Rightarrow> Task_Status t = st))
      | Some c \<Rightarrow> None)"
proof (cases cursor)
  case None
  then show ?thesis
    unfolding task_where_text task_where_args task_conds_def
    by (cases owner; cases status)
      (simp_all add: filter_conds_def task_column_def bound_def bool_list_def compare_as_def)
next
  case (Some c)
  let ?pre = "(case owner of None \<Rightarrow> [] | Some u \<Rightarrow> [ArgUUID u]) @ (case status of None \<Rightarrow> [] | Some st \<Rightarrow> [ArgText st])"
  have "sat (bound (?pre @ snd (buildCursorCondition c so sf (Suc (length ?pre))))) (task_column t)
      (All (filter_conds ''user_id'' owner status @ [cursor_cond c so sf (Suc (length ?pre))])) = None"
    by (rule sat_All_None) (rule cursor_cond_mistyped)
  with Some show ?thesis
    unfolding task_where_text task_where_args task_conds_def by (simp add: length_filter_conds)
qed

lemma exec_cond_mistyped:
  "sat (bound (pre @ [ArgTime u, ArgTime v, ArgUUID i])) (exec_column e)
     (time_cond ''created_at'' cmp (Suc (length pre))) = None"
  by (simp add: sat_mistyped [of _ "Exec_ID e" _ _ v])

text \<open>The same for the listings of executions.\<close>

lemma execution_cursor_parameters:
  "fst (BuildExecutionCursorWhere cursor so owner status) = where_text (exec_conds cursor so owner status) \<and>
   sat (bound (snd (BuildExecutionCursorWhere cursor so owner status))) (exec_column e)
       (All (exec_conds cursor so owner status)) =
     (case cursor of
        None \<Rightarrow> Some ((case owner of None \<Rightarrow> True | Some i \<Rightarrow> Exec_TaskID e = i) \<and>
                      (case status of None \<Rightarrow> True | Some st \<Rightarrow> Exec_Status e = st))
      | Some c \<Rightarrow> None)"
proof (cases cursor)
  case None
  then show ?thesis
    unfolding exec_where_text exec_where_args exec_conds_def
    by (cases owner; cases status)
      (simp_all add: filter_conds_def exec_column_def bound_def bool_list_def compare_as_def)
next
  case (Some c)
  let ?pre = "(case owner of None \<Rightarrow> [] | Some u \<Rightarrow> [ArgUUID u]) @ (case status of None \<Rightarrow> [] | Some st \<Rightarrow> [ArgText st])"
  let ?args = "[ArgTime (EC_CreatedAt c), ArgTime (EC_CreatedAt c), ArgUUID (EC_ID c)]"
  have "sat (bound (?pre @ ?args)) (exec_column e)
      (All (filter_conds ''task_id'' owner status @ [time_cond ''created_at'' (order_cmp so) (Suc (length ?pre))])) = None"
    by (rule sat_All_None) (rule exec_cond_mistyped)
  with Some show ?thesis
    unfolding exec_where_text exec_where_args exec_conds_def by (simp add: length_filter_conds)
qed

section \<open>Listings\<close>

type_synonym 'r query_engine = "string \<Rightarrow> sql_arg list \<Rightarrow> time \<Rightarrow> DB \<Rightarrow> go_error + 'r list"

definition run_query :: "'r query_engine \<Rightarrow> string \<Rightarrow> sql_arg list \<Rightarrow> Session \<Rightarrow> (go_error + 'r list) \<times> Session" where
  "run_query q text args =
     run_stmt (\<lambda>now db. case q text args now db of Inl err \<Rightarrow> Inl err | Inr rows \<Rightarrow> Inr (rows, db))"

definition nl2 :: string where "nl2 = [CHR 0x0A, CHR 0x09, CHR 0x09]"

definition task_page_query :: "string \<Rightarrow> string \<Rightarrow> nat \<Rightarrow> string" where
  "task_page_query whereClause orderClause n =
     nl2 @ ''SELECT id, user_id, name, description, script_content, script_type, status, priority, timeout_seconds, metadata, created_at, updated_at'' @
     nl2 @ ''FROM tasks'' @ nl2 @ whereClause @ nl2 @ orderClause @ nl2 @ ''LIMIT '' @ ph n @ [CHR 0x0A, CHR 0x09]"

definition exec_page_query :: "string \<Rightarrow> string \<Rightarrow> nat \<Rightarrow> string" where
  "exec_page_query whereClause orderClause n =
     nl2 @ ''SELECT id, task_id, status, return_code, stdout, stderr, execution_time_ms, memory_usage_bytes, started_at, completed_at, created_at'' @
     nl2 @ ''FROM task_executions'' @ nl2 @ whereClause @ nl2 @ orderClause @ nl2 @ ''LIMIT '' @ ph n @ [CHR 0x0A, CHR 0x09]"

text \<open>The response for the rows of a query that asked for one row more than the limit.\<close>

definition next_page :: "('r \<Rightarrow> go_error + string) \<Rightarrow> int \<Rightarrow> 'r list \<Rightarrow> go_error + 'r list \<times> CursorPaginationResponse" where
  "next_page encode limit rows0 =
     (let hasMore = (int (length rows0) > limit);
          rows = (if hasMore then take (nat limit) rows0 else rows0);
          response = zero_page\<lparr>CR_HasMore := hasMore\<rparr>
      in if hasMore \<and> length rows > 0 then
           (case encode (last rows) of
              Inl err \<Rightarrow> Inl (Wrapf ''failed to encode next cursor'' err)
            | Inr encoded \<Rightarrow> Inr (rows, response\<lparr>CR_NextCursor := Some encoded\<rparr>))
         else Inr (rows, response))"

definition decode_cursor :: "(string \<Rightarrow> go_error + 'c) \<Rightarrow> string option \<Rightarrow> go_error + 'c option" where
  "decode_cursor decode cursor =
     (case cursor of
        None \<Rightarrow> Inr None
      | Some text \<Rightarrow>
          (case decode text of Inl err \<Rightarrow> Inl (Wrapf ''invalid cursor'' err) | Inr c \<Rightarrow> Inr (Some c)))"

definition encode_task :: "TaskCursor json_codec \<Rightarrow> Task \<Rightarrow> go_error + string" where
  "encode_task J t = EncodeTaskCursor J (CreateTaskCursor (Task_ID t) (Task_CreatedAt t) (Some (Task_Priority t)))"

definition encode_exec :: "ExecutionCursor json_codec \<Rightarrow> TaskExecution \<Rightarrow> go_error + string" where
  "encode_exec J e = EncodeExecutionCursor J (CreateExecutionCursor (Exec_ID e) (Exec_CreatedAt e))"

definition tasks_cursor_page ::
    "Task query_engine \<Rightarrow> TaskCursor json_codec \<Rightarrow> string \<Rightarrow> uuid option \<Rightarrow> string option \<Rightarrow> CursorPaginationRequest \<Rightarrow>
     Session \<Rightarrow> (go_error + Task list \<times> CursorPaginationResponse) \<times> Session" where
  "tasks_cursor_page q J pre owner status req0 s =
     (let req = ValidatePaginationRequest req0
      in case decode_cursor (DecodeTaskCursor J) (CP_Cursor req) of
           Inl err \<Rightarrow> (Inl err, s)
         | Inr cursor \<Rightarrow>
             (let orderClause = buildOrderByClause (CP_SortField req) (CP_SortOrder req);
                  (whereClause, args) = BuildTaskCursorWhere cursor (CP_SortOrder req) (CP_SortField req) owner status
              in case run_query q (task_page_query whereClause orderClause (length args + 1))
                        (args @ [ArgInt (CP_Limit req + 1)]) s of
                   (Inl err, s1) \<Rightarrow> (Inl (Wrapf pre err), s1)
                 | (Inr rows, s1) \<Rightarrow> (next_page (encode_task J) (CP_Limit req) (map scan_task rows), s1)))"

definition tasks_GetByUserIDCursor ::
    "Task query_engine \<Rightarrow> TaskCursor json_codec \<Rightarrow> uuid \<Rightarrow> CursorPaginationRequest \<Rightarrow> Session \<Rightarrow>
     (go_error + Task list \<times> CursorPaginationResponse) \<times> Session" where
  "tasks_GetByUserIDCursor q J userID =
     tasks_cursor_page q J ''failed to get tasks by user ID with cursor'' (Some userID) None"

definition tasks_GetByStatusCursor ::
    "Task query_engine \<Rightarrow> TaskCursor json_codec \<Rightarrow> TaskStatus \<Rightarrow> CursorPaginationRequest \<Rightarrow> Session \<Rightarrow>
     (go_error + Task list \<times> CursorPaginationResponse) \<times> Session" where
  "tasks_GetByStatusCursor q J status =
     tasks_cursor_page q J ''failed to get tasks by status with cursor'' None (Some status)"

definition tasks_ListCursor ::
    "Task query_engine \<Rightarrow> TaskCursor json_codec \<Rightarrow> CursorPaginationRequest \<Rightarrow> Session \<Rightarrow>
     (go_error + Task list \<times> CursorPaginationResponse) \<times> Session" where
  "tasks_ListCursor q J = tasks_cursor_page q J ''failed to list tasks with cursor'' None None"

definition execs_cursor_page ::
    "TaskExecution query_engine \<Rightarrow> ExecutionCursor json_codec \<Rightarrow> string \<Rightarrow> uuid option \<Rightarrow> string option \<Rightarrow>
     CursorPaginationRequest \<Rightarrow> Session \<Rightarrow> (go_error + TaskExecution list \<times> CursorPaginationResponse) \<times> Session" where
  "execs_cursor_page q J pre taskID status req0 s =
     (let req = ValidatePaginationRequest req0
      in case decode_cursor (DecodeExecutionCursor J) (CP_Cursor req) of
           Inl err \<Rightarrow> (Inl err, s)
         | Inr cursor \<Rightarrow>
             (let orderClause = (if CP_SortOrder req = ''asc'' then ''ORDER BY created_at ASC, id ASC''
                                 else ''ORDER BY created_at DESC, id DESC'');
                  (whereClause, args) = BuildExecutionCursorWhere cursor (CP_SortOrder req) taskID status
              in case run_query q (exec_page_query whereClause orderClause (length args + 1))
                        (args @ [ArgInt (CP_Limit req + 1)]) s of
                   (Inl err, s1) \<Rightarrow> (Inl (Wrapf pre err), s1)
                 | (Inr rows, s1) \<Rightarrow> (next_page (encode_exec J) (CP_Limit req) rows, s1)))"

definition execs_GetByTaskIDCursor ::
    "TaskExecution query_engine \<Rightarrow> ExecutionCursor json_codec \<Rightarrow> uuid \<Rightarrow> CursorPaginationRequest \<Rightarrow> Session \<Rightarrow>
     (go_error + TaskExecution list \<times> CursorPaginationResponse) \<times> Session" where
  "execs_GetByTaskIDCursor q J taskID =
     execs_cursor_page q J ''failed to get task executions by task ID with cursor'' (Some taskID) None"

definition execs_GetByStatusCursor ::
    "TaskExecution query_engine \<Rightarrow> ExecutionCursor json_codec \<Rightarrow> ExecutionStatus \<Rightarrow> CursorPaginationRequest \<Rightarrow>
     Session \<Rightarrow> (go_error + TaskExecution list \<times> CursorPaginationResponse) \<times> Session" where
  "execs_GetByStatusCursor q J status =
     execs_cursor_page q J ''failed to get task executions by status with cursor'' None (Some status)"

definition execs_ListCursor ::
    "TaskExecution query_engine \<Rightarrow> ExecutionCursor json_codec \<Rightarrow> CursorPaginationRequest \<Rightarrow> Session \<Rightarrow>
     (go_error + TaskExecution list \<times> CursorPaginationResponse) \<times> Session" where
  "execs_ListCursor q J = execs_cursor_page q J ''failed to list task executions with cursor'' None None"

section \<open>Joined listings\<close>

definition set_metadata :: "string \<Rightarrow> json \<Rightarrow> Task \<Rightarrow> Task" where
  "set_metadata key v t =
     t\<lparr>Task_Metadata := Some ((case Task_Metadata t of None \<Rightarrow> Map.empty | Some m \<Rightarrow> m)(key \<mapsto> v))\<rparr>"

text \<open>\<open>LEFT JOIN task_executions ... COUNT(e.id) GROUP BY\<close> the columns of the task.\<close>

definition sql_tasks_with_count :: "uuid \<Rightarrow> int \<Rightarrow> int \<Rightarrow> time \<Rightarrow> DB \<Rightarrow> go_error + (Task \<times> int) list \<times> DB" where
  "sql_tasks_with_count userID limit offset now db =
     (case sql_page T_tasks (\<lambda>t. Task_UserID t = userID) task_order limit offset now db of
        Inl err \<Rightarrow> Inl err
      | Inr (ts, db') \<Rightarrow>
          Inr (map (\<lambda>t. (t, int (length (filter (\<lambda>e. Exec_TaskID e = Task_ID t) (T_execs db))))) ts, db'))"

definition GetTasksWithExecutionCount :: "uuid \<Rightarrow> int \<Rightarrow> int \<Rightarrow> Session \<Rightarrow> (go_error + Task list) \<times> Session" where
  "GetTasksWithExecutionCount userID limit offset s =
     (case wrap_inl ''failed to get tasks with execution count''
             (run_stmt (sql_tasks_with_count userID (page_limit limit) (page_offset offset)) s) of
        (Inl err, s') \<Rightarrow> (Inl err, s')
      | (Inr rows, s') \<Rightarrow> (Inr (map (\<lambda>(t, n). set_metadata ''execution_count'' (JNum n) (scan_task t)) rows), s'))"

text \<open>\<open>LEFT JOIN LATERAL (... ORDER BY created_at DESC LIMIT 1)\<close>\<close>

definition sql_tasks_with_latest ::
    "uuid \<Rightarrow> int \<Rightarrow> int \<Rightarrow> time \<Rightarrow> DB \<Rightarrow> go_error + (Task \<times> TaskExecution option) list \<times> DB" where
  "sql_tasks_with_latest userID limit offset now db =
     (case sql_page T_tasks (\<lambda>t. Task_UserID t = userID) task_order limit offset now db of
        Inl err \<Rightarrow> Inl err
      | Inr (ts, db') \<Rightarrow>
          Inr (map (\<lambda>t. (t, case sort_key exec_order (filter (\<lambda>e. Exec_TaskID e = Task_ID t) (T_execs db)) of
                              [] \<Rightarrow> None | e # _ \<Rightarrow> Some e)) ts, db'))"

text \<open>The identifier and the time go into the map as values; \<open>us\<close> and \<open>fmt\<close> are the text JSON makes of them.\<close>

definition GetTasksWithLatestExecution ::
    "(uuid \<Rightarrow> string) \<Rightarrow> (time \<Rightarrow> string) \<Rightarrow> uuid \<Rightarrow> int \<Rightarrow> int \<Rightarrow> Session \<Rightarrow> (go_error + Task list) \<times> Session" where
  "GetTasksWithLatestExecution us fmt userID limit offset s =
     (case wrap_inl ''failed to get tasks with latest execution''
             (run_stmt (sql_tasks_with_latest userID (page_limit limit) (page_offset offset)) s) of
        (Inl err, s') \<Rightarrow> (Inl err, s')
      | (Inr rows, s') \<Rightarrow>
          (Inr (map (\<lambda>(t0, latest).
              let t = scan_task t0
              in case latest of
                   None \<Rightarrow> t
                 | Some e \<Rightarrow>
                     set_metadata ''latest_execution''
                       (JObj [(''created_at'', JStr (fmt (Exec_CreatedAt e))), (''id'', JStr (us (Exec_ID e))),
                              (''status'', JStr (Exec_Status e))]) t) rows), s'))"

section \<open>What a page holds\<close>

lemma next_page_Inr:
  assumes "next_page encode limit rows0 = Inr (rows, resp)" and "1 \<le> limit"
  shows "rows = take (nat limit) rows0 \<and> CR_HasMore resp = (int (length rows0) > limit) \<and> CR_PrevCursor resp = None \<and>
    (case CR_NextCursor resp of
       None \<Rightarrow> \<not> CR_HasMore resp
     | Some text \<Rightarrow> CR_HasMore resp \<and> rows \<noteq> [] \<and> encode (last rows) = Inr text)"
proof (cases "int (length rows0) > limit")
  case True
  with assms(2) have "take (nat limit) rows0 \<noteq> []" by auto
  with assms True show ?thesis by (auto simp: next_page_def Let_def split: sum.splits if_splits)
next
  case False
  with assms show ?thesis by (auto simp: next_page_def Let_def)
qed

lemma run_query_Inr: "run_query q text args s = (Inr rows, s') \<Longrightarrow> se_db s' = se_db s \<and> (\<exists>db. q text args (se_now s') db = Inr rows)"
  by (auto simp: run_query_def run_stmt_def next_fault_def split: list.splits option.splits sum.splits)

lemma page_limits: "1 \<le> CP_Limit (ValidatePaginationRequest r)" "CP_Limit (ValidatePaginationRequest r) \<le> 100"
  by (simp_all add: ValidatePaginationRequest_def Let_def)

text \<open>The documented round trip of \<open>encoding/json\<close>, and rows with an identifier and a creation time.\<close>

definition faithful_codec :: "'c json_codec \<Rightarrow> bool" where
  "faithful_codec J \<longleftrightarrow> (\<forall>c data. json_Marshal J c = Inr data \<longrightarrow> data \<noteq> [] \<and> json_Unmarshal J data = Inr c)"

definition keyed_engine :: "Task query_engine \<Rightarrow> bool" where
  "keyed_engine q \<longleftrightarrow>
     (\<forall>query args now db rows. q query args now db = Inr rows \<longrightarrow>
        (\<forall>t\<in>set rows. Task_ID t \<noteq> uuid_Nil \<and> Task_CreatedAt t \<noteq> 0))"


text \<open>A codec with one cursor, and an engine that returns three tasks.\<close>

definition example_codec :: "TaskCursor json_codec" where
  "example_codec =
     \<lparr>json_Marshal = (\<lambda>c. if c = \<lparr>TC_CreatedAt = 30, TC_ID = 12, TC_Priority = Some 5\<rparr> then Inr ''{cursor}''
                         else Inl (Errorf ''out of range'')),
      json_Unmarshal = (\<lambda>d. if d = ''{cursor}'' then Inr \<lparr>TC_CreatedAt = 30, TC_ID = 12, TC_Priority = Some 5\<rparr>
                           else Inl (Errorf ''invalid character''))\<rparr>"

definition page_task :: "uuid \<Rightarrow> time \<Rightarrow> Task" where
  "page_task i created =
     \<lparr>Task_ID = i, Task_UserID = 2, Task_Name = ''t'', Task_Description = None, Task_ScriptContent = ''print(1)'',
      Task_ScriptType = ''python'', Task_Status = ''pending'', Task_Priority = 5, Task_TimeoutSeconds = 10,
      Task_Metadata = None, Task_CreatedAt = created, Task_UpdatedAt = created\<rparr>"

definition example_engine :: "Task query_engine" where
  "example_engine text args now db = Inr [page_task 11 40, page_task 12 30, page_task 13 20]"

definition example_request :: CursorPaginationRequest where
  "example_request = \<lparr>CP_Limit = 2, CP_Cursor = None, CP_SortOrder = [], CP_SortField = []\<rparr>"


end
