(* ===== verification/TaskHandler.thy ===== *)
theory TaskHandler
  imports Validation Cursor
begin

text \<open>
  The task endpoints (\<open>internal/api/handlers/task.go\<close>). A handler gets the context the middleware has left and
  runs statements in a session; its reply is the value it writes. \<open>uuid.Parse\<close>, the rendering of identifiers
  and times, the query engine and the JSON of cursors come with the environment of the API.
\<close>

section \<open>Environment and bodies\<close>

record api_env =
  ae_ParseUUID :: "string \<Rightarrow> go_error + uuid"
  ae_uuid :: "uuid \<Rightarrow> string"
  ae_format :: "time \<Rightarrow> string"
  ae_case :: casemap
  ae_engine :: "Task query_engine"
  ae_codec :: "TaskCursor json_codec"

datatype api_body =
    B_Task TaskResponse
  | B_Tasks "TaskResponse list" int int int
  | B_TasksCursor "TaskResponse list" CursorPaginationResponse int string string
  | B_Exec TaskExecutionResponse
  | B_Execs "TaskExecutionResponse list" int int int
  | B_Auth AuthResponse
  | B_User UserResponse
  | B_Message string

text \<open>The validated body, or what binding the request again gives.\<close>

definition bound_body :: "'b gin_context \<Rightarrow> 'a reply + 'b" where
  "bound_body c =
     (case cx_validated c of
        Some req \<Rightarrow> Inr req
      | None \<Rightarrow>
          (case ShouldBindJSON c of
             Inl err \<Rightarrow> Inl (FailureDetails 400 ''Invalid request format'' err)
           | Inr req \<Rightarrow> Inr req))"

section \<open>Checks\<close>

definition validateCreateRequest :: "casemap \<Rightarrow> CreateTaskRequest \<Rightarrow> go_error option" where
  "validateCreateRequest uc req =
     err_then (ValidateTaskName (CT_Name req))
    (err_then (ValidateScriptType (CT_ScriptType req))
    (err_then (ValidateScriptContent uc (CT_ScriptContent req))
    (err_then (case CT_Priority req of None \<Rightarrow> None | Some p \<Rightarrow> ValidatePriority p)
              (case CT_TimeoutSeconds req of None \<Rightarrow> None | Some t \<Rightarrow> ValidateTimeout t))))"

definition update_field :: "'v option \<Rightarrow> ('v \<Rightarrow> go_error option) \<Rightarrow> ('v \<Rightarrow> Task \<Rightarrow> Task) \<Rightarrow> go_error + Task \<Rightarrow> go_error + Task" where
  "update_field x check upd r =
     (case r of
        Inl err \<Rightarrow> Inl err
      | Inr task \<Rightarrow>
          (case x of
             None \<Rightarrow> Inr task
           | Some v \<Rightarrow> (case check v of Some err \<Rightarrow> Inl err | None \<Rightarrow> Inr (upd v task))))"

definition applyTaskUpdates :: "casemap \<Rightarrow> Task \<Rightarrow> UpdateTaskRequest \<Rightarrow> go_error + Task" where
  "applyTaskUpdates uc task req =
     (let r1 = update_field (UT_Name req) ValidateTaskName (\<lambda>v t. t\<lparr>Task_Name := v\<rparr>) (Inr task);
          r2 = update_field (UT_Description req) (\<lambda>v. None) (\<lambda>v t. t\<lparr>Task_Description := Some v\<rparr>) r1;
          r3 = update_field (UT_ScriptContent req) (ValidateScriptContent uc) (\<lambda>v t. t\<lparr>Task_ScriptContent := v\<rparr>) r2;
          r4 = update_field (UT_ScriptType req) ValidateScriptType (\<lambda>v t. t\<lparr>Task_ScriptType := v\<rparr>) r3;
          r5 = update_field (UT_Priority req) ValidatePriority (\<lambda>v t. t\<lparr>Task_Priority := v\<rparr>) r4;
          r6 = update_field (UT_TimeoutSeconds req) ValidateTimeout (\<lambda>v t. t\<lparr>Task_TimeoutSeconds := v\<rparr>) r5
      in update_field (UT_Metadata req) (\<lambda>v. None) (\<lambda>v t. t\<lparr>Task_Metadata := Some v\<rparr>) r6)"

definition parsePagination :: "(string \<Rightarrow> string) \<Rightarrow> go_error + int \<times> int" where
  "parsePagination query =
     (let limit =
            (if query ''limit'' = [] then Inr 20
             else (case Atoi (query ''limit'') of
                 Inl err \<Rightarrow> Inl (Wrapf ''invalid limit parameter'' err)
               | Inr l \<Rightarrow> (if l < 1 \<or> l > 100 then Inl (Errorf ''limit must be between 1 and 100'') else Inr l)))
      in case limit of
           Inl err \<Rightarrow> Inl err
         | Inr l \<Rightarrow>
             (if query ''offset'' = [] then Inr (l, 0)
              else (case Atoi (query ''offset'') of
                  Inl err \<Rightarrow> Inl (Wrapf ''invalid offset parameter'' err)
                | Inr offset \<Rightarrow>
                    (if offset < 0 then Inl (Errorf ''offset must be non-negative'') else Inr (l, offset)))))"

definition parseCursorPagination :: "(string \<Rightarrow> string) \<Rightarrow> go_error + CursorPaginationRequest option" where
  "parseCursorPagination query =
     (if query ''cursor'' = [] then Inr None
      else let req0 = \<lparr>CP_Limit = 20, CP_Cursor = None, CP_SortOrder = ''desc'', CP_SortField = ''created_at''\<rparr>
       in case (if query ''limit'' = [] then Inr 20
                else (case Atoi (query ''limit'') of
                    Inl err \<Rightarrow> Inl (Wrapf ''invalid limit parameter'' err) | Inr l \<Rightarrow> Inr l)) of
            Inl err \<Rightarrow> Inl err
          | Inr l \<Rightarrow>
              (let req1 = req0\<lparr>CP_Limit := l, CP_Cursor := Some (query ''cursor'')\<rparr>;
                   req2 = (if query ''sort_order'' \<noteq> [] then req1\<lparr>CP_SortOrder := query ''sort_order''\<rparr> else req1)
               in if query ''sort_field'' = [] then Inr (Some (ValidatePaginationRequest req2))
                  else if query ''sort_field'' \<notin> set validSortFields then
                    Inl (Errorf ''invalid sort_field parameter: must be one of created_at, updated_at, priority, name'')
                  else Inr (Some (ValidatePaginationRequest (req2\<lparr>CP_SortField := query ''sort_field''\<rparr>)))))"

section \<open>Handlers\<close>

definition new_task :: "uuid \<Rightarrow> User \<Rightarrow> CreateTaskRequest \<Rightarrow> Task" where
  "new_task i user req =
     (let task0 = \<lparr>Task_ID = i, Task_UserID = User_ID user, Task_Name = CT_Name req, Task_Description = CT_Description req,
                   Task_ScriptContent = CT_ScriptContent req, Task_ScriptType = CT_ScriptType req,
                   Task_Status = TaskStatusPending, Task_Priority = 5, Task_TimeoutSeconds = 300,
                   Task_Metadata = CT_Metadata req, Task_CreatedAt = 0, Task_UpdatedAt = 0\<rparr>;
          task1 = (case CT_Priority req of None \<Rightarrow> task0 | Some p \<Rightarrow> task0\<lparr>Task_Priority := p\<rparr>)
      in case CT_TimeoutSeconds req of None \<Rightarrow> task1 | Some t \<Rightarrow> task1\<lparr>Task_TimeoutSeconds := t\<rparr>)"

definition task_Create :: "api_env \<Rightarrow> CreateTaskRequest gin_context \<Rightarrow> Session \<Rightarrow> api_body reply \<times> Session" where
  "task_Create E c s =
     (case bound_body c of
        Inl r \<Rightarrow> (r, s)
      | Inr req \<Rightarrow>
          (case GetUserFromContext c of
             None \<Rightarrow> (Failure 401 ''Unauthorized'', s)
           | Some user \<Rightarrow>
               (case validateCreateRequest (ae_case E) req of
                  Some err \<Rightarrow> (Failure 400 (error_message (ae_uuid E) err), s)
                | None \<Rightarrow>
                    (let (i, s1) = new_id s
                     in case tasks_Create (Some (new_task i user req)) s1 of
                          ((Some err, _), s2) \<Rightarrow> (Failure 500 ''Failed to create task'', s2)
                        | ((None, t), s2) \<Rightarrow>
                            (Success 201 (B_Task (Task_ToResponse (ae_format E) (case t of None \<Rightarrow> new_task i user req | Some t' \<Rightarrow> t'))), s2)))))"

text \<open>The task of the request, when it exists and is the user's: the common start of four handlers.\<close>

definition own_task :: "uuid \<Rightarrow> User \<Rightarrow> Session \<Rightarrow> (api_body reply + Task) \<times> Session" where
  "own_task taskID user s =
     (case tasks_GetByID taskID s of
        (Inl err, s1) \<Rightarrow>
          (Inl (if err = Sentinel ErrTaskNotFound then Failure 404 ''Task not found''
                else Failure 500 ''Failed to retrieve task''), s1)
      | (Inr task, s1) \<Rightarrow>
          (if Task_UserID task \<noteq> User_ID user then (Inl (Failure 403 ''Access denied''), s1) else (Inr task, s1)))"

definition task_GetByID :: "api_env \<Rightarrow> 'b gin_context \<Rightarrow> Session \<Rightarrow> api_body reply \<times> Session" where
  "task_GetByID E c s =
     (case ae_ParseUUID E (cx_Param c ''id'') of
        Inl err \<Rightarrow> (Failure 400 ''Invalid task ID format'', s)
      | Inr taskID \<Rightarrow>
          (case GetUserFromContext c of
             None \<Rightarrow> (Failure 401 ''Unauthorized'', s)
           | Some user \<Rightarrow>
               (case own_task taskID user s of
                  (Inl r, s1) \<Rightarrow> (r, s1)
                | (Inr task, s1) \<Rightarrow> (Success 200 (B_Task (Task_ToResponse (ae_format E) task)), s1))))"

definition task_List :: "api_env \<Rightarrow> 'b gin_context \<Rightarrow> Session \<Rightarrow> api_body reply \<times> Session" where
  "task_List E c s =
     (case GetUserFromContext c of
        None \<Rightarrow> (Failure 401 ''Unauthorized'', s)
      | Some user \<Rightarrow>
          (case parseCursorPagination (cx_Query c) of
             Inl err \<Rightarrow> (Failure 400 (error_message (ae_uuid E) err), s)
           | Inr (Some cursorReq) \<Rightarrow>
               (case tasks_GetByUserIDCursor (ae_engine E) (ae_codec E) (User_ID user) cursorReq s of
                  (Inl err, s1) \<Rightarrow> (Failure 500 ''Failed to retrieve tasks'', s1)
                | (Inr (tasks, paginationResp), s1) \<Rightarrow>
                    (Success 200 (B_TasksCursor (map (Task_ToResponse (ae_format E)) tasks) paginationResp
                       (CP_Limit cursorReq) (CP_SortOrder cursorReq) (CP_SortField cursorReq)), s1))
           | Inr None \<Rightarrow>
               (case parsePagination (cx_Query c) of
                  Inl err \<Rightarrow> (Failure 400 (error_message (ae_uuid E) err), s)
                | Inr (limit, offset) \<Rightarrow>
                    (case tasks_GetByUserID (User_ID user) limit offset s of
                       (Inl err, s1) \<Rightarrow> (Failure 500 ''Failed to retrieve tasks'', s1)
                     | (Inr tasks, s1) \<Rightarrow>
                         (case tasks_CountByUserID (User_ID user) s1 of
                            (Inl err, s2) \<Rightarrow> (Failure 500 ''Failed to count tasks'', s2)
                          | (Inr n, s2) \<Rightarrow>
                              (Success 200 (B_Tasks (map (Task_ToResponse (ae_format E)) tasks) n limit offset), s2))))))"

text \<open>\<open>Update\<close> up to the statement that writes, and that statement with the reply.\<close>

definition task_Update_read :: "api_env \<Rightarrow> UpdateTaskRequest gin_context \<Rightarrow> Session \<Rightarrow> (api_body reply + Task) \<times> Session" where
  "task_Update_read E c s =
     (case ae_ParseUUID E (cx_Param c ''id'') of
        Inl err \<Rightarrow> (Inl (Failure 400 ''Invalid task ID format''), s)
      | Inr taskID \<Rightarrow>
          (case bound_body c of
             Inl r \<Rightarrow> (Inl r, s)
           | Inr req \<Rightarrow>
               (case GetUserFromContext c of
                  None \<Rightarrow> (Inl (Failure 401 ''Unauthorized''), s)
                | Some user \<Rightarrow>
                    (case own_task taskID user s of
                       (Inl r, s1) \<Rightarrow> (Inl r, s1)
                     | (Inr task, s1) \<Rightarrow>
                         (if Task_Status task = TaskStatusRunning then (Inl (Failure 409 ''Cannot update running task''), s1)
                          else (case applyTaskUpdates (ae_case E) task req of
                              Inl err \<Rightarrow> (Inl (Failure 400 (error_message (ae_uuid E) err)), s1)
                            | Inr task' \<Rightarrow> (Inr task', s1)))))))"

definition task_Update_write :: "api_env \<Rightarrow> Task \<Rightarrow> Session \<Rightarrow> api_body reply \<times> Session" where
  "task_Update_write E task s =
     (case tasks_Update (Some task) s of
        ((Some err, _), s1) \<Rightarrow> (Failure 500 ''Failed to update task'', s1)
      | ((None, t), s1) \<Rightarrow>
          (Success 200 (B_Task (Task_ToResponse (ae_format E) (case t of None \<Rightarrow> task | Some t' \<Rightarrow> t'))), s1))"

definition task_Update :: "api_env \<Rightarrow> UpdateTaskRequest gin_context \<Rightarrow> Session \<Rightarrow> api_body reply \<times> Session" where
  "task_Update E c s =
     (case task_Update_read E c s of
        (Inl r, s1) \<Rightarrow> (r, s1)
      | (Inr task, s1) \<Rightarrow> task_Update_write E task s1)"

definition task_Delete :: "api_env \<Rightarrow> 'b gin_context \<Rightarrow> Session \<Rightarrow> api_body reply \<times> Session" where
  "task_Delete E c s =
     (case ae_ParseUUID E (cx_Param c ''id'') of
        Inl err \<Rightarrow> (Failure 400 ''Invalid task ID format'', s)
      | Inr taskID \<Rightarrow>
          (case GetUserFromContext c of
             None \<Rightarrow> (Failure 401 ''Unauthorized'', s)
           | Some user \<Rightarrow>
               (case own_task taskID user s of
                  (Inl r, s1) \<Rightarrow> (r, s1)
                | (Inr task, s1) \<Rightarrow>
                    (if Task_Status task = TaskStatusRunning then (Failure 409 ''Cannot delete running task'', s1)
                     else (case tasks_Delete taskID s1 of
                         (Some err, s2) \<Rightarrow> (Failure 500 ''Failed to delete task'', s2)
                       | (None, s2) \<Rightarrow> (Success 200 (B_Message ''Task deleted successfully''), s2))))))"

section \<open>Requests\<close>

lemma ToLower_Nil [simp]: "ToLower uc [] = []"
  by (simp add: ToLower_def is_ascii_def)

text \<open>What the tags of \<open>CreateTaskRequest\<close> accept, the handler's own validation accepts too, with one
  exception: the tags count the characters of the script, the handler its bytes without surrounding space.\<close>

theorem tags_then_handler_checks:
  assumes "tags_CreateTaskRequest uc req = []"
  shows "validateCreateRequest uc req =
     (if length (TrimSpace (CT_ScriptContent req)) > 65535
      then Some (Errorf ''script content is too long (max 65535 characters)'') else None)"
proof -
  let ?n = "CT_Name req" and ?sc = "CT_ScriptContent req"
  from assms have n: "?n \<noteq> []" "vm_validateTaskName ?n" and sc: "?sc \<noteq> []" "vm_validateScriptContent uc ?sc"
    and ty: "vm_validateScriptType (CT_ScriptType req)"
    and p: "case CT_Priority req of None \<Rightarrow> True | Some p \<Rightarrow> 0 \<le> p \<and> p \<le> 10"
    and t: "case CT_TimeoutSeconds req of None \<Rightarrow> True | Some t \<Rightarrow> 1 \<le> t \<and> t \<le> 3600"
    by (auto simp: tags_CreateTaskRequest_def tag_defs split: option.splits)
  have "ValidateTaskName ?n = None"
    using n by (auto simp: ValidateTaskName_def vm_validateTaskName_def Let_def split: if_splits)
  moreover have "ValidateScriptType (CT_ScriptType req) = None"
    using ty by (auto simp: vm_validateScriptType_def ValidateScriptType_def)
  moreover have "ToLower uc (TrimSpace ?sc) \<noteq> []" "\<not> Contains (ToLower uc (TrimSpace ?sc)) ''rm -rf''"
    using sc(2) by (auto simp: vm_validateScriptContent_def vm_dangerousPatterns_def Let_def split: if_splits)
  ultimately show ?thesis
    using p t sc(1) by (auto simp: validateCreateRequest_def ValidateScriptContent_def ValidatePriority_def
        ValidateTimeout_def Let_def split: option.splits)
qed

definition plain_request :: CreateTaskRequest where
  "plain_request =
     \<lparr>CT_Name = ''nightly job'', CT_Description = None, CT_ScriptContent = ''print(42)'', CT_ScriptType = ''python'',
      CT_Priority = Some 7, CT_TimeoutSeconds = None, CT_Metadata = None\<rparr>"

theorem tags_then_handler_checks_witness: "validateCreateRequest id plain_request = None"
proof -
  have v: "vm_validateTaskName ''nightly job''" "vm_validateScriptContent id ''print(42)''" "vm_validateScriptType ''python''"
      "utf8_length ''nightly job'' = 11" "utf8_length ''print(42)'' = 9" "TrimSpace ''print(42)'' = ''print(42)''"
    by code_simp+
  then have "tags_CreateTaskRequest id plain_request = []"
    by (simp add: tags_CreateTaskRequest_def tag_defs plain_request_def check_optional_def)
  from tags_then_handler_checks [OF this] v(6) show ?thesis by (simp add: plain_request_def)
qed

text \<open>The page parameters: a limit and an offset printed in decimal are accepted exactly in the ranges 1 to 100
  and from 0, and then read back; whatever the texts, an accepted limit is between 1 and 100 and an accepted offset
  is not negative and fits 64 bits; missing parameters mean 20 and 0.\<close>

theorem pagination_bounds:
  assumes "i64_range l" and "i64_range p"
    and "printed = (\<lambda>key. if key = ''limit'' then show_int l else if key = ''offset'' then show_int p else [])"
  shows "(\<exists>r. parsePagination printed = Inr r) = (1 \<le> l \<and> l \<le> 100 \<and> 0 \<le> p) \<and>
     (case parsePagination printed of Inl err \<Rightarrow> True | Inr r \<Rightarrow> r = (l, p)) \<and>
     (case parsePagination query of Inl err \<Rightarrow> True | Inr (limit, offset) \<Rightarrow> 1 \<le> limit \<and> limit \<le> 100 \<and> 0 \<le> offset \<and> i64_range offset) \<and>
     parsePagination (\<lambda>key. []) = Inr (20, 0)"
proof -
  have ne: "show_int i \<noteq> []" for i
    using show_nat_digits [of "nat i"] show_nat_digits [of "nat (- i)"] by (simp add: show_int_def)
  have a: "Atoi (show_int l) = Inr l" "Atoi (show_int p) = Inr p"
    using assms(1,2) by (simp_all add: Atoi_def ParseInt64_show_int)
  have "i64_range 0" by (simp add: i64_range_def)
  then have "case parsePagination query of Inl err \<Rightarrow> True
      | Inr (limit, offset) \<Rightarrow> 1 \<le> limit \<and> limit \<le> 100 \<and> 0 \<le> offset \<and> i64_range offset"
    by (auto simp: parsePagination_def Atoi_def Let_def not_less dest: ParseInt64_range split: sum.splits if_splits)
  moreover have "parsePagination printed =
     (if l < 1 \<or> l > 100 then Inl (Errorf ''limit must be between 1 and 100'')
      else if p < 0 then Inl (Errorf ''offset must be non-negative'') else Inr (l, p))"
    by (simp add: parsePagination_def assms(3) ne a)
  moreover have "parsePagination (\<lambda>key. []) = Inr (20, 0)" by (simp add: parsePagination_def)
  ultimately show ?thesis by auto
qed

theorem pagination_bounds_witness:
  "parsePagination (\<lambda>key. if key = ''limit'' then show_int 5 else if key = ''offset'' then show_int 10 else []) = Inr (5, 10)"
proof -
  let ?q = "\<lambda>key. if key = ''limit'' then show_int 5 else if key = ''offset'' then show_int 10 else []"
  have "i64_range 5" "i64_range 10" by (simp_all add: i64_range_def)
  from pagination_bounds [OF this, of ?q ?q] show ?thesis by (auto split: sum.splits)
qed

section \<open>Who may do what\<close>

text \<open>\<open>own_row c E db t\<close>: the request names the stored task \<open>t\<close> of its authenticated user.\<close>

definition own_row :: "api_env \<Rightarrow> 'b gin_context \<Rightarrow> DB \<Rightarrow> Task \<Rightarrow> bool" where
  "own_row E c db t \<longleftrightarrow>
     (\<exists>user taskID. cx_user c = Some user \<and> ae_ParseUUID E (cx_Param c ''id'') = Inr taskID \<and>
        get_row Task_ID taskID (T_tasks db) = Some t \<and> Task_UserID t = User_ID user)"

lemma own_task_Inr:
  assumes "own_task taskID user s = (Inr task, s1)"
  shows "\<exists>t. task = scan_task t \<and> get_row Task_ID taskID (T_tasks (se_db s)) = Some t \<and> Task_UserID t = User_ID user \<and>
    se_db s1 = se_db s"
proof -
  from assms obtain t where "tasks_GetByID taskID s = (Inr task, s1)" "Task_UserID task = User_ID user"
    by (auto simp: own_task_def split: sum.splits prod.splits if_splits)
  with tasks_GetByID_Inr [OF this(1)] show ?thesis by (auto simp: scan_task_def)
qed

lemma own_task_Inl: "own_task taskID user s = (Inl r, s1) \<Longrightarrow> se_db s1 = se_db s"
  by (auto simp: own_task_def split: sum.splits prod.splits if_splits dest: tasks_GetByID_Inl tasks_GetByID_Inr)

lemma update_field_keeps:
  assumes "update_field x check upd r = Inr t'" and "\<And>v t. K (upd v t) = K t"
  shows "\<exists>t. r = Inr t \<and> K t' = K t"
  using assms by (auto simp: update_field_def split: sum.splits option.splits)

lemma applyTaskUpdates_keeps:
  assumes "applyTaskUpdates uc t req = Inr t'"
  shows "Task_ID t' = Task_ID t \<and> Task_UserID t' = Task_UserID t \<and> Task_Status t' = Task_Status t \<and>
    Task_CreatedAt t' = Task_CreatedAt t"
  using assms unfolding applyTaskUpdates_def Let_def
  by (auto dest!: update_field_keeps [where K = "\<lambda>t. (Task_ID t, Task_UserID t, Task_Status t, Task_CreatedAt t)"])

lemma tasks_Update_db:
  assumes "tasks_Update (Some task) s = (r, s1)"
  shows "if fst r = None
    then (\<exists>t row. get_row Task_ID (Task_ID task) (T_tasks (se_db s)) = Some t \<and>
      row = t\<lparr>Task_Name := Task_Name task, Task_Description := Task_Description task,
              Task_ScriptContent := Task_ScriptContent task, Task_ScriptType := Task_ScriptType task,
              Task_Status := Task_Status task, Task_Priority := Task_Priority task,
              Task_TimeoutSeconds := Task_TimeoutSeconds task, Task_Metadata := Task_Metadata task,
              Task_UpdatedAt := se_now s\<rparr> \<and>
      se_db s1 = (se_db s)\<lparr>T_tasks := put_row Task_ID row (T_tasks (se_db s))\<rparr>)
    else se_db s1 = se_db s"
  using assms
  by (auto simp: tasks_Update_def sql_update_task_def Let_def split: sum.splits prod.splits option.splits if_splits
      dest!: run_stmt_Inr run_stmt_Inl)

lemma tasks_Update_row:
  assumes "tasks_Update (Some task) s = (r, s1)" and "fst r = None"
  obtains t row where "get_row Task_ID (Task_ID task) (T_tasks (se_db s)) = Some t"
    "Task_ID row = Task_ID t" "Task_UserID row = Task_UserID t" "Task_Status row = Task_Status task"
    "Task_CreatedAt row = Task_CreatedAt t" "se_db s1 = (se_db s)\<lparr>T_tasks := put_row Task_ID row (T_tasks (se_db s))\<rparr>"
proof -
  from tasks_Update_db [OF assms(1)] assms(2) obtain t row where f:
      "get_row Task_ID (Task_ID task) (T_tasks (se_db s)) = Some t"
      "se_db s1 = (se_db s)\<lparr>T_tasks := put_row Task_ID row (T_tasks (se_db s))\<rparr>"
    and row: "row = t\<lparr>Task_Name := Task_Name task, Task_Description := Task_Description task,
              Task_ScriptContent := Task_ScriptContent task, Task_ScriptType := Task_ScriptType task,
              Task_Status := Task_Status task, Task_Priority := Task_Priority task,
              Task_TimeoutSeconds := Task_TimeoutSeconds task, Task_Metadata := Task_Metadata task,
              Task_UpdatedAt := se_now s\<rparr>" by metis
  show ?thesis by (rule that [OF f(1) _ _ _ _ f(2)]) (simp_all add: row)
qed

lemma tasks_Delete_db:
  assumes "tasks_Delete i s = (r, s1)"
  shows "se_db s1 = se_db s \<or> (se_db s1 = cascade_task i (se_db s) \<and> r = fail_if (get_row Task_ID i (T_tasks (se_db s)) = None) (Sentinel ErrTaskNotFound))"
  using assms
  by (auto simp: tasks_Delete_def sql_delete_task_def split: sum.splits prod.splits option.splits if_splits
      dest!: run_stmt_Inr run_stmt_Inl)

lemma task_Update_effect:
  assumes u: "task_Update E c s = (r, s1)"
  shows "se_db s1 = se_db s \<or>
      (\<exists>t row. own_row E c (se_db s) t \<and> Task_Status t \<noteq> TaskStatusRunning \<and> reply_code r = 200 \<and>
         Task_ID row = Task_ID t \<and> Task_UserID row = Task_UserID t \<and> Task_Status row = Task_Status t \<and>
         Task_CreatedAt row = Task_CreatedAt t \<and>
         se_db s1 = (se_db s)\<lparr>T_tasks := put_row Task_ID row (T_tasks (se_db s))\<rparr>)"
proof (cases "task_Update_read E c s")
  case (Pair q s0)
  show ?thesis
  proof (cases q)
    case (Inl a)
    then show ?thesis using u Pair 
      by (auto simp: task_Update_def task_Update_read_def split: sum.splits option.splits prod.splits if_splits dest: own_task_Inl own_task_Inr)
  next
    case (Inr task')
    with Pair obtain user taskID task req where
        p: "ae_ParseUUID E (cx_Param c ''id'') = Inr taskID" "cx_user c = Some user"
        "own_task taskID user s = (Inr task, s0)" "Task_Status task \<noteq> TaskStatusRunning"
        "applyTaskUpdates (ae_case E) task req = Inr task'"
      by (auto simp: task_Update_read_def GetUserFromContext_def split: sum.splits option.splits prod.splits if_splits)
    from own_task_Inr [OF p(3)] obtain t where t: "task = scan_task t" 
        "get_row Task_ID taskID (T_tasks (se_db s)) = Some t" "Task_UserID t = User_ID user" "se_db s0 = se_db s" by blast
    note k = applyTaskUpdates_keeps [OF p(5)]
    have o: "own_row E c (se_db s) t" using p t by (auto simp: own_row_def)
    have i: "Task_ID task' = taskID" using k t get_row_Some [OF t(2)] by (simp add: scan_task_def)
    obtain w where w: "tasks_Update (Some task') s0 = (w, s1)" and rc: "fst w = None \<Longrightarrow> reply_code r = 200"
      using u Pair Inr by (auto simp: task_Update_def task_Update_write_def split: prod.splits option.splits)
    show ?thesis
    proof (cases "se_db s1 = se_db s")
      case False
      with t(4) tasks_Update_db [OF w] have fst: "fst w = None" by (auto split: if_splits)
      from tasks_Update_row [OF w this] t(2,4) i obtain row where row:
          "Task_ID row = Task_ID t" "Task_UserID row = Task_UserID t" "Task_Status row = Task_Status task'"
          "Task_CreatedAt row = Task_CreatedAt t"
          "se_db s1 = (se_db s)\<lparr>T_tasks := put_row Task_ID row (T_tasks (se_db s))\<rparr>"
        by (metis option.inject)
      moreover have "Task_Status task' = Task_Status t" "Task_Status t \<noteq> TaskStatusRunning"
        using k t(1) p(4) by (simp_all add: scan_task_def)
      ultimately show ?thesis using o rc [OF fst] by (intro disjI2 exI [of _ t] exI [of _ row]) simp
    qed simp
  qed
qed

lemma task_Delete_effect:
  assumes "task_Delete E d s = (r, s1)"
  shows "se_db s1 = se_db s \<or>
      (\<exists>t. own_row E d (se_db s) t \<and> Task_Status t \<noteq> TaskStatusRunning \<and> reply_code r = 200 \<and>
         se_db s1 = cascade_task (Task_ID t) (se_db s))"
  using assms
  by (auto simp: task_Delete_def GetUserFromContext_def own_row_def fail_if_def scan_task_def
      split: sum.splits option.splits prod.splits if_splits
      dest!: own_task_Inl own_task_Inr tasks_Delete_db dest: get_row_Some)

text \<open>Whatever the request and whatever statement fails, updating or deleting a task through the API changes
  the database only with the reply 200, only for the authenticated user's own task and only when that task was not
  running when it was read: the update replaces that one row and keeps its id, owner, status and creation time; the
  deletion takes the row and its executions. Nothing else is touched.\<close>

theorem task_writes_are_own:
  "(case task_Update E c s of (r, s1) \<Rightarrow>
      se_db s1 = se_db s \<or>
      (\<exists>t row. own_row E c (se_db s) t \<and> Task_Status t \<noteq> TaskStatusRunning \<and> reply_code r = 200 \<and>
         Task_ID row = Task_ID t \<and> Task_UserID row = Task_UserID t \<and> Task_Status row = Task_Status t \<and>
         Task_CreatedAt row = Task_CreatedAt t \<and>
         se_db s1 = (se_db s)\<lparr>T_tasks := put_row Task_ID row (T_tasks (se_db s))\<rparr>)) \<and>
   (case task_Delete E d s of (r, s1) \<Rightarrow>
      se_db s1 = se_db s \<or>
      (\<exists>t. own_row E d (se_db s) t \<and> Task_Status t \<noteq> TaskStatusRunning \<and> reply_code r = 200 \<and>
         se_db s1 = cascade_task (Task_ID t) (se_db s)))"
proof -
  obtain r s1 r' s1' where x: "task_Update E c s = (r, s1)" "task_Delete E d s = (r', s1')" by (metis prod.collapse)
  show ?thesis
    unfolding x prod.case by (intro conjI task_Update_effect [OF x(1)] task_Delete_effect [OF x(2)])
qed

text \<open>C37: The check for a running task is made on a read, and the update writes the whole row back. When an execution
  is created between the two, the update still answers 200 and puts the old status back: the pending execution
  stays, the task is no longer marked running, and nothing stops its owner from starting a second one.\<close>

theorem stale_update_unmarks_running_task:
  assumes "task_Update_read E c s = (Inr task, s1)"
    and "CreateExecutionAndUpdateTaskStatus (Task_ID task) uid s1 = ((None, Some e), s2)"
    and "task_Update_write E task s2 = (r, s3)" and "reply_code r = 200" and "se_faults s3 = []"
  shows "(\<exists>t. get_row Task_ID (Task_ID task) (T_tasks (se_db s2)) = Some t \<and> Task_Status t = TaskStatusRunning) \<and>
     get_row Exec_ID (Exec_ID e) (T_execs (se_db s3)) = Some e \<and> IsPending e \<and> Exec_TaskID e = Task_ID task \<and>
     create_check (Task_ID task) uid s3 = (None, s3)"
proof -
  let ?tid = "Task_ID task"
  from assms(1) obtain user taskID task0 req s0 where
      p: "own_task taskID user s = (Inr task0, s0)" "applyTaskUpdates (ae_case E) task0 req = Inr task" "s1 = s0"
    by (auto simp: task_Update_read_def split: sum.splits option.splits prod.splits if_splits)
  from own_task_Inr [OF p(1)] obtain t where t: "task0 = scan_task t"
      "get_row Task_ID taskID (T_tasks (se_db s)) = Some t" "se_db s1 = se_db s" using p(3) by blast
  have k: "taskID = ?tid" "Task_Status task = Task_Status t"
    using applyTaskUpdates_keeps [OF p(2)] get_row_Some [OF t(2)] t(1) by (simp_all add: scan_task_def)
  from assms(2) have "WithTransaction (create_tx ?tid uid) None s1 = ((None, Some e), s2)"
    by (auto simp: CreateExecutionAndUpdateTaskStatus_def split: prod.splits option.splits)
  from create.all_or_nothing [OF this] t(2,3) k(1)
  have c: "Task_UserID t = uid" "executable_status (Task_Status t)" "Exec_TaskID e = ?tid" "IsPending e"
      "get_row Exec_ID (Exec_ID e) (T_execs (se_db s)) = None"
      "se_db s2 = (se_db s)\<lparr>T_execs := T_execs (se_db s) @ [e],
         T_tasks := put_row Task_ID (t\<lparr>Task_Status := TaskStatusRunning, Task_UpdatedAt := se_now s1\<rparr>) (T_tasks (se_db s))\<rparr>"
    by (auto simp: create_effect_def)
  from c(6) t(2) k(1) get_row_Some [OF t(2)] have r2: "get_row Task_ID ?tid (T_tasks (se_db s2)) =
      Some (t\<lparr>Task_Status := TaskStatusRunning, Task_UpdatedAt := se_now s1\<rparr>)"
    by (simp add: get_row_put)
  from assms(3,4) obtain w where w: "tasks_Update (Some task) s2 = (w, s3)" "fst w = None"
    by (auto simp: task_Update_write_def split: prod.splits option.splits)
  from tasks_Update_row [OF this] obtain t2 row where row: "get_row Task_ID ?tid (T_tasks (se_db s2)) = Some t2"
      "Task_ID row = Task_ID t2" "Task_UserID row = Task_UserID t2" "Task_Status row = Task_Status task"
      "se_db s3 = (se_db s2)\<lparr>T_tasks := put_row Task_ID row (T_tasks (se_db s2))\<rparr>" by metis
  have "get_row Task_ID ?tid (T_tasks (se_db s3)) = Some row"
    using row r2 get_row_Some [OF t(2)] k(1) by (auto simp: get_row_put)
  from create_check_run [OF assms(5) this] have "create_check ?tid uid s3 = (None, s3)"
    using row r2 c(1,2) k(2) by auto
  moreover have "get_row Exec_ID (Exec_ID e) (T_execs (se_db s3)) = Some e"
    using row(5) c(5,6) by (simp add: get_row_append)
  ultimately show ?thesis using r2 c(3,4) by simp
qed

definition demo_env :: api_env where
  "demo_env =
     \<lparr>ae_ParseUUID = (\<lambda>s. if s = ''1'' then Inr 1 else Inl (ExternalErr ''invalid UUID'')), ae_uuid = (\<lambda>i. ''1''),
      ae_format = (\<lambda>t. []), ae_case = id, ae_engine = (\<lambda>q args now db. Inr []),
      ae_codec = \<lparr>json_Marshal = (\<lambda>c. Inl (ExternalErr ''json'')), json_Unmarshal = (\<lambda>s. Inl (ExternalErr ''json''))\<rparr>\<rparr>"

definition demo_context :: "'b \<Rightarrow> 'b gin_context" where
  "demo_context b =
     \<lparr>cx_Authorization = [], cx_Param = (\<lambda>k. ''1''), cx_Query = (\<lambda>k. []), cx_ClientIP = [], cx_ContentLength = 0,
      cx_Bind = (\<lambda>n. Inr b), cx_limit = None, cx_user = Some example_user, cx_validated = None\<rparr>"

definition describe :: UpdateTaskRequest where
  "describe =
     \<lparr>UT_Name = None, UT_Description = Some ''new'', UT_ScriptContent = None, UT_ScriptType = None, UT_Priority = None,
      UT_TimeoutSeconds = None, UT_Metadata = None\<rparr>"

abbreviation demo_session :: Session where "demo_session \<equiv> fresh_session (demo_db [])"
abbreviation demo_edited :: Task where "demo_edited \<equiv> (scan_task demo_task)\<lparr>Task_Description := Some ''new''\<rparr>"

lemma demo_read: "task_Update_read demo_env (demo_context describe) demo_session = (Inr demo_edited, demo_session)"
  by (simp add: task_Update_read_def bound_body_def ShouldBindJSON_def demo_env_def demo_context_def GetUserFromContext_def own_task_def
      tasks_GetByID_run [where t = demo_task] fresh_session_def demo_db_def applyTaskUpdates_def update_field_def describe_def
      demo_task_def stored_task_def scan_task_def example_user_def)

theorem stale_update_unmarks_running_task_witness:
  "\<exists>e s2 s3. CreateExecutionAndUpdateTaskStatus 1 2 demo_session = ((None, Some e), s2) \<and>
     task_Update_write demo_env demo_edited s2 = (Success 200 (B_Task (Task_ToResponse (ae_format demo_env) (demo_edited\<lparr>Task_UpdatedAt := 100\<rparr>))), s3) \<and>
     IsPending e \<and> create_check 1 2 s3 = (None, s3)"
proof -
  let ?e = "(new_execution 50 1)\<lparr>Exec_CreatedAt := 100\<rparr>"
  define s2 where "s2 = demo_session\<lparr>se_ids := 1, se_db := (demo_db [?e])\<lparr>T_tasks := [demo_task\<lparr>Task_Status := TaskStatusRunning, Task_UpdatedAt := 100\<rparr>]\<rparr>\<rparr>"
  have w: "create_write 1 demo_session = ((None, Some ?e), s2)"
    using create_write_run [where s = demo_session and tid = 1 and t = demo_task and i = 50] demo_db_ok(1)
    by (simp add: fresh_session_def demo_db_def demo_task_def stored_task_def new_id_def s2_def new_execution_def put_row_def)
  have "create_check 1 2 demo_session = (None, demo_session)"
    using create_check_run [where s = demo_session and i = 1 and t = demo_task]
    by (simp add: fresh_session_def demo_db_def demo_task_def stored_task_def executable_status_def)
  with w have "create_tx 1 2 demo_session = ((None, Some ?e), s2)" by (simp add: create_tx_def)
  then have c: "CreateExecutionAndUpdateTaskStatus 1 2 demo_session = ((None, Some ?e), s2)"
    by (simp add: CreateExecutionAndUpdateTaskStatus_def WithTransaction_run s2_def fresh_session_def)
  obtain s3 where u: "task_Update_write demo_env demo_edited s2 = (Success 200 (B_Task (Task_ToResponse (ae_format demo_env) (demo_edited\<lparr>Task_UpdatedAt := 100\<rparr>))), s3)"
      "se_faults s3 = []"
  proof -
    have "pg_text ''new''" by code_simp
    with demo_rows_ok(2) have "row_ok_task (demo_edited\<lparr>Task_UpdatedAt := 100\<rparr>)"
      by (simp add: row_ok_task_def type_task_def check_task_def scan_task_def opt_text_def)
    then show ?thesis
      by (intro that [of "s2\<lparr>se_db := (se_db s2)\<lparr>T_tasks := [demo_edited\<lparr>Task_UpdatedAt := 100\<rparr>]\<rparr>\<rparr>"])
        (simp_all add: task_Update_write_def tasks_Update_def run_stmt_no_fault sql_update_task_def s2_def fresh_session_def
          row_ok_task_def scan_task_def demo_task_def stored_task_def put_row_def Let_def)
  qed
  have i: "Task_ID demo_edited = 1" by (simp add: scan_task_def demo_task_def)
  from stale_update_unmarks_running_task [OF demo_read _ u(1) _ u(2), of 2 ?e, unfolded i] c
  have "IsPending ?e \<and> create_check 1 2 s3 = (None, s3)" by simp
  with c u(1) show ?thesis by blast
qed

text \<open>C36: A task accepted by the API is stored as the request says and is its owner's alone: the reply is 201 with
  the new row, which belongs to the authenticated user, is pending, and has the defaults 5 and 300 where the
  request is silent; nothing else changes. Asking for its id then gives that row to the owner and 403 to
  anybody else.\<close>

theorem created_task_is_the_owners:
  assumes "task_Create E c s = (Success code body, s1)" and "se_faults s1 = []"
  shows "\<exists>req user t. (bound_body c :: api_body reply + CreateTaskRequest) = Inr req \<and> cx_user c = Some user \<and> code = 201 \<and>
     validateCreateRequest (ae_case E) req = None \<and>
     t = (new_task (Task_ID t) user req)\<lparr>Task_CreatedAt := se_now s, Task_UpdatedAt := se_now s\<rparr> \<and>
     body = B_Task (Task_ToResponse (ae_format E) t) \<and>
     se_db s1 = (se_db s)\<lparr>T_tasks := T_tasks (se_db s) @ [t]\<rparr> \<and>
     (\<forall>(d :: 'd gin_context) u. ae_ParseUUID E (cx_Param d ''id'') = Inr (Task_ID t) \<and> cx_user d = Some u \<longrightarrow>
        task_GetByID E d s1 =
          (if User_ID u = User_ID user then Success 200 (B_Task (Task_ToResponse (ae_format E) (scan_task t)))
           else Failure 403 ''Access denied'', s1))"
proof -
  obtain i s0 where 0: "new_id s = (i, s0)" by fastforce
  from assms(1) obtain req user where p: "(bound_body c :: api_body reply + CreateTaskRequest) = Inr req" "cx_user c = Some user"
      "validateCreateRequest (ae_case E) req = None"
    by (auto simp: task_Create_def bound_body_def GetUserFromContext_def split: sum.splits option.splits prod.splits)
  obtain e t0 s' where w: "tasks_Create (Some (new_task i user req)) s0 = ((e, t0), s')" by (metis prod.collapse)
  with assms(1) p 0 have e: "e = None" "s' = s1"
    by (auto simp: task_Create_def GetUserFromContext_def split: option.splits)
  with w obtain t where t: "t0 = Some t"
    by (auto simp: tasks_Create_def Let_def split: sum.splits option.splits prod.splits)
  with assms(1) p 0 w e have r: "code = 201" "body = B_Task (Task_ToResponse (ae_format E) t)"
    by (auto simp: task_Create_def GetUserFromContext_def)
  from 0 have s0: "se_db s0 = se_db s" "se_now s0 = se_now s" by (auto simp: new_id_def)
  from tasks_Create_row [OF w [unfolded t e]] s0 obtain j where
      j: "t = (new_task i user req)\<lparr>Task_ID := j, Task_CreatedAt := se_now s, Task_UpdatedAt := se_now s\<rparr>"
      "get_row Task_ID (Task_ID t) (T_tasks (se_db s)) = None" "se_db s1 = (se_db s)\<lparr>T_tasks := T_tasks (se_db s) @ [t]\<rparr>"
    by auto
  have "(new_task i user req)\<lparr>Task_ID := j\<rparr> = new_task j user req" 
    by (simp add: new_task_def Let_def split: option.split)
  with j(1) have new: "t = (new_task (Task_ID t) user req)\<lparr>Task_CreatedAt := se_now s, Task_UpdatedAt := se_now s\<rparr>"
    by (metis Task.select_convs(1) Task.surjective Task.update_convs(1,11,12))
  have owner: "Task_UserID t = User_ID user" by (subst new) (simp add: new_task_def Let_def split: option.split)
  from j have "get_row Task_ID (Task_ID t) (T_tasks (se_db s1)) = Some t" by (simp add: get_row_append)
  with assms(2) have g: "tasks_GetByID (Task_ID t) s1 = (Inr (scan_task t), s1)" by (simp add: tasks_GetByID_run)
  have "task_GetByID E d s1 =
          (if User_ID u = User_ID user then Success 200 (B_Task (Task_ToResponse (ae_format E) (scan_task t)))
           else Failure 403 ''Access denied'', s1)"
    if "ae_ParseUUID E (cx_Param d ''id'') = Inr (Task_ID t)" "cx_user d = Some u" for d :: "'d gin_context" and u
    using that owner g by (auto simp: task_GetByID_def GetUserFromContext_def own_task_def scan_task_def)
  then have "\<forall>(d :: 'd gin_context) u. ae_ParseUUID E (cx_Param d ''id'') = Inr (Task_ID t) \<and> cx_user d = Some u \<longrightarrow>
        task_GetByID E d s1 =
          (if User_ID u = User_ID user then Success 200 (B_Task (Task_ToResponse (ae_format E) (scan_task t)))
           else Failure 403 ''Access denied'', s1)" by blast
  with p r j(3) new show ?thesis by blast
qed

theorem created_task_is_the_owners_witness:
  "\<exists>t s1. task_Create demo_env (demo_context plain_request) demo_session = (Success 201 (B_Task (Task_ToResponse (ae_format demo_env) t)), s1) \<and>
     Task_UserID t = 2 \<and> Task_Status t = TaskStatusPending \<and> Task_Priority t = 7 \<and> Task_TimeoutSeconds t = 300"
proof -
  let ?r = "task_Create demo_env (demo_context plain_request) demo_session"
  have "(case ?r of (Success code body, s1) \<Rightarrow> se_faults s1 = [] | _ \<Rightarrow> False)" by code_simp
  then obtain code body s1 where r: "?r = (Success code body, s1)" "se_faults s1 = []"
    by (auto split: prod.splits reply.splits)
  from created_task_is_the_owners [OF this] obtain t where
    t: "t = (new_task (Task_ID t) example_user plain_request)\<lparr>Task_CreatedAt := 100, Task_UpdatedAt := 100\<rparr>"
      "code = 201" "body = B_Task (Task_ToResponse (ae_format demo_env) t)"
    by (auto simp: demo_context_def bound_body_def ShouldBindJSON_def fresh_session_def)
  have "Task_UserID t = 2 \<and> Task_Status t = TaskStatusPending \<and> Task_Priority t = 7 \<and> Task_TimeoutSeconds t = 300"
    by (subst t(1), subst t(1), subst t(1), subst t(1)) (simp add: new_task_def plain_request_def example_user_def)
  with r(1) t(2,3) show ?thesis by blast
qed

text \<open>What the checks of a create request leave to the types of the columns: bytes PostgreSQL cannot store as text.\<close>

lemma checked_row:
  assumes "tags_CreateTaskRequest uc req = []" and "validateCreateRequest uc req = None"
  shows "check_task ((new_task i user req)\<lparr>Task_CreatedAt := c, Task_UpdatedAt := u\<rparr>) = None"
    "(type_task ((new_task i user req)\<lparr>Task_CreatedAt := c, Task_UpdatedAt := u\<rparr>) = None) =
       (pg_text (CT_Name req) \<and> opt_text (CT_Description req) \<and> pg_text (CT_ScriptContent req))"
proof -
  from assms(1) have n: "utf8_length (CT_Name req) \<le> 255"
    by (auto simp: tags_CreateTaskRequest_def tag_defs)
  from assms(2) have ty: "CT_ScriptType req \<in> {ScriptTypePython, ScriptTypeJavaScript, ScriptTypeBash, ScriptTypeGo}"
    and p: "case CT_Priority req of None \<Rightarrow> True | Some p \<Rightarrow> 0 \<le> p \<and> p \<le> 10"
    and t: "case CT_TimeoutSeconds req of None \<Rightarrow> True | Some t \<Rightarrow> 0 < t \<and> t \<le> 3600"
    by (auto simp: validateCreateRequest_def ValidateScriptType_def ValidatePriority_def ValidateTimeout_def split: option.splits if_splits)
  have k: "pg_text ty \<and> utf8_length ty \<le> 50 \<and> ty \<in> set script_types"
    if "ty \<in> {ScriptTypePython, ScriptTypeJavaScript, ScriptTypeBash, ScriptTypeGo}" for ty
  proof -
    have "\<forall>ty \<in> {ScriptTypePython, ScriptTypeJavaScript, ScriptTypeBash, ScriptTypeGo}.
        pg_text ty \<and> utf8_length ty \<le> 50 \<and> ty \<in> set script_types" by code_simp
    with that show ?thesis by blast
  qed
  have s: "pg_text TaskStatusPending" "utf8_length TaskStatusPending \<le> 50" "TaskStatusPending \<in> set task_statuses" by code_simp+
  show "check_task ((new_task i user req)\<lparr>Task_CreatedAt := c, Task_UpdatedAt := u\<rparr>) = None"
    using k [OF ty] s p t by (simp add: check_task_def new_task_def Let_def split: option.splits)
  show "(type_task ((new_task i user req)\<lparr>Task_CreatedAt := c, Task_UpdatedAt := u\<rparr>) = None) =
       (pg_text (CT_Name req) \<and> opt_text (CT_Description req) \<and> pg_text (CT_ScriptContent req))"
    using k [OF ty] s p t n by (auto simp: type_task_def new_task_def int4_def Let_def split: option.splits)
qed


abbreviation nul_request :: CreateTaskRequest where
  "nul_request \<equiv> plain_request\<lparr>CT_ScriptContent := ''print(42)'' @ [CHR 0x00]\<rparr>"


end
