(* ===== verification/ExecutionHandler.thy ===== *)
theory ExecutionHandler
  imports TaskHandler
begin

text \<open>
  The execution endpoints (\<open>internal/api/handlers/task_execution.go\<close>). The handler's service is an interface; the
  routes pass the one of \<open>internal/services\<close>, so its operations are called here. Errors of the service come back as
  texts, and the handler compares the texts. A success without an execution would make \<open>Create\<close> panic (the
  recovery of the logger answers 500); it never happens.
\<close>

section \<open>Handlers\<close>

definition exec_Create :: "api_env \<Rightarrow> 'b gin_context \<Rightarrow> Session \<Rightarrow> api_body reply \<times> Session" where
  "exec_Create E c s =
     (case ae_ParseUUID E (cx_Param c ''id'') of
        Inl err \<Rightarrow> (Failure 400 ''Invalid task ID format'', s)
      | Inr taskID \<Rightarrow>
          (case GetUserFromContext c of
             None \<Rightarrow> (Failure 401 ''Unauthorized'', s)
           | Some user \<Rightarrow>
               (case CreateExecutionAndUpdateTaskStatus taskID (User_ID user) s of
                  ((Some err, _), s1) \<Rightarrow>
                    (let msg = error_message (ae_uuid E) err
                     in if msg = ''task not found'' then Failure 404 ''Task not found''
                        else if msg = ''access denied: task does not belong to user'' then Failure 403 ''Access denied''
                        else if msg = ''task is already running'' then Failure 409 ''Task is already running''
                        else if HasPrefix msg ''cannot execute task with status:'' then Failure 409 msg
                        else Failure 500 ''Failed to create task execution'', s1)
                | ((None, Some execution), s1) \<Rightarrow>
                    (Success 201 (B_Exec (Exec_ToResponse (ae_format E) execution)), s1)
                | ((None, None), s1) \<Rightarrow> (Failure 500 ''Internal server error'', s1))))"

definition exec_GetByID :: "api_env \<Rightarrow> 'b gin_context \<Rightarrow> Session \<Rightarrow> api_body reply \<times> Session" where
  "exec_GetByID E c s =
     (case ae_ParseUUID E (cx_Param c ''id'') of
        Inl err \<Rightarrow> (Failure 400 ''Invalid execution ID format'', s)
      | Inr executionID \<Rightarrow>
          (case GetUserFromContext c of
             None \<Rightarrow> (Failure 401 ''Unauthorized'', s)
           | Some user \<Rightarrow>
               (case execs_GetByID executionID s of
                  (Inl err, s1) \<Rightarrow>
                    (if err = Sentinel ErrExecutionNotFound then Failure 404 ''Execution not found''
                     else Failure 500 ''Failed to retrieve execution'', s1)
                | (Inr execution, s1) \<Rightarrow>
                    (case tasks_GetByID (Exec_TaskID execution) s1 of
                       (Inl err, s2) \<Rightarrow> (Failure 500 ''Failed to retrieve task'', s2)
                     | (Inr task, s2) \<Rightarrow>
                         (if Task_UserID task \<noteq> User_ID user then Failure 403 ''Access denied''
                          else Success 200 (B_Exec (Exec_ToResponse (ae_format E) execution)), s2)))))"

text \<open>\<open>parsePagination\<close> of this handler is a copy of the one of the task handlers.\<close>

definition exec_parsePagination :: "(string \<Rightarrow> string) \<Rightarrow> go_error + int \<times> int" where
  "exec_parsePagination query =
     (let limit =
            (if query ''limit'' = [] then Inr 20
             else (case Atoi (query ''limit'') of
                 Inl err \<Rightarrow> Inl (Wrapf ''invalid limit parameter'' err)
               | Inr l \<Rightarrow> (if l < 1 \<or> l > 100 then Inl (Errorf ''limit must be between 1 and 100'') else Inr l)))
      in case limit of
           Inl err \<Rightarrow> Inl err
         | Inr l \<Rightarrow>
             (if query ''offset'' = [] then Inr (l, 0)
              else (case Atoi (query ''offset'') of
                  Inl err \<Rightarrow> Inl (Wrapf ''invalid offset parameter'' err)
                | Inr offset \<Rightarrow>
                    (if offset < 0 then Inl (Errorf ''offset must be non-negative'') else Inr (l, offset)))))"

lemma exec_parsePagination_eq [simp]: "exec_parsePagination query = parsePagination query"
  by (simp add: exec_parsePagination_def parsePagination_def)

definition exec_ListByTaskID :: "api_env \<Rightarrow> 'b gin_context \<Rightarrow> Session \<Rightarrow> api_body reply \<times> Session" where
  "exec_ListByTaskID E c s =
     (case ae_ParseUUID E (cx_Param c ''id'') of
        Inl err \<Rightarrow> (Failure 400 ''Invalid task ID format'', s)
      | Inr taskID \<Rightarrow>
          (case GetUserFromContext c of
             None \<Rightarrow> (Failure 401 ''Unauthorized'', s)
           | Some user \<Rightarrow>
               (case own_task taskID user s of
                  (Inl r, s1) \<Rightarrow> (r, s1)
                | (Inr task, s1) \<Rightarrow>
                    (case exec_parsePagination (cx_Query c) of
                       Inl err \<Rightarrow> (Failure 400 (error_message (ae_uuid E) err), s1)
                     | Inr (limit, offset) \<Rightarrow>
                         (case execs_GetByTaskID taskID limit offset s1 of
                            (Inl err, s2) \<Rightarrow> (Failure 500 ''Failed to retrieve executions'', s2)
                          | (Inr executions, s2) \<Rightarrow>
                              (case execs_CountByTaskID taskID s2 of
                                 (Inl err, s3) \<Rightarrow> (Failure 500 ''Failed to count executions'', s3)
                               | (Inr n, s3) \<Rightarrow>
                                   (Success 200 (B_Execs (map (Exec_ToResponse (ae_format E)) executions) n limit offset), s3)))))))"

definition exec_Cancel :: "api_env \<Rightarrow> 'b gin_context \<Rightarrow> Session \<Rightarrow> api_body reply \<times> Session" where
  "exec_Cancel E c s =
     (case ae_ParseUUID E (cx_Param c ''id'') of
        Inl err \<Rightarrow> (Failure 400 ''Invalid execution ID format'', s)
      | Inr executionID \<Rightarrow>
          (case GetUserFromContext c of
             None \<Rightarrow> (Failure 401 ''Unauthorized'', s)
           | Some user \<Rightarrow>
               (case CancelExecutionAndResetTaskStatus executionID (User_ID user) s of
                  ((Some err, _), s1) \<Rightarrow>
                    (let msg = error_message (ae_uuid E) err
                     in if msg = ''execution not found'' then Failure 404 ''Execution not found''
                        else if msg = ''access denied: task does not belong to user'' then Failure 403 ''Access denied''
                        else if HasPrefix msg ''cannot cancel execution with status:'' then Failure 409 msg
                        else Failure 500 ''Failed to cancel execution'', s1)
                | ((None, _), s1) \<Rightarrow> (Success 200 (B_Message ''Execution cancelled successfully''), s1))))"

definition set_some :: "'v option \<Rightarrow> ('v option \<Rightarrow> 'r \<Rightarrow> 'r) \<Rightarrow> 'r \<Rightarrow> 'r" where
  "set_some x upd r = (case x of None \<Rightarrow> r | Some v \<Rightarrow> upd (Some v) r)"

definition applyExecutionUpdates :: "TaskExecution \<Rightarrow> UpdateTaskExecutionRequest \<Rightarrow> go_error + TaskExecution" where
  "applyExecutionUpdates execution req =
     (case (case UE_Status req of
              None \<Rightarrow> Inr execution
            | Some status \<Rightarrow>
                (case ValidateExecutionStatus status of
                   Some err \<Rightarrow> Inl err
                 | None \<Rightarrow> Inr (execution\<lparr>Exec_Status := status\<rparr>))) of
        Inl err \<Rightarrow> Inl err
      | Inr e0 \<Rightarrow>
          (let e1 = set_some (UE_ReturnCode req) (\<lambda>v e. e\<lparr>Exec_ReturnCode := v\<rparr>) e0;
               e2 = set_some (UE_Stdout req) (\<lambda>v e. e\<lparr>Exec_Stdout := v\<rparr>) e1;
               e3 = set_some (UE_Stderr req) (\<lambda>v e. e\<lparr>Exec_Stderr := v\<rparr>) e2;
               e4 = set_some (UE_ExecutionTimeMs req) (\<lambda>v e. e\<lparr>Exec_ExecutionTimeMs := v\<rparr>) e3;
               e5 = set_some (UE_MemoryUsageBytes req) (\<lambda>v e. e\<lparr>Exec_MemoryUsageBytes := v\<rparr>) e4;
               e6 = set_some (UE_StartedAt req) (\<lambda>v e. e\<lparr>Exec_StartedAt := v\<rparr>) e5
           in Inr (set_some (UE_CompletedAt req) (\<lambda>v e. e\<lparr>Exec_CompletedAt := v\<rparr>) e6)))"

definition terminal_task_status :: "ExecutionStatus \<Rightarrow> TaskStatus" where
  "terminal_task_status status =
     (if status = ExecutionStatusCompleted then TaskStatusCompleted
      else if status = ExecutionStatusFailed then TaskStatusFailed
      else if status = ExecutionStatusTimeout then TaskStatusTimeout
      else if status = ExecutionStatusCancelled then TaskStatusCancelled
      else TaskStatusPending)"

definition exec_Update :: "api_env \<Rightarrow> UpdateTaskExecutionRequest gin_context \<Rightarrow> Session \<Rightarrow> api_body reply \<times> Session" where
  "exec_Update E c s =
     (case ae_ParseUUID E (cx_Param c ''id'') of
        Inl err \<Rightarrow> (Failure 400 ''Invalid execution ID format'', s)
      | Inr executionID \<Rightarrow>
          (case bound_body c of
             Inl r \<Rightarrow> (r, s)
           | Inr req \<Rightarrow>
               (case GetUserFromContext c of
                  None \<Rightarrow> (Failure 401 ''Unauthorized'', s)
                | Some user \<Rightarrow>
                    (case execs_GetByID executionID s of
                       (Inl err, s1) \<Rightarrow>
                         (if err = Sentinel ErrExecutionNotFound then Failure 404 ''Execution not found''
                          else Failure 500 ''Failed to retrieve execution'', s1)
                     | (Inr execution0, s1) \<Rightarrow>
                         (case applyExecutionUpdates execution0 req of
                            Inl err \<Rightarrow> (Failure 400 (error_message (ae_uuid E) err), s1)
                          | Inr execution \<Rightarrow>
                              (if IsTerminal execution then
                                 (case CompleteExecutionAndFinalizeTaskStatus execution
                                         (terminal_task_status (Exec_Status execution)) (User_ID user) s1 of
                                    ((Some err, _), s2) \<Rightarrow>
                                      (let msg = error_message (ae_uuid E) err
                                       in if msg = ''execution not found'' then Failure 404 ''Execution not found''
                                          else if msg = ''access denied: task does not belong to user''
                                            then Failure 403 ''Access denied''
                                          else if HasPrefix msg ''cannot complete execution with status:''
                                            then Failure 409 msg
                                          else Failure 500 ''Failed to update execution'', s2)
                                  | ((None, _), s2) \<Rightarrow>
                                      (Success 200 (B_Exec (Exec_ToResponse (ae_format E) execution)), s2))
                               else
                                 (case tasks_GetByID (Exec_TaskID execution) s1 of
                                    (Inl err, s2) \<Rightarrow> (Failure 500 ''Failed to retrieve task'', s2)
                                  | (Inr task, s2) \<Rightarrow>
                                      (if Task_UserID task \<noteq> User_ID user then (Failure 403 ''Access denied'', s2)
                                       else (case execs_Update (Some execution) s2 of
                                           (Some err, s3) \<Rightarrow> (Failure 500 ''Failed to update execution'', s3)
                                         | (None, s3) \<Rightarrow>
                                             (Success 200 (B_Exec (Exec_ToResponse (ae_format E) execution)), s3))))))))))"

section \<open>Who may change what\<close>

text \<open>\<open>own_exec E c db e t\<close>: the request names the stored execution \<open>e\<close> of the task \<open>t\<close> of its authenticated user.\<close>

definition own_exec :: "api_env \<Rightarrow> 'b gin_context \<Rightarrow> DB \<Rightarrow> TaskExecution \<Rightarrow> Task \<Rightarrow> bool" where
  "own_exec E c db e t \<longleftrightarrow>
     (\<exists>user executionID. cx_user c = Some user \<and> ae_ParseUUID E (cx_Param c ''id'') = Inr executionID \<and>
        get_row Exec_ID executionID (T_execs db) = Some e \<and>
        get_row Task_ID (Exec_TaskID e) (T_tasks db) = Some t \<and> Task_UserID t = User_ID user)"

lemma set_some_keeps: "(\<And>v r. K (upd v r) = K r) \<Longrightarrow> K (set_some x upd r) = K r"
  by (simp add: set_some_def split: option.split)

lemmas set_some_selectors = set_some_keeps [where K = Exec_ID] set_some_keeps [where K = Exec_TaskID]
  set_some_keeps [where K = Exec_CreatedAt] set_some_keeps [where K = Exec_Status]

lemma applyExecutionUpdates_keeps:
  assumes "applyExecutionUpdates e req = Inr e'"
  shows "Exec_ID e' = Exec_ID e \<and> Exec_TaskID e' = Exec_TaskID e \<and> Exec_CreatedAt e' = Exec_CreatedAt e \<and>
     Exec_Status e' = (case UE_Status req of None \<Rightarrow> Exec_Status e | Some st \<Rightarrow> st)"
  using assms
  by (auto simp: applyExecutionUpdates_def set_some_selectors Let_def split: sum.splits option.splits)

lemma execs_GetByID_Inl: "execs_GetByID i s = (Inl e, s') \<Longrightarrow> se_db s' = se_db s"
  by (auto simp: execs_GetByID_def split: prod.splits sum.splits dest!: run_stmt_Inl)

lemma execs_Update_Some: "execs_Update (Some x) s = (Some err, s') \<Longrightarrow> se_db s' = se_db s"
  by (auto simp: execs_Update_def sql_update_exec_def Let_def split: prod.splits sum.splits option.splits if_splits
      dest!: run_stmt_Inl run_stmt_Inr)

text \<open>The part of \<open>exec_Update\<close> behind its checks.\<close>

lemma exec_Update_cases:
  assumes "exec_Update E c s = (r, s1)" and "se_db s1 \<noteq> se_db s"
  obtains user executionID req e e' s0 where "cx_user c = Some user" "ae_ParseUUID E (cx_Param c ''id'') = Inr executionID"
    "(bound_body c :: api_body reply + _) = Inr req" "execs_GetByID executionID s = (Inr e, s0)" "applyExecutionUpdates e req = Inr e'"
proof -
  obtain executionID where p: "ae_ParseUUID E (cx_Param c ''id'') = Inr executionID"
    using assms by (cases "ae_ParseUUID E (cx_Param c ''id'')") (auto simp: exec_Update_def)
  obtain req where b: "(bound_body c :: api_body reply + _) = Inr req"
    using assms p by (cases "bound_body c :: api_body reply + _") (auto simp: exec_Update_def)
  obtain user where u: "cx_user c = Some user"
    using assms p b by (cases "cx_user c") (auto simp: exec_Update_def GetUserFromContext_def)
  obtain q s0 where "execs_GetByID executionID s = (q, s0)" by fastforce
  with assms p b u obtain e where e: "execs_GetByID executionID s = (Inr e, s0)"
    by (cases q) (auto simp: exec_Update_def GetUserFromContext_def dest: execs_GetByID_Inl)
  with assms p b u execs_GetByID_Inr [OF e] obtain e' where "applyExecutionUpdates e req = Inr e'"
    by (cases "applyExecutionUpdates e req") (auto simp: exec_Update_def GetUserFromContext_def)
  from that [OF u p b e this] show ?thesis .
qed

lemma exec_Create_effect:
  assumes "exec_Create E c s = (r, s1)"
  shows "se_db s1 = se_db s \<or>
      reply_code r = 201 \<and> (\<exists>user taskID row. cx_user c = Some user \<and> ae_ParseUUID E (cx_Param c ''id'') = Inr taskID \<and>
         r = Success 201 (B_Exec (Exec_ToResponse (ae_format E) row)) \<and>
         create_effect taskID (User_ID user) (se_now s) (se_db s) (Some row) (se_db s1))"
proof (cases "se_db s1 = se_db s")
  case False
  with assms obtain taskID user where p: "ae_ParseUUID E (cx_Param c ''id'') = Inr taskID" "cx_user c = Some user"
    by (auto simp: exec_Create_def GetUserFromContext_def split: sum.splits option.splits)
  obtain e x s' where w: "WithTransaction (create_tx taskID (User_ID user)) None s = ((e, x), s')" by (metis prod.collapse)
  from create.all_or_nothing [OF w] w assms p False show ?thesis
    by (cases e; cases x) (auto simp: exec_Create_def GetUserFromContext_def CreateExecutionAndUpdateTaskStatus_def create_effect_def Let_def)
qed simp

lemma exec_Cancel_effect:
  assumes "exec_Cancel E c s = (r, s1)"
  shows "se_db s1 = se_db s \<or>
      reply_code r = 200 \<and> (\<exists>e t. own_exec E c (se_db s) e t \<and> cancellable e \<and>
         se_db s1 = (se_db s)\<lparr>T_execs := put_row Exec_ID (cancelled_row e) (T_execs (se_db s)),
           T_tasks := put_row Task_ID (t\<lparr>Task_Status := TaskStatusPending, Task_UpdatedAt := se_now s\<rparr>) (T_tasks (se_db s))\<rparr>)"
proof (cases "se_db s1 = se_db s")
  case False
  with assms obtain executionID user where p: "ae_ParseUUID E (cx_Param c ''id'') = Inr executionID" "cx_user c = Some user"
    by (auto simp: exec_Cancel_def GetUserFromContext_def split: sum.splits option.splits)
  obtain e u s' where w: "WithTransaction (cancel_tx executionID (User_ID user)) () s = ((e, u), s')" by (metis prod.collapse)
  with assms p have s': "s' = s1" "e = None \<Longrightarrow> reply_code r = 200"
    by (auto simp: exec_Cancel_def GetUserFromContext_def CancelExecutionAndResetTaskStatus_def Let_def split: option.splits)
  from cancel.all_or_nothing [OF w] False s' have "reply_code r = 200"
      "exec_effect executionID (User_ID user) cancellable cancelled_row TaskStatusPending (se_now s) (se_db s) u (se_db s1)"
    by (auto split: if_splits)
  with p show ?thesis unfolding exec_effect_def own_exec_def by blast
qed simp

lemma terminal_task_status: "IsTerminal e \<Longrightarrow> terminal_task_status (Exec_Status e) = Exec_Status e"
  by (auto simp: IsTerminal_def terminal_task_status_def)

lemma exec_Update_effect:
  assumes "exec_Update E d s = (r, s1)"
  shows "se_db s1 = se_db s \<or>
      reply_code r = 200 \<and> (\<exists>e t row. own_exec E d (se_db s) e t \<and> row_ok_exec row \<and>
         Exec_ID row = Exec_ID e \<and> Exec_TaskID row = Exec_TaskID e \<and> Exec_CreatedAt row = Exec_CreatedAt e \<and>
         se_db s1 =
           (if IsTerminal row
            then (se_db s)\<lparr>T_execs := put_row Exec_ID row (T_execs (se_db s)),
              T_tasks := put_row Task_ID (t\<lparr>Task_Status := Exec_Status row, Task_UpdatedAt := se_now s\<rparr>) (T_tasks (se_db s))\<rparr>
            else (se_db s)\<lparr>T_execs := put_row Exec_ID row (T_execs (se_db s))\<rparr>) \<and>
         (if IsTerminal row then completable e else True))"
proof (cases "se_db s1 = se_db s")
  case False
  from exec_Update_cases [OF assms this] obtain user executionID req e e' s0 where
      p: "cx_user d = Some user" "ae_ParseUUID E (cx_Param d ''id'') = Inr executionID"
      "(bound_body d :: api_body reply + _) = Inr req" "execs_GetByID executionID s = (Inr e, s0)"
      "applyExecutionUpdates e req = Inr e'" by metis
  note e = execs_GetByID_Inr [OF p(4)] and k = applyExecutionUpdates_keeps [OF p(5)]
  have id: "Exec_ID e' = executionID" using e k get_row_Some [of Exec_ID] by metis
  have row: "result_row e' e = e'" using k by simp
  show ?thesis
  proof (cases "IsTerminal e'")
    case True
    obtain f u s' where w: "WithTransaction (complete_tx e' (Exec_Status e') (User_ID user)) () s0 = ((f, u), s')"
      by (metis prod.collapse)
    with assms p True have s': "s' = s1" "f = None \<Longrightarrow> reply_code r = 200"
      by (auto simp: exec_Update_def GetUserFromContext_def CompleteExecutionAndFinalizeTaskStatus_def terminal_task_status Let_def split: option.splits)
    from complete.all_or_nothing [OF w] False s' e have "reply_code r = 200"
        "exec_effect executionID (User_ID user) (\<lambda>e. completable e \<and> row_ok_exec e') (result_row e') (Exec_Status e') (se_now s) (se_db s) u (se_db s1)"
      by (auto simp: id split: if_splits)
    then obtain t where t: "reply_code r = 200" "get_row Task_ID (Exec_TaskID e) (T_tasks (se_db s)) = Some t" "Task_UserID t = User_ID user"
        "completable e" "row_ok_exec e'" "se_db s1 = (se_db s)\<lparr>T_execs := put_row Exec_ID e' (T_execs (se_db s)),
              T_tasks := put_row Task_ID (t\<lparr>Task_Status := Exec_Status e', Task_UpdatedAt := se_now s\<rparr>) (T_tasks (se_db s))\<rparr>"
      using e row by (auto simp: exec_effect_def)
    have "own_exec E d (se_db s) e t" using p(1,2) e t by (auto simp: own_exec_def)
    with t True k show ?thesis by (intro disjI2 conjI exI [of _ e] exI [of _ t] exI [of _ e']) simp_all
  next
    case no: False
    obtain q s2 where g: "tasks_GetByID (Exec_TaskID e') s0 = (q, s2)" by fastforce
    with assms p no False e obtain task where "q = Inr task"
      by (cases q) (auto simp: exec_Update_def GetUserFromContext_def dest: tasks_GetByID_Inl)
    with g have g: "tasks_GetByID (Exec_TaskID e') s0 = (Inr task, s2)" by simp
    from tasks_GetByID_Inr [OF g] e k obtain t where t: "get_row Task_ID (Exec_TaskID e) (T_tasks (se_db s)) = Some t" "task = scan_task t"
        "se_db s2 = se_db s" by auto
    obtain f s' where w: "execs_Update (Some e') s2 = (f, s')" by fastforce
    have own: "Task_UserID t = User_ID user" "f = None \<and> s' = s1 \<and> reply_code r = 200"
      using assms p no g False w t execs_Update_Some
      by (auto simp: exec_Update_def GetUserFromContext_def scan_task_def split: if_splits option.splits)
    from own(2) w t(3) e row id have "row_ok_exec e'" "se_db s1 = (se_db s)\<lparr>T_execs := put_row Exec_ID e' (T_execs (se_db s))\<rparr>"
      by (auto dest!: execs_Update_None)
    moreover have "own_exec E d (se_db s) e t" using p(1,2) e t own by (auto simp: own_exec_def)
    ultimately show ?thesis using no k own(2) by (intro disjI2 conjI exI [of _ e] exI [of _ t] exI [of _ e']) simp_all
  qed
qed simp

text \<open>Whatever the request and whatever statement fails, the execution endpoints change the database only with a
  reply of 2xx and only below the authenticated user's own task. A creation adds a pending execution and marks the
  task running; a cancellation cancels the execution and resets the task; an update rewrites the one execution,
  keeping its id, task and creation time, and sets the status of the task exactly when the new status is
  terminal, which is refused for a completed or cancelled execution.\<close>

theorem execution_writes_are_own:
  "(case exec_Create E c s of (r, s1) \<Rightarrow>
      se_db s1 = se_db s \<or>
      reply_code r = 201 \<and> (\<exists>user taskID row. cx_user c = Some user \<and> ae_ParseUUID E (cx_Param c ''id'') = Inr taskID \<and>
         r = Success 201 (B_Exec (Exec_ToResponse (ae_format E) row)) \<and>
         create_effect taskID (User_ID user) (se_now s) (se_db s) (Some row) (se_db s1))) \<and>
   (case exec_Cancel E c s of (r, s1) \<Rightarrow>
      se_db s1 = se_db s \<or>
      reply_code r = 200 \<and> (\<exists>e t. own_exec E c (se_db s) e t \<and> cancellable e \<and>
         se_db s1 = (se_db s)\<lparr>T_execs := put_row Exec_ID (cancelled_row e) (T_execs (se_db s)),
           T_tasks := put_row Task_ID (t\<lparr>Task_Status := TaskStatusPending, Task_UpdatedAt := se_now s\<rparr>) (T_tasks (se_db s))\<rparr>)) \<and>
   (case exec_Update E d s of (r, s1) \<Rightarrow>
      se_db s1 = se_db s \<or>
      reply_code r = 200 \<and> (\<exists>e t row. own_exec E d (se_db s) e t \<and> row_ok_exec row \<and>
         Exec_ID row = Exec_ID e \<and> Exec_TaskID row = Exec_TaskID e \<and> Exec_CreatedAt row = Exec_CreatedAt e \<and>
         se_db s1 =
           (if IsTerminal row
            then (se_db s)\<lparr>T_execs := put_row Exec_ID row (T_execs (se_db s)),
              T_tasks := put_row Task_ID (t\<lparr>Task_Status := Exec_Status row, Task_UpdatedAt := se_now s\<rparr>) (T_tasks (se_db s))\<rparr>
            else (se_db s)\<lparr>T_execs := put_row Exec_ID row (T_execs (se_db s))\<rparr>) \<and>
         (if IsTerminal row then completable e else True)))"
proof -
  obtain r1 s1 r2 s2 r3 s3 where x: "exec_Create E c s = (r1, s1)" "exec_Cancel E c s = (r2, s2)" "exec_Update E d s = (r3, s3)"
    by (metis prod.collapse)
  show ?thesis
    unfolding x prod.case
    by (intro conjI exec_Create_effect [OF x(1)] exec_Cancel_effect [OF x(2)] exec_Update_effect [OF x(3)])
qed

section \<open>What the texts of errors hide\<close>

text \<open>C39: For an execution that does not exist the three endpoints that take one answer 500, never the 404 their code and
  documentation name: the lookup does not return the sentinel they compare with, and the service wraps its
  error. A task that does not exist is reported as 404.\<close>

theorem missing_execution_answers_500:
  assumes "se_faults s = []" and "ae_ParseUUID E (cx_Param c ''id'') = Inr i" and "cx_user c = Some user"
    and "get_row Exec_ID i (T_execs (se_db s)) = None"
    and "bound_body c = (Inr req :: api_body reply + UpdateTaskExecutionRequest)"
  shows "exec_GetByID E c s = (Failure 500 ''Failed to retrieve execution'', s) \<and>
     exec_Cancel E c s = (Failure 500 ''Failed to cancel execution'', s) \<and>
     exec_Update E c s = (Failure 500 ''Failed to retrieve execution'', s) \<and>
     (if get_row Task_ID i (T_tasks (se_db s)) = None
      then exec_Create E c s = (Failure 404 ''Task not found'', s) \<and>
           exec_ListByTaskID E c s = (Failure 404 ''Task not found'', s)
      else True)"
proof -
  have g: "execs_GetByID i s = (Inl (ErrorfID ''task execution with ID '' i '' not found''), s)"
    using assms(1,4) by (simp add: execs_GetByID_def run_stmt_no_fault sql_get_def)
  have t: "get_row Task_ID i (T_tasks (se_db s)) = None \<Longrightarrow> tasks_GetByID i s = (Inl (Sentinel ErrTaskNotFound), s)"
    using assms(1) by (simp add: tasks_GetByID_def run_stmt_no_fault sql_get_def)
  have w: "CancelExecutionAndResetTaskStatus i (User_ID user) s =
      ((Some (Wrapf ''failed to get execution'' (ErrorfID ''task execution with ID '' i '' not found'')), ()), s)"
    using assms(1)
    by (simp add: CancelExecutionAndResetTaskStatus_def WithTransaction_def next_fault_def cancel_tx_def owned_execution_def g)
  have w2: "get_row Task_ID i (T_tasks (se_db s)) = None \<Longrightarrow>
      CreateExecutionAndUpdateTaskStatus i (User_ID user) s = ((Some (Errorf ''task not found''), None), s)"
    using assms(1)
    by (simp add: CreateExecutionAndUpdateTaskStatus_def WithTransaction_def next_fault_def create_tx_def create_check_def t)
  show ?thesis
    using assms(2,3,5) g w w2 t
    by (simp add: exec_GetByID_def exec_Cancel_def exec_Update_def exec_Create_def exec_ListByTaskID_def own_task_def
        GetUserFromContext_def Let_def)
qed

definition status_request :: "ExecutionStatus \<Rightarrow> UpdateTaskExecutionRequest" where
  "status_request st =
     \<lparr>UE_Status = Some st, UE_ReturnCode = None, UE_Stdout = None, UE_Stderr = None, UE_ExecutionTimeMs = None,
      UE_MemoryUsageBytes = None, UE_StartedAt = None, UE_CompletedAt = None\<rparr>"

theorem missing_execution_answers_500_witness:
  "fst (exec_Cancel demo_env (demo_context (status_request ExecutionStatusRunning)) demo_session) = Failure 500 ''Failed to cancel execution''"
  using missing_execution_answers_500 [of demo_session demo_env "demo_context (status_request ExecutionStatusRunning)" 1
      example_user "status_request ExecutionStatusRunning"]
  by (simp add: fresh_session_def demo_env_def demo_context_def demo_db_def bound_body_def ShouldBindJSON_def)

section \<open>Updates of finished executions\<close>

text \<open>C38: An update to a status that is not terminal is not guarded: whatever the execution's status was, also
  completed or cancelled, its owner can set it back to pending or running with a reply of 200. The task keeps its
  status, the stored results stay, and from then on the execution can be cancelled and completed again, which the
  guards of the service refuse for a completed one.\<close>

theorem finished_execution_can_be_reopened:
  assumes "se_faults s = []" and "db_ok (se_db s)" and "own_exec E c (se_db s) e t"
    and "bound_body c = (Inr (status_request st) :: api_body reply + UpdateTaskExecutionRequest)"
    and "st \<in> {ExecutionStatusPending, ExecutionStatusRunning}"
  shows "\<exists>s1. exec_Update E c s = (Success 200 (B_Exec (Exec_ToResponse (ae_format E) (e\<lparr>Exec_Status := st\<rparr>))), s1) \<and>
     get_row Exec_ID (Exec_ID e) (T_execs (se_db s1)) = Some (e\<lparr>Exec_Status := st\<rparr>) \<and>
     T_tasks (se_db s1) = T_tasks (se_db s) \<and> cancellable (e\<lparr>Exec_Status := st\<rparr>) \<and> completable (e\<lparr>Exec_Status := st\<rparr>)"
proof -
  let ?e = "e\<lparr>Exec_Status := st\<rparr>"
  from assms(3) obtain user i where o: "cx_user c = Some user" "ae_ParseUUID E (cx_Param c ''id'') = Inr i"
      "get_row Exec_ID i (T_execs (se_db s)) = Some e" "get_row Task_ID (Exec_TaskID e) (T_tasks (se_db s)) = Some t"
      "Task_UserID t = User_ID user" by (auto simp: own_exec_def)
  have i: "row_ok_exec e" "Exec_ID e = i" using db_ok_exec [OF assms(2) o(3)] by simp_all
  have "st \<in> set task_statuses" using assms(5) by (auto simp: task_statuses_def)
  then have ok: "row_ok_exec ?e" using i(1) by (rule row_ok_exec_status [rotated])
  have a: "applyExecutionUpdates e (status_request st) = Inr ?e"
    using assms(5) by (auto simp: applyExecutionUpdates_def status_request_def set_some_def ValidateExecutionStatus_def)
  have n: "\<not> IsTerminal ?e" "cancellable ?e" "completable ?e"
    using assms(5) by (auto simp: IsTerminal_def cancellable_def completable_def)
  have row: "result_row ?e e = ?e" by simp
  have "execs_Update (Some ?e) s = (None, s\<lparr>se_db := (se_db s)\<lparr>T_execs := put_row Exec_ID ?e (T_execs (se_db s))\<rparr>\<rparr>)"
    using execs_Update_run [OF assms(1) _ ok, of e] o(3) i(2) row by simp
  then have "exec_Update E c s = (Success 200 (B_Exec (Exec_ToResponse (ae_format E) ?e)),
      s\<lparr>se_db := (se_db s)\<lparr>T_execs := put_row Exec_ID ?e (T_execs (se_db s))\<rparr>\<rparr>)"
    using o n(1) a assms(1,4)
    by (simp add: exec_Update_def GetUserFromContext_def execs_GetByID_run tasks_GetByID_run scan_task_def)
  moreover have "get_row Exec_ID i (put_row Exec_ID ?e (T_execs (se_db s))) = Some ?e"
    using o(3) i(2) by (simp add: get_row_put)
  ultimately show ?thesis using n i(2) by simp
qed

theorem finished_execution_can_be_reopened_witness:
  "let s = fresh_session (demo_db [demo_cancelled]);
       s1 = snd (exec_Update (demo_env\<lparr>ae_ParseUUID := (\<lambda>s. Inr 3)\<rparr>) (demo_context (status_request ExecutionStatusRunning)) s)
   in Exec_Status demo_cancelled = ExecutionStatusCancelled \<and>
      get_row Exec_ID 3 (T_execs (se_db s1)) = Some (demo_cancelled\<lparr>Exec_Status := ExecutionStatusRunning\<rparr>)"
proof -
  let ?s = "fresh_session (demo_db [demo_cancelled])"
  let ?E = "demo_env\<lparr>ae_ParseUUID := (\<lambda>s. Inr 3)\<rparr>" and ?c = "demo_context (status_request ExecutionStatusRunning)"
  have own: "own_exec ?E ?c (se_db ?s) demo_cancelled demo_task"
    by (simp add: own_exec_def demo_context_def fresh_session_def demo_db_def demo_cancelled_def new_execution_def demo_task_def
        stored_task_def example_user_def)
  have run: "se_faults ?s = []" "db_ok (se_db ?s)"
      "bound_body ?c = (Inr (status_request ExecutionStatusRunning) :: api_body reply + UpdateTaskExecutionRequest)"
      "ExecutionStatusRunning \<in> {ExecutionStatusPending, ExecutionStatusRunning}"
    using demo_db_ok(2) by (simp_all add: fresh_session_def bound_body_def ShouldBindJSON_def demo_context_def)
  have "Exec_ID demo_cancelled = 3" "Exec_Status demo_cancelled = ExecutionStatusCancelled"
    by (simp_all add: demo_cancelled_def new_execution_def)
  with finished_execution_can_be_reopened [OF run(1,2) own run(3,4)] show ?thesis
    unfolding Let_def by (metis snd_conv)
qed

end
