(* ===== verification/AuthHandler.thy ===== *)
theory AuthHandler
  imports ExecutionHandler
begin

text \<open>
  The endpoints of accounts (\<open>internal/api/handlers/auth.go\<close>) and of health (\<open>internal/api/handlers/health.go\<close> with
  the checkers of \<open>internal/api/routes/routes.go\<close>). The body of a refresh request is its one field.
\<close>

section \<open>Accounts\<close>

definition auth_Register :: "AuthService \<Rightarrow> api_env \<Rightarrow> RegisterRequest gin_context \<Rightarrow> Session \<Rightarrow> api_body reply \<times> Session" where
  "auth_Register svc E c s =
     (case ShouldBindJSON c of
        Inl err \<Rightarrow> (FailureDetails 400 ''Invalid request format'' err, s)
      | Inr req \<Rightarrow>
          (case Register svc req s of
             (Inl err, s1) \<Rightarrow>
               (if errors_Is err AuthErrUserAlreadyExists then Failure 409 ''User with this email already exists''
                else if errors_Is err AuthErrInvalidEmail \<or> errors_Is err AuthErrInvalidPassword \<or>
                        errors_Is err AuthErrValidationFailed
                  then Failure 400 (error_message (ae_uuid E) err)
                else Failure 500 ''Registration failed'', s1)
           | (Inr authResponse, s1) \<Rightarrow> (Success 201 (B_Auth authResponse), s1)))"

definition auth_Login :: "AuthService \<Rightarrow> api_env \<Rightarrow> LoginRequest gin_context \<Rightarrow> Session \<Rightarrow> api_body reply \<times> Session" where
  "auth_Login svc E c s =
     (case ShouldBindJSON c of
        Inl err \<Rightarrow> (FailureDetails 400 ''Invalid request format'' err, s)
      | Inr req \<Rightarrow>
          (case Login svc req s of
             (Inl err, s1) \<Rightarrow>
               (if errors_Is err AuthErrInvalidCredentials then Failure 401 ''Invalid email or password''
                else if errors_Is err AuthErrInvalidEmail \<or> errors_Is err AuthErrPasswordRequired \<or>
                        errors_Is err AuthErrValidationFailed
                  then Failure 400 (error_message (ae_uuid E) err)
                else Failure 500 ''Login failed'', s1)
           | (Inr authResponse, s1) \<Rightarrow> (Success 200 (B_Auth authResponse), s1)))"

definition auth_Refresh :: "AuthService \<Rightarrow> string gin_context \<Rightarrow> Session \<Rightarrow> api_body reply \<times> Session" where
  "auth_Refresh svc c s =
     (case ShouldBindJSON c of
        Inl err \<Rightarrow> (FailureDetails 400 ''Invalid request format'' err, s)
      | Inr refreshToken \<Rightarrow>
          (case auth_RefreshToken svc refreshToken s of
             (Inl err, s1) \<Rightarrow>
               (if errors_Is err AuthErrInvalidRefreshToken \<or> errors_Is err AuthErrUserNotFound
                  then Failure 401 ''Invalid refresh token''
                else Failure 500 ''Token refresh failed'', s1)
           | (Inr authResponse, s1) \<Rightarrow> (Success 200 (B_Auth authResponse), s1)))"

definition auth_Me :: "AuthService \<Rightarrow> 'b gin_context \<Rightarrow> api_body reply" where
  "auth_Me svc c =
     (case cx_user c of
        None \<Rightarrow> Failure 401 ''Unauthorized''
      | Some userModel \<Rightarrow> Success 200 (B_User (User_ToResponse (as_format svc) userModel)))"

definition auth_Logout :: "'b gin_context \<Rightarrow> api_body reply" where
  "auth_Logout c = Success 200 (B_Message ''logged out successfully'')"

section \<open>Health\<close>

text \<open>A checker returns its status and an error; \<open>dbHealth\<close> is \<open>Connection.HealthCheck\<close>, the executor's comes from the service.\<close>

type_synonym checker = "string \<times> go_error option"

definition DatabaseHealthChecker :: "go_error option option \<Rightarrow> checker" where
  "DatabaseHealthChecker dbHealth =
     (case dbHealth of
        None \<Rightarrow> (''ready'', None)
      | Some (Some err) \<Rightarrow> (''unhealthy'', Some err)
      | Some None \<Rightarrow> (''ready'', None))"

definition ExecutorHealthChecker :: "'x TaskExecutorService option \<Rightarrow> 'x \<Rightarrow> checker \<times> 'x" where
  "ExecutorHealthChecker service x =
     (case service of
        None \<Rightarrow> ((''ready'', None), x)
      | Some svc \<Rightarrow>
          (case GetExecutorHealth svc Background x of
             (Some err, x1) \<Rightarrow> ((''unhealthy'', Some err), x1)
           | (None, x1) \<Rightarrow> ((''ready'', None), x1)))"

text \<open>\<open>Readiness\<close> over the registered checks in the order of the map's iteration: the code, the status and the checks.\<close>

definition Readiness :: "(string \<times> checker) list \<Rightarrow> nat \<times> string \<times> (string \<rightharpoonup> string)" where
  "Readiness healthChecks =
     (let checks = fold (\<lambda>(name, status, err) m. m(name \<mapsto> (if err \<noteq> None \<or> status \<noteq> ''ready'' then ''unhealthy'' else status)))
                     healthChecks [''server'' \<mapsto> ''ready''];
          allHealthy1 = (\<forall>(name, status, err)\<in>set healthChecks. err = None \<and> status = ''ready'');
          allHealthy = (allHealthy1 \<and> (\<forall>name\<in>insert ''server'' (fst ` set healthChecks). checks name = Some ''ready''))
      in if allHealthy then (200, ''ready'', checks) else (503, ''not ready'', checks))"

section \<open>What the replies say\<close>

lemma users_GetByEmail_run:
  assumes "se_faults s = []" and "email \<noteq> []"
  shows "users_GetByEmail email s =
     (case find (\<lambda>u. User_Email u = email) (T_users (se_db s)) of
        None \<Rightarrow> (Inl (Sentinel ErrUserNotFound), s) | Some u \<Rightarrow> (Inr u, s))"
  using assms
  by (simp add: users_GetByEmail_def sql_get_email_def run_stmt_no_fault users_get_error_def errors_Is_def split: option.split)

text \<open>C40: The login endpoint does not tell which addresses have accounts: for a well-formed request an unknown address
  and a wrong password get the same reply, 401 with the same text, and nothing changes. Only the right password
  of the stored account leads on to the tokens.\<close>

theorem login_hides_accounts:
  assumes "se_faults s = []" and "ShouldBindJSON c = Inr req"
    and "ValidateEmail (as_case svc) (LR_Email req) = None" and "LR_Password req \<noteq> []"
  shows "(let unauthorized = (Failure 401 ''Invalid email or password'', s); answer = auth_Login svc E c s
     in case find (\<lambda>u. User_Email u = LR_Email req) (T_users (se_db s)) of
          None \<Rightarrow> answer = unauthorized
        | Some u \<Rightarrow>
            (case (verifyPassword svc (LR_Password req) (User_PasswordHash u), GenerateTokenPair (as_jwt svc) (se_now s) (Some u)) of
               (Some err, _) \<Rightarrow> answer = unauthorized
             | (None, Inr p) \<Rightarrow> answer = (Success 200 (B_Auth (auth_response svc p u)), s)
             | (None, Inl err) \<Rightarrow> snd answer = s \<and> 400 \<le> reply_code (fst answer)))"
proof -
  have "LR_Email req \<noteq> []" using assms(3) by (auto simp: ValidateEmail_def)
  with assms users_GetByEmail_run [OF assms(1), of "LR_Email req"] show ?thesis
    by (auto simp: auth_Login_def Login_def with_tokens_def errors_Is_def split: option.splits sum.splits)
qed

definition toy_context :: "'b \<Rightarrow> 'b gin_context" where
  "toy_context b = (demo_context b)\<lparr>cx_user := None\<rparr>"

definition toy_login :: LoginRequest where
  "toy_login = \<lparr>LR_Email = ''x@b.io'', LR_Password = ''wrong''\<rparr>"

theorem login_hides_accounts_witness:
  "auth_Login toy_auth demo_env (toy_context toy_login) (toy_session [toy_user]) = (Failure 401 ''Invalid email or password'', toy_session [toy_user]) \<and>
   auth_Login toy_auth demo_env (toy_context (toy_login\<lparr>LR_Email := ''a@b.io''\<rparr>)) (toy_session [toy_user]) =
     (Failure 401 ''Invalid email or password'', toy_session [toy_user])"
proof -
  have v: "ValidateEmail (as_case toy_auth) ''x@b.io'' = None" "ValidateEmail (as_case toy_auth) ''a@b.io'' = None" by code_simp+
  have "se_faults (toy_session [toy_user]) = []" by (simp add: toy_session_def)
  with v login_hides_accounts [of "toy_session [toy_user]" "toy_context toy_login" toy_login toy_auth demo_env]
    login_hides_accounts [of "toy_session [toy_user]" "toy_context (toy_login\<lparr>LR_Email := ''a@b.io''\<rparr>)" "toy_login\<lparr>LR_Email := ''a@b.io''\<rparr>" toy_auth demo_env]
  show ?thesis
    by (simp add: toy_context_def demo_context_def ShouldBindJSON_def toy_login_def toy_session_def toy_user_def verifyPassword_def
        toy_auth_def toy_bcrypt_def)
qed

text \<open>The password rules allow up to 128 bytes, but bcrypt takes at most 72: a registration with a longer password
  that passes every check of the service is refused as an internal error, 500, and no account is created.\<close>

theorem long_password_answers_500:
  assumes "bcrypt_laws (as_bcrypt svc)" and "ShouldBindJSON c = Inr req" and "register_checks svc req = None"
    and "72 < length (RR_Password req)" and "se_faults s = []"
    and "find (\<lambda>u. User_Email u = RR_Email req) (T_users (se_db s)) = None"
  shows "auth_Register svc E c s = (Failure 500 ''Registration failed'', s)"
proof -
  have "RR_Email req \<noteq> []" using assms(3) by (auto simp: register_checks_def ValidateEmail_def err_then_def)
  with assms(5,6) have g: "users_GetByEmail (RR_Email req) s = (Inl (Sentinel ErrUserNotFound), s)"
    by (simp add: users_GetByEmail_run)
  from assms(1,4) obtain m where "bc_GenerateFromPassword (as_bcrypt svc) (RR_Password req) = Inl (ExternalErr m)"
    by (auto simp: bcrypt_laws_def)
  with g assms(2,3) show ?thesis
    by (simp add: auth_Register_def Register_def create_user_def hashPassword_def errors_Is_def)
qed

definition long_request :: RegisterRequest where
  "long_request = toy_request\<lparr>RR_Password := replicate 70 (CHR ''a'') @ ''A1#''\<rparr>"

theorem long_password_answers_500_witness:
  "auth_Register toy_auth demo_env (toy_context long_request) (toy_session []) = (Failure 500 ''Registration failed'', toy_session [])"
proof -
  have "register_checks toy_auth long_request = None" by code_simp
  then show ?thesis
    by (intro long_password_answers_500 [OF toy_bcrypt_laws, where req = long_request])
      (simp_all add: toy_context_def demo_context_def ShouldBindJSON_def long_request_def toy_session_def)
qed

abbreviation checker_ok :: "string \<times> checker \<Rightarrow> bool" where
  "checker_ok \<equiv> \<lambda>(name, status, err). err = None \<and> status = ''ready''"

lemma checks_ready:
  assumes "\<forall>x\<in>set hc. checker_ok x" and "n \<in> fst ` set hc \<or> m n = Some ''ready''"
  shows "fold (\<lambda>(name, status, err) m. m(name \<mapsto> (if err \<noteq> None \<or> status \<noteq> ''ready'' then ''unhealthy'' else status))) hc m n = Some ''ready''"
  using assms by (induction hc arbitrary: m) auto

lemma readiness_iff: "fst (Readiness hc) = 200 \<longleftrightarrow> (\<forall>x\<in>set hc. checker_ok x)"
proof (cases "\<forall>x\<in>set hc. checker_ok x")
  case True
  have "fold (\<lambda>(name, status, err) m. m(name \<mapsto> (if err \<noteq> None \<or> status \<noteq> ''ready'' then ''unhealthy'' else status))) hc
      [''server'' \<mapsto> ''ready''] n = Some ''ready''" if "n \<in> insert ''server'' (fst ` set hc)" for n
    by (rule checks_ready [OF True]) (use that in auto)
  with True show ?thesis unfolding Readiness_def Let_def by auto
next
  case False
  then show ?thesis unfolding Readiness_def Let_def by (auto split: if_splits)
qed

end
