(* ===== verification/Routes.thy ===== *)
theory Routes
  imports AuthHandler
begin

text \<open>
  The routing table (\<open>internal/api/routes/routes.go\<close>): the state of the server, the middleware and the handler of
  every route of \<open>/api/v1\<close>, and one request as a function of the server. The global middlewares and the
  endpoints outside \<open>/api/v1\<close> are in \<open>Middleware\<close> and \<open>HttpServer\<close>. A request carries its body as bytes; \<open>encoding/json\<close> and gin's
  reading of it are the decoders of the API. The execution routes get the execution service and not the executor
  service, as in the source, so no route starts an execution.
\<close>

section \<open>The server\<close>

record server =
  sv_session :: Session
  sv_register :: RateLimiter
  sv_auth :: RateLimiter
  sv_refresh :: RateLimiter
  sv_task :: RateLimiter
  sv_taskCreation :: RateLimiter
  sv_execution :: RateLimiter
  sv_executionCreation :: RateLimiter

definition setupRoutes :: "casemap \<Rightarrow> AppConfig \<Rightarrow> Session \<Rightarrow> server" where
  "setupRoutes uc cfg s =
     (let t = IsTest uc cfg
      in \<lparr>sv_session = s,
          sv_register = (if t then RegisterRateLimitForTest else RegisterRateLimit),
          sv_auth = (if t then AuthRateLimitForTest else AuthRateLimit),
          sv_refresh = RefreshRateLimit,
          sv_task = (if t then TaskRateLimitForTest else TaskRateLimit),
          sv_taskCreation = (if t then TaskCreationRateLimitForTest else TaskCreationRateLimit),
          sv_execution = (if t then TaskExecutionRateLimitForTest else TaskExecutionRateLimit),
          sv_executionCreation = (if t then ExecutionCreationRateLimitForTest else ExecutionCreationRateLimit)\<rparr>)"

type_synonym 'b decoder = "string \<Rightarrow> int option \<Rightarrow> go_error + 'b"

record api =
  ap_auth :: AuthService
  ap_env :: api_env
  ap_register :: "RegisterRequest decoder"
  ap_login :: "LoginRequest decoder"
  ap_refresh :: "string decoder"
  ap_create :: "CreateTaskRequest decoder"
  ap_update :: "UpdateTaskRequest decoder"
  ap_execution :: "UpdateTaskExecutionRequest decoder"

record request =
  rq_Authorization :: string
  rq_Param :: "string \<Rightarrow> string"
  rq_Query :: "string \<Rightarrow> string"
  rq_ClientIP :: string
  rq_ContentLength :: int
  rq_body :: string

definition context_of :: "'b decoder \<Rightarrow> request \<Rightarrow> 'b gin_context" where
  "context_of d rq =
     \<lparr>cx_Authorization = rq_Authorization rq, cx_Param = rq_Param rq, cx_Query = rq_Query rq, cx_ClientIP = rq_ClientIP rq,
      cx_ContentLength = rq_ContentLength rq, cx_Bind = d (rq_body rq), cx_limit = None, cx_user = None, cx_validated = None\<rparr>"

abbreviation no_body :: "unit decoder" where "no_body \<equiv> \<lambda>s n. Inr ()"

section \<open>Chains of middleware\<close>

type_synonym 'b mw = "'b gin_context \<Rightarrow> server \<Rightarrow> (api_body reply + 'b gin_context) \<times> server"
type_synonym 'b handler = "'b gin_context \<Rightarrow> Session \<Rightarrow> api_body reply \<times> Session"

definition mw_pure :: "('b gin_context \<Rightarrow> api_body reply + 'b gin_context) \<Rightarrow> 'b mw" where
  "mw_pure m c sv = (m c, sv)"

definition mw_auth :: "AuthService \<Rightarrow> 'b mw" where
  "mw_auth svc c sv = (case RequireAuth svc c (sv_session sv) of (r, s) \<Rightarrow> (r, sv\<lparr>sv_session := s\<rparr>))"

definition mw_ip :: "(server \<Rightarrow> RateLimiter) \<Rightarrow> (RateLimiter \<Rightarrow> server \<Rightarrow> server) \<Rightarrow> 'b mw" where
  "mw_ip sel upd c sv = (case RateLimit (se_now (sv_session sv)) c (sel sv) of (r, rl) \<Rightarrow> (r, upd rl sv))"

definition mw_user :: "(uuid \<Rightarrow> string) \<Rightarrow> (server \<Rightarrow> RateLimiter) \<Rightarrow> (RateLimiter \<Rightarrow> server \<Rightarrow> server) \<Rightarrow> 'b mw" where
  "mw_user us sel upd c sv = (case RateLimitByUserID us (se_now (sv_session sv)) c (sel sv) of (r, rl) \<Rightarrow> (r, upd rl sv))"

fun chain :: "'b mw list \<Rightarrow> 'b handler \<Rightarrow> 'b gin_context \<Rightarrow> server \<Rightarrow> api_body reply \<times> server" where
  "chain [] h c sv = (case h c (sv_session sv) of (r, s) \<Rightarrow> (r, sv\<lparr>sv_session := s\<rparr>))"
| "chain (m # ms) h c sv =
     (case m c sv of
        (Inl r, sv1) \<Rightarrow> (r, sv1)
      | (Inr c1, sv1) \<Rightarrow> chain ms h c1 sv1)"

section \<open>Routes\<close>

datatype route =
    Post_register | Post_login | Post_refresh | Post_logout | Get_me
  | Post_tasks | Get_tasks | Get_task | Put_task | Delete_task
  | Post_executions | Get_executions | Get_execution | Put_execution | Delete_execution

fun serve :: "api \<Rightarrow> route \<Rightarrow> request \<Rightarrow> server \<Rightarrow> api_body reply \<times> server" where
  "serve A Post_register rq =
     chain [mw_ip sv_register (\<lambda>rl. sv_register_update (\<lambda>_. rl))]
       (auth_Register (ap_auth A) (ap_env A)) (context_of (ap_register A) rq)"
| "serve A Post_login rq =
     chain [mw_ip sv_auth (\<lambda>rl. sv_auth_update (\<lambda>_. rl))]
       (auth_Login (ap_auth A) (ap_env A)) (context_of (ap_login A) rq)"
| "serve A Post_refresh rq =
     chain [mw_ip sv_refresh (\<lambda>rl. sv_refresh_update (\<lambda>_. rl))]
       (auth_Refresh (ap_auth A)) (context_of (ap_refresh A) rq)"
| "serve A Post_logout rq = chain [] (\<lambda>c s. (auth_Logout c, s)) (context_of no_body rq)"
| "serve A Get_me rq =
     chain [mw_auth (ap_auth A)] (\<lambda>c s. (auth_Me (ap_auth A) c, s)) (context_of no_body rq)"
| "serve A Post_tasks rq =
     chain [mw_auth (ap_auth A), mw_pure RequestSizeLimit,
            mw_user (ae_uuid (ap_env A)) sv_taskCreation (\<lambda>rl. sv_taskCreation_update (\<lambda>_. rl)),
            mw_pure (ValidateTaskCreation (ae_case (ap_env A)))]
       (task_Create (ap_env A)) (context_of (ap_create A) rq)"
| "serve A Get_tasks rq =
     chain [mw_auth (ap_auth A), mw_user (ae_uuid (ap_env A)) sv_task (\<lambda>rl. sv_task_update (\<lambda>_. rl))]
       (task_List (ap_env A)) (context_of no_body rq)"
| "serve A Get_task rq =
     chain [mw_auth (ap_auth A), mw_user (ae_uuid (ap_env A)) sv_task (\<lambda>rl. sv_task_update (\<lambda>_. rl))]
       (task_GetByID (ap_env A)) (context_of no_body rq)"
| "serve A Put_task rq =
     chain [mw_auth (ap_auth A), mw_pure RequestSizeLimit,
            mw_user (ae_uuid (ap_env A)) sv_task (\<lambda>rl. sv_task_update (\<lambda>_. rl)),
            mw_pure (ValidateTaskUpdate (ae_case (ap_env A)))]
       (task_Update (ap_env A)) (context_of (ap_update A) rq)"
| "serve A Delete_task rq =
     chain [mw_auth (ap_auth A), mw_user (ae_uuid (ap_env A)) sv_task (\<lambda>rl. sv_task_update (\<lambda>_. rl))]
       (task_Delete (ap_env A)) (context_of no_body rq)"
| "serve A Post_executions rq =
     chain [mw_auth (ap_auth A), mw_user (ae_uuid (ap_env A)) sv_executionCreation (\<lambda>rl. sv_executionCreation_update (\<lambda>_. rl))]
       (exec_Create (ap_env A)) (context_of no_body rq)"
| "serve A Get_executions rq =
     chain [mw_auth (ap_auth A), mw_user (ae_uuid (ap_env A)) sv_execution (\<lambda>rl. sv_execution_update (\<lambda>_. rl))]
       (exec_ListByTaskID (ap_env A)) (context_of no_body rq)"
| "serve A Get_execution rq =
     chain [mw_auth (ap_auth A), mw_user (ae_uuid (ap_env A)) sv_execution (\<lambda>rl. sv_execution_update (\<lambda>_. rl))]
       (exec_GetByID (ap_env A)) (context_of no_body rq)"
| "serve A Put_execution rq =
     chain [mw_auth (ap_auth A), mw_pure RequestSizeLimit,
            mw_user (ae_uuid (ap_env A)) sv_execution (\<lambda>rl. sv_execution_update (\<lambda>_. rl)),
            mw_pure ValidateTaskExecutionUpdate]
       (exec_Update (ap_env A)) (context_of (ap_execution A) rq)"
| "serve A Delete_execution rq =
     chain [mw_auth (ap_auth A), mw_user (ae_uuid (ap_env A)) sv_execution (\<lambda>rl. sv_execution_update (\<lambda>_. rl))]
       (exec_Cancel (ap_env A)) (context_of no_body rq)"

end
