(* ===== verification/Isolation.thy ===== *)
theory Isolation
  imports Routes
begin

text \<open>
  What the API as a whole promises about the store: every request is a step of an abstract store of tenants, in
  which a user acts on rows below his own name only. The abstract steps, the refinement, and what follows for
  runs of requests.
\<close>

section \<open>Requests that only read\<close>

text \<open>\<open>reads f\<close>: the operation leaves the tables as they are.\<close>

definition reads :: "(Session \<Rightarrow> 'a \<times> Session) \<Rightarrow> bool" where
  "reads f \<longleftrightarrow> (\<forall>s. se_db (snd (f s)) = se_db s)"

named_theorems reads_intro \<open>operations that only read\<close>

lemma readsD: "reads f \<Longrightarrow> f s = (x, s') \<Longrightarrow> se_db s' = se_db s"
  unfolding reads_def by (metis snd_conv)

lemma reads_return [reads_intro]: "reads (\<lambda>s. (r s, s))"
  by (simp add: reads_def)

lemma reads_bind [reads_intro]: "reads f \<Longrightarrow> (\<And>x. reads (g x)) \<Longrightarrow> reads (\<lambda>s. case f s of (x, s1) \<Rightarrow> g x s1)"
  by (simp add: reads_def split: prod.split) (metis snd_conv)

lemma reads_sum [reads_intro]:
  "(\<And>a. reads (f a)) \<Longrightarrow> (\<And>b. reads (g b)) \<Longrightarrow> reads (\<lambda>s. case x s of Inl a \<Rightarrow> f a s | Inr b \<Rightarrow> g b s)"
  by (simp add: reads_def split: sum.split)

lemma reads_option [reads_intro]:
  "reads f \<Longrightarrow> (\<And>b. reads (g b)) \<Longrightarrow> reads (\<lambda>s. case x s of None \<Rightarrow> f s | Some b \<Rightarrow> g b s)"
  by (simp add: reads_def split: option.split)

lemma reads_if [reads_intro]: "reads f \<Longrightarrow> reads g \<Longrightarrow> reads (\<lambda>s. if b s then f s else g s)"
  by (simp add: reads_def)

lemma reads_pair [reads_intro]: "(\<And>a b. reads (f a b)) \<Longrightarrow> reads (\<lambda>s. case x of (a, b) \<Rightarrow> f a b s)"
  by (simp add: reads_def split: prod.split)

lemma reads_stmt: "(\<And>now db x db'. f now db = Inr (x, db') \<Longrightarrow> db' = db) \<Longrightarrow> reads (run_stmt f)"
  unfolding reads_def using run_stmt_cases [of f] by metis

lemma reads_query [reads_intro]:
  "reads (run_stmt (sql_get key tbl i))" "reads (run_stmt (sql_page tbl P ord l n))" "reads (run_stmt (sql_count tbl P))"
  "reads (run_query q text args)" "reads (run_stmt (sql_get_email e))"
  by (auto intro!: reads_stmt simp: sql_get_def sql_page_def sql_count_def run_query_def sql_get_email_def
      split: option.splits sum.splits)

lemma reads_wrap_inl [reads_intro]: "reads f \<Longrightarrow> reads (\<lambda>s. wrap_inl pre (f s))"
  by (simp add: reads_def wrap_inl_def split: prod.split sum.split) (metis snd_conv)

lemma reads_repositories [reads_intro]:
  "reads (tasks_GetByID i)" "reads (execs_GetByID i)" "reads (users_GetByID i)" "reads (users_GetByEmail e)"
  "reads (tasks_GetByUserID u l n)" "reads (tasks_CountByUserID u)" "reads (execs_GetByTaskID i l n)" "reads (execs_CountByTaskID i)"
  "reads (tasks_GetByUserIDCursor q J u req)"
  unfolding tasks_GetByID_def execs_GetByID_def users_GetByID_def users_GetByEmail_def tasks_GetByUserID_def tasks_page_def
    tasks_CountByUserID_def execs_GetByTaskID_def execs_page_def execs_CountByTaskID_def tasks_GetByUserIDCursor_def
    tasks_cursor_page_def Let_def
  by (intro reads_intro)+

lemma reads_handlers [reads_intro]:
  "reads (own_task i u)" "reads (task_GetByID E c)" "reads (task_List E c)" "reads (exec_GetByID E d)" "reads (exec_ListByTaskID E d)"
  "reads (ValidateAccessToken svc tok)" "reads (auth_Login svc E x)" "reads (auth_Refresh svc y)"
  unfolding own_task_def task_GetByID_def task_List_def exec_GetByID_def exec_ListByTaskID_def ValidateAccessToken_def
    auth_Login_def Login_def with_tokens_def auth_Refresh_def auth_RefreshToken_def Let_def
  by (intro reads_intro)+

section \<open>The abstract store\<close>

text \<open>\<open>tenant_step u rt db db'\<close>: what a request of the user \<open>u\<close> to the route \<open>rt\<close> may do to the tables.\<close>

inductive tenant_step :: "uuid \<Rightarrow> route \<Rightarrow> DB \<Rightarrow> DB \<Rightarrow> bool" for u where
  create: "Task_UserID t = u \<Longrightarrow> Task_Status t = TaskStatusPending \<Longrightarrow> get_row Task_ID (Task_ID t) (T_tasks db) = None \<Longrightarrow>
    tenant_step u Post_tasks db (db\<lparr>T_tasks := T_tasks db @ [t]\<rparr>)"
| edit: "get_row Task_ID i (T_tasks db) = Some t \<Longrightarrow> Task_UserID t = u \<Longrightarrow> Task_Status t \<noteq> TaskStatusRunning \<Longrightarrow>
    Task_ID row = i \<Longrightarrow> Task_UserID row = u \<Longrightarrow> Task_Status row = Task_Status t \<Longrightarrow>
    tenant_step u Put_task db (db\<lparr>T_tasks := put_row Task_ID row (T_tasks db)\<rparr>)"
| delete: "get_row Task_ID i (T_tasks db) = Some t \<Longrightarrow> Task_UserID t = u \<Longrightarrow> Task_Status t \<noteq> TaskStatusRunning \<Longrightarrow>
    tenant_step u Delete_task db (cascade_task i db)"
| start: "create_effect i u now db (Some e) db' \<Longrightarrow> tenant_step u Post_executions db db'"
| cancel: "get_row Exec_ID i (T_execs db) = Some e \<Longrightarrow> get_row Task_ID (Exec_TaskID e) (T_tasks db) = Some t \<Longrightarrow>
    Task_UserID t = u \<Longrightarrow> cancellable e \<Longrightarrow>
    tenant_step u Delete_execution db
      (db\<lparr>T_execs := put_row Exec_ID (cancelled_row e) (T_execs db),
          T_tasks := put_row Task_ID (t\<lparr>Task_Status := TaskStatusPending, Task_UpdatedAt := now\<rparr>) (T_tasks db)\<rparr>)"
| finish: "get_row Exec_ID i (T_execs db) = Some e \<Longrightarrow> get_row Task_ID (Exec_TaskID e) (T_tasks db) = Some t \<Longrightarrow>
    Task_UserID t = u \<Longrightarrow> completable e \<Longrightarrow> IsTerminal row \<Longrightarrow> Exec_ID row = i \<Longrightarrow> Exec_TaskID row = Exec_TaskID e \<Longrightarrow>
    tenant_step u Put_execution db
      (db\<lparr>T_execs := put_row Exec_ID row (T_execs db),
          T_tasks := put_row Task_ID (t\<lparr>Task_Status := Exec_Status row, Task_UpdatedAt := now\<rparr>) (T_tasks db)\<rparr>)"
| report: "get_row Exec_ID i (T_execs db) = Some e \<Longrightarrow> get_row Task_ID (Exec_TaskID e) (T_tasks db) = Some t \<Longrightarrow>
    Task_UserID t = u \<Longrightarrow> \<not> IsTerminal row \<Longrightarrow> Exec_ID row = i \<Longrightarrow> Exec_TaskID row = Exec_TaskID e \<Longrightarrow>
    tenant_step u Put_execution db (db\<lparr>T_execs := put_row Exec_ID row (T_execs db)\<rparr>)"

inductive_cases tenant_stepE: "tenant_step u rt db db'"

text \<open>The rows below a user's name, and what makes ids name rows.\<close>

definition tasks_of :: "uuid \<Rightarrow> DB \<Rightarrow> Task list" where
  "tasks_of u db = filter (\<lambda>t. Task_UserID t = u) (T_tasks db)"

definition execs_of :: "uuid \<Rightarrow> DB \<Rightarrow> TaskExecution list" where
  "execs_of u db = filter (\<lambda>e. Exec_TaskID e \<in> Task_ID ` set (tasks_of u db)) (T_execs db)"

definition keys_ok :: "DB \<Rightarrow> bool" where
  "keys_ok db \<longleftrightarrow> distinct (map Task_ID (T_tasks db)) \<and> distinct (map Exec_ID (T_execs db))"

lemma unique_row: "distinct (map key rows) \<Longrightarrow> get_row key i rows = Some r \<Longrightarrow> x \<in> set rows \<Longrightarrow> key x = i \<Longrightarrow> x = r"
  using get_row_Some [of key i rows r] by (auto simp: distinct_map inj_on_def)

lemma filter_put_other:
  "(\<And>x. x \<in> set rows \<Longrightarrow> key x = key row \<Longrightarrow> \<not> P x) \<Longrightarrow> \<not> P row \<Longrightarrow> filter P (put_row key row rows) = filter P rows"
  unfolding put_row_def by (induction rows) auto

lemma foreign_task:
  "keys_ok db \<Longrightarrow> get_row Task_ID i (T_tasks db) = Some t \<Longrightarrow> Task_UserID t \<noteq> u \<Longrightarrow> i \<notin> Task_ID ` set (tasks_of u db)"
  unfolding keys_ok_def tasks_of_def using unique_row [of Task_ID "T_tasks db" i t] by auto

lemma tasks_of_put:
  assumes "keys_ok db" and "get_row Task_ID i (T_tasks db) = Some t" and "Task_UserID t \<noteq> u"
    and "Task_ID row = i" and "Task_UserID row \<noteq> u"
  shows "tasks_of u (db\<lparr>T_tasks := put_row Task_ID row (T_tasks db)\<rparr>) = tasks_of u db"
  using assms unique_row [of Task_ID "T_tasks db" i t]
  by (auto simp: tasks_of_def keys_ok_def intro!: filter_put_other)

lemma execs_put:
  assumes "keys_ok db" and "get_row Exec_ID i (T_execs db) = Some e" and "Exec_TaskID e \<notin> S" and "Exec_ID row = i"
    and "Exec_TaskID row = Exec_TaskID e"
  shows "filter (\<lambda>e. Exec_TaskID e \<in> S) (put_row Exec_ID row (T_execs db)) = filter (\<lambda>e. Exec_TaskID e \<in> S) (T_execs db)"
  using assms unique_row [of Exec_ID "T_execs db" i e] by (auto simp: keys_ok_def intro!: filter_put_other)

lemma keys_put [simp]:
  "keys_ok (db\<lparr>T_tasks := put_row Task_ID row (T_tasks db)\<rparr>) = keys_ok db"
  "keys_ok (db\<lparr>T_execs := put_row Exec_ID e (T_execs db)\<rparr>) = keys_ok db"
  "keys_ok (db\<lparr>T_tasks := put_row Task_ID row (T_tasks db), T_execs := put_row Exec_ID e (T_execs db)\<rparr>) = keys_ok db"
  by (simp_all add: keys_ok_def)

lemma tenant_step_keys: "tenant_step u rt db db' \<Longrightarrow> keys_ok db \<Longrightarrow> keys_ok db'"
proof (erule tenant_stepE)
  fix i assume "db' = cascade_task i db" "keys_ok db"
  then show "keys_ok db'" by (simp add: keys_ok_def cascade_task_def distinct_delete_row distinct_map_filter)
next
  fix t assume "db' = db\<lparr>T_tasks := T_tasks db @ [t]\<rparr>" "get_row Task_ID (Task_ID t) (T_tasks db) = None" "keys_ok db"
  then show "keys_ok db'" by (auto simp: keys_ok_def get_row_None)
next
  fix i now e assume "create_effect i u now db (Some e) db'" "keys_ok db"
  then show "keys_ok db'" by (auto simp: create_effect_def keys_ok_def get_row_None)
qed (simp_all add: keys_ok_def)

lemma tenant_step_isolated:
  assumes "tenant_step v rt db db'" and "keys_ok db" and "u \<noteq> v"
  shows "tasks_of u db' = tasks_of u db \<and> execs_of u db' = execs_of u db"
  using assms(1)
proof (cases rule: tenant_step.cases)
  case (create t)
  with assms(3) show ?thesis by (simp add: tasks_of_def execs_of_def)
next
  case (edit i t row)
  with assms(2,3) have "tasks_of u db' = tasks_of u db" by (simp add: tasks_of_put)
  with edit show ?thesis by (simp add: execs_of_def)
next
  case (delete i t)
  have n: "i \<notin> Task_ID ` set (tasks_of u db)" using foreign_task [OF assms(2) delete(3), of u] delete(4) assms(3) by auto
  then have "tasks_of u db' = tasks_of u db"
    unfolding delete(2) by (auto simp: tasks_of_def cascade_task_def delete_row_def intro!: filter_cong)
  moreover have "filter (\<lambda>e. Exec_TaskID e \<in> S) (filter (\<lambda>e. Exec_TaskID e \<noteq> i) es) = filter (\<lambda>e. Exec_TaskID e \<in> S) es"
    if "i \<notin> S" for S es using that by (auto intro!: filter_cong)
  ultimately show ?thesis using n by (simp add: execs_of_def delete(2) cascade_task_def)
next
  case (start i now e)
  then obtain t where t: "get_row Task_ID i (T_tasks db) = Some t" "Task_UserID t = v" "Exec_TaskID e = i"
      "db' = db\<lparr>T_execs := T_execs db @ [e],
                 T_tasks := put_row Task_ID (t\<lparr>Task_Status := TaskStatusRunning, Task_UpdatedAt := now\<rparr>) (T_tasks db)\<rparr>"
    by (auto simp: create_effect_def)
  with assms(2,3) have "tasks_of u db' = tasks_of u db" "i \<notin> Task_ID ` set (tasks_of u db)"
    using tasks_of_put [of db i t u "t\<lparr>Task_Status := TaskStatusRunning, Task_UpdatedAt := now\<rparr>"] foreign_task get_row_Some [OF t(1)]
    by (auto simp: tasks_of_def)
  with t show ?thesis by (simp add: execs_of_def)
next
  case (cancel i e t now)
  let ?t = "t\<lparr>Task_Status := TaskStatusPending, Task_UpdatedAt := now\<rparr>"
  have "tasks_of u db' = tasks_of u db" "Exec_TaskID e \<notin> Task_ID ` set (tasks_of u db)"
    using tasks_of_put [of db "Exec_TaskID e" t u ?t] foreign_task [OF assms(2) cancel(4), of u] get_row_Some [OF cancel(4)] cancel assms(2,3)
    by (auto simp: tasks_of_def)
  moreover have "Exec_ID e = i" using get_row_Some [OF cancel(3)] by simp
  ultimately show ?thesis using execs_put [OF assms(2) cancel(3), of _ "cancelled_row e"] cancel(2) by (simp add: execs_of_def)
next
  case (finish i e t row now)
  let ?t = "t\<lparr>Task_Status := Exec_Status row, Task_UpdatedAt := now\<rparr>"
  have "tasks_of u db' = tasks_of u db" "Exec_TaskID e \<notin> Task_ID ` set (tasks_of u db)"
    using tasks_of_put [of db "Exec_TaskID e" t u ?t] foreign_task [OF assms(2) finish(4), of u] get_row_Some [OF finish(4)] finish assms(2,3)
    by (auto simp: tasks_of_def)
  then show ?thesis using execs_put [OF assms(2) finish(3), of _ row] finish by (simp add: execs_of_def)
next
  case (report i e t row)
  have "tasks_of u db' = tasks_of u db" "Exec_TaskID e \<notin> Task_ID ` set (tasks_of u db)"
    using foreign_task [OF assms(2) report(4), of u] report assms(3) by (auto simp: tasks_of_def)
  then show ?thesis using execs_put [OF assms(2) report(3), of _ row] report by (simp add: execs_of_def)
qed

section \<open>Requests refine the abstract store\<close>

text \<open>Who a request is from: the user its access token names.\<close>

definition caller :: "api \<Rightarrow> request \<Rightarrow> server \<Rightarrow> uuid option" where
  "caller A rq sv =
     (let token = extractToken (context_of no_body rq)
      in if token = [] then None
         else (case fst (ValidateAccessToken (ap_auth A) token (sv_session sv)) of
             Inl err \<Rightarrow> None
           | Inr user \<Rightarrow> Some (User_ID user)))"

definition account_step :: "DB \<Rightarrow> DB \<Rightarrow> bool" where
  "account_step db db' \<longleftrightarrow>
     (\<exists>u. db' = db\<lparr>T_users := T_users db @ [u]\<rparr> \<and> User_Email u \<notin> User_Email ` set (T_users db))"

abbreviation sv_db :: "server \<Rightarrow> DB" where "sv_db sv \<equiv> se_db (sv_session sv)"

text \<open>A middleware that lets the session, the user and the parameters alone.\<close>

definition transparent :: "'b mw \<Rightarrow> bool" where
  "transparent m \<longleftrightarrow>
     (\<forall>c sv. sv_session (snd (m c sv)) = sv_session sv \<and>
        (case fst (m c sv) of Inl r \<Rightarrow> True | Inr c1 \<Rightarrow> cx_user c1 = cx_user c \<and> cx_Param c1 = cx_Param c))"

lemma transparent_mw [simp]:
  "transparent (mw_pure RequestSizeLimit)" "transparent (mw_pure (ValidateTaskCreation uc))" "transparent (mw_pure (ValidateTaskUpdate uc))"
  "transparent (mw_pure ValidateTaskExecutionUpdate)"
  "(\<And>rl sv. sv_session (upd rl sv) = sv_session sv) \<Longrightarrow> transparent (mw_user us sel upd)"
  "(\<And>rl sv. sv_session (upd rl sv) = sv_session sv) \<Longrightarrow> transparent (mw_ip sel upd)"
  by (auto simp: transparent_def mw_pure_def mw_user_def mw_ip_def RequestSizeLimit_def ValidateRequestSize_def ValidateTaskCreation_def
      ValidateTaskUpdate_def ValidateTaskExecutionUpdate_def ValidateJSON_def RateLimitByUserID_def RateLimit_def
      split: sum.split prod.split bool.split)

lemma chain_transparent:
  assumes "list_all transparent ms" and "chain ms h c sv = (r, sv')"
  shows "sv_db sv' = sv_db sv \<or>
     (\<exists>c1. cx_user c1 = cx_user c \<and> cx_Param c1 = cx_Param c \<and> h c1 (sv_session sv) = (r, sv_session sv'))"
  using assms
proof (induction ms arbitrary: c sv)
  case Nil
  then show ?case by (auto split: prod.splits)
next
  case (Cons m ms)
  obtain q sv1 where m: "m c sv = (q, sv1)" by fastforce
  with Cons.prems(1) have s1: "sv_session sv1 = sv_session sv"
    and u: "\<And>c1. q = Inr c1 \<Longrightarrow> cx_user c1 = cx_user c \<and> cx_Param c1 = cx_Param c"
    by (auto simp: transparent_def dest!: spec [of _ c] spec [of _ sv])
  show ?case
  proof (cases q)
    case (Inl r')
    with Cons.prems(2) m s1 show ?thesis by simp
  next
    case (Inr c1)
    with Cons.IH [of c1 sv1] Cons.prems m s1 u [OF Inr] show ?thesis by simp
  qed
qed

lemma chain_auth:
  assumes "list_all transparent ms" and "chain (mw_auth (ap_auth A) # ms) h (context_of d rq) sv = (r, sv')"
  shows "sv_db sv' = sv_db sv \<or>
     (\<exists>user c1 s0. caller A rq sv = Some (User_ID user) \<and> se_db s0 = sv_db sv \<and> cx_user c1 = Some user \<and>
        cx_Param c1 = rq_Param rq \<and> h c1 s0 = (r, sv_session sv'))"
proof -
  let ?token = "extractToken (context_of d rq)" and ?s = "sv_session sv"
  have token: "extractToken (context_of no_body rq) = ?token" by (simp add: extractToken_def context_of_def)
  obtain q s0 where v: "ValidateAccessToken (ap_auth A) ?token ?s = (q, s0)" by fastforce
  have s0: "se_db s0 = se_db ?s" by (rule readsD [OF reads_handlers(6) v])
  show ?thesis
  proof (cases "?token = [] \<or> isl q")
    case True
    with assms(2) v s0 show ?thesis
      by (cases "?token = []"; cases q) (auto simp: mw_auth_def RequireAuth_def Let_def)
  next
    case False
    then obtain user where q: "q = Inr user" by (cases q) auto
    with False v have c: "caller A rq sv = Some (User_ID user)" by (simp add: caller_def token Let_def)
    from assms(2) False v q have "chain ms h ((context_of d rq)\<lparr>cx_user := Some user\<rparr>) (sv\<lparr>sv_session := s0\<rparr>) = (r, sv')"
      by (simp add: mw_auth_def RequireAuth_def Let_def)
    from chain_transparent [OF assms(1) this] show ?thesis using c s0
      by (auto simp: context_of_def)
  qed
qed

lemma chain_auth_reads:
  fixes A :: api and rq :: request
  assumes "list_all transparent ms" and "chain (mw_auth (ap_auth A) # ms) h (context_of d rq) sv = (r, sv')"
    and "\<And>c. reads (h c)"
  shows "sv_db sv' = sv_db sv"
  using chain_auth [OF assms(1,2)] readsD [OF assms(3)] by metis

lemma tasks_Create_Some: "tasks_Create (Some t) s = ((Some e, x), s') \<Longrightarrow> se_db s' = se_db s"
  by (auto simp: tasks_Create_def Let_def new_id_def sql_insert_task_def split: sum.splits prod.splits if_splits option.splits
      dest!: run_stmt_Inl run_stmt_Inr)

lemma task_Create_effect:
  assumes "task_Create E c s = (r, s1)"
  shows "se_db s1 = se_db s \<or>
     (\<exists>user t. cx_user c = Some user \<and> Task_UserID t = User_ID user \<and> Task_Status t = TaskStatusPending \<and>
        get_row Task_ID (Task_ID t) (T_tasks (se_db s)) = None \<and> se_db s1 = (se_db s)\<lparr>T_tasks := T_tasks (se_db s) @ [t]\<rparr>)"
proof (cases "se_db s1 = se_db s")
  case False
  obtain i s0 where 0: "new_id s = (i, s0)" by fastforce
  obtain req where b: "(bound_body c :: api_body reply + _) = Inr req"
    using assms False by (cases "bound_body c :: api_body reply + _") (auto simp: task_Create_def)
  obtain user where u: "cx_user c = Some user"
    using assms False b by (cases "cx_user c") (auto simp: task_Create_def GetUserFromContext_def)
  obtain e t0 s' where w: "tasks_Create (Some (new_task i user req)) s0 = ((e, t0), s')" by (metis prod.collapse)
  have s0: "se_db s0 = se_db s" using 0 by (auto simp: new_id_def)
  have "e = None \<and> s' = s1"
    using assms False b u 0 w tasks_Create_Some s0
    by (cases e) (auto simp: task_Create_def GetUserFromContext_def split: option.splits)
  with w obtain t where t: "tasks_Create (Some (new_task i user req)) s0 = ((None, Some t), s1)"
    by (auto simp: tasks_Create_def Let_def split: sum.splits option.splits prod.splits)
  have "Task_UserID (new_task i user req) = User_ID user" "Task_Status (new_task i user req) = TaskStatusPending"
    by (simp_all add: new_task_def Let_def split: option.split)
  with tasks_Create_row [OF t] have "Task_UserID t = User_ID user" "Task_Status t = TaskStatusPending" by auto
  with tasks_Create_row [OF t, unfolded s0] u show ?thesis by blast
qed simp

text \<open>A handler that acts for the user the middleware has set, within what the route may do.\<close>

definition tenant_handler :: "route \<Rightarrow> 'b handler \<Rightarrow> bool" where
  "tenant_handler rt h \<longleftrightarrow>
     (\<forall>c user s r s1. cx_user c = Some user \<and> h c s = (r, s1) \<longrightarrow>
        se_db s1 = se_db s \<or> tenant_step (User_ID user) rt (se_db s) (se_db s1))"

lemma tenant_handlers [simp]:
  "tenant_handler Post_tasks (task_Create E)" "tenant_handler Put_task (task_Update E)" "tenant_handler Delete_task (task_Delete E)"
  "tenant_handler Post_executions (exec_Create E)" "tenant_handler Delete_execution (exec_Cancel E)"
  "tenant_handler Put_execution (exec_Update E)"
  unfolding tenant_handler_def
  subgoal by (auto dest!: task_Create_effect intro: tenant_step.create)
  subgoal by (auto simp: own_row_def dest!: task_Update_effect intro!: tenant_step.edit dest: get_row_Some)
  subgoal by (auto simp: own_row_def dest!: task_Delete_effect) (metis get_row_Some tenant_step.delete)
  subgoal by (auto dest!: exec_Create_effect intro: tenant_step.start)
  subgoal by (auto simp: own_exec_def dest!: exec_Cancel_effect intro!: tenant_step.cancel)
  subgoal by (auto simp: own_exec_def split: if_splits dest!: exec_Update_effect intro!: tenant_step.finish tenant_step.report dest: get_row_Some)
  done

lemma reads_tenant: "(\<And>c. reads (h c)) \<Longrightarrow> tenant_handler rt h"
  unfolding tenant_handler_def by (metis readsD)

lemma tenant_readers [simp]:
  "tenant_handler rt (\<lambda>c s. (f c, s))" "tenant_handler rt (task_List E)" "tenant_handler rt (task_GetByID E)"
  "tenant_handler rt (exec_ListByTaskID E)" "tenant_handler rt (exec_GetByID E)"
  by (intro reads_tenant reads_intro)+

lemma chain_tenant:
  fixes A :: api and rq :: request
  assumes "chain (mw_auth (ap_auth A) # ms) h (context_of d rq) sv = (r, sv')" and "list_all transparent ms" and "tenant_handler rt h"
  shows "sv_db sv' = sv_db sv \<or> (\<exists>u. caller A rq sv = Some u \<and> tenant_step u rt (sv_db sv) (sv_db sv'))"
  using chain_auth [OF assms(2,1)] assms(3) unfolding tenant_handler_def by metis

lemma serve_tenant:
  assumes "serve A rt rq sv = (r, sv')" and "rt \<notin> {Post_register, Post_login, Post_refresh, Post_logout}"
  shows "sv_db sv' = sv_db sv \<or> (\<exists>u. caller A rq sv = Some u \<and> tenant_step u rt (sv_db sv) (sv_db sv'))"
  using assms
  apply (cases rt)
                apply (simp_all only: serve.simps)
                apply simp_all [4]
  by (drule chain_tenant [where rt = rt]; simp)+

lemma register_step:
  assumes "auth_Register svc E c s = (r, s1)"
  shows "se_db s1 = se_db s \<or> account_step (se_db s) (se_db s1)"
proof (cases "ShouldBindJSON c")
  case (Inr req)
  obtain q s' where r: "Register svc req s = (q, s')" by fastforce
  with assms Inr have "s' = s1" by (auto simp: auth_Register_def split: sum.splits)
  with Register_cases [OF r] show ?thesis
    by (cases q) (auto simp: account_result_def new_account_def account_step_def)
qed (use assms in \<open>auto simp: auth_Register_def\<close>)

lemma serve_refines:
  assumes "serve A rt rq sv = (r, sv')"
  shows "sv_db sv' = sv_db sv \<or> rt = Post_register \<and> account_step (sv_db sv) (sv_db sv') \<or>
     (\<exists>u. caller A rq sv = Some u \<and> tenant_step u rt (sv_db sv) (sv_db sv'))"
proof (cases rt)
  case Post_register
  with assms chain_transparent [OF _ assms [unfolded Post_register serve.simps]] register_step show ?thesis
    by (fastforce simp: transparent_mw)
next
  case Post_login
  with chain_transparent [OF _ assms [unfolded Post_login serve.simps]] readsD [OF reads_handlers(7)] show ?thesis
    by (fastforce simp: transparent_mw)
next
  case Post_refresh
  with chain_transparent [OF _ assms [unfolded Post_refresh serve.simps]] readsD [OF reads_handlers(8)] show ?thesis
    by (fastforce simp: transparent_mw)
next
  case Post_logout
  with assms show ?thesis by auto
qed (use serve_tenant [OF assms] in simp_all)

text \<open>Every request refines the abstract store of tenants: whatever the route, the token, the body and the faults of
  the database, the tables stay as they are, or a registration adds an account with a new e-mail address, or the
  request carries a valid access token and the change is one the route allows the token's user.\<close>

theorem requests_refine_tenant_store:
  "case serve A rt rq sv of (r, sv') \<Rightarrow>
     sv_db sv' = sv_db sv \<or>
     rt = Post_register \<and> account_step (sv_db sv) (sv_db sv') \<or>
     (\<exists>u. caller A rq sv = Some u \<and> tenant_step u rt (sv_db sv) (sv_db sv'))"
  by (cases "serve A rt rq sv") (use serve_refines in blast)

section \<open>Runs of requests\<close>

text \<open>
  A request arrives at any later time, with any schedule of faults of the database and any fresh ids: all of the
  session but the tables comes with the request.
\<close>

type_synonym event = "route \<times> request \<times> Session"

definition arrive :: "Session \<Rightarrow> server \<Rightarrow> server" where
  "arrive s sv = sv\<lparr>sv_session := s\<lparr>se_db := sv_db sv\<rparr>\<rparr>"

definition serve_event :: "api \<Rightarrow> event \<Rightarrow> server \<Rightarrow> server" where
  "serve_event A ev sv = (case ev of (rt, rq, s) \<Rightarrow> snd (serve A rt rq (arrive s sv)))"

definition event_caller :: "api \<Rightarrow> event \<Rightarrow> server \<Rightarrow> uuid option" where
  "event_caller A ev sv = (case ev of (rt, rq, s) \<Rightarrow> caller A rq (arrive s sv))"

fun run :: "('e \<Rightarrow> 's \<Rightarrow> 's) \<Rightarrow> 'e list \<Rightarrow> 's \<Rightarrow> 's" where
  "run step [] s = s"
| "run step (e # es) s = run step es (step e s)"

fun guarded :: "('e \<Rightarrow> 's \<Rightarrow> 's) \<Rightarrow> ('e \<Rightarrow> 's \<Rightarrow> bool) \<Rightarrow> 'e list \<Rightarrow> 's \<Rightarrow> bool" where
  "guarded step ok [] s = True"
| "guarded step ok (e # es) s = (ok e s \<and> guarded step ok es (step e s))"

text \<open>
  The interface of an argument about runs: an invariant every step keeps, and a relation, reflexive and transitive,
  that every step within the guard respects. A run of guarded steps then respects it as a whole.
\<close>

locale respecting_steps =
  fixes step :: "'e \<Rightarrow> 's \<Rightarrow> 's" and inv :: "'s \<Rightarrow> bool" and ok :: "'e \<Rightarrow> 's \<Rightarrow> bool" and rel :: "'s \<Rightarrow> 's \<Rightarrow> bool"
  assumes step_inv: "inv s \<Longrightarrow> inv (step e s)"
    and step_rel: "inv s \<Longrightarrow> ok e s \<Longrightarrow> rel s (step e s)"
    and rel_refl: "rel s s"
    and rel_trans: "rel s s1 \<Longrightarrow> rel s1 s2 \<Longrightarrow> rel s s2"
begin

lemma run_inv: "inv s \<Longrightarrow> inv (run step es s)"
  by (induction es arbitrary: s) (simp_all add: step_inv)

lemma run_rel: "inv s \<Longrightarrow> guarded step ok es s \<Longrightarrow> rel s (run step es s)"
proof (induction es arbitrary: s)
  case (Cons e es)
  then have "rel s (step e s)" "rel (step e s) (run step es (step e s))" by (simp_all add: step_rel step_inv)
  then show ?case by (auto intro: rel_trans)
qed (simp add: rel_refl)

end

lemma serve_event_cases:
  obtains (same) "sv_db (serve_event A ev sv) = sv_db sv"
  | (account) "account_step (sv_db sv) (sv_db (serve_event A ev sv))"
  | (tenant) u where "event_caller A ev sv = Some u" "tenant_step u (fst ev) (sv_db sv) (sv_db (serve_event A ev sv))"
proof -
  obtain rt rq s where ev: "ev = (rt, rq, s)" by (cases ev)
  have db: "sv_db (arrive s sv) = sv_db sv" by (simp add: arrive_def)
  obtain r sv' where "serve A rt rq (arrive s sv) = (r, sv')" by fastforce
  with serve_refines [OF this] that show thesis by (auto simp: serve_event_def event_caller_def db ev)
qed

lemma account_step_rows: "account_step db db' \<Longrightarrow> tasks_of u db' = tasks_of u db \<and> execs_of u db' = execs_of u db \<and> keys_ok db' = keys_ok db"
  by (auto simp: account_step_def tasks_of_def execs_of_def keys_ok_def)

lemma serve_event_keys: "keys_ok (sv_db sv) \<Longrightarrow> keys_ok (sv_db (serve_event A ev sv))"
  by (cases A ev sv rule: serve_event_cases) (auto simp: account_step_rows tenant_step_keys)

definition same_rows :: "uuid \<Rightarrow> server \<Rightarrow> server \<Rightarrow> bool" where
  "same_rows u sv sv' \<longleftrightarrow> tasks_of u (sv_db sv') = tasks_of u (sv_db sv) \<and> execs_of u (sv_db sv') = execs_of u (sv_db sv)"

interpretation isolation: respecting_steps "serve_event A" "\<lambda>sv. keys_ok (sv_db sv)"
  "\<lambda>ev sv. event_caller A ev sv \<noteq> Some u" "same_rows u"
proof
  fix ev sv assume "keys_ok (sv_db sv)" "event_caller A ev sv \<noteq> Some u"
  then show "same_rows u sv (serve_event A ev sv)"
    by (cases A ev sv rule: serve_event_cases)
      (auto simp: same_rows_def account_step_rows dest!: tenant_step_isolated [where u = u])
qed (simp_all add: same_rows_def serve_event_keys)

text \<open>C2: Tenants are isolated: over any run of requests, at any times and with any database faults, in which no
  request carries a valid access token of the user \<open>u\<close>, the tasks of \<open>u\<close> and their executions stay exactly as they
  are.\<close>

theorem tenant_isolation:
  assumes "keys_ok (sv_db sv)" and "guarded (serve_event A) (\<lambda>ev sv. event_caller A ev sv \<noteq> Some u) es sv"
  shows "tasks_of u (sv_db (run (serve_event A) es sv)) = tasks_of u (sv_db sv) \<and>
     execs_of u (sv_db (run (serve_event A) es sv)) = execs_of u (sv_db sv) \<and>
     keys_ok (sv_db (run (serve_event A) es sv))"
  using isolation.run_rel [OF assms] isolation.run_inv [OF assms(1)] by (simp add: same_rows_def)

text \<open>New executions are appended and pending, old ones stay.\<close>

definition more_pending :: "server \<Rightarrow> server \<Rightarrow> bool" where
  "more_pending sv sv' \<longleftrightarrow> (\<exists>new. T_execs (sv_db sv') = T_execs (sv_db sv) @ new \<and> list_all IsPending new)"

abbreviation reports :: "route \<Rightarrow> bool" where
  "reports rt \<equiv> rt \<in> {Put_execution, Delete_execution, Delete_task}"

interpretation submission: respecting_steps "serve_event A" "\<lambda>sv. True" "\<lambda>ev sv. \<not> reports (fst ev)" more_pending
proof
  fix ev :: event and sv assume "\<not> reports (fst ev)"
  then show "more_pending sv (serve_event A ev sv)"
    by (cases A ev sv rule: serve_event_cases)
      (auto simp: more_pending_def account_step_def create_effect_def elim!: tenant_stepE)
next
  fix sv sv1 sv2 assume "more_pending sv sv1" "more_pending sv1 sv2"
  then show "more_pending sv sv2" unfolding more_pending_def by (metis append.assoc list_all_append)
qed (simp_all add: more_pending_def)

text \<open>C10: Nothing that is submitted is ever executed: over any run of requests other than the clients' own updates,
  cancellations and deletions, no row of the executions changes and every new one stays pending for ever. The routes
  are wired to the service that only writes rows; no handler starts the executor service.\<close>

theorem executions_stay_pending:
  assumes "guarded (serve_event A) (\<lambda>ev sv. \<not> reports (fst ev)) es sv"
  shows "\<exists>new. T_execs (sv_db (run (serve_event A) es sv)) = T_execs (sv_db sv) @ new \<and> list_all IsPending new"
  using submission.run_rel [OF TrueI assms] by (simp add: more_pending_def)

definition demo_api :: api where
  "demo_api =
     (let nothing = ExternalErr ''json''
      in \<lparr>ap_auth = toy_auth, ap_env = demo_env, ap_register = (\<lambda>s n. Inl nothing), ap_login = (\<lambda>s n. Inl nothing),
          ap_refresh = (\<lambda>s n. Inl nothing), ap_create = (\<lambda>s n. Inl nothing), ap_update = (\<lambda>s n. Inl nothing),
          ap_execution = (\<lambda>s n. Inl nothing)\<rparr>)"

definition demo_request :: request where
  "demo_request =
     \<lparr>rq_Authorization = ''Bearer A'', rq_Param = (\<lambda>k. ''1''), rq_Query = (\<lambda>k. []), rq_ClientIP = [], rq_ContentLength = 0,
      rq_body = []\<rparr>"

definition demo_server :: "uuid \<Rightarrow> server" where
  "demo_server owner =
     \<lparr>sv_session = fresh_session \<lparr>T_users = [example_user, toy_user], T_tasks = [demo_task\<lparr>Task_UserID := owner\<rparr>], T_execs = []\<rparr>,
      sv_register = RegisterRateLimit, sv_auth = AuthRateLimit, sv_refresh = RefreshRateLimit, sv_task = TaskRateLimit,
      sv_taskCreation = TaskCreationRateLimit, sv_execution = TaskExecutionRateLimit,
      sv_executionCreation = ExecutionCreationRateLimit\<rparr>"

abbreviation demo_events :: "route \<Rightarrow> event list" where
  "demo_events rt \<equiv> [(rt, demo_request, fresh_session empty_db)]"

theorem tenant_isolation_witness:
  "event_caller demo_api (hd (demo_events Delete_task)) (demo_server 2) = Some 7 \<and>
   tasks_of 2 (sv_db (run (serve_event demo_api) (demo_events Delete_task) (demo_server 2))) = [demo_task\<lparr>Task_UserID := 2\<rparr>]"
proof -
  have c: "event_caller demo_api (hd (demo_events Delete_task)) (demo_server 2) = Some 7" by code_simp
  have k: "keys_ok (sv_db (demo_server 2))" by code_simp
  have g: "guarded (serve_event demo_api) (\<lambda>ev sv. event_caller demo_api ev sv \<noteq> Some 2) (demo_events Delete_task) (demo_server 2)"
    using c by simp
  show ?thesis using tenant_isolation [OF k g] c by (simp add: tasks_of_def demo_server_def fresh_session_def)
qed

theorem executions_stay_pending_witness:
  "(let db = sv_db (run (serve_event demo_api) (demo_events Post_executions) (demo_server 7))
    in map Exec_TaskID (T_execs db) = [1] \<and> list_all IsPending (T_execs db))"
proof -
  have "map Exec_TaskID (T_execs (sv_db (run (serve_event demo_api) (demo_events Post_executions) (demo_server 7)))) = [1]"
    by code_simp
  moreover have "T_execs (sv_db (demo_server 7)) = []" by (simp add: demo_server_def fresh_session_def)
  ultimately show ?thesis
    using executions_stay_pending [of demo_api "demo_events Post_executions" "demo_server 7"] by auto
qed

end
