(* ===== verification/Disclosure.thy ===== *)
theory Disclosure
  imports Isolation
begin

text \<open>
  What the replies of the API disclose. A reply shows its caller rows of the caller only: one lemma per handler
  (\<open>discreet\<close>), one for the middleware (\<open>refuses\<close>), and their composition over the routing table.
\<close>

section \<open>What a reply shows\<close>

definition owned :: "uuid \<Rightarrow> DB \<Rightarrow> TaskExecutionResponse \<Rightarrow> bool" where
  "owned u db e \<longleftrightarrow> ER_TaskID e \<in> Task_ID ` set (tasks_of u db)"

fun shows_own :: "uuid \<Rightarrow> DB \<Rightarrow> api_body reply \<Rightarrow> bool" where
  "shows_own u db (Success code (B_Task t)) = (TR_UserID t = u)"
| "shows_own u db (Success code (B_Tasks ts n l k)) = list_all (\<lambda>t. TR_UserID t = u) ts"
| "shows_own u db (Success code (B_TasksCursor ts p l so sf)) = list_all (\<lambda>t. TR_UserID t = u) ts"
| "shows_own u db (Success code (B_Exec e)) = owned u db e"
| "shows_own u db (Success code (B_Execs es n l k)) = list_all (owned u db) es"
| "shows_own u db (Success code (B_User x)) = (UR_ID x = u)"
| "shows_own u db (Success code (B_Auth x)) = False"
| "shows_own u db (Success code (B_Message m)) = True"
| "shows_own u db r = True"

text \<open>What PostgreSQL does with the \<open>WHERE\<close> clause of a listing: it returns rows for which the clause is true.\<close>

definition filtering_engine :: "Task query_engine \<Rightarrow> bool" where
  "filtering_engine q \<longleftrightarrow>
     (\<forall>conds order n args now db rows. q (task_page_query (where_text conds) order n) args now db = Inr rows \<longrightarrow>
        (\<forall>t\<in>set rows. sat (bound args) (task_column t) (All conds) = Some True))"

lemma owned_row: "get_row Task_ID (ER_TaskID e) (T_tasks db) = Some t \<Longrightarrow> Task_UserID t = u \<Longrightarrow> owned u db e"
  by (force simp: owned_def tasks_of_def dest!: get_row_Some)

lemma cursor_page_own:
  assumes "filtering_engine q" and "tasks_GetByUserIDCursor q J u req s = (Inr (ts, p), s')"
  shows "list_all (\<lambda>t. Task_UserID t = u) ts"
proof -
  let ?r = "ValidatePaginationRequest req"
  from assms(2) obtain cursor w args rows s1 where
    w: "BuildTaskCursorWhere cursor (CP_SortOrder ?r) (CP_SortField ?r) (Some u) None = (w, args)"
    and q: "run_query q (task_page_query w (buildOrderByClause (CP_SortField ?r) (CP_SortOrder ?r)) (length args + 1))
        (args @ [ArgInt (CP_Limit ?r + 1)]) s = (Inr rows, s1)"
    and n: "next_page (encode_task J) (CP_Limit ?r) (map scan_task rows) = Inr (ts, p)"
    by (auto simp: tasks_GetByUserIDCursor_def tasks_cursor_page_def Let_def split: sum.splits prod.splits)
  let ?conds = "task_conds cursor (CP_SortOrder ?r) (CP_SortField ?r) (Some u) None"
  have "w = where_text ?conds" and args: "\<exists>more. args = ArgUUID u # more"
    using task_where_text [of cursor _ _ "Some u" None] task_where_args [of cursor _ _ "Some u" None] w
    by (metis fst_conv) (metis (no_types, lifting) append_Cons append_Nil option.simps(5) snd_conv task_where_args w)
  with q assms(1) have sat: "\<forall>t\<in>set rows. sat (bound (args @ [ArgInt (CP_Limit ?r + 1)])) (task_column t) (All ?conds) = Some True"
    unfolding filtering_engine_def by (metis run_query_Inr)
  have env: "bound (args @ [ArgInt (CP_Limit ?r + 1)]) (Suc 0) = Some (ArgUUID u)" using args by (auto simp: bound_def)
  have "Task_UserID t = u" if "t \<in> set rows" for t
  proof -
    have "sat (bound (args @ [ArgInt (CP_Limit ?r + 1)])) (task_column t) (All (filter_conds ''user_id'' (Some u) None)) = Some True"
      using bspec [OF sat that] unfolding task_conds_def sat_All_append by (auto split: option.splits)
    then show ?thesis using env by (simp add: filter_conds_def bool_list_def compare_as_def)
  qed
  moreover have "set ts \<subseteq> set (map scan_task rows)"
    using n by (auto simp: next_page_def Let_def split: if_splits sum.splits dest: in_set_takeD)
  ultimately show ?thesis by (fastforce simp: list_all_iff scan_task_def)
qed

lemma ToResponse_simps [simp]:
  "TR_UserID (Task_ToResponse f t) = Task_UserID t" "ER_TaskID (Exec_ToResponse f e) = Exec_TaskID e"
  "UR_ID (User_ToResponse f u) = User_ID u"
  by (simp_all add: Task_ToResponse_def Exec_ToResponse_def User_ToResponse_def)

lemma sql_page_rows: "sql_page tbl P key l k now db = Inr (rows, db') \<Longrightarrow> list_all P rows"
  by (auto simp: sql_page_def list_all_iff dest!: in_set_takeD in_set_dropD)

lemma tasks_GetByUserID_rows: "tasks_GetByUserID u l k s = (Inr ts, s') \<Longrightarrow> list_all (\<lambda>t. Task_UserID t = u) ts"
  by (auto simp: tasks_GetByUserID_def tasks_page_def wrap_inl_def list.pred_map comp_def scan_task_def
      split: sum.splits prod.splits dest!: run_stmt_Inr sql_page_rows)

lemma execs_GetByTaskID_rows: "execs_GetByTaskID i l k s = (Inr es, s') \<Longrightarrow> list_all (\<lambda>e. Exec_TaskID e = i) es"
  by (auto simp: execs_GetByTaskID_def execs_page_def wrap_inl_def
      split: sum.splits prod.splits dest!: run_stmt_Inr sql_page_rows)

lemma tasks_Update_owner: "tasks_Update (Some t) s = ((None, Some t'), s') \<Longrightarrow> Task_UserID t' = Task_UserID t"
  by (auto simp: tasks_Update_def Let_def split: sum.splits prod.splits option.splits)

lemma tasks_Create_owner: "tasks_Create (Some t) s = ((None, Some t'), s') \<Longrightarrow> Task_UserID t' = Task_UserID t"
  using tasks_Create_row [of t s t' s'] by auto

text \<open>A handler that answers the user the middleware has set with rows of that user only.\<close>

definition discreet :: "'b handler \<Rightarrow> bool" where
  "discreet h \<longleftrightarrow> (\<forall>c user s r s1. cx_user c = Some user \<and> h c s = (r, s1) \<longrightarrow> shows_own (User_ID user) (se_db s) r)"


lemma refused [simp]:
  "bound_body c = Inl r \<Longrightarrow> shows_own u db r" "own_task i user s = (Inl r, s1) \<Longrightarrow> shows_own u db r"
  by (auto simp: bound_body_def own_task_def split: option.splits sum.splits prod.splits if_splits)

lemma owned_own_task:
  "own_task i user s = (Inr task, s1) \<Longrightarrow> Exec_TaskID e = i \<Longrightarrow> owned (User_ID user) (se_db s) (Exec_ToResponse f e)"
  by (auto dest!: own_task_Inr intro: owned_row)

lemma discreet_tasks [simp]:
  "discreet (task_Create E)" "discreet (task_GetByID E)" "discreet (task_Update E)" "discreet (task_Delete E)"
  "filtering_engine (ae_engine E) \<Longrightarrow> discreet (task_List E)"
  unfolding discreet_def
  subgoal
    by (auto simp: task_Create_def GetUserFromContext_def new_task_def Let_def
        split: sum.splits option.splits prod.splits dest: tasks_Create_owner)
  subgoal
    by (auto simp: task_GetByID_def GetUserFromContext_def scan_task_def split: sum.splits prod.splits dest!: own_task_Inr)
  subgoal
    by (auto simp: task_Update_def task_Update_read_def task_Update_write_def GetUserFromContext_def scan_task_def
        split: sum.splits option.splits prod.splits if_splits dest!: own_task_Inr tasks_Update_owner applyTaskUpdates_keeps)
  subgoal
    by (auto simp: task_Delete_def GetUserFromContext_def split: sum.splits option.splits prod.splits)
  subgoal
    by (auto simp: task_List_def GetUserFromContext_def list.pred_map comp_def split: sum.splits option.splits prod.splits
        dest!: tasks_GetByUserID_rows dest: cursor_page_own)
  done

lemma discreet_reads_executions [simp]: "discreet (exec_GetByID E)" "discreet (exec_ListByTaskID E)"
  unfolding discreet_def
  subgoal
    by (auto simp: exec_GetByID_def GetUserFromContext_def scan_task_def split: sum.splits option.splits prod.splits
        dest!: execs_GetByID_Inr tasks_GetByID_Inr intro: owned_row)
  subgoal
    by (auto simp: exec_ListByTaskID_def GetUserFromContext_def list.pred_map comp_def list_all_iff split: sum.splits option.splits prod.splits
        dest!: execs_GetByTaskID_rows intro: owned_own_task)
  done

lemma discreet_exec_Create [simp]: "discreet (exec_Create E)"
  unfolding discreet_def
proof (intro allI impI, elim conjE)
  fix c :: "'b gin_context" and user s r s1
  assume c: "cx_user c = Some user" and r: "exec_Create E c s = (r, s1)"
  show "shows_own (User_ID user) (se_db s) r"
  proof (cases "ae_ParseUUID E (cx_Param c ''id'')")
    case (Inl err)
    with r show ?thesis by (auto simp: exec_Create_def)
  next
    case (Inr taskID)
    obtain f e s' where w: "WithTransaction (create_tx taskID (User_ID user)) None s = ((f, e), s')" by (metis prod.collapse)
    then have "f = None \<Longrightarrow> create_effect taskID (User_ID user) (se_now s) (se_db s) e (se_db s')"
      using create.all_or_nothing [OF w] by simp
    then have "f = None \<Longrightarrow> e = Some x \<Longrightarrow> owned (User_ID user) (se_db s) (Exec_ToResponse (ae_format E) x)" for x
      by (auto simp: create_effect_def intro: owned_row)
    with r c Inr w show ?thesis
      by (auto simp: exec_Create_def GetUserFromContext_def CreateExecutionAndUpdateTaskStatus_def Let_def split: option.splits)
  qed
qed

lemma discreet_exec_Cancel [simp]: "discreet (exec_Cancel E)"
  unfolding discreet_def
  by (auto simp: exec_Cancel_def GetUserFromContext_def Let_def split: sum.splits option.splits prod.splits)

lemma discreet_exec_Update [simp]: "discreet (exec_Update E)"
  unfolding discreet_def
proof (intro allI impI, elim conjE)
  fix c :: "UpdateTaskExecutionRequest gin_context" and user s r s1
  assume c: "cx_user c = Some user" and r: "exec_Update E c s = (r, s1)"
  have complete: "owned (User_ID user) (se_db s) (Exec_ToResponse (ae_format E) e')"
    if "execs_GetByID i s = (Inr e, s0)" "applyExecutionUpdates e req = Inr e'"
      "CompleteExecutionAndFinalizeTaskStatus e' st (User_ID user) s0 = ((None, x), s2)" for i e s0 req e' st x s2
  proof -
    note k = execs_GetByID_Inr [OF that(1)] applyExecutionUpdates_keeps [OF that(2)]
    have "Exec_ID e' = i" using k get_row_Some [of Exec_ID] by metis
    with complete.all_or_nothing [OF that(3) [unfolded CompleteExecutionAndFinalizeTaskStatus_def]] k show ?thesis
      by (auto simp: exec_effect_def intro: owned_row)
  qed
  show "shows_own (User_ID user) (se_db s) r"
    using r c
    by (auto simp: exec_Update_def GetUserFromContext_def scan_task_def Let_def complete
        split: sum.splits option.splits prod.splits if_splits
        dest!: tasks_GetByID_Inr) (metis ToResponse_simps(2) execs_GetByID_Inr owned_row)
qed

lemma discreet_replies [simp]: "discreet (\<lambda>c s. (auth_Me svc c, s))"
  by (auto simp: discreet_def auth_Me_def split: option.split)

text \<open>A middleware answers itself only to refuse.\<close>

definition refuses :: "'b mw \<Rightarrow> bool" where
  "refuses m \<longleftrightarrow> (\<forall>c sv r sv'. m c sv = (Inl r, sv') \<longrightarrow> (\<forall>u db. shows_own u db r))"

lemma refuses_mw [simp]:
  "refuses (mw_pure RequestSizeLimit)" "refuses (mw_pure (ValidateTaskCreation uc))" "refuses (mw_pure (ValidateTaskUpdate uc))"
  "refuses (mw_pure ValidateTaskExecutionUpdate)" "refuses (mw_user us sel upd)" "refuses (mw_ip sel upd)" "refuses (mw_auth svc)"
  by (auto simp: refuses_def mw_pure_def mw_user_def mw_ip_def mw_auth_def RequestSizeLimit_def ValidateRequestSize_def ValidateTaskCreation_def
      ValidateTaskUpdate_def ValidateTaskExecutionUpdate_def ValidateJSON_def RateLimitByUserID_def RateLimit_def RequireAuth_def Let_def
      split: sum.splits prod.splits if_splits option.splits bool.splits)

lemma chain_discreet:
  assumes "list_all refuses ms" and "list_all transparent ms" and "discreet h" and "cx_user c = Some user"
    and "chain ms h c sv = (r, sv')"
  shows "shows_own (User_ID user) (sv_db sv) r"
  using assms
proof (induction ms arbitrary: c sv)
  case Nil
  then show ?case unfolding discreet_def by (fastforce split: prod.splits)
next
  case (Cons m ms)
  obtain q sv1 where m: "m c sv = (q, sv1)" by fastforce
  show ?case
  proof (cases q)
    case (Inl r')
    with Cons.prems m show ?thesis by (simp add: refuses_def) metis
  next
    case (Inr c1)
    with Cons.prems(2) m have "sv_session sv1 = sv_session sv" "cx_user c1 = cx_user c"
      by (auto simp: transparent_def dest!: spec [of _ c] spec [of _ sv])
    with Cons.IH [of c1 sv1] Cons.prems m Inr show ?thesis by simp
  qed
qed

lemma chain_shows:
  fixes A :: api and rq :: request
  assumes "chain (mw_auth (ap_auth A) # ms) h (context_of d rq) sv = (r, sv')"
    and "list_all refuses ms" and "list_all transparent ms" and "discreet h"
  shows "case caller A rq sv of None \<Rightarrow> \<forall>u. shows_own u (sv_db sv) r | Some u \<Rightarrow> shows_own u (sv_db sv) r"
proof -
  let ?token = "extractToken (context_of d rq)" and ?s = "sv_session sv"
  have token: "extractToken (context_of no_body rq) = ?token" by (simp add: extractToken_def context_of_def)
  obtain q s0 where v: "ValidateAccessToken (ap_auth A) ?token ?s = (q, s0)" by fastforce
  have s0: "se_db s0 = se_db ?s" by (rule readsD [OF reads_handlers(6) v])
  show ?thesis
  proof (cases "?token = [] \<or> isl q")
    case True
    with assms(1) v show ?thesis
      by (cases "?token = []"; cases q) (auto simp: mw_auth_def RequireAuth_def Let_def split: option.split)
  next
    case False
    then obtain user where q: "q = Inr user" by (cases q) auto
    with False v have c: "caller A rq sv = Some (User_ID user)" by (simp add: caller_def token Let_def)
    from assms(1) False v q have "chain ms h ((context_of d rq)\<lparr>cx_user := Some user\<rparr>) (sv\<lparr>sv_session := s0\<rparr>) = (r, sv')"
      by (simp add: mw_auth_def RequireAuth_def Let_def)
    from chain_discreet [OF assms(2,3,4) _ this] show ?thesis using c s0 by simp
  qed
qed

text \<open>C3: What a reply shows is the caller's: whatever the request to a route behind the token check, a successful
  reply carries tasks, executions and accounts of the user its access token names only, provided the listings by
  cursor (the one query this development does not evaluate) return rows their \<open>WHERE\<close> clause is true for.\<close>

theorem replies_show_own_rows:
  assumes "filtering_engine (ae_engine (ap_env A))" and "rt \<notin> {Post_register, Post_login, Post_refresh, Post_logout}"
  shows "case caller A rq sv of
      None \<Rightarrow> \<forall>u. shows_own u (sv_db sv) (fst (serve A rt rq sv))
    | Some u \<Rightarrow> shows_own u (sv_db sv) (fst (serve A rt rq sv))"
proof -
  obtain r sv' where s: "serve A rt rq sv = (r, sv')" by fastforce
  have "case caller A rq sv of None \<Rightarrow> \<forall>u. shows_own u (sv_db sv) r | Some u \<Rightarrow> shows_own u (sv_db sv) r"
    using s assms
    apply (cases rt)
                  apply (simp_all only: serve.simps)
                  apply simp_all [4]
    by (drule chain_shows; simp)+
  then show ?thesis by (simp only: s fst_conv)
qed

theorem replies_show_own_rows_witness:
  "caller demo_api demo_request (demo_server 7) = Some 7 \<and>
   shows_own 7 (sv_db (demo_server 7)) (fst (serve demo_api Get_task demo_request (demo_server 7))) \<and>
   reply_code (fst (serve demo_api Get_task demo_request (demo_server 7))) = 200 \<and>
   reply_code (fst (serve demo_api Get_task demo_request (demo_server 2))) = 403"
proof -
  have c: "caller demo_api demo_request (demo_server 7) = Some 7"
    "reply_code (fst (serve demo_api Get_task demo_request (demo_server 7))) = 200"
    "reply_code (fst (serve demo_api Get_task demo_request (demo_server 2))) = 403" by code_simp+
  have "filtering_engine (ae_engine (ap_env demo_api))"
    by (auto simp: filtering_engine_def demo_api_def demo_env_def Let_def)
  from replies_show_own_rows [OF this, where rt = Get_task and rq = demo_request and sv = "demo_server 7"] c show ?thesis by simp
qed

end
