(* ===== verification/ApiInvariant.thy ===== *)
theory ApiInvariant
  imports Isolation
begin

text \<open>
  The schema invariant of the repositories, lifted to the API: the control flow of every handler, the middleware and
  the routing table keep it, and so does any run of requests.
\<close>

section \<open>Handlers keep the schema\<close>

text \<open>\<open>keeps\<close> of the repositories goes through the control flow of a handler.\<close>

lemma keeps_return [keeps_intro]: "keeps (\<lambda>s. (r s, s))"
  by (simp add: keeps_def)

lemma keeps_bind [keeps_intro]: "keeps f \<Longrightarrow> (\<And>x. keeps (g x)) \<Longrightarrow> keeps (\<lambda>s. case f s of (x, s1) \<Rightarrow> g x s1)"
  by (simp add: keeps_def split: prod.split) (metis snd_conv)

lemma keeps_sum [keeps_intro]:
  "(\<And>a. keeps (f a)) \<Longrightarrow> (\<And>b. keeps (g b)) \<Longrightarrow> keeps (\<lambda>s. case x s of Inl a \<Rightarrow> f a s | Inr b \<Rightarrow> g b s)"
  by (simp add: keeps_def split: sum.split)

lemma keeps_option [keeps_intro]:
  "keeps f \<Longrightarrow> (\<And>b. keeps (g b)) \<Longrightarrow> keeps (\<lambda>s. case x s of None \<Rightarrow> f s | Some b \<Rightarrow> g b s)"
  by (simp add: keeps_def split: option.split)

lemma keeps_if [keeps_intro]: "keeps f \<Longrightarrow> keeps g \<Longrightarrow> keeps (\<lambda>s. if b s then f s else g s)"
  by (simp add: keeps_def)

lemma keeps_pair [keeps_intro]: "(\<And>a b. keeps (f a b)) \<Longrightarrow> keeps (\<lambda>s. case x of (a, b) \<Rightarrow> f a b s)"
  by (simp add: keeps_def split: prod.split)

lemma reads_keeps: "reads f \<Longrightarrow> keeps f"
  by (simp add: reads_def keeps_def)

lemma keeps_readers [keeps_intro]:
  "keeps (own_task i u)" "keeps (execs_GetByID j)" "keeps (tasks_GetByID i)" "keeps (users_GetByEmail e)" "keeps new_id"
  by (intro reads_keeps reads_intro)+ (simp add: reads_def new_id_def)

lemma keeps_services [keeps_intro]:
  "keeps (CreateExecutionAndUpdateTaskStatus tid uid)" "keeps (CancelExecutionAndResetTaskStatus eid uid)"
  "keeps (CompleteExecutionAndFinalizeTaskStatus e st uid)"
  unfolding CreateExecutionAndUpdateTaskStatus_def CancelExecutionAndResetTaskStatus_def CompleteExecutionAndFinalizeTaskStatus_def
    create_tx_def cancel_tx_def complete_tx_def create_check_def create_write_def owned_execution_def Let_def
  by (intro keeps_intro)+

lemma keeps_handlers [keeps_intro]:
  "keeps (task_Create E c1)" "keeps (task_Update E c2)" "keeps (task_Delete E c)"
  "keeps (exec_Create E c)" "keeps (exec_Cancel E c)" "keeps (exec_Update E c3)" "keeps (auth_Register svc E c4)"
  unfolding task_Create_def task_Update_def task_Update_read_def task_Update_write_def task_Delete_def exec_Create_def exec_Cancel_def
    exec_Update_def auth_Register_def Register_def create_user_def with_tokens_def Let_def
  by (intro keeps_intro)+

section \<open>Requests keep the schema\<close>

lemma chain_keeps:
  assumes "chain ms h c sv = (r, sv')" and "list_all transparent ms" and "\<And>c. keeps (h c)" and "db_ok (sv_db sv)"
  shows "db_ok (sv_db sv')"
  using chain_transparent [OF assms(2,1)] keepsD [OF assms(3) assms(4)] assms(4) by (metis snd_conv)

lemma chain_auth_keeps:
  fixes A :: api and rq :: request
  assumes "chain (mw_auth (ap_auth A) # ms) h (context_of d rq) sv = (r, sv')" and "list_all transparent ms" and "\<And>c. keeps (h c)"
    and "db_ok (sv_db sv)"
  shows "db_ok (sv_db sv')"
  using chain_auth [OF assms(2,1)] keepsD [OF assms(3)] assms(4) by (metis snd_conv)

lemma serve_keeps:
  assumes "serve A rt rq sv = (r, sv')" and "db_ok (sv_db sv)"
  shows "db_ok (sv_db sv')"
proof -
  have readers: "keeps (auth_Login svc E c1)" "keeps (auth_Refresh svc c2)" "keeps (task_List E c)" "keeps (task_GetByID E c)"
    "keeps (exec_ListByTaskID E c)" "keeps (exec_GetByID E c)" for svc E c c1 c2
    by (intro reads_keeps reads_intro)+
  show ?thesis
    using assms
    by (cases rt; simp only: serve.simps)
      (erule (1) chain_auth_keeps [rotated -1] chain_keeps [rotated -1]; simp add: readers keeps_handlers keeps_return)+
qed

lemma serve_event_keeps:
  assumes "db_ok (sv_db sv)"
  shows "db_ok (sv_db (serve_event A ev sv))"
proof -
  obtain rt rq s where ev: "ev = (rt, rq, s)" by (cases ev)
  obtain r sv' where "serve A rt rq (arrive s sv) = (r, sv')" by fastforce
  with serve_keeps [OF this] assms ev show ?thesis by (simp add: serve_event_def arrive_def)
qed

interpretation wellformed: respecting_steps "serve_event A" "\<lambda>sv. db_ok (sv_db sv)" "\<lambda>ev sv. True"
  "\<lambda>sv sv'. db_ok (sv_db sv) \<longrightarrow> db_ok (sv_db sv')"
  by unfold_locales (simp_all add: serve_event_keeps)



end
