(* ===== verification/Logging.thy ===== *)
theory Logging
  imports AppConfig
begin

text \<open>
  The logger (\<open>pkg/logger/logger.go\<close>) over the standard library's \<open>log/slog\<close>: a logger has a minimal level, a handler
  and attributes, and writes records. What has been written is a list of records, oldest first; the rendering of a
  record as JSON or text is the handler's.
\<close>

section \<open>Levels, handlers and records\<close>

datatype log_level = LevelDebug | LevelInfo | LevelWarn | LevelError

text \<open>The integers of package \<open>slog\<close> that order the levels.\<close>

fun level_value :: "log_level \<Rightarrow> int" where
  "level_value LevelDebug = - 4"
| "level_value LevelInfo = 0"
| "level_value LevelWarn = 4"
| "level_value LevelError = 8"

lemma level_value_inject: "level_value l = level_value l' \<Longrightarrow> l = l'"
  by (cases l; cases l') simp_all

instantiation log_level :: linorder
begin

definition less_eq_log_level :: "log_level \<Rightarrow> log_level \<Rightarrow> bool" where
  "less_eq_log_level l l' = (level_value l \<le> level_value l')"

definition less_log_level :: "log_level \<Rightarrow> log_level \<Rightarrow> bool" where
  "less_log_level l l' = (level_value l < level_value l')"

instance
  by standard (auto simp: less_eq_log_level_def less_log_level_def dest: level_value_inject)

end

datatype log_handler = JSONHandler | TextHandler

datatype attr_value = AString string | AInt int | AError go_error

type_synonym attr = "string \<times> attr_value"

record Logger =
  lg_Level :: log_level
  lg_Handler :: log_handler
  lg_Attrs :: "attr list"

record log_record =
  lr_Level :: log_level
  lr_Msg :: string
  lr_Attrs :: "attr list"

type_synonym log_output = "log_record list"

text \<open>\<open>slog.Logger.Log\<close>: a record below the logger's level is dropped; the logger's attributes come first.\<close>

definition log_at :: "log_level \<Rightarrow> Logger \<Rightarrow> string \<Rightarrow> attr list \<Rightarrow> log_output \<Rightarrow> log_output" where
  "log_at level l msg args out =
     (if lg_Level l \<le> level then out @ [\<lparr>lr_Level = level, lr_Msg = msg, lr_Attrs = lg_Attrs l @ args\<rparr>] else out)"

abbreviation log_Info :: "Logger \<Rightarrow> string \<Rightarrow> attr list \<Rightarrow> log_output \<Rightarrow> log_output" where
  "log_Info \<equiv> log_at LevelInfo"

abbreviation log_Error :: "Logger \<Rightarrow> string \<Rightarrow> attr list \<Rightarrow> log_output \<Rightarrow> log_output" where
  "log_Error \<equiv> log_at LevelError"

section \<open>Construction\<close>

definition NewWithWriter :: "casemap \<Rightarrow> string \<Rightarrow> string \<Rightarrow> Logger" where
  "NewWithWriter uc level format =
     (let logLevel =
            (if ToLower uc level = ''debug'' then LevelDebug
             else if ToLower uc level = ''info'' then LevelInfo
             else if ToLower uc level = ''warn'' then LevelWarn
             else if ToLower uc level = ''error'' then LevelError
             else LevelInfo);
          handler =
            (if ToLower uc format = ''json'' then JSONHandler
             else if ToLower uc format = ''text'' then TextHandler
             else JSONHandler)
      in \<lparr>lg_Level = logLevel, lg_Handler = handler, lg_Attrs = []\<rparr>)"

definition logger_New :: "casemap \<Rightarrow> string \<Rightarrow> string \<Rightarrow> Logger" where
  "logger_New uc level format = NewWithWriter uc level format"

definition log_With :: "attr \<Rightarrow> Logger \<Rightarrow> Logger" where
  "log_With a l = l\<lparr>lg_Attrs := lg_Attrs l @ [a]\<rparr>"

definition WithRequestID :: "Logger \<Rightarrow> string \<Rightarrow> Logger" where
  "WithRequestID l requestID = log_With (''request_id'', AString requestID) l"

definition WithUserID :: "Logger \<Rightarrow> string \<Rightarrow> Logger" where
  "WithUserID l userID = log_With (''user_id'', AString userID) l"

definition WithOperation :: "Logger \<Rightarrow> string \<Rightarrow> Logger" where
  "WithOperation l operation = log_With (''operation'', AString operation) l"

definition WithError :: "Logger \<Rightarrow> go_error \<Rightarrow> Logger" where
  "WithError l err = log_With (''error'', AError err) l"

text \<open>
  A \<open>context.Context\<close> as the values on it, latest first; a key is its Go type with its value, so that the key
  \<open>contextKey("request_id")\<close> of this package is not the string \<open>"request_id"\<close>.
\<close>

datatype ctx_value = CtxString string | CtxOther

record ctx_key =
  ck_type :: string
  ck_name :: string

type_synonym ctx_values = "(ctx_key \<times> ctx_value) list"

definition requestIDKey :: ctx_key where
  "requestIDKey = \<lparr>ck_type = ''logger.contextKey'', ck_name = ''request_id''\<rparr>"

definition WithContext :: "Logger \<Rightarrow> ctx_values \<Rightarrow> Logger" where
  "WithContext l ctx =
     (case map_of ctx requestIDKey of
        Some (CtxString reqIDStr) \<Rightarrow> WithRequestID l reqIDStr
      | _ \<Rightarrow> l)"

section \<open>What is written\<close>

lemmas logger_with = WithRequestID_def WithUserID_def WithOperation_def WithError_def log_With_def

lemma logger_with_level [simp]:
  "lg_Level (WithRequestID l i) = lg_Level l" "lg_Level (WithUserID l i) = lg_Level l"
  "lg_Level (WithOperation l i) = lg_Level l" "lg_Level (WithError l e) = lg_Level l"
  by (simp_all add: logger_with)

lemma log_at_cases: "log_at level l msg args out = out \<or> (\<exists>r. log_at level l msg args out = out @ [r])"
  by (simp add: log_at_def)

text \<open>An error is written by every logger the program can make, an \<open>Info\<close> record unless the level is \<open>warn\<close> or \<open>error\<close>.\<close>

lemma NewWithWriter_writes:
  "log_Error (NewWithWriter uc level format) msg args out = out @ [\<lparr>lr_Level = LevelError, lr_Msg = msg, lr_Attrs = args\<rparr>]"
  "log_Info (NewWithWriter uc level format) msg args out =
     (if ToLower uc level \<in> {''warn'', ''error''} then out
      else out @ [\<lparr>lr_Level = LevelInfo, lr_Msg = msg, lr_Attrs = args\<rparr>])"
  by (auto simp: log_at_def NewWithWriter_def less_eq_log_level_def Let_def)

text \<open>
  What \<open>gin.Context\<close> holds is under keys of type \<open>string\<close>, where \<open>RequestID\<close> puts the id: \<open>WithContext\<close> on the
  context of a request never finds it.
\<close>

lemma WithContext_misses_request_id:
  assumes "list_all (\<lambda>(k, v). ck_type k = ''string'') ctx"
  shows "WithContext l ctx = l"
proof -
  have "map_of ctx requestIDKey = None"
    using assms by (induction ctx) (auto simp: requestIDKey_def)
  then show ?thesis by (simp add: WithContext_def)
qed

text \<open>The migrate command passes its name where the level goes: whatever level is configured, it logs from \<open>info\<close> on.\<close>

lemma migrate_ignores_the_level: "lg_Level (logger_New uc ''migrate'' level) = LevelInfo"
proof -
  have "ToLower uc ''migrate'' = ''migrate''" by (simp add: ToLower_def is_ascii_def lower_char_def)
  then show ?thesis by (simp add: logger_New_def NewWithWriter_def Let_def)
qed

end
