(* ===== verification/Middleware.thy ===== *)
theory Middleware
  imports Logging Routes
begin

text \<open>
  The HTTP front of the server: the six global middlewares \<open>setupMiddleware\<close> installs (\<open>internal/api/middleware\<close>,
  \<open>pkg/logger\<close>), and what every response has after them. gin's response writer and gin-contrib's CORS handler are
  parameters; a handler either returns or panics, and a middleware is a function on the handler after it
  (\<open>c.Next()\<close>).
\<close>

section \<open>Responses\<close>

datatype gin_error_type = ErrorTypeBind | ErrorTypeRender | ErrorTypePrivate | ErrorTypePublic | ErrorTypeAny

record gin_error =
  ge_Type :: gin_error_type
  ge_Err :: string

text \<open>The bodies handlers write: a reply of the API, \<open>middleware.ErrorResponse\<close>, a \<open>gin.H\<close> of strings, and the two of \<open>health.go\<close>.\<close>

datatype body =
    ApiReply "api_body reply"
  | ErrorResponse string string nat
  | GinH "(string \<times> string) list"
  | HealthResponse string time string string string
  | ReadinessResponse string "string \<rightharpoonup> string" time

text \<open>
  The response writer over an arbitrary state \<open>'w\<close>: \<open>c.Header\<close>, \<open>c.JSON\<close> (which reports a failure to render),
  \<open>c.Data\<close>, \<open>c.File\<close>, \<open>c.Redirect\<close>, and what can be observed of it.
\<close>

record 'w writer_api =
  wa_Header :: "string \<Rightarrow> string \<Rightarrow> 'w \<Rightarrow> 'w"
  wa_JSON :: "nat \<Rightarrow> body \<Rightarrow> 'w \<Rightarrow> gin_error option \<times> 'w"
  wa_Data :: "nat \<Rightarrow> string \<Rightarrow> string list \<Rightarrow> 'w \<Rightarrow> gin_error option \<times> 'w"
  wa_File :: "string \<Rightarrow> 'w \<Rightarrow> 'w"
  wa_Redirect :: "nat \<Rightarrow> string \<Rightarrow> 'w \<Rightarrow> gin_error option \<times> 'w"
  wa_Status :: "'w \<Rightarrow> nat"
  wa_Written :: "'w \<Rightarrow> bool"
  wa_Get :: "'w \<Rightarrow> string \<Rightarrow> string option"

text \<open>What \<open>gin.Context\<close> carries for these middlewares: the request id, the errors, the writer; and the log.\<close>

record 'w gin_state =
  gs_request_id :: string
  gs_Errors :: "gin_error list"
  gs_aborted :: bool
  gs_writer :: 'w
  gs_log :: log_output

text \<open>A handler on that and the state \<open>'s\<close> of the server: \<open>Some p\<close> when it panics with \<open>p\<close>.\<close>

type_synonym ('w, 's) action = "'w gin_state \<Rightarrow> 's \<Rightarrow> string option \<times> 'w gin_state \<times> 's"

definition set_header :: "'w writer_api \<Rightarrow> string \<Rightarrow> string \<Rightarrow> 'w gin_state \<Rightarrow> 'w gin_state" where
  "set_header W k v g = g\<lparr>gs_writer := wa_Header W k v (gs_writer g)\<rparr>"

text \<open>\<open>c.Render\<close>: a failure is pushed to the errors and aborts.\<close>

definition rendered :: "gin_error option \<times> 'w \<Rightarrow> 'w gin_state \<Rightarrow> 'w gin_state" where
  "rendered r g =
     (case r of
        (None, w) \<Rightarrow> g\<lparr>gs_writer := w\<rparr>
      | (Some e, w) \<Rightarrow> g\<lparr>gs_writer := w, gs_Errors := gs_Errors g @ [e], gs_aborted := True\<rparr>)"

definition send_JSON :: "'w writer_api \<Rightarrow> nat \<Rightarrow> body \<Rightarrow> 'w gin_state \<Rightarrow> 'w gin_state" where
  "send_JSON W code b g = rendered (wa_JSON W code b (gs_writer g)) g"

text \<open>What is known of a request beyond \<open>request\<close>; \<open>hr_newid\<close> and \<open>hr_elapsed\<close> are what \<open>uuid.New()\<close> and the clock give while it is served.\<close>

record http_request = request +
  hr_Method :: string
  hr_Path :: string
  hr_RequestID :: string
  hr_UserAgent :: string
  hr_TLS :: bool
  hr_newid :: string
  hr_elapsed :: int

section \<open>The middlewares\<close>

definition security_headers :: "(string \<times> string) list" where
  "security_headers =
     [(''X-Content-Type-Options'', ''nosniff''),
      (''X-Frame-Options'', ''DENY''),
      (''X-XSS-Protection'', ''1; mode=block''),
      (''Referrer-Policy'', ''strict-origin-when-cross-origin''),
      (''Content-Security-Policy'', ''default-src '' @ [CHR 0x27] @ ''self'' @ [CHR 0x27])]"

definition SecurityHeaders :: "'w writer_api \<Rightarrow> 'r http_request_scheme \<Rightarrow> ('w, 's) action \<Rightarrow> ('w, 's) action" where
  "SecurityHeaders W rq next g s =
     (let g1 = fold (\<lambda>(k, v). set_header W k v) security_headers g;
          g2 = (if hr_TLS rq then set_header W ''Strict-Transport-Security'' ''max-age=31536000; includeSubDomains'' g1 else g1)
      in next g2 s)"

definition RequestID :: "'w writer_api \<Rightarrow> 'r http_request_scheme \<Rightarrow> ('w, 's) action \<Rightarrow> ('w, 's) action" where
  "RequestID W rq next g s =
     (let requestID = (if hr_RequestID rq = [] then hr_newid rq else hr_RequestID rq)
      in next (set_header W ''X-Request-ID'' requestID (g\<lparr>gs_request_id := requestID\<rparr>)) s)"

record cors_config =
  cc_AllowOrigins :: "string list"
  cc_AllowMethods :: "string list"
  cc_AllowHeaders :: "string list"
  cc_ExposeHeaders :: "string list"
  cc_AllowCredentials :: bool
  cc_MaxAge :: int

text \<open>
  \<open>cors.New\<close> of gin-contrib: a configuration it does not accept is a panic, otherwise it gives a handler that may
  write headers and may answer and abort (a preflight, or an origin that is not allowed).
\<close>

type_synonym 'w cors_handler = "http_request \<Rightarrow> 'w \<Rightarrow> bool \<times> 'w"
type_synonym 'w cors_new = "cors_config \<Rightarrow> string + 'w cors_handler"

definition CORS :: "'w cors_new \<Rightarrow> string list \<Rightarrow> string list \<Rightarrow> string list \<Rightarrow> string + 'w cors_handler" where
  "CORS cors_New allowedOrigins allowedMethods allowedHeaders =
     cors_New \<lparr>cc_AllowOrigins = allowedOrigins, cc_AllowMethods = allowedMethods, cc_AllowHeaders = allowedHeaders,
               cc_ExposeHeaders = [''X-Request-ID''], cc_AllowCredentials = True, cc_MaxAge = 12 * Hour\<rparr>"

definition run_CORS :: "'w cors_handler \<Rightarrow> http_request \<Rightarrow> ('w, 's) action \<Rightarrow> ('w, 's) action" where
  "run_CORS h rq next g s =
     (case h rq (gs_writer g) of
        (True, w) \<Rightarrow> (None, g\<lparr>gs_writer := w, gs_aborted := True\<rparr>, s)
      | (False, w) \<Rightarrow> next (g\<lparr>gs_writer := w\<rparr>) s)"

definition GinLogger :: "'w writer_api \<Rightarrow> Logger \<Rightarrow> 'r http_request_scheme \<Rightarrow> ('w, 's) action \<Rightarrow> ('w, 's) action" where
  "GinLogger W l rq next g s =
     (let requestID = gs_request_id g
      in case next g s of
          (Some p, g1, s1) \<Rightarrow> (Some p, g1, s1)
        | (None, g1, s1) \<Rightarrow>
            (None, g1\<lparr>gs_log := log_Info (WithRequestID l requestID) ''request completed''
               [(''method'', AString (hr_Method rq)), (''path'', AString (hr_Path rq)), (''status'', AInt (int (wa_Status W (gs_writer g1)))),
                (''duration_ms'', AInt (Milliseconds (hr_elapsed rq))), (''user_agent'', AString (hr_UserAgent rq)),
                (''client_ip'', AString (rq_ClientIP rq))] (gs_log g1)\<rparr>, s1))"

definition GinRecovery :: "'w writer_api \<Rightarrow> Logger \<Rightarrow> 'r http_request_scheme \<Rightarrow> ('w, 's) action \<Rightarrow> ('w, 's) action" where
  "GinRecovery W l rq next g s =
     (case next g s of
        (None, g1, s1) \<Rightarrow> (None, g1, s1)
      | (Some p, g1, s1) \<Rightarrow>
          (let g2 = g1\<lparr>gs_log := log_Error (WithRequestID l (gs_request_id g1)) ''panic recovered''
                 [(''error'', AString p), (''method'', AString (hr_Method rq)), (''path'', AString (hr_Path rq)),
                  (''client_ip'', AString (rq_ClientIP rq))] (gs_log g1)\<rparr>;
               g3 = send_JSON W 500 (GinH [(''error'', ''Internal server error'')]) g2
           in (None, g3\<lparr>gs_aborted := True\<rparr>, s1)))"

definition ErrorHandler :: "'w writer_api \<Rightarrow> ('w, 's) action \<Rightarrow> ('w, 's) action" where
  "ErrorHandler W next g s =
     (case next g s of
        (Some p, g1, s1) \<Rightarrow> (Some p, g1, s1)
      | (None, g1, s1) \<Rightarrow>
          (if length (gs_Errors g1) > 0 then
             (let err = last (gs_Errors g1);
                  answer = (case ge_Type err of
                      ErrorTypeBind \<Rightarrow> send_JSON W 400 (ErrorResponse ''Bad Request'' (ge_Err err) 400)
                    | ErrorTypePublic \<Rightarrow> send_JSON W 500 (ErrorResponse ''Internal Server Error'' (ge_Err err) 500)
                    | _ \<Rightarrow> send_JSON W 500 (ErrorResponse ''Internal Server Error'' ''An unexpected error occurred'' 500))
              in (None, answer g1, s1))
           else (None, g1, s1)))"

text \<open>The six in the order of \<open>router.Use\<close>; \<open>h\<close> is the CORS handler.\<close>

definition setupMiddleware ::
    "'w writer_api \<Rightarrow> Logger \<Rightarrow> 'w cors_handler \<Rightarrow> http_request \<Rightarrow> ('w, 's) action \<Rightarrow> ('w, 's) action" where
  "setupMiddleware W l h rq =
     SecurityHeaders W rq \<circ> RequestID W rq \<circ> run_CORS h rq \<circ> GinLogger W l rq \<circ> GinRecovery W l rq \<circ> ErrorHandler W"

section \<open>What the front promises\<close>

text \<open>
  The headers that mark a response, and the documented behaviour of the writer on them: a header that is set can be
  read, before the body is written; rendering a body changes none of them and sets the status of a response that has
  not begun.
\<close>

definition marks :: "string list" where
  "marks = map fst security_headers @ [''Strict-Transport-Security'', ''X-Request-ID'']"

definition same_marks :: "'w writer_api \<Rightarrow> 'w \<Rightarrow> 'w \<Rightarrow> bool" where
  "same_marks W w w' \<longleftrightarrow> (\<forall>k\<in>set marks. wa_Get W w' k = wa_Get W w k)"

definition writer_laws :: "'w writer_api \<Rightarrow> bool" where
  "writer_laws W \<longleftrightarrow>
     (\<forall>k\<in>set marks. \<forall>v w. v \<noteq> [] \<and> \<not> wa_Written W w \<longrightarrow>
        wa_Get W (wa_Header W k v w) k = Some v \<and> \<not> wa_Written W (wa_Header W k v w) \<and>
        (\<forall>k'\<in>set marks. k' \<noteq> k \<longrightarrow> wa_Get W (wa_Header W k v w) k' = wa_Get W w k')) \<and>
     (\<forall>code b w. same_marks W w (snd (wa_JSON W code b w)) \<and> (\<not> wa_Written W w \<longrightarrow> wa_Status W (snd (wa_JSON W code b w)) = code)) \<and>
     (\<forall>code t b w. same_marks W w (snd (wa_Data W code t b w))) \<and>
     (\<forall>f w. same_marks W w (wa_File W f w)) \<and>
     (\<forall>code l w. same_marks W w (snd (wa_Redirect W code l w)))"

text \<open>The CORS handler writes headers of its own (\<open>Access-Control-*\<close>, \<open>Vary\<close>), and a body only when it aborts.\<close>

definition cors_laws :: "'w writer_api \<Rightarrow> 'w cors_handler \<Rightarrow> bool" where
  "cors_laws W h \<longleftrightarrow>
     (\<forall>rq w. same_marks W w (snd (h rq w)) \<and> (\<not> wa_Written W w \<and> \<not> fst (h rq w) \<longrightarrow> \<not> wa_Written W (snd (h rq w))))"

text \<open>A handler that leaves the marks and the request id alone, whether it returns or panics.\<close>

definition tame :: "'w writer_api \<Rightarrow> ('w, 's) action \<Rightarrow> bool" where
  "tame W act \<longleftrightarrow>
     (\<forall>g s. case act g s of (p, g1, s1) \<Rightarrow> gs_request_id g1 = gs_request_id g \<and> same_marks W (gs_writer g) (gs_writer g1))"

definition request_id_of :: "'r http_request_scheme \<Rightarrow> string" where
  "request_id_of rq = (if hr_RequestID rq = [] then hr_newid rq else hr_RequestID rq)"

definition marked :: "'w writer_api \<Rightarrow> 'r http_request_scheme \<Rightarrow> 'w \<Rightarrow> bool" where
  "marked W rq w \<longleftrightarrow>
     (\<forall>(k, v)\<in>set security_headers. wa_Get W w k = Some v) \<and> wa_Get W w ''X-Request-ID'' = Some (request_id_of rq) \<and>
     (hr_TLS rq \<longrightarrow> wa_Get W w ''Strict-Transport-Security'' = Some ''max-age=31536000; includeSubDomains'')"

lemma same_marks_refl [simp]: "same_marks W w w"
  by (simp add: same_marks_def)

lemma same_marks_trans: "same_marks W w w1 \<Longrightarrow> same_marks W w1 w2 \<Longrightarrow> same_marks W w w2"
  by (simp add: same_marks_def)

lemma same_marks_marked: "same_marks W w w' \<Longrightarrow> marked W rq w' = marked W rq w"
  by (auto simp: same_marks_def marked_def marks_def security_headers_def)

lemma gs_writer_set_header [simp]: "gs_writer (set_header W k v g) = wa_Header W k v (gs_writer g)"
  by (simp add: set_header_def)

lemma gs_rest_set_header [simp]:
  "gs_request_id (set_header W k v g) = gs_request_id g" "gs_log (set_header W k v g) = gs_log g"
  "gs_Errors (set_header W k v g) = gs_Errors g"
  by (simp_all add: set_header_def)

lemma send_JSON_state [simp]:
  "gs_request_id (send_JSON W code b g) = gs_request_id g" "gs_log (send_JSON W code b g) = gs_log g"
  "gs_writer (send_JSON W code b g) = snd (wa_JSON W code b (gs_writer g))"
  by (simp_all add: send_JSON_def rendered_def split: prod.split option.split)

lemma writer_lawsD:
  assumes "writer_laws W"
  shows "same_marks W w (snd (wa_JSON W code b w))" "\<not> wa_Written W w \<Longrightarrow> wa_Status W (snd (wa_JSON W code b w)) = code"
    "same_marks W w (snd (wa_Data W code t txt w))" "same_marks W w (wa_File W f w)" "same_marks W w (snd (wa_Redirect W code url w))"
  using assms by (simp_all add: writer_laws_def)

text \<open>Setting a mark: a list of headers with distinct names, all of them marks, is on the response after it was set.\<close>

lemma set_headers:
  assumes W: "writer_laws W" and "distinct (map fst hs)" and "list_all (\<lambda>(k, v). k \<in> set marks \<and> v \<noteq> []) hs"
    and "\<not> wa_Written W (gs_writer g)" and "g' = fold (\<lambda>(k, v). set_header W k v) hs g"
  shows "\<not> wa_Written W (gs_writer g') \<and> (\<forall>(k, v)\<in>set hs. wa_Get W (gs_writer g') k = Some v) \<and>
     (\<forall>k\<in>set marks. k \<notin> fst ` set hs \<longrightarrow> wa_Get W (gs_writer g') k = wa_Get W (gs_writer g) k)"
  using assms(2-)
proof (induction hs arbitrary: g)
  case (Cons h hs)
  obtain k v where h: "h = (k, v)" by fastforce
  have kv: "k \<in> set marks" "v \<noteq> []" using Cons.prems h by simp_all
  let ?g = "set_header W k v g"
  have s: "wa_Get W (gs_writer ?g) k = Some v" "\<not> wa_Written W (gs_writer ?g)"
    "\<And>k'. k' \<in> set marks \<Longrightarrow> k' \<noteq> k \<Longrightarrow> wa_Get W (gs_writer ?g) k' = wa_Get W (gs_writer g) k'"
    using W kv Cons.prems(3) unfolding writer_laws_def gs_writer_set_header by blast+
  have ih: "\<not> wa_Written W (gs_writer g') \<and> (\<forall>(k, v)\<in>set hs. wa_Get W (gs_writer g') k = Some v) \<and>
     (\<forall>k\<in>set marks. k \<notin> fst ` set hs \<longrightarrow> wa_Get W (gs_writer g') k = wa_Get W (gs_writer ?g) k)"
    by (rule Cons.IH) (use Cons.prems h s(2) in simp_all)
  moreover have "k \<notin> fst ` set hs" using Cons.prems(1) h by simp
  ultimately show ?case using s kv h by auto
qed simp

text \<open>What \<open>SecurityHeaders\<close> and \<open>RequestID\<close> hand on is one list of headers.\<close>

definition front_headers :: "'r http_request_scheme \<Rightarrow> (string \<times> string) list" where
  "front_headers rq =
     security_headers @ (if hr_TLS rq then [(''Strict-Transport-Security'', ''max-age=31536000; includeSubDomains'')] else []) @
     [(''X-Request-ID'', request_id_of rq)]"

definition front_state :: "'w writer_api \<Rightarrow> 'r http_request_scheme \<Rightarrow> 'w gin_state \<Rightarrow> 'w gin_state" where
  "front_state W rq g = fold (\<lambda>(k, v). set_header W k v) (front_headers rq) (g\<lparr>gs_request_id := request_id_of rq\<rparr>)"

lemma front_runs: "SecurityHeaders W rq (RequestID W rq next) g s = next (front_state W rq g) s"
  by (simp add: SecurityHeaders_def RequestID_def front_state_def front_headers_def security_headers_def request_id_of_def
      set_header_def Let_def)

lemma front_state_rest:
  "gs_request_id (front_state W rq g) = request_id_of rq" "gs_log (front_state W rq g) = gs_log g"
  "gs_Errors (front_state W rq g) = gs_Errors g"
  by (simp_all add: front_state_def front_headers_def security_headers_def)

lemma front_state_marked:
  assumes "writer_laws W" and "\<not> wa_Written W (gs_writer g)" and "hr_newid rq \<noteq> []"
  shows "marked W rq (gs_writer (front_state W rq g)) \<and> \<not> wa_Written W (gs_writer (front_state W rq g))"
proof -
  have "distinct (map fst (front_headers rq))" by (simp add: front_headers_def security_headers_def)
  moreover have "list_all (\<lambda>(k, v). k \<in> set marks \<and> v \<noteq> []) (front_headers rq)"
    using assms(3) by (simp add: front_headers_def security_headers_def marks_def request_id_of_def)
  ultimately show ?thesis
    using set_headers [OF assms(1), of "front_headers rq" "g\<lparr>gs_request_id := request_id_of rq\<rparr>"] assms(2)
    unfolding front_state_def by (auto simp: marked_def front_headers_def)
qed

text \<open>The three inner middlewares keep the marks and let no panic out.\<close>

lemma tameD: "tame W act \<Longrightarrow> act g s = (p, g1, s1) \<Longrightarrow> gs_request_id g1 = gs_request_id g \<and> same_marks W (gs_writer g) (gs_writer g1)"
  unfolding tame_def by (metis (mono_tags, lifting) case_prodD)

lemma ErrorHandler_cases:
  assumes "next g s = (p, g1, s1)"
  obtains "p \<noteq> None \<or> gs_Errors g1 = []" and "ErrorHandler W next g s = (p, g1, s1)"
  | code b where "p = None" and "gs_Errors g1 \<noteq> []" and "code = (if ge_Type (last (gs_Errors g1)) = ErrorTypeBind then 400 else 500)"
      and "ErrorHandler W next g s = (None, send_JSON W code b g1, s1)"
proof (cases "p = None \<and> gs_Errors g1 \<noteq> []")
  case True
  then show ?thesis using assms that(2)
    by (cases "ge_Type (last (gs_Errors g1))") (auto simp: ErrorHandler_def)
qed (use assms that(1) in \<open>auto simp: ErrorHandler_def split: option.split\<close>)

lemma GinRecovery_eq:
  assumes "next g s = (p, g1, s1)"
  shows "GinRecovery W l rq next g s =
     (case p of
        None \<Rightarrow> (None, g1, s1)
      | Some e \<Rightarrow>
          (None, (send_JSON W 500 (GinH [(''error'', ''Internal server error'')])
                   (g1\<lparr>gs_log := log_Error (WithRequestID l (gs_request_id g1)) ''panic recovered''
                      [(''error'', AString e), (''method'', AString (hr_Method rq)), (''path'', AString (hr_Path rq)),
                       (''client_ip'', AString (rq_ClientIP rq))] (gs_log g1)\<rparr>))\<lparr>gs_aborted := True\<rparr>, s1))"
  using assms by (simp add: GinRecovery_def Let_def split: option.split)

lemma ErrorHandler_tame: "writer_laws W \<Longrightarrow> tame W act \<Longrightarrow> tame W (ErrorHandler W act)"
  unfolding tame_def [of W "ErrorHandler W act"]
proof (intro allI)
  fix g s assume W: "writer_laws W" and t: "tame W act"
  obtain p g1 s1 where a: "act g s = (p, g1, s1)" by (metis prod.collapse)
  from tameD [OF t a] show "case ErrorHandler W act g s of (p, g1, s1) \<Rightarrow>
      gs_request_id g1 = gs_request_id g \<and> same_marks W (gs_writer g) (gs_writer g1)"
    by (cases rule: ErrorHandler_cases [of act, OF a, of W]) (auto intro: same_marks_trans writer_lawsD(1) [OF W])
qed

lemma GinRecovery_returns: "fst (GinRecovery W l rq act g s) = None"
  by (simp add: GinRecovery_def Let_def split: prod.split option.split)

lemma GinRecovery_tame: "writer_laws W \<Longrightarrow> tame W act \<Longrightarrow> tame W (GinRecovery W l rq act)"
  unfolding tame_def [of W "GinRecovery W l rq act"]
proof (intro allI)
  fix g s assume W: "writer_laws W" and t: "tame W act"
  obtain p g1 s1 where a: "act g s = (p, g1, s1)" by (metis prod.collapse)
  from tameD [OF t a] show "case GinRecovery W l rq act g s of (p, g1, s1) \<Rightarrow>
      gs_request_id g1 = gs_request_id g \<and> same_marks W (gs_writer g) (gs_writer g1)"
    by (auto simp: GinRecovery_eq [of act, OF a] intro: same_marks_trans writer_lawsD(1) [OF W] split: option.split)
qed

lemma GinLogger_logs:
  assumes "next g s = (None, g1, s1)" and "GinLogger W l rq next g s = (p, g2, s2)"
  shows "p = None \<and> s2 = s1 \<and> gs_writer g2 = gs_writer g1 \<and> gs_Errors g2 = gs_Errors g1 \<and> gs_request_id g2 = gs_request_id g1 \<and>
     (if lg_Level l \<le> LevelInfo
      then \<exists>r. gs_log g2 = gs_log g1 @ [r] \<and> lr_Msg r = ''request completed'' \<and>
             {(''request_id'', AString (gs_request_id g)), (''status'', AInt (int (wa_Status W (gs_writer g2))))} \<subseteq> set (lr_Attrs r)
      else gs_log g2 = gs_log g1)"
  using assms by (auto simp: GinLogger_def log_at_def logger_with Let_def)

lemma GinRecovery_answer:
  assumes W: "writer_laws W" and t: "tame W inner" and r: "GinRecovery W l rq (ErrorHandler W inner) g s = (p, g1, s1)"
  obtains q g' where "inner g s = (q, g', s1)" and "p = None" and "gs_request_id g1 = gs_request_id g"
    and "same_marks W (gs_writer g) (gs_writer g1)"
    and "q \<noteq> None \<Longrightarrow> \<not> wa_Written W (gs_writer g') \<Longrightarrow> wa_Status W (gs_writer g1) = 500"
    and "q = None \<Longrightarrow> gs_Errors g' \<noteq> [] \<Longrightarrow> \<not> wa_Written W (gs_writer g') \<Longrightarrow> wa_Status W (gs_writer g1) \<in> {400, 500}"
    and "q = None \<Longrightarrow> gs_Errors g' = [] \<Longrightarrow> gs_writer g1 = gs_writer g'"
    and "\<exists>panics. gs_log g1 = gs_log g' @ panics \<and> list_all (\<lambda>r. lr_Msg r = ''panic recovered'') panics \<and>
           length panics = (if q = None then 0 else 1)"
proof -
  obtain q g' sa where a: "inner g s = (q, g', sa)" by (metis prod.collapse)
  have p: "p = None" using GinRecovery_returns [of W l rq "ErrorHandler W inner" g s] r by simp
  have k: "gs_request_id g1 = gs_request_id g" "same_marks W (gs_writer g) (gs_writer g1)"
    using tameD [OF GinRecovery_tame [OF W ErrorHandler_tame [OF W t]] r] by auto
  have e: "log_Error (WithRequestID l i) m xs out = out @ [\<lparr>lr_Level = LevelError, lr_Msg = m, lr_Attrs = lg_Attrs l @ (''request_id'', AString i) # xs\<rparr>]"
    for i m xs out by (cases "lg_Level l") (simp_all add: log_at_def less_eq_log_level_def logger_with)
  show thesis
  proof (cases rule: ErrorHandler_cases [of inner, OF a, of W])
    case 1
    note R = r [unfolded GinRecovery_eq [of "ErrorHandler W inner", OF 1(2), of W l rq]]
    show ?thesis
    proof (cases q)
      case None
      with R a k p 1(1) show ?thesis by (intro that [of q g']) auto
    next
      case (Some err)
      with R have g1: "gs_log g1 = gs_log g' @ [\<lparr>lr_Level = LevelError, lr_Msg = ''panic recovered'', lr_Attrs = lg_Attrs l @
            (''request_id'', AString (gs_request_id g')) # [(''error'', AString err), (''method'', AString (hr_Method rq)),
              (''path'', AString (hr_Path rq)), (''client_ip'', AString (rq_ClientIP rq))]\<rparr>]"
          "gs_writer g1 = snd (wa_JSON W 500 (GinH [(''error'', ''Internal server error'')]) (gs_writer g'))" "sa = s1"
        by (auto simp: e)
      from a g1(3) have "inner g s = (q, g', s1)" by simp
      with g1(1,2) k p Some show ?thesis by (intro that [of q g']) (simp_all add: writer_lawsD(2) [OF W])
    qed
  next
    case (2 code b)
    with r [unfolded GinRecovery_eq [of "ErrorHandler W inner", OF 2(4), of W l rq]] a k p show ?thesis
      by (intro that [of q g']) (auto simp: writer_lawsD(2) [OF W] split: if_splits)
  qed
qed


text \<open>A writer in memory, and a CORS handler that refuses the path \<open>/refused\<close>.\<close>

record plain_writer =
  pw_headers :: "string \<rightharpoonup> string"
  pw_status :: nat
  pw_bodies :: "body list"

definition plain_write :: "nat \<Rightarrow> body list \<Rightarrow> plain_writer \<Rightarrow> gin_error option \<times> plain_writer" where
  "plain_write code bs w =
     (None, w\<lparr>pw_status := (if pw_bodies w = [] then code else pw_status w), pw_bodies := pw_bodies w @ bs\<rparr>)"

definition plain_api :: "plain_writer writer_api" where
  "plain_api =
     \<lparr>wa_Header = (\<lambda>k v w. if pw_bodies w = [] then w\<lparr>pw_headers := (pw_headers w)(k \<mapsto> v)\<rparr> else w),
      wa_JSON = (\<lambda>code b. plain_write code [b]), wa_Data = (\<lambda>code t txt. plain_write code [GinH []]),
      wa_File = (\<lambda>f w. snd (plain_write 200 [GinH []] w)), wa_Redirect = (\<lambda>code url. plain_write code []),
      wa_Status = pw_status, wa_Written = (\<lambda>w. pw_bodies w \<noteq> []), wa_Get = pw_headers\<rparr>"

definition plain_cors :: "plain_writer cors_handler" where
  "plain_cors rq w = (hr_Path rq = ''/refused'', w)"

lemma plain_laws: "writer_laws plain_api" "cors_laws plain_api plain_cors"
  by (simp_all add: writer_laws_def cors_laws_def same_marks_def plain_api_def plain_write_def plain_cors_def)

definition fresh_state :: "plain_writer gin_state" where
  "fresh_state =
     \<lparr>gs_request_id = [], gs_Errors = [], gs_aborted = False, gs_writer = \<lparr>pw_headers = Map.empty, pw_status = 200, pw_bodies = []\<rparr>,
      gs_log = []\<rparr>"

definition plain_http :: "string \<Rightarrow> string \<Rightarrow> http_request" where
  "plain_http method path =
     \<lparr>rq_Authorization = ''Bearer A'', rq_Param = (\<lambda>k. []), rq_Query = (\<lambda>k. []), rq_ClientIP = ''10.0.0.1'', rq_ContentLength = 0,
      rq_body = [], hr_Method = method, hr_Path = path, hr_RequestID = [], hr_UserAgent = ''test'', hr_TLS = True,
      hr_newid = ''id-1'', hr_elapsed = 3000000\<rparr>"

definition default_logger :: Logger where
  "default_logger = logger_New (\<lambda>s. s) ''info'' ''json''"


end
