(* ===== verification/ApiDocs.thy ===== *)
theory ApiDocs
  imports Middleware
begin

text \<open>
  The documentation endpoints (\<open>internal/api/handlers/docs.go\<close>): the specification files, the redirect, and the index
  page, which is a list of lines here. The Swagger UI is a handler of \<open>gin-swagger\<close>, a parameter of the server.
\<close>

section \<open>Files and redirect\<close>

definition GetSwaggerJSON :: "'w writer_api \<Rightarrow> ('w, 's) action" where
  "GetSwaggerJSON W g s = (None, g\<lparr>gs_writer := wa_File W ''./docs/swagger.json'' (gs_writer g)\<rparr>, s)"

definition GetSwaggerYAML :: "'w writer_api \<Rightarrow> ('w, 's) action" where
  "GetSwaggerYAML W g s = (None, g\<lparr>gs_writer := wa_File W ''./docs/swagger.yaml'' (gs_writer g)\<rparr>, s)"

definition RedirectToSwaggerUI :: "'w writer_api \<Rightarrow> ('w, 's) action" where
  "RedirectToSwaggerUI W g s = (None, rendered (wa_Redirect W 302 ''/docs/'' (gs_writer g)) g, s)"

section \<open>The index page\<close>

definition index_html :: "string list" where
  \<open>index_html =
     [''<!DOCTYPE html>'',
      ''<html lang="en">'',
      ''<head>'',
      ''    <meta charset="UTF-8">'',
      ''    <meta name="viewport" content="width=device-width, initial-scale=1.0">'',
      ''    <title>VoidRunner API Documentation</title>'',
      ''    <style>'',
      ''        body {'',
      ''            font-family: -apple-system, BlinkMacSystemFont, 'Segoe UI', Roboto, sans-serif;'',
      ''            max-width: 800px;'',
      ''            margin: 0 auto;'',
      ''            padding: 2rem;'',
      ''            line-height: 1.6;'',
      ''            color: #333;'',
      ''        }'',
      ''        .header {'',
      ''            text-align: center;'',
      ''            margin-bottom: 3rem;'',
      ''            padding-bottom: 2rem;'',
      ''            border-bottom: 2px solid #e1e5e9;'',
      ''        }'',
      ''        .header h1 {'',
      ''            color: #2c3e50;'',
      ''            margin-bottom: 0.5rem;'',
      ''        }'',
      ''        .header p {'',
      ''            color: #7f8c8d;'',
      ''            font-size: 1.1rem;'',
      ''        }'',
      ''        .links {'',
      ''            display: grid;'',
      ''            grid-template-columns: repeat(auto-fit, minmax(250px, 1fr));'',
      ''            gap: 1.5rem;'',
      ''            margin-bottom: 3rem;'',
      ''        }'',
      ''        .link-card {'',
      ''            background: #f8f9fa;'',
      ''            border: 1px solid #e1e5e9;'',
      ''            border-radius: 8px;'',
      ''            padding: 1.5rem;'',
      ''            text-decoration: none;'',
      ''            color: inherit;'',
      ''            transition: all 0.2s ease;'',
      ''        }'',
      ''        .link-card:hover {'',
      ''            background: #e9ecef;'',
      ''            transform: translateY(-2px);'',
      ''            box-shadow: 0 4px 12px rgba(0, 0, 0, 0.1);'',
      ''        }'',
      ''        .link-card h3 {'',
      ''            margin: 0 0 0.5rem 0;'',
      ''            color: #2c3e50;'',
      ''        }'',
      ''        .link-card p {'',
      ''            margin: 0;'',
      ''            color: #7f8c8d;'',
      ''            font-size: 0.9rem;'',
      ''        }'',
      ''        .endpoints {'',
      ''            background: #f8f9fa;'',
      ''            border-radius: 8px;'',
      ''            padding: 1.5rem;'',
      ''        }'',
      ''        .endpoints h3 {'',
      ''            margin-top: 0;'',
      ''            color: #2c3e50;'',
      ''        }'',
      ''        .endpoint-list {'',
      ''            list-style: none;'',
      ''            padding: 0;'',
      ''        }'',
      ''        .endpoint-list li {'',
      ''            margin-bottom: 0.5rem;'',
      ''            padding: 0.5rem;'',
      ''            background: white;'',
      ''            border-radius: 4px;'',
      ''            font-family: 'Monaco', 'Menlo', monospace;'',
      ''            font-size: 0.9rem;'',
      ''        }'',
      ''        .method {'',
      ''            display: inline-block;'',
      ''            padding: 0.2rem 0.5rem;'',
      ''            border-radius: 3px;'',
      ''            color: white;'',
      ''            font-weight: bold;'',
      ''            margin-right: 0.5rem;'',
      ''            min-width: 60px;'',
      ''            text-align: center;'',
      ''        }'',
      ''        .get { background: #28a745; }'',
      ''        .post { background: #007bff; }'',
      ''        .put { background: #ffc107; color: #333; }'',
      ''        .delete { background: #dc3545; }'',
      ''    </style>'',
      ''</head>'',
      ''<body>'',
      ''    <div class="header">'',
      ''        <h1>VoidRunner API Documentation</h1>'',
      ''        <p>Distributed task execution platform API</p>'',
      ''    </div>'',
      ''    '',
      ''    <div class="links">'',
      ''        <a href="/docs/" class="link-card">'',
      ''            <h3>'' @ [CHR 0xF0, CHR 0x9F, CHR 0x93, CHR 0x96] @ '' Interactive Documentation</h3>'',
      ''            <p>Swagger UI - Try the API endpoints directly in your browser</p>'',
      ''        </a>'',
      ''        '',
      ''        <a href="/docs/swagger.json" class="link-card">'',
      ''            <h3>'' @ [CHR 0xF0, CHR 0x9F, CHR 0x93, CHR 0x84] @ '' OpenAPI JSON</h3>'',
      ''            <p>Raw OpenAPI specification in JSON format</p>'',
      ''        </a>'',
      ''        '',
      ''        <a href="/docs/swagger.yaml" class="link-card">'',
      ''            <h3>'' @ [CHR 0xF0, CHR 0x9F, CHR 0x93, CHR 0x8B] @ '' OpenAPI YAML</h3>'',
      ''            <p>OpenAPI specification in YAML format</p>'',
      ''        </a>'',
      ''        '',
      ''        <a href="/health" class="link-card">'',
      ''            <h3>'' @ [CHR 0xF0, CHR 0x9F, CHR 0x92, CHR 0x93] @ '' Health Check</h3>'',
      ''            <p>Check API service health and status</p>'',
      ''        </a>'',
      ''    </div>'',
      ''    '',
      ''    <div class="endpoints">'',
      ''        <h3>'' @ [CHR 0xF0, CHR 0x9F, CHR 0x9B, CHR 0xA0] @ '' Quick Reference</h3>'',
      ''        <ul class="endpoint-list">'',
      ''            <li><span class="method get">GET</span> /health - Health check</li>'',
      ''            <li><span class="method get">GET</span> /ready - Readiness check</li>'',
      ''            <li><span class="method post">POST</span> /api/v1/auth/register - Register user</li>'',
      ''            <li><span class="method post">POST</span> /api/v1/auth/login - Login user</li>'',
      ''            <li><span class="method get">GET</span> /api/v1/auth/me - Get current user</li>'',
      ''            <li><span class="method get">GET</span> /api/v1/tasks - List tasks</li>'',
      ''            <li><span class="method post">POST</span> /api/v1/tasks - Create task</li>'',
      ''            <li><span class="method get">GET</span> /api/v1/tasks/{id} - Get task</li>'',
      ''            <li><span class="method post">POST</span> /api/v1/tasks/{id}/executions - Execute task</li>'',
      ''        </ul>'',
      ''    </div>'',
      ''</body>'',
      ''</html>'']\<close>

definition GetAPIIndex :: "'w writer_api \<Rightarrow> ('w, 's) action" where
  "GetAPIIndex W g s = (None, rendered (wa_Data W 200 ''text/html; charset=utf-8'' index_html (gs_writer g)) g, s)"

text \<open>The targets of the page's links: what follows \<open><a href="\<close> up to the next quote.\<close>

definition link_prefix :: string where
  "link_prefix = ''        <a href='' @ [CHR 0x22]"

definition page_links :: "string list \<Rightarrow> string list" where
  "page_links html =
     map (\<lambda>line. takeWhile (\<lambda>c. c \<noteq> CHR 0x22) (drop (length link_prefix) line)) (filter (\<lambda>line. HasPrefix line link_prefix) html)"

lemma index_links: "page_links index_html = [''/docs/'', ''/docs/swagger.json'', ''/docs/swagger.yaml'', ''/health'']"
  by code_simp

text \<open>The page has an inline style sheet, which the policy \<open>default-src 'self'\<close> every response carries does not allow.\<close>

lemma index_has_inline_style: "''    <style>'' \<in> set index_html"
  by (simp add: index_html_def)

end
