(* ===== verification/HttpServer.thy ===== *)
theory HttpServer
  imports ApiDocs Isolation "HOL-Library.AList"
begin

text \<open>
  The router (\<open>internal/api/routes/routes.go\<close>): the table of routes with its endpoints outside \<open>/api/v1\<close>, what
  \<open>Setup\<close> builds, and a request from its method and path through the global middlewares to the handler of its route.
  gin's matching of patterns is written out for the patterns of the table; what gin does with a path that no pattern
  matches (a redirect or a 404) is a parameter.
\<close>

section \<open>The endpoints outside the API (\<open>health.go\<close>)\<close>

text \<open>\<open>show_Duration\<close> is \<open>time.Duration.String\<close>; the health checks are a Go map, in the order of its iteration.\<close>

definition health_Health :: "'w writer_api \<Rightarrow> (int \<Rightarrow> string) \<Rightarrow> time \<Rightarrow> time \<Rightarrow> ('w, 's) action" where
  "health_Health W show_Duration startTime now g s =
     (let uptime = time_Sub now startTime
      in (None, send_JSON W 200 (HealthResponse ''ok'' now (show_Duration uptime) ''1.0.0'' ''voidrunner-api'') g, s))"

definition AddHealthCheck :: "string \<Rightarrow> 'c \<Rightarrow> (string \<times> 'c) list \<Rightarrow> (string \<times> 'c) list" where
  "AddHealthCheck name checker healthChecks = AList.update name checker healthChecks"

definition health_Readiness :: "'w writer_api \<Rightarrow> (string \<times> checker) list \<Rightarrow> time \<Rightarrow> ('w, 's) action" where
  "health_Readiness W healthChecks now g s =
     (case Readiness healthChecks of
        (code, status, checks) \<Rightarrow> (None, send_JSON W code (ReadinessResponse status checks now) g, s))"

definition ping :: "'w writer_api \<Rightarrow> ('w, 's) action" where
  "ping W g s = (None, send_JSON W 200 (GinH [(''message'', ''pong'')]) g, s)"

section \<open>The routing table\<close>

datatype endpoint =
    Get_health | Get_ready | Get_api | Get_docs | Get_swagger_ui | Get_swagger_json | Get_swagger_yaml | Get_ping
  | Api route

type_synonym 'e routes = "(string \<times> string \<times> 'e) list"

definition routing_table :: "endpoint routes" where
  "routing_table =
     [(''GET'', ''/health'', Get_health), (''GET'', ''/ready'', Get_ready),
      (''GET'', ''/api'', Get_api), (''GET'', ''/docs'', Get_docs), (''GET'', ''/docs/*any'', Get_swagger_ui),
      (''GET'', ''/swagger.json'', Get_swagger_json), (''GET'', ''/swagger.yaml'', Get_swagger_yaml),
      (''GET'', ''/api/v1/ping'', Get_ping),
      (''POST'', ''/api/v1/auth/register'', Api Post_register), (''POST'', ''/api/v1/auth/login'', Api Post_login),
      (''POST'', ''/api/v1/auth/refresh'', Api Post_refresh), (''POST'', ''/api/v1/auth/logout'', Api Post_logout),
      (''GET'', ''/api/v1/auth/me'', Api Get_me),
      (''POST'', ''/api/v1/tasks'', Api Post_tasks), (''GET'', ''/api/v1/tasks'', Api Get_tasks),
      (''GET'', ''/api/v1/tasks/:id'', Api Get_task), (''PUT'', ''/api/v1/tasks/:id'', Api Put_task),
      (''DELETE'', ''/api/v1/tasks/:id'', Api Delete_task),
      (''POST'', ''/api/v1/tasks/:id/executions'', Api Post_executions),
      (''GET'', ''/api/v1/tasks/:id/executions'', Api Get_executions),
      (''GET'', ''/api/v1/executions/:id'', Api Get_execution), (''PUT'', ''/api/v1/executions/:id'', Api Put_execution),
      (''DELETE'', ''/api/v1/executions/:id'', Api Delete_execution)]"

text \<open>
  A pattern against a path, segment by segment: \<open>:name\<close> takes one segment that is not empty, \<open>*name\<close> the rest with
  its leading slash. The result is the parameters.
\<close>

fun match_segments :: "string list \<Rightarrow> string list \<Rightarrow> (string \<times> string) list option" where
  "match_segments [] [] = Some []"
| "match_segments (p # ps) (x # xs) =
     (if HasPrefix p ''*'' then Some [(tl p, CHR ''/'' # join (CHR ''/'') (x # xs))]
      else if HasPrefix p '':'' then (if x = [] then None else map_option ((#) (tl p, x)) (match_segments ps xs))
      else if p = x then match_segments ps xs else None)"
| "match_segments _ _ = None"

definition match_path :: "string \<Rightarrow> string \<Rightarrow> (string \<times> string) list option" where
  "match_path pattern path = match_segments (Split pattern (CHR ''/'')) (Split path (CHR ''/''))"

fun find_route :: "'e routes \<Rightarrow> string \<Rightarrow> string \<Rightarrow> ('e \<times> (string \<times> string) list) option" where
  "find_route [] method path = None"
| "find_route ((m, pattern, e) # table) method path =
     (if m \<noteq> method then find_route table method path
      else case match_path pattern path of
          Some ps \<Rightarrow> Some (e, ps)
        | None \<Rightarrow> find_route table method path)"

text \<open>\<open>c.Param\<close>: the value of the first parameter of the name.\<close>

definition param_of :: "(string \<times> string) list \<Rightarrow> string \<Rightarrow> string" where
  "param_of ps name = (case map_of ps name of None \<Rightarrow> [] | Some v \<Rightarrow> v)"

section \<open>The server\<close>

text \<open>What \<open>Setup\<close> puts into the router; the results of the two health checks belong to the moment of the request.\<close>

record 'w router =
  ro_writer :: "'w writer_api"
  ro_log :: Logger
  ro_cors :: "'w cors_handler"
  ro_api :: api
  ro_startTime :: time
  ro_show_Duration :: "int \<Rightarrow> string"
  ro_checks :: "(string \<times> (server \<Rightarrow> checker)) list"
  ro_swagger_ui :: "('w, server) action"
  ro_unmatched :: "http_request \<Rightarrow> ('w, server) action"

record 'w gin =
  gi_writer :: "'w writer_api"
  gi_cors_New :: "'w cors_new"
  gi_show_Duration :: "int \<Rightarrow> string"
  gi_swagger_ui :: "('w, server) action"
  gi_unmatched :: "http_request \<Rightarrow> ('w, server) action"

definition Setup ::
    "'w gin \<Rightarrow> casemap \<Rightarrow> AppConfig \<Rightarrow> Logger \<Rightarrow> api \<Rightarrow> (server \<Rightarrow> checker) \<Rightarrow> (server \<Rightarrow> checker) \<Rightarrow> Session \<Rightarrow>
     string + 'w router \<times> server" where
  "Setup G uc cfg log A dbChecker execChecker s =
     (let cors = App_CORS cfg
      in case CORS (gi_cors_New G) (Cors_AllowedOrigins cors) (Cors_AllowedMethods cors) (Cors_AllowedHeaders cors) of
          Inl panic \<Rightarrow> Inl panic
        | Inr h \<Rightarrow>
            Inr (\<lparr>ro_writer = gi_writer G, ro_log = log, ro_cors = h, ro_api = A, ro_startTime = se_now s,
                  ro_show_Duration = gi_show_Duration G,
                  ro_checks = AddHealthCheck ''executor'' execChecker (AddHealthCheck ''database'' dbChecker []),
                  ro_swagger_ui = gi_swagger_ui G, ro_unmatched = gi_unmatched G\<rparr>,
                 setupRoutes uc cfg s))"

definition api_endpoint :: "'w writer_api \<Rightarrow> api \<Rightarrow> route \<Rightarrow> request \<Rightarrow> ('w, server) action" where
  "api_endpoint W A rt rq g sv =
     (case serve A rt rq sv of (r, sv') \<Rightarrow> (None, send_JSON W (reply_code r) (ApiReply r) g, sv'))"

definition run_endpoint :: "'w router \<Rightarrow> http_request \<Rightarrow> (string \<times> string) list \<Rightarrow> endpoint \<Rightarrow> ('w, server) action" where
  "run_endpoint R rq ps e g sv =
     (let W = ro_writer R; now = se_now (sv_session sv)
      in case e of
          Get_health \<Rightarrow> health_Health W (ro_show_Duration R) (ro_startTime R) now g sv
        | Get_ready \<Rightarrow> health_Readiness W (map (\<lambda>(name, check). (name, check sv)) (ro_checks R)) now g sv
        | Get_api \<Rightarrow> GetAPIIndex W g sv
        | Get_docs \<Rightarrow> RedirectToSwaggerUI W g sv
        | Get_swagger_ui \<Rightarrow> ro_swagger_ui R g sv
        | Get_swagger_json \<Rightarrow> GetSwaggerJSON W g sv
        | Get_swagger_yaml \<Rightarrow> GetSwaggerYAML W g sv
        | Get_ping \<Rightarrow> ping W g sv
        | Api rt \<Rightarrow> api_endpoint W (ro_api R) rt ((request.truncate rq)\<lparr>rq_Param := param_of ps\<rparr>) g sv)"

definition ServeHTTP :: "'w router \<Rightarrow> http_request \<Rightarrow> ('w, server) action" where
  "ServeHTTP R rq g sv =
     (case find_route routing_table (hr_Method rq) (hr_Path rq) of
        None \<Rightarrow> ro_unmatched R rq g sv
      | Some (e, ps) \<Rightarrow> setupMiddleware (ro_writer R) (ro_log R) (ro_cors R) rq (run_endpoint R rq ps e) g sv)"

section \<open>Routing is unambiguous\<close>

text \<open>Two patterns that some path may match both.\<close>

fun overlap :: "string list \<Rightarrow> string list \<Rightarrow> bool" where
  "overlap [] [] = True"
| "overlap (p # ps) (q # qs) =
     (if HasPrefix p ''*'' \<or> HasPrefix q ''*'' then True
      else if HasPrefix p '':'' \<or> HasPrefix q '':'' \<or> p = q then overlap ps qs else False)"
| "overlap _ _ = False"

fun separated :: "'e routes \<Rightarrow> bool" where
  "separated [] = True"
| "separated ((m, p, e) # table) =
     (list_all (\<lambda>(m', p', e'). m = m' \<longrightarrow> \<not> overlap (Split p (CHR ''/'')) (Split p' (CHR ''/''))) table \<and> separated table)"

lemma match_overlap: "match_segments ps xs = Some a \<Longrightarrow> match_segments qs xs = Some b \<Longrightarrow> overlap ps qs"
proof (induction ps qs arbitrary: xs a b rule: overlap.induct)
  case (2 p ps q qs)
  then obtain x ys where "xs = x # ys" by (cases xs) auto
  with 2 show ?case by (auto split: if_splits)
qed (case_tac xs; simp)+

lemma find_route_separated:
  assumes "separated table" and "(m, p, e) \<in> set table" and "match_path p path = Some ps"
  shows "find_route table m path = Some (e, ps)"
  using assms
proof (induction table)
  case (Cons r table)
  obtain m' p' e' where r: "r = (m', p', e')" by (cases r)
  show ?case
  proof (cases "(m, p, e) = r")
    case False
    with Cons.prems r have mem: "(m, p, e) \<in> set table" by auto
    with Cons.prems(1) r have "m' = m \<Longrightarrow> \<not> overlap (Split p' (CHR ''/'')) (Split p (CHR ''/''))" by (auto simp: list_all_iff)
    with Cons.prems(3) have "m' = m \<Longrightarrow> match_path p' path = None"
      unfolding match_path_def by (metis match_overlap not_Some_eq)
    with Cons.IH [OF _ mem Cons.prems(3)] Cons.prems(1) r show ?thesis by auto
  qed (use Cons.prems r in simp)
qed simp

lemma routing_table_separated: "separated routing_table"
  by code_simp



text \<open>
  The links of the index page: the two to the specification end in the Swagger UI, the files are at other paths.
\<close>

lemma index_link_targets:
  "map (\<lambda>link. map_option fst (find_route routing_table ''GET'' link)) (page_links index_html) =
     [Some Get_swagger_ui, Some Get_swagger_ui, Some Get_swagger_ui, Some Get_health]"
  "find_route routing_table ''GET'' ''/swagger.json'' = Some (Get_swagger_json, [])"
  unfolding index_links by code_simp+

section \<open>Requests over HTTP refine the store of tenants\<close>

text \<open>The middlewares pass the state of the server through: it changes only in the handler they wrap.\<close>

lemma setupMiddleware_state:
  assumes "setupMiddleware W l h rq act g s = (p, g1, s1)"
  shows "s1 = s \<or> (\<exists>g0 q g'. act g0 s = (q, g', s1))"
proof -
  obtain b w where h: "h rq (gs_writer (front_state W rq g)) = (b, w)" by fastforce
  obtain q g' s' where a: "act ((front_state W rq g)\<lparr>gs_writer := w\<rparr>) s = (q, g', s')" by (metis prod.collapse)
  have "s1 = s'" if "\<not> b"
    using assms h a that
    by (cases rule: ErrorHandler_cases [of act, OF a, of W])
      (auto simp: setupMiddleware_def front_runs run_CORS_def GinLogger_def GinRecovery_def Let_def split: option.splits)
  with a assms h show ?thesis by (cases b) (auto simp: setupMiddleware_def front_runs run_CORS_def)
qed

definition leaves_state :: "('w, 's) action \<Rightarrow> bool" where
  "leaves_state act \<longleftrightarrow> (\<forall>g s. snd (snd (act g s)) = s)"

lemma leaves_stateD: "leaves_state act \<Longrightarrow> act g s = (p, g1, s1) \<Longrightarrow> s1 = s"
  unfolding leaves_state_def by (metis snd_conv)

lemma run_endpoint_state:
  assumes "run_endpoint R rq ps e g sv = (p, g1, sv1)" and "leaves_state (ro_swagger_ui R)"
  shows "sv1 = sv \<or> (\<exists>rt r. e = Api rt \<and> serve (ro_api R) rt ((request.truncate rq)\<lparr>rq_Param := param_of ps\<rparr>) sv = (r, sv1))"
  using assms
  by (cases e) (auto simp: run_endpoint_def health_Health_def health_Readiness_def GetAPIIndex_def RedirectToSwaggerUI_def
      GetSwaggerJSON_def GetSwaggerYAML_def ping_def api_endpoint_def Let_def split: prod.splits dest: leaves_stateD)

lemma caller_params: "caller A ((request.truncate rq)\<lparr>rq_Param := f\<rparr>) sv = caller A (request.truncate rq) sv"
  by (simp add: caller_def extractToken_def context_of_def)

text \<open>C1: The store is safe at the level of HTTP: whatever the method, the path, the headers and the body, and whatever
  CORS, the writer or a panic do, a request leaves the tables as they are, or it was a registration that adds an
  account, or its path is a route of the API, it carries a valid access token, and the change is one the route
  allows the token's user.\<close>

theorem http_requests_refine_tenant_store:
  assumes "leaves_state (ro_swagger_ui R)" and "leaves_state (ro_unmatched R rq)"
    and "ServeHTTP R rq g sv = (p, g1, sv')"
  shows "sv_db sv' = sv_db sv \<or>
     (\<exists>rt ps. find_route routing_table (hr_Method rq) (hr_Path rq) = Some (Api rt, ps) \<and>
        (rt = Post_register \<and> account_step (sv_db sv) (sv_db sv') \<or>
         (\<exists>u. caller (ro_api R) (request.truncate rq) sv = Some u \<and> tenant_step u rt (sv_db sv) (sv_db sv'))))"
proof (cases "find_route routing_table (hr_Method rq) (hr_Path rq)")
  case None
  with assms(3) have "ro_unmatched R rq g sv = (p, g1, sv')" by (simp add: ServeHTTP_def)
  from leaves_stateD [OF assms(2) this] show ?thesis by simp
next
  case (Some d)
  obtain e ps where d: "d = (e, ps)" by fastforce
  let ?rq = "(request.truncate rq)\<lparr>rq_Param := param_of ps\<rparr>"
  from assms(3) Some d have run: "setupMiddleware (ro_writer R) (ro_log R) (ro_cors R) rq (run_endpoint R rq ps e) g sv = (p, g1, sv')"
    by (simp add: ServeHTTP_def)
  from setupMiddleware_state [OF this] run_endpoint_state [OF _ assms(1)]
  consider "sv' = sv" | rt r where "e = Api rt" "serve (ro_api R) rt ?rq sv = (r, sv')" by metis
  then show ?thesis
  proof cases
    case 2
    from serve_refines [OF 2(2)] Some d 2(1) show ?thesis by (auto simp: caller_params)
  qed simp
qed

definition demo_router :: "plain_writer router" where
  "demo_router =
     \<lparr>ro_writer = plain_api, ro_log = default_logger, ro_cors = plain_cors, ro_api = demo_api, ro_startTime = 0, ro_show_Duration = show_int,
      ro_checks = [], ro_swagger_ui = (\<lambda>g sv. (None, g, sv)), ro_unmatched = (\<lambda>rq g sv. (None, g, sv))\<rparr>"

theorem http_requests_refine_tenant_store_witness:
  "case ServeHTTP demo_router (plain_http ''DELETE'' ''/api/v1/tasks/1'') fresh_state (demo_server 7) of
     (p, g1, sv') \<Rightarrow> T_tasks (sv_db sv') = [] \<and> tenant_step 7 Delete_task (sv_db (demo_server 7)) (sv_db sv')"
proof -
  let ?rq = "plain_http ''DELETE'' ''/api/v1/tasks/1''" and ?sv = "demo_server 7"
  obtain p g1 sv' where r: "ServeHTTP demo_router ?rq fresh_state ?sv = (p, g1, sv')" by (metis prod.collapse)
  have l: "leaves_state (ro_swagger_ui demo_router)" "leaves_state (ro_unmatched demo_router ?rq)"
    by (simp_all add: leaves_state_def demo_router_def)
  have e: "length (T_tasks (sv_db (snd (snd (ServeHTTP demo_router ?rq fresh_state ?sv))))) = 0" "length (T_tasks (sv_db ?sv)) = 1" by code_simp+
  have c: "caller demo_api (request.truncate ?rq) ?sv = Some 7" by code_simp
  have "find_route routing_table ''DELETE'' ''/api/v1/tasks/1'' = Some (Api Delete_task, [(''id'', ''1'')])" by code_simp
  with http_requests_refine_tenant_store [OF l r] e c r show ?thesis
    by (auto simp: plain_http_def demo_router_def)
qed

end
