(* ===== verification/Startup.thy ===== *)
theory Startup
  imports Logging
begin

text \<open>
  The start of the two programs (\<open>cmd/api/main.go\<close>, \<open>cmd/migrate/main.go\<close>): the connection to the database
  (\<open>internal/database/connection.go\<close>) and the migrations (\<open>internal/database/migrate.go\<close>). The pool of pgx, the
  handles of \<open>database/sql\<close> and golang-migrate are records of functions over an arbitrary world \<open>'w\<close>.
\<close>

section \<open>Connecting\<close>

text \<open>The connection string: the parts are put together as they are, nothing in them is escaped.\<close>

definition conn_string :: "DatabaseConfig \<Rightarrow> string" where
  "conn_string cfg =
     ''postgres://'' @ Db_User cfg @ '':'' @ Db_Password cfg @ ''@'' @ Db_Host cfg @ '':'' @ Db_Port cfg @ ''/'' @ Db_Database cfg @
     ''?sslmode='' @ Db_SSLMode cfg"

lemma conn_string_ambiguous:
  "conn_string (c\<lparr>Db_Password := ''p'', Db_Host := ''h@x''\<rparr>) = conn_string (c\<lparr>Db_Password := ''p@h'', Db_Host := ''x''\<rparr>)"
  by (simp add: conn_string_def)

record pool_config =
  pc_MaxConns :: int
  pc_MinConns :: int
  pc_MaxConnLifetime :: time
  pc_MaxConnIdleTime :: time
  pc_HealthCheckPeriod :: time
  pc_ConnectTimeout :: time
  pc_statement_timeout :: string
  pc_idle_in_transaction_session_timeout :: string

definition pool_settings :: pool_config where
  "pool_settings =
     \<lparr>pc_MaxConns = 25, pc_MinConns = 5, pc_MaxConnLifetime = Hour * 1, pc_MaxConnIdleTime = Minute * 30,
      pc_HealthCheckPeriod = Minute * 5, pc_ConnectTimeout = Second * 10, pc_statement_timeout = ''30s'',
      pc_idle_in_transaction_session_timeout = ''60s''\<rparr>"

record 'w pool_api =
  pa_ParseConfig :: "string \<Rightarrow> go_error option"
  pa_NewWithConfig :: "string \<Rightarrow> pool_config \<Rightarrow> 'w \<Rightarrow> go_error option \<times> 'w"
  pa_Ping :: "'w \<Rightarrow> go_error option \<times> 'w"
  pa_TotalConns :: "'w \<Rightarrow> int"
  pa_Select1 :: "'w \<Rightarrow> (go_error + int) \<times> 'w"
  pa_Close :: "'w \<Rightarrow> 'w"

definition NewConnection :: "'w pool_api \<Rightarrow> DatabaseConfig option \<Rightarrow> 'w \<Rightarrow> go_error option \<times> 'w" where
  "NewConnection P cfg0 w =
     (case cfg0 of
        None \<Rightarrow> (Some (Errorf ''database configuration is required''), w)
      | Some cfg \<Rightarrow>
          (case pa_ParseConfig P (conn_string cfg) of
             Some err \<Rightarrow> (Some (Wrapf ''failed to parse database connection string'' err), w)
           | None \<Rightarrow>
               (case pa_NewWithConfig P (conn_string cfg) pool_settings w of
                  (Some err, w1) \<Rightarrow> (Some (Wrapf ''failed to create database pool'' err), w1)
                | (None, w1) \<Rightarrow>
                    (case pa_Ping P w1 of
                       (Some err, w2) \<Rightarrow> (Some (Wrapf ''failed to ping database'' err), pa_Close P w2)
                     | (None, w2) \<Rightarrow> (None, w2)))))"

definition conn_HealthCheck :: "'w pool_api option \<Rightarrow> 'w \<Rightarrow> go_error option \<times> 'w" where
  "conn_HealthCheck pool w =
     (case pool of
        None \<Rightarrow> (Some (Errorf ''database pool is not initialized''), w)
      | Some P \<Rightarrow>
          (case pa_Ping P w of
             (Some err, w1) \<Rightarrow> (Some (Wrapf ''database ping failed'' err), w1)
           | (None, w1) \<Rightarrow>
               (if pa_TotalConns P w1 = 0 then (Some (Errorf ''no database connections available''), w1)
                else (case pa_Select1 P w1 of
                    (Inl err, w2) \<Rightarrow> (Some (Wrapf ''database query test failed'' err), w2)
                  | (Inr result, w2) \<Rightarrow>
                      (if result \<noteq> 1 then Some (Errorf (''unexpected database query result: '' @ show_int result)) else None, w2)))))"

definition conn_Close :: "'w pool_api option \<Rightarrow> 'w \<Rightarrow> 'w" where
  "conn_Close pool w = (case pool of None \<Rightarrow> w | Some P \<Rightarrow> pa_Close P w)"

text \<open>\<open>LogStats\<close>: the statistics of the pool; a duration is an integer of nanoseconds.\<close>

record pool_stat =
  ps_TotalConns :: int
  ps_IdleConns :: int
  ps_AcquiredConns :: int
  ps_ConstructingConns :: int
  ps_AcquireCount :: int
  ps_AcquireDuration :: int
  ps_CanceledAcquireCount :: int
  ps_EmptyAcquireCount :: int
  ps_MaxConns :: int
  ps_NewConnsCount :: int

definition LogStats :: "Logger \<Rightarrow> pool_stat \<Rightarrow> log_output \<Rightarrow> log_output" where
  "LogStats l stats =
     log_Info l ''database connection pool stats''
       [(''total_conns'', AInt (ps_TotalConns stats)),
        (''idle_conns'', AInt (ps_IdleConns stats)),
        (''acquired_conns'', AInt (ps_AcquiredConns stats)),
        (''constructing_conns'', AInt (ps_ConstructingConns stats)),
        (''acquire_count'', AInt (ps_AcquireCount stats)),
        (''acquire_duration'', AInt (ps_AcquireDuration stats)),
        (''acquired_conns_duration'', AInt (ps_AcquiredConns stats)),
        (''canceled_acquire_count'', AInt (ps_CanceledAcquireCount stats)),
        (''empty_acquire_count'', AInt (ps_EmptyAcquireCount stats)),
        (''max_conns'', AInt (ps_MaxConns stats)),
        (''new_conns_count'', AInt (ps_NewConnsCount stats))]"

text \<open>The attribute named a duration is the number of acquired connections, whatever the durations are.\<close>

lemma logged_duration_is_a_count:
  assumes "LogStats l stats out = out @ [r]" and "(''acquired_conns_duration'', v) \<in> set (drop (length (lg_Attrs l)) (lr_Attrs r))"
  shows "v = AInt (ps_AcquiredConns stats)"
  using assms by (auto simp: LogStats_def log_at_def split: if_splits)

section \<open>Migrations\<close>

record 'w migrate_api =
  ma_Open :: "string \<Rightarrow> 'w \<Rightarrow> go_error option \<times> 'w"
  ma_Ping :: "'w \<Rightarrow> go_error option \<times> 'w"
  ma_CloseDB :: "'w \<Rightarrow> 'w"
  ma_WithInstance :: "'w \<Rightarrow> go_error option \<times> 'w"
  ma_New :: "string \<Rightarrow> 'w \<Rightarrow> go_error option \<times> 'w"
  ma_Up :: "'w \<Rightarrow> go_error option \<times> 'w"
  ma_Steps :: "int \<Rightarrow> 'w \<Rightarrow> go_error option \<times> 'w"
  ma_Drop :: "'w \<Rightarrow> go_error option \<times> 'w"
  ma_Version :: "'w \<Rightarrow> (go_error + nat \<times> bool) \<times> 'w"
  ma_Force :: "int \<Rightarrow> 'w \<Rightarrow> go_error option \<times> 'w"
  ma_Close :: "'w \<Rightarrow> (go_error option \<times> go_error option) \<times> 'w"
  ma_ErrNoChange :: "go_error \<Rightarrow> bool"
  ma_ErrNilVersion :: "go_error \<Rightarrow> bool"

record MigrateConfig =
  mc_DatabaseConfig :: "DatabaseConfig option"
  mc_MigrationsPath :: string

definition NewMigrator :: "'w migrate_api \<Rightarrow> MigrateConfig option \<Rightarrow> 'w \<Rightarrow> go_error option \<times> 'w" where
  "NewMigrator M cfg0 w =
     (case cfg0 of
        None \<Rightarrow> (Some (Errorf ''migration configuration is required''), w)
      | Some mc \<Rightarrow>
          (case mc_DatabaseConfig mc of
             None \<Rightarrow> (Some (Errorf ''database configuration is required''), w)
           | Some cfg \<Rightarrow>
               (let path = (if mc_MigrationsPath mc = [] then ''file://migrations'' else mc_MigrationsPath mc)
                in case ma_Open M (conn_string cfg) w of
                     (Some err, w1) \<Rightarrow> (Some (Wrapf ''failed to open database connection'' err), w1)
                   | (None, w1) \<Rightarrow>
                       (case ma_Ping M w1 of
                          (Some err, w2) \<Rightarrow> (Some (Wrapf ''failed to ping database'' err), ma_CloseDB M w2)
                        | (None, w2) \<Rightarrow>
                            (case ma_WithInstance M w2 of
                               (Some err, w3) \<Rightarrow> (Some (Wrapf ''failed to create postgres driver'' err), ma_CloseDB M w3)
                             | (None, w3) \<Rightarrow>
                                 (case ma_New M path w3 of
                                    (Some err, w4) \<Rightarrow> (Some (Wrapf ''failed to create migrator'' err), ma_CloseDB M w4)
                                  | (None, w4) \<Rightarrow> (None, w4)))))))"

definition unless_no_change :: "'w migrate_api \<Rightarrow> string \<Rightarrow> go_error option \<times> 'w \<Rightarrow> go_error option \<times> 'w" where
  "unless_no_change M msg r =
     (case r of
        (None, w) \<Rightarrow> (None, w)
      | (Some err, w) \<Rightarrow> (if ma_ErrNoChange M err then None else Some (Wrapf msg err), w))"

definition mig_Up :: "'w migrate_api \<Rightarrow> 'w \<Rightarrow> go_error option \<times> 'w" where
  "mig_Up M w = unless_no_change M ''failed to apply migrations'' (ma_Up M w)"

definition mig_Down :: "'w migrate_api \<Rightarrow> 'w \<Rightarrow> go_error option \<times> 'w" where
  "mig_Down M w = unless_no_change M ''failed to roll back migration'' (ma_Steps M (- 1) w)"

definition mig_Reset :: "'w migrate_api \<Rightarrow> 'w \<Rightarrow> go_error option \<times> 'w" where
  "mig_Reset M w = (case ma_Drop M w of (r, w1) \<Rightarrow> (map_option (Wrapf ''failed to reset database'') r, w1))"

definition mig_Version :: "'w migrate_api \<Rightarrow> 'w \<Rightarrow> (go_error + nat \<times> bool) \<times> 'w" where
  "mig_Version M w =
     (case ma_Version M w of
        (Inr v, w1) \<Rightarrow> (Inr v, w1)
      | (Inl err, w1) \<Rightarrow>
          (if ma_ErrNilVersion M err then Inr (0, False) else Inl (Wrapf ''failed to get migration version'' err), w1))"

definition mig_ForceVersion :: "'w migrate_api \<Rightarrow> int \<Rightarrow> 'w \<Rightarrow> go_error option \<times> 'w" where
  "mig_ForceVersion M version w = (case ma_Force M version w of (r, w1) \<Rightarrow> (map_option (Wrapf ''failed to force migration version'') r, w1))"

definition mig_Close :: "'w migrate_api \<Rightarrow> 'w \<Rightarrow> go_error option \<times> 'w" where
  "mig_Close M w =
     (case ma_Close M w of
        ((Some sourceErr, _), w1) \<Rightarrow> (Some (Wrapf ''failed to close migration source'' sourceErr), w1)
      | ((None, Some dbErr), w1) \<Rightarrow> (Some (Wrapf ''failed to close migration database'' dbErr), w1)
      | ((None, None), w1) \<Rightarrow> (None, w1))"

text \<open>\<open>MigrateUp\<close>, \<open>MigrateDown\<close> and \<open>MigrateReset\<close>: an operation between opening and the deferred closing.\<close>

definition with_migrator ::
    "('w migrate_api \<Rightarrow> 'w \<Rightarrow> go_error option \<times> 'w) \<Rightarrow> 'w migrate_api \<Rightarrow> MigrateConfig option \<Rightarrow> 'w \<Rightarrow> go_error option \<times> 'w" where
  "with_migrator step M cfg w =
     (case NewMigrator M cfg w of
        (Some err, w1) \<Rightarrow> (Some err, w1)
      | (None, w1) \<Rightarrow> (case step M w1 of (r, w2) \<Rightarrow> (r, snd (mig_Close M w2))))"

definition MigrateUp :: "'w migrate_api \<Rightarrow> MigrateConfig option \<Rightarrow> 'w \<Rightarrow> go_error option \<times> 'w" where
  "MigrateUp = with_migrator mig_Up"

definition MigrateDown :: "'w migrate_api \<Rightarrow> MigrateConfig option \<Rightarrow> 'w \<Rightarrow> go_error option \<times> 'w" where
  "MigrateDown = with_migrator mig_Down"

definition MigrateReset :: "'w migrate_api \<Rightarrow> MigrateConfig option \<Rightarrow> 'w \<Rightarrow> go_error option \<times> 'w" where
  "MigrateReset = with_migrator mig_Reset"

section \<open>The two programs\<close>

text \<open>The start of the server: it exits with a code, or goes on to serve with the configuration.\<close>

datatype start = Exit int | Serving AppConfig

definition start_server ::
    "(string \<Rightarrow> go_error + int) \<Rightarrow> environment \<Rightarrow> 'w pool_api \<Rightarrow> 'w migrate_api \<Rightarrow> 'w \<Rightarrow> start \<times> 'w" where
  "start_server pd env P M w =
     (case Load pd env of
        Inl err \<Rightarrow> (Exit 1, w)
      | Inr cfg \<Rightarrow>
          (case NewConnection P (Some (App_Database cfg)) w of
             (Some err, w1) \<Rightarrow> (Exit 1, w1)
           | (None, w1) \<Rightarrow>
               (case MigrateUp M (Some \<lparr>mc_DatabaseConfig = Some (App_Database cfg), mc_MigrationsPath = ''file://migrations''\<rparr>) w1 of
                  (Some err, w2) \<Rightarrow> (Exit 1, w2)
                | (None, w2) \<Rightarrow>
                    (case conn_HealthCheck (Some P) w2 of
                       (Some err, w3) \<Rightarrow> (Exit 1, w3)
                     | (None, w3) \<Rightarrow> (Serving cfg, w3)))))"

text \<open>\<open>cmd/migrate\<close>: the exit code; \<open>absPath\<close> is \<open>filepath.Abs("migrations")\<close>.\<close>

definition migrate_main ::
    "string list \<Rightarrow> (string \<Rightarrow> go_error + int) \<Rightarrow> environment \<Rightarrow> (go_error + string) \<Rightarrow> 'w migrate_api \<Rightarrow> 'w \<Rightarrow> int \<times> 'w" where
  "migrate_main args pd env absPath M w =
     (if length args < 2 then (1, w)
      else case Load pd env of
          Inl err \<Rightarrow> (1, w)
        | Inr cfg \<Rightarrow>
            (let mc = Some \<lparr>mc_DatabaseConfig = Some (App_Database cfg),
                            mc_MigrationsPath = (case absPath of Inr p \<Rightarrow> ''file://'' @ p | Inl err \<Rightarrow> ''file://migrations'')\<rparr>;
                 exit = (\<lambda>(r, w1). (if r = None then 0 else 1, w1))
             in if args ! 1 = ''up'' then exit (MigrateUp M mc w)
                else if args ! 1 = ''down'' then exit (MigrateDown M mc w)
                else if args ! 1 = ''reset'' then exit (MigrateReset M mc w)
                else (1, w)))"

section \<open>Handles\<close>

text \<open>The documented effect of the two libraries on the number of open connection pools and handles.\<close>

definition handle_laws :: "('w \<Rightarrow> nat) \<Rightarrow> 'w pool_api \<Rightarrow> 'w migrate_api \<Rightarrow> bool" where
  "handle_laws opened P M \<longleftrightarrow>
     (\<forall>text pc w. case pa_NewWithConfig P text pc w of (r, w1) \<Rightarrow> opened w1 = opened w + (if r = None then 1 else 0)) \<and>
     (\<forall>w. opened (snd (pa_Ping P w)) = opened w \<and> opened (snd (pa_Select1 P w)) = opened w \<and> opened (pa_Close P w) = opened w - 1) \<and>
     (\<forall>text w. case ma_Open M text w of (r, w1) \<Rightarrow> opened w1 = opened w + (if r = None then 1 else 0)) \<and>
     (\<forall>w. opened (snd (ma_Ping M w)) = opened w \<and> opened (snd (ma_WithInstance M w)) = opened w \<and> opened (ma_CloseDB M w) = opened w - 1) \<and>
     (\<forall>path w. opened (snd (ma_New M path w)) = opened w) \<and>
     (\<forall>k w. opened (snd (ma_Up M w)) = opened w \<and> opened (snd (ma_Steps M k w)) = opened w \<and> opened (snd (ma_Drop M w)) = opened w \<and>
        opened (snd (ma_Close M w)) = opened w - 1)"

lemma handle_rules:
  assumes "handle_laws opened P M"
  shows "pa_NewWithConfig P text pc w = (r, w1) \<Longrightarrow> opened w1 = opened w + (if r = None then 1 else 0)"
    "pa_Ping P w = (r, w1) \<Longrightarrow> opened w1 = opened w" "pa_Select1 P w = (q, w1) \<Longrightarrow> opened w1 = opened w"
    "opened (pa_Close P w) = opened w - 1"
    "ma_Open M text w = (r, w1) \<Longrightarrow> opened w1 = opened w + (if r = None then 1 else 0)"
    "ma_Ping M w = (r, w1) \<Longrightarrow> opened w1 = opened w" "ma_WithInstance M w = (r, w1) \<Longrightarrow> opened w1 = opened w"
    "ma_New M path w = (r, w1) \<Longrightarrow> opened w1 = opened w"
    "ma_Up M w = (r, w1) \<Longrightarrow> opened w1 = opened w" "ma_Steps M k w = (r, w1) \<Longrightarrow> opened w1 = opened w"
    "ma_Drop M w = (r, w1) \<Longrightarrow> opened w1 = opened w" "ma_Close M w = (p, w1) \<Longrightarrow> opened w1 = opened w - 1"
    "opened (ma_CloseDB M w) = opened w - 1"
  using assms unfolding handle_laws_def by (auto split: prod.splits) (metis snd_conv)+

lemma NewConnection_handles:
  assumes "handle_laws opened P M" and "NewConnection P cfg w = (r, w1)"
  shows "opened w1 = opened w + (if r = None then 1 else 0)"
  using assms(2)
  by (auto simp: NewConnection_def handle_rules [OF assms(1)] split: option.splits prod.splits dest!: handle_rules(1-2) [OF assms(1)])

lemma NewMigrator_handles:
  assumes "handle_laws opened P M" and "NewMigrator M cfg w = (r, w1)"
  shows "opened w1 = opened w + (if r = None then 1 else 0)"
  using assms(2)
  by (auto simp: NewMigrator_def Let_def handle_rules(13) [OF assms(1)] split: option.splits prod.splits dest!: handle_rules(5-8) [OF assms(1)])

lemma with_migrator_handles:
  assumes "handle_laws opened P M" and "with_migrator step M cfg w = (r, w1)"
    and "\<And>w r w1. step M w = (r, w1) \<Longrightarrow> opened w1 = opened w"
  shows "opened w1 = opened w"
  using assms(2)
  by (auto simp: with_migrator_def mig_Close_def split: option.splits prod.splits
      dest!: NewMigrator_handles [OF assms(1)] handle_rules(12) [OF assms(1)] assms(3))

lemma migrate_handles:
  assumes "handle_laws opened P M"
  shows "MigrateUp M cfg w = (r, w1) \<Longrightarrow> opened w1 = opened w" "MigrateDown M cfg w = (r, w1) \<Longrightarrow> opened w1 = opened w"
    "MigrateReset M cfg w = (r, w1) \<Longrightarrow> opened w1 = opened w"
  unfolding MigrateUp_def MigrateDown_def MigrateReset_def
  by (erule with_migrator_handles [OF assms],
      auto simp: mig_Up_def mig_Down_def mig_Reset_def unless_no_change_def split: prod.splits option.splits if_splits
        dest!: handle_rules(9-11) [OF assms])+

lemma health_handles:
  assumes "handle_laws opened P M" and "conn_HealthCheck (Some P) w = (r, w1)"
  shows "opened w1 = opened w"
  using assms(2)
  by (auto simp: conn_HealthCheck_def split: prod.splits option.splits sum.splits if_splits dest!: handle_rules(2,3) [OF assms(1)])

lemma start_server_handles:
  assumes "handle_laws opened P M" and "start_server pd env P M w = (r, w1)"
  shows "case r of Serving cfg \<Rightarrow> opened w1 = opened w + 1 \<and> Load pd env = Inr cfg | Exit k \<Rightarrow> k = 1 \<and> opened w1 \<le> opened w + 1"
  using assms(2)
  by (auto simp: start_server_def split: sum.splits prod.splits option.splits start.split
      dest!: migrate_handles [OF assms(1)] NewConnection_handles [OF assms(1)] health_handles [OF assms(1)])

text \<open>No way through the start of the two programs leaks a database handle: opening a connection leaves one pool
  open when it succeeds and none when it fails, migrating closes what it opened whatever fails, and the server
  serves with exactly one pool and a configuration that loaded.\<close>

theorem database_handles_released:
  assumes "handle_laws opened P M"
  shows "opened (snd (NewConnection P c w)) = opened w + (if fst (NewConnection P c w) = None then 1 else 0) \<and>
     opened (snd (MigrateUp M mc w)) = opened w \<and> opened (snd (MigrateDown M mc w)) = opened w \<and>
     opened (snd (MigrateReset M mc w)) = opened w \<and> opened (snd (migrate_main args pd env absPath M w)) = opened w \<and>
     (case start_server pd env P M w of
        (Serving cfg, w1) \<Rightarrow> opened w1 = opened w + 1 \<and> Load pd env = Inr cfg
      | (Exit k, w1) \<Rightarrow> k = 1 \<and> opened w1 \<le> opened w + 1)"
proof (intro conjI)
  note m = migrate_handles [OF assms] and n = NewConnection_handles [OF assms]
  show "opened (snd (NewConnection P c w)) = opened w + (if fst (NewConnection P c w) = None then 1 else 0)"
    by (rule n) simp
  show "opened (snd (MigrateUp M mc w)) = opened w" "opened (snd (MigrateDown M mc w)) = opened w" "opened (snd (MigrateReset M mc w)) = opened w"
    by (rule m, rule prod.collapse [symmetric])+
  show "opened (snd (migrate_main args pd env absPath M w)) = opened w"
    by (auto simp: migrate_main_def Let_def split: sum.split prod.split dest!: m)
  show "case start_server pd env P M w of
      (Serving cfg, w1) \<Rightarrow> opened w1 = opened w + 1 \<and> Load pd env = Inr cfg
    | (Exit k, w1) \<Rightarrow> k = 1 \<and> opened w1 \<le> opened w + 1"
    using start_server_handles [OF assms, of pd env w] by (cases "start_server pd env P M w"; cases "fst (start_server pd env P M w)") auto
qed

definition counting_pool :: "nat pool_api" where
  "counting_pool =
     \<lparr>pa_ParseConfig = (\<lambda>t. None), pa_NewWithConfig = (\<lambda>t c n. (None, n + 1)), pa_Ping = (\<lambda>n. (None, n)), pa_TotalConns = int,
      pa_Select1 = (\<lambda>n. (Inr 1, n)), pa_Close = (\<lambda>n. n - 1)\<rparr>"

text \<open>A migration library whose \<open>Up\<close> has nothing to do.\<close>

definition counting_migrate :: "nat migrate_api" where
  "counting_migrate =
     (let failing = \<lambda>n. (Some (ExternalErr ''no change''), n)
      in \<lparr>ma_Open = (\<lambda>t n. (None, n + 1)), ma_Ping = (\<lambda>n. (None, n)), ma_CloseDB = (\<lambda>n. n - 1), ma_WithInstance = (\<lambda>n. (None, n)),
          ma_New = (\<lambda>p n. (None, n)), ma_Up = failing, ma_Steps = (\<lambda>k. failing), ma_Drop = failing,
          ma_Version = (\<lambda>n. (Inr (1, False), n)), ma_Force = (\<lambda>k n. (None, n)), ma_Close = (\<lambda>n. ((None, None), n - 1)),
          ma_ErrNoChange = (\<lambda>e. e = ExternalErr ''no change''), ma_ErrNilVersion = (\<lambda>e. False)\<rparr>)"

theorem database_handles_released_witness:
  "(\<exists>cfg. start_server (\<lambda>t. Inl (ExternalErr ''time'')) (\<lambda>k. []) counting_pool counting_migrate 0 = (Serving cfg, 1)) \<and>
   snd (MigrateReset counting_migrate (Some \<lparr>mc_DatabaseConfig = None, mc_MigrationsPath = []\<rparr>) 0) = 0"
proof -
  let ?pd = "\<lambda>t. Inl (ExternalErr ''time'') :: go_error + int" and ?env = "\<lambda>k. []"
  let ?r = "start_server ?pd ?env counting_pool counting_migrate 0"
  have l: "handle_laws id counting_pool counting_migrate" by (simp add: handle_laws_def counting_pool_def counting_migrate_def Let_def)
  have s: "case fst ?r of Serving cfg \<Rightarrow> True | Exit k \<Rightarrow> False" by code_simp
  note d = database_handles_released [OF l, where w = 0 and pd = ?pd and env = ?env
    and mc = "Some \<lparr>mc_DatabaseConfig = None, mc_MigrationsPath = []\<rparr>"]
  show ?thesis using d s by (cases ?r; cases "fst ?r") auto
qed

end
