(* ===== verification/SeccompProfile.thy ===== *)
theory SeccompProfile
  imports AppConfig
begin

text \<open>
  The seccomp profile: \<open>CreateSeccompProfile\<close> and \<open>getSecureProfileDirectory\<close> of \<open>internal/executor/security.go\<close>, and
  the start of \<open>cmd/api/main.go\<close> that creates the profile and copies it to the configured path. The functions of
  packages \<open>os\<close> and \<open>path/filepath\<close> they use act on an explicit file system; relative paths are taken from its root,
  and removing a directory is refused (the code removes only files it has written).
\<close>

unbundle bit_operations_syntax

section \<open>Paths and files\<close>

text \<open>\<open>filepath.Clean\<close> on Unix: empty and \<open>.\<close> elements go, \<open>..\<close> takes the element before it.\<close>

fun clean_parts :: "bool \<Rightarrow> string list \<Rightarrow> string list \<Rightarrow> string list" where
  "clean_parts rooted done [] = rev done"
| "clean_parts rooted done (p # ps) =
     (if p = [] \<or> p = ''.'' then clean_parts rooted done ps
      else if p = ''..'' then
        (case done of
           q # qs \<Rightarrow> if q = ''..'' then clean_parts rooted (p # done) ps else clean_parts rooted qs ps
         | [] \<Rightarrow> if rooted then clean_parts rooted [] ps else clean_parts rooted [p] ps)
      else clean_parts rooted (p # done) ps)"

definition IsAbs :: "string \<Rightarrow> bool" where
  "IsAbs path = HasPrefix path ''/''"

definition Clean :: "string \<Rightarrow> string" where
  "Clean path =
     (let ps = clean_parts (IsAbs path) [] (Split path (CHR ''/''))
      in if IsAbs path then ''/'' @ join (CHR ''/'') ps else if ps = [] then ''.'' else join (CHR ''/'') ps)"

definition path_Join :: "string \<Rightarrow> string \<Rightarrow> string" where
  "path_Join a b = Clean (a @ ''/'' @ b)"

text \<open>\<open>filepath.Dir\<close>: what is before the last separator, cleaned.\<close>

definition path_Dir :: "string \<Rightarrow> string" where
  "path_Dir path = Clean (rev (dropWhile (\<lambda>c. c \<noteq> CHR ''/'') (rev path)))"

text \<open>
  The file system: what each clean absolute path names, the umask, the paths at which the system refuses the process
  an operation, and those at which writing fails after the file was opened.
\<close>

datatype node = Directory nat | File nat string

fun is_directory :: "node \<Rightarrow> bool" where
  "is_directory (Directory m) = True"
| "is_directory (File m data) = False"

record file_system =
  fs_nodes :: "string \<Rightarrow> node option"
  fs_umask :: nat
  fs_denied :: "string \<Rightarrow> bool"
  fs_full :: "string \<Rightarrow> bool"

definition masked :: "nat \<Rightarrow> nat \<Rightarrow> nat" where
  "masked perm umask = perm - (perm AND umask)"

abbreviation put_node :: "string \<Rightarrow> node \<Rightarrow> file_system \<Rightarrow> file_system" where
  "put_node p n fs \<equiv> fs\<lparr>fs_nodes := (fs_nodes fs)(p := Some n)\<rparr>"

definition Stat :: "file_system \<Rightarrow> file_stat" where
  "Stat fs p =
     (case fs_nodes fs p of
        None \<Rightarrow> Inl (ExternalErr ''no such file or directory'')
      | Some (Directory m) \<Rightarrow> Inr \<lparr>FI_IsDir = True, FI_Perm = m\<rparr>
      | Some (File m data) \<Rightarrow> Inr \<lparr>FI_IsDir = False, FI_Perm = m\<rparr>)"

text \<open>\<open>os.MkdirAll\<close>: the missing ones of the directories on the way get the mode, those that exist keep theirs.\<close>

fun prefixes_of :: "string \<Rightarrow> string list \<Rightarrow> string list" where
  "prefixes_of root [] = []"
| "prefixes_of root (p # ps) = (root @ ''/'' @ p) # prefixes_of (root @ ''/'' @ p) ps"

fun mkdirs :: "nat \<Rightarrow> string list \<Rightarrow> file_system \<Rightarrow> go_error option \<times> file_system" where
  "mkdirs perm [] fs = (None, fs)"
| "mkdirs perm (p # ps) fs =
     (case fs_nodes fs p of
        Some (Directory m) \<Rightarrow> mkdirs perm ps fs
      | Some (File m data) \<Rightarrow> (Some (ExternalErr ''not a directory''), fs)
      | None \<Rightarrow>
          (if fs_denied fs p then (Some (ExternalErr ''permission denied''), fs)
           else mkdirs perm ps (put_node p (Directory (masked perm (fs_umask fs))) fs)))"

definition MkdirAll :: "string \<Rightarrow> nat \<Rightarrow> file_system \<Rightarrow> go_error option \<times> file_system" where
  "MkdirAll path perm = mkdirs perm (prefixes_of [] (clean_parts True [] (Split path (CHR ''/''))))"

text \<open>Opening a file to write it anew: one that exists is emptied and keeps its mode.\<close>

definition open_create :: "string \<Rightarrow> nat \<Rightarrow> file_system \<Rightarrow> go_error option \<times> file_system" where
  "open_create p perm fs =
     (if fs_denied fs p then (Some (ExternalErr ''permission denied''), fs)
      else case fs_nodes fs p of
          Some (Directory m) \<Rightarrow> (Some (ExternalErr ''is a directory''), fs)
        | Some (File m data) \<Rightarrow> (None, put_node p (File m []) fs)
        | None \<Rightarrow>
            (case fs_nodes fs (path_Dir p) of
               Some (Directory m) \<Rightarrow> (None, put_node p (File (masked perm (fs_umask fs)) []) fs)
             | _ \<Rightarrow> (Some (ExternalErr ''no such file or directory''), fs)))"

definition write_open :: "string \<Rightarrow> string \<Rightarrow> file_system \<Rightarrow> go_error option \<times> file_system" where
  "write_open p data fs =
     (if fs_full fs p then (Some (ExternalErr ''no space left on device''), fs)
      else case fs_nodes fs p of
          Some (File m old) \<Rightarrow> (None, put_node p (File m data) fs)
        | _ \<Rightarrow> (None, fs))"

definition WriteFile :: "string \<Rightarrow> string \<Rightarrow> nat \<Rightarrow> file_system \<Rightarrow> go_error option \<times> file_system" where
  "WriteFile p data perm fs =
     (case open_create p perm fs of
        (Some err, fs1) \<Rightarrow> (Some err, fs1)
      | (None, fs1) \<Rightarrow> write_open p data fs1)"

definition Remove :: "string \<Rightarrow> file_system \<Rightarrow> go_error option \<times> file_system" where
  "Remove p fs =
     (case fs_nodes fs p of
        None \<Rightarrow> (Some (ExternalErr ''no such file or directory''), fs)
      | Some n \<Rightarrow>
          (if fs_denied fs p \<or> is_directory n then (Some (ExternalErr ''operation not permitted''), fs)
           else (None, fs\<lparr>fs_nodes := (fs_nodes fs)(p := None)\<rparr>)))"

definition Chmod :: "string \<Rightarrow> nat \<Rightarrow> file_system \<Rightarrow> go_error option \<times> file_system" where
  "Chmod p mode fs =
     (case fs_nodes fs p of
        None \<Rightarrow> (Some (ExternalErr ''no such file or directory''), fs)
      | Some n \<Rightarrow>
          (if fs_denied fs p then (Some (ExternalErr ''operation not permitted''), fs)
           else (None, put_node p (case n of Directory m \<Rightarrow> Directory mode | File m data \<Rightarrow> File mode data) fs)))"

section \<open>The profile\<close>

definition dq :: "string \<Rightarrow> string" where "dq s = CHR 0x22 # s @ [CHR 0x22]"

definition indent :: "nat \<Rightarrow> string \<Rightarrow> string" where "indent n s = replicate n (CHR '' '') @ s"

definition allowed_syscalls :: "string list" where
  "allowed_syscalls =
     [''accept'', ''accept4'', ''access'', ''brk'', ''close'', ''dup'', ''dup2'', ''exit'', ''exit_group'', ''fstat'', ''fstat64'',
      ''getdents'', ''getdents64'', ''getpid'', ''getuid'', ''getgid'', ''geteuid'', ''getegid'', ''lseek'', ''lstat'', ''lstat64'',
      ''mmap'', ''mmap2'', ''mprotect'', ''munmap'', ''newfstatat'', ''open'', ''openat'', ''poll'', ''ppoll'', ''read'', ''readlink'',
      ''readlinkat'', ''rt_sigaction'', ''rt_sigprocmask'', ''rt_sigreturn'', ''select'', ''stat'', ''stat64'', ''statfs'',
      ''statfs64'', ''write'', ''writev'']"

text \<open>The lines of a JSON list of strings.\<close>

fun json_items :: "nat \<Rightarrow> string list \<Rightarrow> string list" where
  "json_items n [] = []"
| "json_items n [x] = [indent n (dq x)]"
| "json_items n (x # xs) = indent n (dq x @ '','') # json_items n xs"

definition seccomp_profile :: string where
  "seccomp_profile =
     join (CHR 0x0A)
       ([''{'', indent 4 (dq ''defaultAction'' @ '': '' @ dq ''SCMP_ACT_ERRNO'' @ '',''), indent 4 (dq ''architectures'' @ '': ['')] @
        json_items 8 [''SCMP_ARCH_X86_64'', ''SCMP_ARCH_X86'', ''SCMP_ARCH_X32''] @
        [indent 4 ''],'', indent 4 (dq ''syscalls'' @ '': [''), indent 8 ''{'', indent 12 (dq ''names'' @ '': ['')] @
        json_items 16 allowed_syscalls @
        [indent 12 ''],'', indent 12 (dq ''action'' @ '': '' @ dq ''SCMP_ACT_ALLOW''), indent 8 ''}'', indent 4 '']'', ''}''])"

definition preferredDirs :: "string list" where
  "preferredDirs = [''/opt/voidrunner/profiles'', ''/opt/voidrunner'', ''/var/lib/voidrunner'', ''/tmp/voidrunner-profiles'']"

definition write_test :: "string \<Rightarrow> string" where "write_test dir = path_Join dir ''.write-test''"
definition profile_file :: "string \<Rightarrow> string" where "profile_file dir = path_Join dir ''seccomp-profile.json''"

fun usable_directory :: "string list \<Rightarrow> file_system \<Rightarrow> string option \<times> file_system" where
  "usable_directory [] fs = (None, fs)"
| "usable_directory (dir # dirs) fs =
     (case MkdirAll dir mode_0700 fs of
        (Some err, fs1) \<Rightarrow> usable_directory dirs fs1
      | (None, fs1) \<Rightarrow>
          (case WriteFile (write_test dir) ''test'' mode_0600 fs1 of
             (Some err, fs2) \<Rightarrow> usable_directory dirs fs2
           | (None, fs2) \<Rightarrow> (Some dir, snd (Remove (write_test dir) fs2))))"

text \<open>\<open>tmp\<close> is \<open>os.TempDir()\<close>.\<close>

definition getSecureProfileDirectory :: "string \<Rightarrow> file_system \<Rightarrow> (go_error + string) \<times> file_system" where
  "getSecureProfileDirectory tmp fs =
     (case usable_directory preferredDirs fs of
        (Some dir, fs1) \<Rightarrow> (Inr dir, fs1)
      | (None, fs1) \<Rightarrow>
          (let tempDir = path_Join tmp ''voidrunner-profiles''
           in case MkdirAll tempDir mode_0700 fs1 of
                (Some err, fs2) \<Rightarrow> (Inl (Wrapf ''failed to create fallback temp directory'' err), fs2)
              | (None, fs2) \<Rightarrow> (Inr tempDir, fs2)))"

definition CreateSeccompProfile :: "string \<Rightarrow> file_system \<Rightarrow> (go_error + string) \<times> file_system" where
  "CreateSeccompProfile tmp fs =
     (let fail = (\<lambda>msg err. Inl (NewSecurityError ''create_seccomp_profile'' msg (Some err)))
      in case getSecureProfileDirectory tmp fs of
           (Inl err, fs1) \<Rightarrow> (fail ''failed to get secure directory'' err, fs1)
         | (Inr tempDir, fs1) \<Rightarrow>
             (case validateSecureDirectory (Stat fs1) tempDir of
                Some err \<Rightarrow> (fail ''directory security validation failed'' err, fs1)
              | None \<Rightarrow>
                  (case WriteFile (profile_file tempDir) seccomp_profile mode_0600 fs1 of
                     (Some err, fs2) \<Rightarrow> (fail ''failed to write seccomp profile'' err, fs2)
                   | (None, fs2) \<Rightarrow>
                       (case validateFilePermissions (Stat fs2) (profile_file tempDir) mode_0600 of
                          Some err \<Rightarrow> (fail ''file permission validation failed'' err, snd (Remove (profile_file tempDir) fs2))
                        | None \<Rightarrow> (Inr (profile_file tempDir), fs2)))))"

section \<open>Its installation by \<open>main\<close>\<close>

definition mode_0750 :: nat where "mode_0750 = 488"
definition mode_0666 :: nat where "mode_0666 = 438"

definition copyFile :: "string \<Rightarrow> string \<Rightarrow> file_system \<Rightarrow> go_error option \<times> file_system" where
  "copyFile src dst fs =
     (let cleanSrc = Clean src; cleanDst = Clean dst
      in if \<not> IsAbs cleanSrc \<or> \<not> IsAbs cleanDst then (Some (Errorf ''paths must be absolute''), fs)
         else if fs_nodes fs cleanSrc = None then (Some (ExternalErr ''no such file or directory''), fs)
         else if fs_denied fs cleanSrc then (Some (ExternalErr ''permission denied''), fs)
         else (case MkdirAll (path_Dir cleanDst) mode_0750 fs of
             (Some err, fs1) \<Rightarrow> (Some err, fs1)
           | (None, fs1) \<Rightarrow>
               (case open_create cleanDst mode_0666 fs1 of
                  (Some err, fs2) \<Rightarrow> (Some err, fs2)
                | (None, fs2) \<Rightarrow>
                    (case fs_nodes fs2 cleanSrc of
                       Some (File m data) \<Rightarrow>
                         (case write_open cleanDst data fs2 of
                            (Some err, fs3) \<Rightarrow> (Some err, fs3)
                          | (None, fs3) \<Rightarrow> Chmod cleanDst mode_0600 fs3)
                     | _ \<Rightarrow> (Some (ExternalErr ''is a directory''), fs2)))))"

definition install_seccomp_profile :: "string \<Rightarrow> AppConfig \<Rightarrow> file_system \<Rightarrow> file_system" where
  "install_seccomp_profile tmp cfg fs =
     (let path = Xc_SeccompProfilePath (App_Executor cfg)
      in if \<not> Xc_EnableSeccomp (App_Executor cfg) then fs
         else (case CreateSeccompProfile tmp (snd (MkdirAll (path_Dir path) mode_0750 fs)) of
             (Inl err, fs1) \<Rightarrow> fs1
           | (Inr seccompProfilePath, fs1) \<Rightarrow>
               (if seccompProfilePath \<noteq> path
                then snd (Remove seccompProfilePath (snd (copyFile seccompProfilePath path fs1)))
                else fs1)))"

definition root_only :: "nat \<Rightarrow> file_system" where
  "root_only umask =
     \<lparr>fs_nodes = [''/'' \<mapsto> Directory 493, ''/opt'' \<mapsto> Directory 493, ''/tmp'' \<mapsto> Directory 511], fs_umask = umask,
      fs_denied = (\<lambda>p. False), fs_full = (\<lambda>p. False)\<rparr>"

section \<open>Clean paths\<close>

lemma Split_free: "c \<notin> set p \<Longrightarrow> Split p c = [p]"
  by (induction p) auto

lemma Split_first: "c \<notin> set p \<Longrightarrow> Split (p @ c # x) c = p # Split x c"
  by (induction p) auto

lemma Split_join: "ps \<noteq> [] \<Longrightarrow> list_all (\<lambda>p. c \<notin> set p) ps \<Longrightarrow> Split (join c ps) c = ps"
proof (induction ps)
  case (Cons p ps)
  then show ?case by (cases ps) (simp_all add: Split_free Split_first)
qed simp

definition plain_part :: "string \<Rightarrow> bool" where
  "plain_part p \<longleftrightarrow> p \<noteq> [] \<and> p \<noteq> ''.'' \<and> p \<noteq> ''..'' \<and> CHR ''/'' \<notin> set p"

lemma clean_rooted:
  "list_all plain_part done \<Longrightarrow> list_all (\<lambda>p. CHR ''/'' \<notin> set p) ps \<Longrightarrow> list_all plain_part (clean_parts True done ps)"
proof (induction ps arbitrary: "done")
  case (Cons p ps)
  then show ?case by (cases "done") (simp_all add: plain_part_def)
qed (simp add: list_all_iff)

lemma clean_plain: "list_all plain_part ps \<Longrightarrow> clean_parts True done ps = rev done @ ps"
  by (induction ps arbitrary: "done") (simp_all add: plain_part_def)

lemma Clean_absolute:
  assumes "IsAbs path"
  shows "Clean (Clean path) = Clean path" "IsAbs (Clean path)"
proof -
  let ?ps = "clean_parts True [] (Split path (CHR ''/''))"
  have p: "list_all plain_part ?ps" by (rule clean_rooted) (auto simp: list_all_iff Split_no_sep)
  have c: "Clean path = ''/'' @ join (CHR ''/'') ?ps" using assms by (simp add: Clean_def Let_def)
  then show "IsAbs (Clean path)" by (simp add: IsAbs_def)
  have "list_all (\<lambda>p. CHR ''/'' \<notin> set p) ?ps" using p by (simp add: list_all_iff plain_part_def)
  then have "Split (Clean path) (CHR ''/'') = [] # (if ?ps = [] then [[]] else ?ps)"
    unfolding c by (simp add: Split_join)
  then have "clean_parts True [] (Split (Clean path) (CHR ''/'')) = ?ps" using clean_plain [OF p, of "[]"] by simp
  with c show "Clean (Clean path) = Clean path" by (simp add: Clean_def Let_def IsAbs_def)
qed

lemma path_Join_clean: "IsAbs a \<Longrightarrow> Clean (path_Join a b) = path_Join a b \<and> IsAbs (path_Join a b)"
  using Clean_absolute [of "a @ ''/'' @ b"] by (auto simp: path_Join_def IsAbs_def HasPrefix_iff_prefix)

section \<open>What the operations change\<close>

lemma mkdirs_keeps:
  "mkdirs perm ps fs = (r, fs') \<Longrightarrow>
     fs_denied fs' = fs_denied fs \<and> fs_full fs' = fs_full fs \<and> fs_umask fs' = fs_umask fs \<and>
     (\<forall>p n. fs_nodes fs p = Some n \<longrightarrow> fs_nodes fs' p = Some n)"
proof (induction ps arbitrary: fs)
  case (Cons p ps)
  show ?case
  proof (cases "fs_nodes fs p")
    case None
    with Cons.prems Cons.IH [of "put_node p (Directory (masked perm (fs_umask fs))) fs"] show ?thesis
      by (auto split: if_splits) (metis option.distinct(1))
  next
    case (Some n)
    with Cons show ?thesis by (cases n) auto
  qed
qed simp

lemma MkdirAll_keeps:
  assumes "MkdirAll path perm fs = (r, fs')"
  shows "fs_denied fs' = fs_denied fs" "fs_full fs' = fs_full fs" "fs_umask fs' = fs_umask fs"
    "fs_nodes fs p = Some n \<Longrightarrow> fs_nodes fs' p = Some n"
  using mkdirs_keeps [OF assms [unfolded MkdirAll_def]] by blast+

lemma open_create_None:
  "open_create p perm fs = (None, fs') \<Longrightarrow>
     \<not> fs_denied fs p \<and> fs_nodes fs p \<noteq> Some (Directory k) \<and> (\<exists>m. fs' = put_node p (File m []) fs)"
  by (auto simp: open_create_def split: if_splits option.splits node.splits)

lemma write_open_None:
  "write_open p data fs = (None, fs') \<Longrightarrow> fs_nodes fs p = Some (File m old) \<Longrightarrow> fs' = put_node p (File m data) fs"
  by (auto simp: write_open_def split: if_splits)

lemma WriteFile_None:
  assumes "WriteFile p data perm fs = (None, fs')"
  shows "\<not> fs_denied fs p \<and> fs_nodes fs p \<noteq> Some (Directory k) \<and> (\<exists>m. fs' = put_node p (File m data) fs)"
proof -
  from assms obtain fs1 where o: "open_create p perm fs = (None, fs1)" "write_open p data fs1 = (None, fs')"
    by (auto simp: WriteFile_def split: prod.splits option.splits)
  from open_create_None [OF o(1), of k] obtain m where m: "\<not> fs_denied fs p" "fs_nodes fs p \<noteq> Some (Directory k)" "fs1 = put_node p (File m []) fs" by auto
  from write_open_None [OF o(2), of m "[]"] m show ?thesis by auto
qed

lemma usable_directory_in: "usable_directory dirs fs = (Some dir, fs') \<Longrightarrow> dir \<in> set dirs"
  by (induction dirs arbitrary: fs) (auto split: prod.splits option.splits)

lemma secure_directory_absolute:
  assumes "IsAbs tmp" and "getSecureProfileDirectory tmp fs = (Inr dir, fs')"
  shows "IsAbs dir"
proof -
  have "IsAbs (path_Join tmp ''voidrunner-profiles'')" using path_Join_clean [OF assms(1)] by simp
  moreover have "d \<in> set preferredDirs \<Longrightarrow> IsAbs d" for d by (auto simp: preferredDirs_def IsAbs_def)
  ultimately show ?thesis using assms(2)
    by (auto simp: getSecureProfileDirectory_def Let_def split: prod.splits option.splits dest!: usable_directory_in)
qed

text \<open>A profile file was created: it holds the profile with mode 0600, in a directory of mode 0700.\<close>

definition created_profile :: "string \<Rightarrow> file_system \<Rightarrow> bool" where
  "created_profile p fs \<longleftrightarrow>
     (\<exists>dir. p = profile_file dir \<and> fs_nodes fs dir = Some (Directory mode_0700)) \<and>
     fs_nodes fs p = Some (File mode_0600 seccomp_profile) \<and> \<not> fs_denied fs p"

lemma CreateSeccompProfile_Inr:
  assumes "CreateSeccompProfile tmp fs = (Inr p, fs')" and "IsAbs tmp"
  shows "created_profile p fs' \<and> Clean p = p \<and> IsAbs p"
proof -
  obtain q fs1 where g: "getSecureProfileDirectory tmp fs = (q, fs1)" by fastforce
  note r = assms(1) [unfolded CreateSeccompProfile_def Let_def g prod.case]
  from r obtain dir where dir1: "q = Inr dir" by (cases q) simp_all
  note r = r [unfolded dir1 sum.case]
  from r have v: "validateSecureDirectory (Stat fs1) dir = None" by (cases "validateSecureDirectory (Stat fs1) dir") simp_all
  obtain e fs2 where w: "WriteFile (profile_file dir) seccomp_profile mode_0600 fs1 = (e, fs2)" by fastforce
  note r = r [unfolded v option.case w prod.case]
  from r have "e = None" by (cases e) simp_all
  with r have "validateFilePermissions (Stat fs2) (profile_file dir) mode_0600 = None \<and> p = profile_file dir \<and> fs' = fs2"
    by (cases "validateFilePermissions (Stat fs2) (profile_file dir) mode_0600") simp_all
  with g dir1 v w \<open>e = None\<close> have d: "getSecureProfileDirectory tmp fs = (Inr dir, fs1)" "validateSecureDirectory (Stat fs1) dir = None"
    "WriteFile p seccomp_profile mode_0600 fs1 = (None, fs')" "validateFilePermissions (Stat fs') p mode_0600 = None" "p = profile_file dir"
    by simp_all
  have dir: "fs_nodes fs1 dir = Some (Directory mode_0700)"
    using d(2) by (auto simp: validateSecureDirectory_def Stat_def split: sum.splits option.splits node.splits if_splits)
  from WriteFile_None [OF d(3), of mode_0700] obtain m where
    m: "\<not> fs_denied fs1 p" "fs_nodes fs1 p \<noteq> Some (Directory mode_0700)" "fs' = put_node p (File m seccomp_profile) fs1" by auto
  have "m = mode_0600" using d(4) by (auto simp: validateFilePermissions_def Stat_def m(3) split: if_splits)
  moreover have "dir \<noteq> p" using dir m(2) by auto
  ultimately have "created_profile p fs'"
    using m dir d(5) unfolding created_profile_def by (intro conjI exI [of _ dir]) simp_all
  with d(5) show ?thesis
    using path_Join_clean [OF secure_directory_absolute [OF assms(2) d(1)]] by (simp add: profile_file_def)
qed

lemma Remove_file:
  "fs_nodes fs p = Some (File m data) \<Longrightarrow> \<not> fs_denied fs p \<Longrightarrow> Remove p fs = (None, fs\<lparr>fs_nodes := (fs_nodes fs)(p := None)\<rparr>)"
  by (simp add: Remove_def)

text \<open>What a successful copy leaves: the data, except that copying a file onto itself empties it.\<close>

lemma copyFile_None:
  assumes "copyFile src dst fs = (None, fs')" and "fs_nodes fs (Clean src) = Some (File m data)"
  shows "fs_nodes fs' (Clean dst) = Some (File mode_0600 (if Clean src = Clean dst then [] else data)) \<and> IsAbs (Clean dst) \<and>
    (Clean src \<noteq> Clean dst \<longrightarrow> fs_nodes fs' (Clean src) = Some (File m data)) \<and> fs_denied fs' = fs_denied fs"
proof -
  let ?src = "Clean src" and ?dst = "Clean dst"
  from assms obtain fs1 fs2 k old fs3 where
    c: "MkdirAll (path_Dir ?dst) mode_0750 fs = (None, fs1)" "open_create ?dst mode_0666 fs1 = (None, fs2)"
    "fs_nodes fs2 ?src = Some (File k old)" "write_open ?dst old fs2 = (None, fs3)" "Chmod ?dst mode_0600 fs3 = (None, fs')" "IsAbs ?dst"
    by (auto simp: copyFile_def Let_def split: if_splits prod.splits option.splits node.splits)
  note keep = MkdirAll_keeps [OF c(1)]
  from open_create_None [OF c(2)] obtain k' where o: "fs2 = put_node ?dst (File k' []) fs1" by auto
  have data: "old = (if ?src = ?dst then [] else data)" "?src \<noteq> ?dst \<Longrightarrow> k = m"
    using c(3) keep(4) [OF assms(2)] by (auto simp: o split: if_splits)
  have w: "fs3 = put_node ?dst (File k' old) fs2" using write_open_None [OF c(4), of k' "[]"] by (simp add: o)
  from c(5) have "fs' = put_node ?dst (File mode_0600 old) fs3" by (auto simp: Chmod_def w split: if_splits)
  with data keep(1) keep(4) [OF assms(2)] c(6) show ?thesis by (auto simp: w o)
qed

text \<open>C21: Where the start of the program creates and copies the seccomp profile successfully, the configured path names
  a file with the profile and mode 0600, which the security manager accepts, and the temporary file is gone. It fails
  when the configured path is another spelling of the temporary file's: the copy onto itself empties the file and
  the removal deletes it.\<close>

theorem seccomp_profile_installed:
  assumes "IsAbs tmp" and "Xc_EnableSeccomp (App_Executor cfg)" and "path = Xc_SeccompProfilePath (App_Executor cfg)"
    and "CreateSeccompProfile tmp (snd (MkdirAll (path_Dir path) mode_0750 fs)) = (Inr p, fs1)"
    and "p = path \<or> fst (copyFile p path fs1) = None" and "fs' = install_seccomp_profile tmp cfg fs"
  shows "created_profile p fs1 \<and>
     fs_nodes fs' (Clean path) = (if p \<noteq> path \<and> p = Clean path then None else Some (File mode_0600 seccomp_profile)) \<and>
     (p = path \<or> fs_nodes fs' p = None) \<and>
     (Clean path \<noteq> path \<or> validateSeccompProfilePath (Stat fs') path = None)"
proof -
  note p = CreateSeccompProfile_Inr [OF assms(4,1)]
  then have f: "fs_nodes fs1 (Clean p) = Some (File mode_0600 seccomp_profile)" "\<not> fs_denied fs1 p" by (simp_all add: created_profile_def)
  show ?thesis
  proof (cases "p = path")
    case True
    with assms f p have "fs' = fs1" by (simp add: install_seccomp_profile_def Let_def)
    moreover have "p \<noteq> []" using p by (auto simp: IsAbs_def)
    ultimately show ?thesis using True f p
      by (simp add: validateSeccompProfilePath_def validateFilePermissions_def Stat_def IsAbs_def fail_if_def)
  next
    case False
    with assms(5) obtain fs2 where c: "copyFile p path fs1 = (None, fs2)" by (cases "copyFile p path fs1") auto
    note k = copyFile_None [OF c f(1)]
    with p f(2) obtain data where r: "Remove p fs2 = (None, fs2\<lparr>fs_nodes := (fs_nodes fs2)(p := None)\<rparr>)"
      using Remove_file [of fs2 p mode_0600] by (cases "p = Clean path") auto
    from assms(2,3,4,6) False c r have fs': "fs' = fs2\<lparr>fs_nodes := (fs_nodes fs2)(p := None)\<rparr>"
      by (simp add: install_seccomp_profile_def Let_def)
    with p k False show ?thesis
      by (auto simp: validateSeccompProfilePath_def validateFilePermissions_def Stat_def IsAbs_def fail_if_def)
  qed
qed

definition seccomp_config :: "string \<Rightarrow> AppConfig" where
  "seccomp_config path =
     (let c = loaded_config (\<lambda>s. Inl (ExternalErr ''duration'')) (\<lambda>k. if k = ''EXECUTOR_SECCOMP_PROFILE_PATH'' then path else [])
      in c)"

text \<open>A system with a umask of 022 on which nothing was installed yet.\<close>

definition fresh_system :: file_system where
  "fresh_system =
     \<lparr>fs_nodes = [''/'' \<mapsto> Directory 493, ''/opt'' \<mapsto> Directory 493, ''/tmp'' \<mapsto> Directory 511], fs_umask = 18,
      fs_denied = (\<lambda>p. False), fs_full = (\<lambda>p. False)\<rparr>"

abbreviation used_system :: file_system where
  "used_system \<equiv>
     put_node ''/opt/voidrunner/profiles'' (Directory mode_0700) (put_node ''/opt/voidrunner'' (Directory 493) fresh_system)"

theorem seccomp_profile_installed_witness:
  "validateSeccompProfilePath (Stat (install_seccomp_profile ''/tmp'' (seccomp_config []) fresh_system)) ''/opt/voidrunner/seccomp-profile.json'' = None \<and>
   fs_nodes (install_seccomp_profile ''/tmp'' (seccomp_config ''/opt/voidrunner/profiles//seccomp-profile.json'') used_system)
     ''/opt/voidrunner/profiles/seccomp-profile.json'' = None"
proof -
  let ?p = "''/opt/voidrunner/profiles/seccomp-profile.json''"
  let ?start = "\<lambda>path fs. CreateSeccompProfile ''/tmp'' (snd (MkdirAll (path_Dir path) mode_0750 fs))"
  have a: "IsAbs ''/tmp''" by code_simp
  have 1: "Xc_EnableSeccomp (App_Executor (seccomp_config []))" "''/opt/voidrunner/seccomp-profile.json'' = Xc_SeccompProfilePath (App_Executor (seccomp_config []))"
    "fst (?start ''/opt/voidrunner/seccomp-profile.json'' fresh_system) = Inr ?p"
    "fst (copyFile ?p ''/opt/voidrunner/seccomp-profile.json'' (snd (?start ''/opt/voidrunner/seccomp-profile.json'' fresh_system))) = None"
    "Clean ''/opt/voidrunner/seccomp-profile.json'' = ''/opt/voidrunner/seccomp-profile.json''" by code_simp+
  let ?q = "''/opt/voidrunner/profiles//seccomp-profile.json''"
  have 2: "Xc_EnableSeccomp (App_Executor (seccomp_config ?q))" "?q = Xc_SeccompProfilePath (App_Executor (seccomp_config ?q))"
    "fst (?start ?q used_system) = Inr ?p" "fst (copyFile ?p ?q (snd (?start ?q used_system))) = None" "Clean ?q = ?p" by code_simp+
  have r: "?start x y = (Inr ?p, snd (?start x y))" if "fst (?start x y) = Inr ?p" for x y using that by (metis prod.collapse)
  show ?thesis
    using seccomp_profile_installed [OF a 1(1,2) r [OF 1(3)] disjI2 [OF 1(4)] refl] 1(5)
      seccomp_profile_installed [OF a 2(1,2) r [OF 2(3)] disjI2 [OF 2(4)] refl] 2(5) by simp
qed

text \<open>A configured path beside the temporary file never works on a new system: \<open>main\<close> makes the directory with mode 0750
  first, and then its mode is not the one \<open>CreateSeccompProfile\<close> insists on.\<close>

lemma shared_profile_directory_fails:
  "isl (fst (CreateSeccompProfile ''/tmp'' (snd (MkdirAll (path_Dir ''/opt/voidrunner/profiles/p.json'') mode_0750 fresh_system))))"
  by code_simp

lemma profile_omits_execve: "''execve'' \<notin> set allowed_syscalls"
  by (simp add: allowed_syscalls_def)

end
