(* ===== verification/Lifecycle.thy ===== *)
theory Lifecycle
  imports HttpServer Startup SeccompProfile "HOL-Library.Stream" "HOL-Library.Multiset"
begin

text \<open>
  The life of the server (\<open>cmd/api/main.go\<close>) from the configuration to the exit: \<open>main\<close> composes the start, the
  profile, the executor, the router, the loop that serves until a signal and the shutdown. What happens to the process is an
  infinite stream of events with their times; whether \<open>main\<close> returns is part of its result, \<open>None\<close> when it does not.
  The two background loops of the program are here as well.
\<close>

section \<open>Events\<close>

text \<open>
  A request begins, with all that surrounds it, and its handler is done; a \<open>SIGINT\<close> or \<open>SIGTERM\<close>; \<open>ListenAndServe\<close>
  returns; time passes.
\<close>

datatype listen_result = ListenNil | ListenClosed | ListenFailed go_error

datatype 'w event =
    Begin nat http_request Session "'w gin_state"
  | Finish nat
  | Quit
  | Listen listen_result
  | Tick

text \<open>\<open>err != nil && !errors.Is(err, http.ErrServerClosed)\<close>.\<close>

fun fatal :: "listen_result \<Rightarrow> bool" where
  "fatal (ListenFailed err) = True"
| "fatal ListenNil = False"
| "fatal ListenClosed = False"

record 'w running =
  ru_server :: server
  ru_active :: "(nat \<times> http_request \<times> Session \<times> 'w gin_state) list"
  ru_accepted :: "nat list"
  ru_answers :: "(nat \<times> 'w gin_state) list"

definition accept :: "nat \<Rightarrow> http_request \<Rightarrow> Session \<Rightarrow> 'w gin_state \<Rightarrow> 'w running \<Rightarrow> 'w running" where
  "accept i rq s g st = st\<lparr>ru_active := ru_active st @ [(i, rq, s, g)], ru_accepted := ru_accepted st @ [i]\<rparr>"

text \<open>A handler is one step of the server, taken when it is done.\<close>

definition finish :: "'w router \<Rightarrow> nat \<Rightarrow> 'w running \<Rightarrow> 'w running" where
  "finish R i st =
     (case find (\<lambda>(j, x). j = i) (ru_active st) of
        None \<Rightarrow> st
      | Some (j, rq, s, g) \<Rightarrow>
          (case ServeHTTP R rq g (arrive s (ru_server st)) of
             (p, g1, sv1) \<Rightarrow>
               st\<lparr>ru_server := sv1, ru_active := remove1 (j, rq, s, g) (ru_active st), ru_answers := ru_answers st @ [(j, g1)]\<rparr>))"

section \<open>Serving and shutting down\<close>

datatype stop = Graceful | Forced | ListenerFailed

text \<open>
  \<open>srv.Shutdown(ctx)\<close>: no new request, and it returns when the last handler is done or, with an error, at the
  deadline of \<open>ctx\<close>; meanwhile a listener that fails still ends the process.
\<close>

partial_function (option) draining :: "'w router \<Rightarrow> time \<Rightarrow> (time \<times> 'w event) stream \<Rightarrow> 'w running \<Rightarrow> (stop \<times> 'w running) option" where
  "draining R deadline es st =
     (if ru_active st = [] then Some (Graceful, st)
      else if fst (shd es) > deadline then Some (Forced, st)
      else (case snd (shd es) of
          Finish i \<Rightarrow> draining R deadline (stl es) (finish R i st)
        | Listen r \<Rightarrow> (if fatal r then Some (ListenerFailed, st) else draining R deadline (stl es) st)
        | Begin i rq s g \<Rightarrow> draining R deadline (stl es) st
        | Quit \<Rightarrow> draining R deadline (stl es) st
        | Tick \<Rightarrow> draining R deadline (stl es) st))"

text \<open>\<open>main\<close> waits at \<open><-quit\<close> while the goroutine of \<open>ListenAndServe\<close> serves.\<close>

partial_function (option) serving :: "'w router \<Rightarrow> (time \<times> 'w event) stream \<Rightarrow> 'w running \<Rightarrow> (stop \<times> 'w running) option" where
  "serving R es st =
     (case snd (shd es) of
        Begin i rq s g \<Rightarrow> serving R (stl es) (accept i rq s g st)
      | Finish i \<Rightarrow> serving R (stl es) (finish R i st)
      | Listen r \<Rightarrow> (if fatal r then Some (ListenerFailed, st) else serving R (stl es) st)
      | Quit \<Rightarrow> draining R (fst (shd es) + 30 * Second) (stl es) st
      | Tick \<Rightarrow> serving R (stl es) st)"

section \<open>The program\<close>

record http_Server =
  hs_Addr :: string
  hs_ReadHeaderTimeout :: time
  hs_ReadTimeout :: time
  hs_WriteTimeout :: time
  hs_IdleTimeout :: time

definition server_settings :: "AppConfig \<Rightarrow> http_Server" where
  "server_settings cfg =
     \<lparr>hs_Addr = Srv_Host (App_Server cfg) @ '':'' @ Srv_Port (App_Server cfg), hs_ReadHeaderTimeout = 10 * Second, hs_ReadTimeout = 30 * Second,
      hs_WriteTimeout = 30 * Second, hs_IdleTimeout = 120 * Second\<rparr>"

text \<open>What surrounds the program: the environment, and the libraries it is built on.\<close>

record ('w, 'p, 'x) surroundings =
  su_ParseDuration :: "string \<Rightarrow> go_error + int"
  su_env :: environment
  su_case :: casemap
  su_pool :: "'p pool_api"
  su_migrate :: "'p migrate_api"
  su_tempdir :: string
  su_executor :: "'x Executor"
  su_docker :: "go_error + 'x docker_api"
  su_docker_close :: "'x \<Rightarrow> go_error option \<times> 'x"
  su_gin :: "'w gin"
  su_api :: "AppConfig \<Rightarrow> api"
  su_dbChecker :: "server \<Rightarrow> checker"
  su_execChecker :: "server \<Rightarrow> checker"
  su_session :: Session

record ('p, 'x) process =
  pr_pool :: 'p
  pr_files :: file_system
  pr_docker :: 'x

text \<open>
  The deferred calls, last first: the cleanup of a Docker executor (whose registry is as it was made, since no route
  starts an execution), then the end of the connection pool.
\<close>

definition deferred :: "('w, 'p, 'x) surroundings \<Rightarrow> 'x task_executor \<Rightarrow> ('p, 'x) process \<Rightarrow> ('p, 'x) process" where
  "deferred U ex pr =
     (let docker = (case ex of
             DockerExecutor e \<Rightarrow> snd (snd (Executor_Cleanup e [] (Some (su_docker_close U)) Background (NewCleanupManager, pr_docker pr)))
           | MockExecutor \<Rightarrow> pr_docker pr)
      in pr\<lparr>pr_docker := docker, pr_pool := conn_Close (Some (su_pool U)) (pr_pool pr)\<rparr>)"

text \<open>
  The exit code, what is left of the process, and the last state of the server when it came to serve. \<open>os.Exit\<close> skips
  the deferred calls; a panic of \<open>main\<close> runs them and exits with 2.
\<close>

definition api_main ::
    "('w, 'p, 'x) surroundings \<Rightarrow> (time \<times> 'w event) stream \<Rightarrow> ('p, 'x) process \<Rightarrow>
     (int \<times> ('p, 'x) process \<times> 'w running option) option" where
  "api_main U es pr =
     (case start_server (su_ParseDuration U) (su_env U) (su_pool U) (su_migrate U) (pr_pool pr) of
        (Exit code, pool) \<Rightarrow> Some (code, pr\<lparr>pr_pool := pool\<rparr>, None)
      | (Serving cfg, pool) \<Rightarrow>
          (let log = logger_New (su_case U) (Log_Level (App_Logger cfg)) (Log_Format (App_Logger cfg));
               files = install_seccomp_profile (su_tempdir U) cfg (pr_files pr)
           in case initialize_executor (su_executor U) (su_docker U) (su_docker_close U) [] (executor_config cfg) (pr_docker pr) of
               (taskExecutor, docker) \<Rightarrow>
                 (let pr1 = pr\<lparr>pr_pool := pool, pr_files := files, pr_docker := docker\<rparr>
                  in case Setup (su_gin U) (su_case U) cfg log (su_api U cfg) (su_dbChecker U) (su_execChecker U) (su_session U) of
                      Inl panic \<Rightarrow> Some (2, deferred U taskExecutor pr1, None)
                    | Inr (R, sv) \<Rightarrow>
                        (case serving R es \<lparr>ru_server = sv, ru_active = [], ru_accepted = [], ru_answers = []\<rparr> of
                           None \<Rightarrow> None
                         | Some (Graceful, st) \<Rightarrow> Some (0, deferred U taskExecutor pr1, Some st)
                         | Some (Forced, st) \<Rightarrow> Some (1, pr1, Some st)
                         | Some (ListenerFailed, st) \<Rightarrow> Some (1, pr1, Some st)))))"

section \<open>When the program returns\<close>

text \<open>Time goes on: the times of the events exceed every bound.\<close>

definition time_passes :: "(time \<times> 'w event) stream \<Rightarrow> bool" where
  "time_passes es \<longleftrightarrow> (\<forall>t. \<exists>n. t < fst (es !! n))"

fun stopping :: "'w event \<Rightarrow> bool" where
  "stopping Quit = True"
| "stopping (Listen r) = fatal r"
| "stopping _ = False"

lemma time_passes_stl: "time_passes es \<Longrightarrow> time_passes (stl es)"
  unfolding time_passes_def
proof
  fix t assume "\<forall>t. \<exists>n. t < fst (es !! n)"
  then obtain n where n: "max t (fst (shd es)) < fst (es !! n)" by blast
  then obtain m where "n = Suc m" by (cases n) auto
  with n show "\<exists>n. t < fst (stl es !! n)" by (intro exI [of _ m]) simp
qed

lemma draining_returns: "deadline < fst (es !! n) \<Longrightarrow> draining R deadline es st \<noteq> None"
proof (induction n arbitrary: es st)
  case (Suc n)
  then have ih: "draining R deadline (stl es) st' \<noteq> None" for st' by simp
  show ?case by (subst draining.simps) (simp add: ih [simplified] split: event.split)
qed (subst draining.simps, simp)

lemma serving_returns: "time_passes es \<Longrightarrow> stopping (snd (es !! n)) \<Longrightarrow> serving R es st \<noteq> None"
proof (induction n arbitrary: es st)
  case 0
  obtain m where "fst (shd es) + 30 * Second < fst (stl es !! m)"
    using time_passes_stl [OF 0(1)] unfolding time_passes_def by blast
  with draining_returns 0(2) show ?case
    by (subst serving.simps) (auto split: event.split elim: stopping.elims)
next
  case (Suc n)
  obtain m where "fst (shd es) + 30 * Second < fst (stl es !! m)"
    using time_passes_stl [OF Suc.prems(1)] unfolding time_passes_def by blast
  then have "draining R (fst (shd es) + 30 * Second) (stl es) st \<noteq> None" by (rule draining_returns)
  moreover have "serving R (stl es) st' \<noteq> None" for st'
    using Suc.IH [OF time_passes_stl [OF Suc.prems(1)]] Suc.prems(2) by simp
  ultimately show ?case by (subst serving.simps) (simp split: event.split)
qed

text \<open>
  Whatever \<open>serving\<close> returns went through a stopping event, and a property that accepting a request and finishing one
  keep holds of the last state.
\<close>

lemma draining_invariant:
  assumes "draining R deadline es st = Some r" and "P st" and "\<And>i st. P st \<Longrightarrow> P (finish R i st)"
  shows "P (snd r) \<and> (fst r = Graceful \<longrightarrow> ru_active (snd r) = [])"
proof -
  have "P st \<longrightarrow> P (snd r) \<and> (fst r = Graceful \<longrightarrow> ru_active (snd r) = [])"
  proof (rule draining.raw_induct [OF _ assms(1), where P = "\<lambda>R' d es st r. R' = R \<longrightarrow> P st \<longrightarrow> P (snd r) \<and> (fst r = Graceful \<longrightarrow> ru_active (snd r) = [])", THEN mp, OF _ refl])
    fix f R' d es st r
    assume ih: "\<And>R' d es st r. f R' d es st = Some r \<Longrightarrow> R' = R \<longrightarrow> P st \<longrightarrow> P (snd r) \<and> (fst r = Graceful \<longrightarrow> ru_active (snd r) = [])"
      and eq: "(if ru_active st = [] then Some (Graceful, st) else if d < fst (shd es) then Some (Forced, st)
          else case snd (shd es) of
              Finish i \<Rightarrow> f R' d (stl es) (finish R' i st)
            | Listen r \<Rightarrow> if fatal r then Some (ListenerFailed, st) else f R' d (stl es) st
            | Begin i rq s g \<Rightarrow> f R' d (stl es) st
            | Quit \<Rightarrow> f R' d (stl es) st
            | Tick \<Rightarrow> f R' d (stl es) st) = Some r"
    show "R' = R \<longrightarrow> P st \<longrightarrow> P (snd r) \<and> (fst r = Graceful \<longrightarrow> ru_active (snd r) = [])"
      using eq assms(3) by (auto split: if_splits event.splits dest!: ih)
  qed
  with assms(2) show ?thesis by simp
qed

lemma serving_invariant:
  assumes "serving R es st = Some r" and "P st" and "\<And>i st. P st \<Longrightarrow> P (finish R i st)" and "\<And>i rq s g st. P st \<Longrightarrow> P (accept i rq s g st)"
  shows "P (snd r) \<and> (fst r = Graceful \<longrightarrow> ru_active (snd r) = []) \<and> (\<exists>n. stopping (snd (es !! n)))"
proof -
  let ?Q = "\<lambda>R' es st (r :: stop \<times> 'a running). R' = R \<longrightarrow> P st \<longrightarrow>
    P (snd r) \<and> (fst r = Graceful \<longrightarrow> ru_active (snd r) = []) \<and> (\<exists>n. stopping (snd (es !! n)))"
  have "?Q R es st r"
  proof (rule serving.raw_induct [OF _ assms(1), where P = ?Q])
    fix f R' es st r
    assume ih: "\<And>R' es st r. f R' es st = Some r \<Longrightarrow> ?Q R' es st r"
      and eq: "(case snd (shd es) of
          Begin i rq s g \<Rightarrow> f R' (stl es) (accept i rq s g st)
        | Finish i \<Rightarrow> f R' (stl es) (finish R' i st)
        | Quit \<Rightarrow> draining R' (fst (shd es) + 30 * Second) (stl es) st
        | Listen r \<Rightarrow> if fatal r then Some (ListenerFailed, st) else f R' (stl es) st
        | Tick \<Rightarrow> f R' (stl es) st) = Some r"
    have now: "\<exists>n. stopping (snd (es !! n))" if "stopping (snd (shd es))" using that by (intro exI [of _ 0]) simp
    have later: "\<exists>n. stopping (snd (es !! n))" if "stopping (snd (stl es !! n))" for n using that by (intro exI [of _ "Suc n"]) simp
    show "?Q R' es st r"
    proof (intro impI)
      assume "R' = R" and "P st"
      show "P (snd r) \<and> (fst r = Graceful \<longrightarrow> ru_active (snd r) = []) \<and> (\<exists>n. stopping (snd (es !! n)))"
      proof (cases "stopping (snd (shd es))")
        case True
        then show ?thesis using eq \<open>R' = R\<close> \<open>P st\<close> now draining_invariant [where P = P and R = R, OF _ _ assms(3)]
          by (cases "snd (shd es)") (auto dest: draining_invariant [where P = P and R = R, OF _ _ assms(3)])
      next
        case False
        with eq obtain st' where "f R (stl es) st' = Some r" "P st'"
          using \<open>R' = R\<close> \<open>P st\<close> assms(3,4) by (cases "snd (shd es)") auto
        with ih later show ?thesis by blast
      qed
    qed
  qed
  with assms(2) show ?thesis by simp
qed

text \<open>Every request that was accepted is answered or in flight.\<close>

definition accounted :: "'w running \<Rightarrow> bool" where
  "accounted st \<longleftrightarrow> mset (ru_accepted st) = mset (map fst (ru_answers st)) + mset (map fst (ru_active st))"

lemma accounted_accept: "accounted st \<Longrightarrow> accounted (accept i rq s g st)"
  by (simp add: accounted_def accept_def)

lemma mset_remove1_map: "x \<in> set xs \<Longrightarrow> mset (map f xs) = add_mset (f x) (mset (map f (remove1 x xs)))"
  by (induction xs) auto

lemma accounted_finish: "accounted st \<Longrightarrow> accounted (finish R i st)"
proof (cases "find (\<lambda>(j, x). j = i) (ru_active st)")
  case (Some y)
  obtain j rq s g where y: "y = (j, rq, s, g)" by (cases y)
  have "y \<in> set (ru_active st)" using Some by (metis (lifting) find_Some_iff nth_mem)
  from mset_remove1_map [OF this, of fst] Some y show "accounted st \<Longrightarrow> accounted (finish R i st)"
    by (simp add: accounted_def finish_def split: prod.split)
qed (simp add: finish_def)

text \<open>The three ways through \<open>main\<close> once the start has succeeded.\<close>

lemma Setup_Inl:
  "isl (Setup G uc cfg log A dbc exc s) \<longleftrightarrow>
     isl (CORS (gi_cors_New G) (Cors_AllowedOrigins (App_CORS cfg)) (Cors_AllowedMethods (App_CORS cfg)) (Cors_AllowedHeaders (App_CORS cfg)))"
  by (simp add: Setup_def Let_def split: sum.split)

lemma api_main_Serving:
  fixes U :: "('w, 'p, 'x) surroundings"
  assumes "start_server (su_ParseDuration U) (su_env U) (su_pool U) (su_migrate U) (pr_pool pr) = (Serving cfg, pool)"
  obtains ex pr1 and S :: "string + 'w router \<times> server" where "pr_pool pr1 = pool" and "pr_pool (deferred U ex pr1) = pa_Close (su_pool U) pool"
    and "isl S \<longleftrightarrow> isl (CORS (gi_cors_New (su_gin U)) (Cors_AllowedOrigins (App_CORS cfg)) (Cors_AllowedMethods (App_CORS cfg))
                 (Cors_AllowedHeaders (App_CORS cfg)))"
    and "api_main U es pr =
      (case S of
         Inl panic \<Rightarrow> Some (2, deferred U ex pr1, None)
       | Inr (R, sv) \<Rightarrow>
           map_option (\<lambda>(stop, st). if stop = Graceful then (0, deferred U ex pr1, Some st) else (1, pr1, Some st))
             (serving R es \<lparr>ru_server = sv, ru_active = [], ru_accepted = [], ru_answers = []\<rparr>))"
proof -
  let ?log = "logger_New (su_case U) (Log_Level (App_Logger cfg)) (Log_Format (App_Logger cfg))"
  let ?S = "Setup (su_gin U) (su_case U) cfg ?log (su_api U cfg) (su_dbChecker U) (su_execChecker U) (su_session U)"
  obtain ex docker where i: "initialize_executor (su_executor U) (su_docker U) (su_docker_close U) [] (executor_config cfg) (pr_docker pr) = (ex, docker)"
    by fastforce
  let ?pr1 = "pr\<lparr>pr_pool := pool, pr_files := install_seccomp_profile (su_tempdir U) cfg (pr_files pr), pr_docker := docker\<rparr>"
  show thesis
  proof (rule that [of ?pr1 ex ?S])
    show "pr_pool (deferred U ex ?pr1) = pa_Close (su_pool U) pool" by (simp add: deferred_def conn_Close_def Let_def)
    show "api_main U es pr =
      (case ?S of
         Inl panic \<Rightarrow> Some (2, deferred U ex ?pr1, None)
       | Inr (R, sv) \<Rightarrow>
           map_option (\<lambda>(stop, st). if stop = Graceful then (0, deferred U ex ?pr1, Some st) else (1, ?pr1, Some st))
             (serving R es \<lparr>ru_server = sv, ru_active = [], ru_accepted = [], ru_answers = []\<rparr>))"
      by (simp add: api_main_def assms i Let_def split: sum.split prod.split option.split stop.split)
  qed (simp_all add: Setup_Inl)
qed

text \<open>C30: Whether the program ends is decided by its start and its events: when time goes on, \<open>main\<close> returns exactly if
  the start fails, or the router panics over the CORS configuration, or a signal comes or the listener fails at some
  time. After a signal it returns even if no handler ever does.\<close>

theorem main_returns_iff:
  fixes U :: "('w, 'p, 'x) surroundings"
  assumes "time_passes es"
  shows "(\<exists>r. api_main U es pr = Some r) \<longleftrightarrow>
     (case fst (start_server (su_ParseDuration U) (su_env U) (su_pool U) (su_migrate U) (pr_pool pr)) of
        Exit code \<Rightarrow> True
      | Serving cfg \<Rightarrow>
          isl (CORS (gi_cors_New (su_gin U)) (Cors_AllowedOrigins (App_CORS cfg)) (Cors_AllowedMethods (App_CORS cfg))
                 (Cors_AllowedHeaders (App_CORS cfg))) \<or>
          (\<exists>n. stopping (snd (es !! n))))"
proof -
  obtain x pool where s: "start_server (su_ParseDuration U) (su_env U) (su_pool U) (su_migrate U) (pr_pool pr) = (x, pool)" by fastforce
  have v: "(\<exists>r. map_option f (serving R es st) = Some r) \<longleftrightarrow> (\<exists>n. stopping (snd (es !! n)))"
    for f :: "stop \<times> 'w running \<Rightarrow> int \<times> ('p, 'x) process \<times> 'w running option" and R st
    using serving_returns [OF assms, of _ R st] serving_invariant [where P = "\<lambda>st. True" and R = R and es = es and st = st]
    by (cases "serving R es st") (auto simp del: split_paired_Ex)
  show ?thesis
  proof (cases x)
    case (Serving cfg)
    obtain ex pr1 and S :: "string + 'w router \<times> server"
      where p: "pr_pool pr1 = pool" "pr_pool (deferred U ex pr1) = pa_Close (su_pool U) pool"
      and S: "isl S \<longleftrightarrow> isl (CORS (gi_cors_New (su_gin U)) (Cors_AllowedOrigins (App_CORS cfg)) (Cors_AllowedMethods (App_CORS cfg))
                 (Cors_AllowedHeaders (App_CORS cfg)))"
      and m: "api_main U es pr =
          (case S of
             Inl panic \<Rightarrow> Some (2, deferred U ex pr1, None)
           | Inr (R, sv) \<Rightarrow>
               map_option (\<lambda>(stop, st). if stop = Graceful then (0, deferred U ex pr1, Some st) else (1, pr1, Some st))
                 (serving R es \<lparr>ru_server = sv, ru_active = [], ru_accepted = [], ru_answers = []\<rparr>))"
      by (rule api_main_Serving [OF s [unfolded Serving], of es])
    have "(\<exists>r. api_main U es pr = Some r) \<longleftrightarrow> isl S \<or> (\<exists>n. stopping (snd (es !! n)))"
    proof (cases S)
      case (Inr y)
      obtain R sv where y: "y = (R, sv)" by fastforce
      show ?thesis unfolding m Inr y sum.case prod.case v by simp
    qed (simp add: m)
    with s Serving S show ?thesis by simp
  qed (simp add: api_main_def s)
qed

text \<open>C31: What the end of the program leaves behind: every request the server has accepted was answered or is in flight. The
  program exits with 0 only when none is in flight and the connection pool is closed; a shutdown that is forced after
  30 seconds and a failing listener exit with 1, and the deferred calls that close the pool are skipped.\<close>

theorem exit_accounts_for_requests:
  fixes U :: "('w, 'p, 'x) surroundings"
  assumes "handle_laws opened (su_pool U) (su_migrate U)" and "api_main U es pr = Some (code, pr', served)"
  shows "case served of
       None \<Rightarrow> code = 1 \<and> opened (pr_pool pr') \<le> opened (pr_pool pr) + 1 \<or> code = 2 \<and> opened (pr_pool pr') = opened (pr_pool pr)
     | Some st \<Rightarrow>
         mset (ru_accepted st) = mset (map fst (ru_answers st)) + mset (map fst (ru_active st)) \<and>
         (if code = 0 then ru_active st = [] \<and> opened (pr_pool pr') = opened (pr_pool pr)
          else code = 1 \<and> opened (pr_pool pr') = opened (pr_pool pr) + 1)"
proof -
  obtain x pool where s: "start_server (su_ParseDuration U) (su_env U) (su_pool U) (su_migrate U) (pr_pool pr) = (x, pool)" by fastforce
  note st = start_server_handles [OF assms(1) s]
  show ?thesis
  proof (cases x)
    case (Exit k)
    with assms(2) s st show ?thesis by (auto simp: api_main_def)
  next
    case (Serving cfg)
    obtain ex pr1 and S :: "string + 'w router \<times> server"
      where p: "pr_pool pr1 = pool" "pr_pool (deferred U ex pr1) = pa_Close (su_pool U) pool"
      and S: "isl S \<longleftrightarrow> isl (CORS (gi_cors_New (su_gin U)) (Cors_AllowedOrigins (App_CORS cfg)) (Cors_AllowedMethods (App_CORS cfg))
                 (Cors_AllowedHeaders (App_CORS cfg)))"
      and m: "api_main U es pr =
          (case S of
             Inl panic \<Rightarrow> Some (2, deferred U ex pr1, None)
           | Inr (R, sv) \<Rightarrow>
               map_option (\<lambda>(stop, st). if stop = Graceful then (0, deferred U ex pr1, Some st) else (1, pr1, Some st))
                 (serving R es \<lparr>ru_server = sv, ru_active = [], ru_accepted = [], ru_answers = []\<rparr>))"
      by (rule api_main_Serving [OF s [unfolded Serving], of es])
    have o: "opened pool = opened (pr_pool pr) + 1" "opened (pa_Close (su_pool U) pool) = opened (pr_pool pr)"
      using st Serving handle_rules(4) [OF assms(1), of pool] by simp_all
    show ?thesis
    proof (cases served)
      case None
      with assms(2) m p o show ?thesis by (auto split: sum.splits if_splits)
    next
      case (Some run)
      with assms(2) m obtain R sv stop where r: "serving R es \<lparr>ru_server = sv, ru_active = [], ru_accepted = [], ru_answers = []\<rparr> = Some (stop, run)"
        and c: "(code, pr') = (if stop = Graceful then (0, deferred U ex pr1) else (1, pr1))"
        by (auto split: sum.splits if_splits)
      have "accounted run \<and> (stop = Graceful \<longrightarrow> ru_active run = [])"
        using serving_invariant [OF r, where P = accounted] by (simp add: accounted_finish accounted_accept) (simp add: accounted_def)
      with Some c p o show ?thesis by (auto simp: accounted_def split: if_splits)
    qed
  qed
qed

definition demo_surroundings :: "(plain_writer, nat, int) surroundings" where
  "demo_surroundings =
     \<lparr>su_ParseDuration = (\<lambda>t. Inl (ExternalErr ''time'')), su_env = (\<lambda>k. []), su_case = id, su_pool = counting_pool,
      su_migrate = counting_migrate, su_tempdir = ''/tmp'', su_executor = example_executor, su_docker = Inl (ExternalErr ''no docker''),
      su_docker_close = (\<lambda>x. (None, x)),
      su_gin = \<lparr>gi_writer = plain_api, gi_cors_New = (\<lambda>c. Inr plain_cors), gi_show_Duration = show_int,
                gi_swagger_ui = (\<lambda>g sv. (None, g, sv)), gi_unmatched = (\<lambda>rq g sv. (None, g, sv))\<rparr>,
      su_api = (\<lambda>cfg. demo_api), su_dbChecker = (\<lambda>sv. (''ready'', None)), su_execChecker = (\<lambda>sv. (''ready'', None)),
      su_session = sv_session (demo_server 7)\<rparr>"

definition demo_process :: "(nat, int) process" where
  "demo_process = \<lparr>pr_pool = 0, pr_files = fresh_system, pr_docker = 0\<rparr>"

text \<open>A request whose handler is never done, a signal, and then only the clock.\<close>

definition hanging_events :: "(time \<times> plain_writer event) stream" where
  "hanging_events =
     smap (\<lambda>n. (int n * (40 * Second),
             if n = 0 then Begin 5 (plain_http ''GET'' ''/health'') (fresh_session empty_db) fresh_state
             else if n = 1 then Quit else Tick)) nats"

lemma hanging_time_passes: "time_passes hanging_events"
  unfolding time_passes_def
proof
  fix t :: int
  have "t < int (nat t + 1) * (40 * Second)" by (simp add: Second_def)
  then show "\<exists>n. t < fst (hanging_events !! n)"
    by (intro exI [of _ "nat t + 1"]) (simp add: hanging_events_def)
qed

lemma demo_start: "fst (start_server (su_ParseDuration demo_surroundings) (su_env demo_surroundings) (su_pool demo_surroundings)
    (su_migrate demo_surroundings) (pr_pool demo_process)) = Serving (loaded_config (\<lambda>t. Inl (ExternalErr ''time'')) (\<lambda>k. []))"
proof -
  have "case fst (start_server (\<lambda>t. Inl (ExternalErr ''time'')) (\<lambda>k. []) counting_pool counting_migrate 0) of Serving cfg \<Rightarrow> True | Exit k \<Rightarrow> False"
    by code_simp
  then show ?thesis
    by (auto simp: demo_surroundings_def demo_process_def start_server_def Load_def split: sum.splits prod.splits option.splits start.splits)
qed

theorem main_returns_iff_witness: "\<exists>r. api_main demo_surroundings hanging_events demo_process = Some r"
proof -
  have "stopping (snd (hanging_events !! 1))" by (simp add: hanging_events_def)
  then show ?thesis
    unfolding main_returns_iff [OF hanging_time_passes] demo_start start.case by blast
qed

lemma hanging_serving:
  "serving R hanging_events st =
     Some (Forced, accept 5 (plain_http ''GET'' ''/health'') (fresh_session empty_db) fresh_state st)"
  apply (subst serving.simps)
  apply (simp add: hanging_events_def)
  apply (subst serving.simps)
  apply simp
  apply (subst draining.simps)
  apply (simp add: accept_def Second_def)
  done

theorem exit_accounts_for_requests_witness:
  "\<exists>pr' st. api_main demo_surroundings hanging_events demo_process = Some (1, pr', Some st) \<and> pr_pool pr' = 1 \<and>
     mset (ru_accepted st) = {#5#} \<and> ru_answers st = []"
proof -
  obtain pool where s: "start_server (su_ParseDuration demo_surroundings) (su_env demo_surroundings) (su_pool demo_surroundings)
      (su_migrate demo_surroundings) (pr_pool demo_process) = (Serving (loaded_config (\<lambda>t. Inl (ExternalErr ''time'')) (\<lambda>k. [])), pool)"
    using demo_start by (metis prod.collapse)
  let ?cfg = "loaded_config (\<lambda>t. Inl (ExternalErr ''time'')) (\<lambda>k. [])"
  obtain ex pr1 and S :: "string + plain_writer router \<times> server"
    where "pr_pool pr1 = pool" "pr_pool (deferred demo_surroundings ex pr1) = pa_Close (su_pool demo_surroundings) pool"
    and S: "isl S \<longleftrightarrow> isl (CORS (gi_cors_New (su_gin demo_surroundings)) (Cors_AllowedOrigins (App_CORS ?cfg)) (Cors_AllowedMethods (App_CORS ?cfg))
               (Cors_AllowedHeaders (App_CORS ?cfg)))"
    and m: "api_main demo_surroundings hanging_events demo_process =
        (case S of
           Inl panic \<Rightarrow> Some (2, deferred demo_surroundings ex pr1, None)
         | Inr (R, sv) \<Rightarrow>
             map_option (\<lambda>(stop, st). if stop = Graceful then (0, deferred demo_surroundings ex pr1, Some st) else (1, pr1, Some st))
               (serving R hanging_events \<lparr>ru_server = sv, ru_active = [], ru_accepted = [], ru_answers = []\<rparr>))"
    by (rule api_main_Serving [OF s, of hanging_events])
  from S obtain R sv where "S = Inr (R, sv)" by (cases S) (auto simp: CORS_def demo_surroundings_def)
  with m hanging_serving [of R] obtain st
    where r: "api_main demo_surroundings hanging_events demo_process = Some (1, pr1, Some st)" "ru_accepted st = [5]" "ru_answers st = []"
    by (auto simp: accept_def)
  have "handle_laws id (su_pool demo_surroundings) (su_migrate demo_surroundings)"
    by (simp add: handle_laws_def demo_surroundings_def counting_pool_def counting_migrate_def Let_def)
  from exit_accounts_for_requests [OF this r(1)] r show ?thesis by (simp add: demo_process_def)
qed

section \<open>The background loops\<close>

text \<open>
  \<open>for range ticker.C\<close>: a tick runs the body, for ever; nothing closes the channel of a ticker, \<open>ticker.Stop\<close> neither.
  Between two ticks the rest of the program has changed the shared state.
\<close>

partial_function (option) range_ticker :: "('t \<Rightarrow> 's \<Rightarrow> 's) \<Rightarrow> ('t \<times> ('s \<Rightarrow> 's)) stream \<Rightarrow> 's \<Rightarrow> 's option" where
  "range_ticker body ticks s = range_ticker body (stl ticks) (body (fst (shd ticks)) (snd (shd ticks) s))"

definition rl_cleanup :: "(time \<times> (RateLimiter \<Rightarrow> RateLimiter)) stream \<Rightarrow> RateLimiter \<Rightarrow> RateLimiter option" where
  "rl_cleanup ticks rl = range_ticker cleanup_tick ticks rl"

definition startPeriodicCleanup ::
    "'w ContainerClient \<Rightarrow> ('w \<Rightarrow> time) \<Rightarrow> (string list \<times> ('w managed \<Rightarrow> 'w managed)) stream \<Rightarrow> 'w managed \<Rightarrow> 'w managed option" where
  "startPeriodicCleanup cl clk ticks s = range_ticker (periodic_tick cl clk) ticks s"

lemma range_ticker_None: "range_ticker body ticks s = None"
proof -
  have False if "range_ticker body ticks s = Some r" for r
    by (rule range_ticker.raw_induct [OF _ that, where P = "\<lambda>body ticks s r. False"])
  then show ?thesis by (cases "range_ticker body ticks s") auto
qed

text \<open>
  The goroutines of the rate limiters and of the cleanup manager never end, whatever the program does in between,
  \<open>cm_Stop\<close> included: the deferred \<open>ticker.Stop()\<close> is dead, and each limiter or manager that is made leaves one behind.
\<close>

lemma background_loops_never_end: "rl_cleanup ticks rl = None" "startPeriodicCleanup cl clk ticks' s = None"
  by (simp_all add: rl_cleanup_def startPeriodicCleanup_def range_ticker_None)

end
