(* ===== verification/Jsonb.thy ===== *)
theory Jsonb
  imports Cursor
begin

text \<open>
  \<open>JSONB\<close> (\<open>internal/models/base.go\<close>), the type of the metadata of a task: how it goes into a column and comes out of
  it, and how it goes into a reply and comes out of a body. \<open>encoding/json\<close> on a Go map is a codec, a parameter.
\<close>

section \<open>Columns and bodies\<close>

text \<open>A value of the driver: \<open>nil\<close>, \<open>[]byte\<close>, \<open>string\<close>, or of another type, given by its name.\<close>

datatype db_value = DbNil | DbBytes string | DbString string | DbOther string

definition JSONB_Scan :: "jsonb json_codec \<Rightarrow> db_value \<Rightarrow> jsonb \<Rightarrow> go_error option \<times> jsonb" where
  "JSONB_Scan J val j =
     (let unmarshal = (\<lambda>bytes. case json_Unmarshal J bytes of
            Inl err \<Rightarrow> (Some (Wrapf ''cannot unmarshal JSON into JSONB'' err), j)
          | Inr result \<Rightarrow> (None, result))
      in case val of
          DbNil \<Rightarrow> (None, Some Map.empty)
        | DbBytes v \<Rightarrow> unmarshal v
        | DbString v \<Rightarrow> unmarshal v
        | DbOther type \<Rightarrow> (Some (Errorf (''cannot scan '' @ type @ '' into JSONB'')), j))"

definition JSONB_Value :: "jsonb json_codec \<Rightarrow> jsonb \<Rightarrow> go_error + db_value" where
  "JSONB_Value J j =
     (case j of
        None \<Rightarrow> Inr DbNil
      | Some m \<Rightarrow> (case json_Marshal J (Some m) of Inl err \<Rightarrow> Inl err | Inr data \<Rightarrow> Inr (DbBytes data)))"

definition JSONB_MarshalJSON :: "jsonb json_codec \<Rightarrow> jsonb \<Rightarrow> go_error + string" where
  "JSONB_MarshalJSON J j = json_Marshal J j"

definition JSONB_UnmarshalJSON :: "jsonb json_codec \<Rightarrow> string \<Rightarrow> jsonb \<Rightarrow> go_error option \<times> jsonb" where
  "JSONB_UnmarshalJSON J data j =
     (case json_Unmarshal J data of
        Inl err \<Rightarrow> (Some err, j)
      | Inr result \<Rightarrow> (None, result))"

section \<open>Round trips\<close>

text \<open>
  What is stored is read back, by way of bytes or of a string, except that \<open>nil\<close> becomes the empty map: this is
  \<open>scan_task\<close>. A body keeps \<open>nil\<close>.
\<close>

lemma jsonb_column_round_trip:
  assumes "faithful_codec J" and "JSONB_Value J (Task_Metadata t) = Inr val"
  shows "JSONB_Scan J val j = (None, Task_Metadata (scan_task t))"
    and "val = DbBytes data \<Longrightarrow> JSONB_Scan J (DbString data) j = (None, Task_Metadata (scan_task t))"
  using assms by (auto simp: JSONB_Scan_def JSONB_Value_def faithful_codec_def Let_def scan_task_def split: option.splits sum.splits)

lemma jsonb_body_round_trip:
  assumes "faithful_codec J" and "JSONB_MarshalJSON J m = Inr data"
  shows "JSONB_UnmarshalJSON J data j = (None, m)"
  using assms by (simp add: JSONB_UnmarshalJSON_def JSONB_MarshalJSON_def faithful_codec_def)

text \<open>A scan that fails leaves the field as it was, and scanning never leaves it \<open>nil\<close> unless the text is \<open>null\<close>.\<close>

lemma jsonb_scan_cases:
  assumes "JSONB_Scan J val j = (err, j')"
  shows "err \<noteq> None \<and> j' = j \<or> err = None \<and> (j' \<noteq> None \<or> (\<exists>v. (val = DbBytes v \<or> val = DbString v) \<and> json_Unmarshal J v = Inr None))"
  using assms by (cases val) (auto simp: JSONB_Scan_def Let_def split: sum.splits)

end
