(* ===== verification/Spec2Isabelle.thy ===== *)
theory Spec2Isabelle
  imports Disclosure ApiInvariant Lifecycle Jsonb
begin

text \<open>
  VoidRunner runs user-submitted scripts in Docker containers. This library models its Go code and proves what makes
  each part correct, or in which way it is not. The root theory only documents the library.

  \<^bold>\<open>The program.\<close> A client registers, logs in and gets a token pair (\<open>internal/auth\<close>). Its requests pass the global
  middlewares (headers, CORS, log, recovery from panics: \<open>pkg/logger\<close>, \<open>internal/api/middleware\<close>) and the routing table
  (\<open>internal/api/routes\<close>): authentication, request size, rate limit and body validation (\<open>internal/api/middleware\<close>),
  then a handler (\<open>internal/api/handlers\<close>). Handlers read and write tasks and executions through repositories
  (\<open>internal/database\<close>), or through \<open>TaskExecutionService\<close>, whose operations are transactions (\<open>internal/services\<close>).
  \<open>TaskExecutorService\<close> runs an execution in a goroutine on a \<open>TaskExecutor\<close>: the Docker executor, which builds a
  container configuration, has it validated by the security manager, and runs it through the Docker client while a
  cleanup manager tracks the containers (\<open>internal/executor\<close>), or a mock. \<open>cmd/api/main.go\<close> reads the configuration
  (\<open>internal/config\<close>), wires these parts, serves until a signal comes and shuts down.

  \<^bold>\<open>Prelude.\<close>
  \<^item> \<open>GoBase\<close>: Go strings as byte lists with the functions of package \<open>strings\<close> the code uses, machine integers
    (\<open>i64\<close> wraps, \<open>go_div\<close> truncates), UUIDs as 128-bit words, durations in nanoseconds.
  \<^item> \<open>GoErrors\<close>: \<open>errors.go\<close>: sentinels and structured errors with their chains, \<open>errors.Is\<close>, and the combinators
    for sequences of checks (\<open>err_then\<close>, \<open>err_each\<close>, \<open>fail_if\<close>) whose rules carry the proofs about validators.
  \<^item> \<open>Models\<close>: \<open>internal/models\<close>: the records, their validation and their conversion to responses.

  \<^bold>\<open>Executor.\<close>
  \<^item> \<open>ExecConfig\<close> (\<open>config.go\<close>, \<open>interfaces.go\<close>): resource limits are positive and within the caps.
  \<^item> \<open>ScriptChecks\<close>, \<open>SecurityManager\<close> (\<open>security.go\<close>): which scripts, containers, images, environments pass, as
    equivalences; what the checks let through although they mean not to.
  \<^item> \<open>ClientInterface\<close>: contexts, the interface \<open>ContainerClient\<close> as a record of functions over an arbitrary world,
    a decorator that records the calls, and the locale \<open>checked_client\<close> of clients that refuse malformed ids.
  \<^item> \<open>DockerClient\<close> (\<open>docker_client.go\<close>): every operation over an abstract Docker API; demultiplexing inverts the
    framing of the two log streams also when the stream is cut; validated configurations give isolated containers.
  \<^item> \<open>Cleanup\<close> (\<open>cleanup.go\<close>): the registry as a step relation with its invariant, and the locale \<open>sweep\<close> for loops
    that go on after an error and return the last one.
  \<^item> \<open>Executor\<close>, \<open>MockExecutor\<close>: execution with its panics and its deferred removal: at most one container, removed
    after it was started; the mock in two halves so that a cancellation can come between them.

  \<^bold>\<open>Store.\<close>
  \<^item> \<open>Database\<close>: the tables of \<open>migrations/\<close> with their constraints and cascades, statements, and transactions. A
    session carries the clock, fresh identifiers and a list of faults: each statement fails when the list says so, so
    every theorem without a hypothesis on it holds for every pattern of database failures.
  \<^item> \<open>Repositories\<close>: all operations of the three repositories; the locale \<open>row_table\<close> of tables with a key,
    interpreted for the three tables; every operation keeps the schema (\<open>keeps\<close>).
  \<^item> \<open>Cursor\<close> (\<open>cursor.go\<close>): base64 and the cursor codec round-trip; the generated \<open>WHERE\<close> text is the printed
    form of a condition whose meaning under the bound arguments is computed.
  \<^item> \<open>Services\<close>: the four transactions through the locale \<open>transactional\<close> (all or nothing, and what all is), the
    goroutine of an execution, and the interleavings that break the one-execution rule.

  \<^bold>\<open>API.\<close>
  \<^item> \<open>AppConfig\<close> (\<open>internal/config\<close>, \<open>main.go\<close>): which environments load, which executor the program gets.
    \<open>SeccompProfile\<close>: creation and installation of the profile on an explicit file system. \<open>Startup\<close>: the
    connection pool, the migrations and the start of both programs, which leak no database handle. \<open>Logging\<close>
    (\<open>pkg/logger\<close>): what a logger writes, as a list of records.
  \<^item> \<open>Auth\<close> (\<open>internal/auth\<close>): tokens, registration, login over parameters for golang-jwt and bcrypt with their
    documented laws (\<open>jwt_laws\<close>, \<open>bcrypt_laws\<close>). \<open>RateLimit\<close>: the limiter as a step relation.
  \<^item> \<open>Http\<close>, \<open>Validation\<close>: middleware; \<open>TaskHandler\<close>, \<open>ExecutionHandler\<close>, \<open>AuthHandler\<close>: the handlers with the
    effect of each on the store; \<open>Routes\<close>: the fifteen routes of \<open>/api/v1\<close> with their chains, as one function \<open>serve\<close>.
    \<open>Jsonb\<close>: the metadata of a task in its column and in bodies.
  \<^item> \<open>Middleware\<close>: the six global middlewares as functions on the handler after them, over a record for the response
    writer; every response is marked, and no panic escapes. \<open>ApiDocs\<close>: the documentation handlers and the index page.
    \<open>HttpServer\<close>: the routing table, which is unambiguous, and a request from its method and path to its reply, which
    refines the abstract store below.
  \<^item> \<open>Isolation\<close>: an abstract store of tenants (\<open>tenant_step\<close>) that every request refines; the locale
    \<open>respecting_steps\<close> turns laws of one request into laws of runs, interpreted for isolation between users and for
    the fact that nothing that is submitted is executed. \<open>Disclosure\<close>: replies show the caller's rows only.
    \<open>ApiInvariant\<close>: runs keep the schema.
  \<^item> \<open>Lifecycle\<close>: \<open>main\<close> over an infinite stream of timed events: when it returns, what it leaves behind, and the
    background loops that never end. Not returning is the value \<open>None\<close> of a \<open>partial_function (option)\<close>; that it
    returns is a theorem, by induction on the position of the stopping event, under the hypothesis that time goes on
    (\<open>time_passes\<close>).

  \<^bold>\<open>Correspondence.\<close> A struct is a record with the source's field names behind a prefix, a handler or method one
  definition of the source's name (prefixed where two share one), an error path a value of \<open>go_error\<close> or a reply, a
  panic an outcome of its own. Loops are structural recursion or \<open>function\<close> with a measure (\<open>trim_seqs\<close>,
  \<open>require_modules\<close>, \<open>demux_loop\<close>); the loops that may not end (\<open>serving\<close>, \<open>draining\<close>, \<open>range_ticker\<close>) are
  \<open>partial_function (option)\<close>. No definition uses fuel. Iteration over a Go map takes the order as an argument. A
  statement, a locked method and a call of the container runtime are atomic; what may come between them is an explicit
  sequence of halves (\<open>create_check\<close> and \<open>create_write\<close>, \<open>task_Update_read\<close> and \<open>task_Update_write\<close>, \<open>mock_begin\<close>
  and \<open>mock_end\<close>).

  \<^bold>\<open>Parameters.\<close> The Docker SDK, pgx and golang-migrate, golang-jwt, bcrypt, gin's response writer and its answer to a
  path without a route, gin-contrib/cors, gin-swagger, \<open>encoding/json\<close>, \<open>uuid.Parse\<close>, the case map of non-ASCII
  letters, the text of times and durations, and PostgreSQL's evaluation of the generated cursor queries are arguments
  of the definitions that use them; hypotheses on them are named definitions (\<open>writer_laws\<close>, \<open>cors_laws\<close>,
  \<open>handle_laws\<close>, \<open>jwt_laws\<close>, \<open>bcrypt_laws\<close>, \<open>faithful_codec\<close>, \<open>keyed_engine\<close>), and each has an instance in a witness.

  \<^bold>\<open>Not modelled.\<close> The log records that handlers, services and \<open>main\<close> write on their way, apart from those of the
  global middlewares and of the pool's statistics; the text a handler of \<open>log/slog\<close> makes of a record; the Swagger
  text \<open>swag\<close> generates (\<open>docs/docs.go\<close>); the tests' helpers. They decide nothing the properties are about. In
  \<open>Lifecycle\<close> a handler is one step of the server, taken when it is done; what concurrent requests do between each
  other's statements is the subject of the halves named above.
\<close>

end
